(* ===== verification/Engine_Prelude.thy ===== *)
theory Engine_Prelude
  imports Main "HOL-Library.Word"
begin

section \<open>Shared vocabulary of the engine model\<close>

text \<open>
  Types and generic lemmas that every component of the engine uses: Rust's fixed-width
  unsigned integers as words, the saturating operations of the standard library, the string
  functions of \<^verbatim>\<open>str\<close> (trimming, ASCII case folding, integer parsing), results as sums with
  the error on the left, and the list operations \<^verbatim>\<open>position\<close>, \<^verbatim>\<open>remove\<close> and
  \<^verbatim>\<open>retain\<close> of \<^verbatim>\<open>Vec\<close>.

  A Rust string is a \<^typ>\<open>string\<close>; each character stands for a Unicode scalar value below 256,
  so \<^verbatim>\<open>trim\<close> removes the white space of that range (U+0085 and U+00A0 included).
  A \<^verbatim>\<open>usize\<close> is a \<^typ>\<open>nat\<close>; the conversion \<^verbatim>\<open>len() as u32\<close> is written out with
  \<^const>\<open>word_of_nat\<close>, which truncates as the cast does. Release builds of the workspace wrap on
  overflow, as word addition does.
\<close>

named_theorems nat_of_word \<open>readings of word operations as natural numbers\<close>
named_theorems text_simps \<open>rules for the string functions\<close>

type_synonym u8 = "8 word"
type_synonym u16 = "16 word"
type_synonym u32 = "32 word"
type_synonym u64 = "64 word"
type_synonym usize = nat
type_synonym env = "string \<rightharpoonup> string"
type_synonym bytes = "u8 list"

subsection \<open>Saturating arithmetic\<close>

definition saturating_sub :: "'a::len word \<Rightarrow> 'a word \<Rightarrow> 'a word" where
  "saturating_sub a b = (if b \<le> a then a - b else 0)"

definition saturating_add :: "'a::len word \<Rightarrow> 'a word \<Rightarrow> 'a word" where
  "saturating_add a b = (if uint a + uint b < 2 ^ LENGTH('a) then a + b else - 1)"

definition saturating_mul :: "'a::len word \<Rightarrow> 'a word \<Rightarrow> 'a word" where
  "saturating_mul a b = (if uint a * uint b < 2 ^ LENGTH('a) then a * b else - 1)"

lemma unat_max_word: "unat (- 1 :: 'a::len word) = 2 ^ LENGTH('a) - 1"
  by (simp add: unsigned_minus_1_eq_mask mask_eq_exp_minus_1)

lemma uint_pow_iff: "uint a + uint b < 2 ^ n \<longleftrightarrow> unat a + unat b < 2 ^ n"
proof -
  have "uint a + uint b < 2 ^ n \<longleftrightarrow> int (unat a + unat b) < int (2 ^ n)" by simp
  then show ?thesis by (simp only: of_nat_less_iff)
qed

lemma uint_mul_pow_iff: "uint a * uint b < 2 ^ n \<longleftrightarrow> unat a * unat b < 2 ^ n"
proof -
  have "uint a * uint b < 2 ^ n \<longleftrightarrow> int (unat a * unat b) < int (2 ^ n)" by simp
  then show ?thesis by (simp only: of_nat_less_iff)
qed

lemma unat_saturating_sub [nat_of_word]: "unat (saturating_sub a b) = unat a - unat b"
  by (auto simp: saturating_sub_def unat_sub word_le_nat_alt)

lemma unat_saturating_add [nat_of_word]:
  "unat (saturating_add a (b :: 'a::len word)) = min (unat a + unat b) (2 ^ LENGTH('a) - 1)"
  by (auto simp: saturating_add_def unat_max_word unat_word_ariths uint_pow_iff)

lemma unat_saturating_mul [nat_of_word]:
  "unat (saturating_mul a (b :: 'a::len word)) = min (unat a * unat b) (2 ^ LENGTH('a) - 1)"
  by (auto simp: saturating_mul_def unat_max_word unat_word_ariths uint_mul_pow_iff)

lemma unat_min [nat_of_word]: "unat (min a b) = min (unat a) (unat b)"
  by (auto simp: min_def word_le_nat_alt)

lemma unat_max [nat_of_word]: "unat (max a b) = max (unat a) (unat b)"
  by (auto simp: max_def word_le_nat_alt)

lemma unat_lt_size: "unat (a :: 'a::len word) < 2 ^ LENGTH('a)"
  by (rule unsigned_less)

lemma unat_add_exact:
  "unat a + unat b < 2 ^ LENGTH('a) \<Longrightarrow> unat (a + b :: 'a::len word) = unat a + unat b"
  by (simp add: unat_word_ariths)

lemma unat_of_nat_small [nat_of_word]:
  "n < 2 ^ LENGTH('a) \<Longrightarrow> unat (word_of_nat n :: 'a::len word) = n"
  by (simp add: unat_of_nat take_bit_nat_eq_self)

lemma unat_sub_le [nat_of_word]: "b \<le> a \<Longrightarrow> unat (a - b) = unat a - unat b"
  by (simp add: unat_sub)

lemma word_less_one_iff: "(a :: 'a::len word) < 1 \<longleftrightarrow> a = 0"
  by (simp add: word_less_nat_alt unat_eq_0)

subsection \<open>Strings\<close>

definition is_whitespace :: "char \<Rightarrow> bool" where
  "is_whitespace c \<longleftrightarrow> of_char c \<in> {9, 10, 11, 12, 13, 32, 133, 160 :: nat}"

definition trim_start :: "string \<Rightarrow> string" where
  "trim_start = dropWhile is_whitespace"

definition trim_end :: "string \<Rightarrow> string" where
  "trim_end s = rev (dropWhile is_whitespace (rev s))"

definition trim :: "string \<Rightarrow> string" where
  "trim s = trim_end (trim_start s)"

definition ascii_lower :: "char \<Rightarrow> char" where
  "ascii_lower c = (if 65 \<le> (of_char c :: nat) \<and> (of_char c :: nat) \<le> 90
     then char_of ((of_char c :: nat) + 32) else c)"

definition to_ascii_lowercase :: "string \<Rightarrow> string" where
  "to_ascii_lowercase = map ascii_lower"

definition eq_ignore_ascii_case :: "string \<Rightarrow> string \<Rightarrow> bool" where
  "eq_ignore_ascii_case a b \<longleftrightarrow> to_ascii_lowercase a = to_ascii_lowercase b"

definition is_ascii_digit :: "char \<Rightarrow> bool" where
  "is_ascii_digit c \<longleftrightarrow> 48 \<le> (of_char c :: nat) \<and> (of_char c :: nat) \<le> 57"

definition is_ascii_alphanumeric :: "char \<Rightarrow> bool" where
  "is_ascii_alphanumeric c \<longleftrightarrow> is_ascii_digit c \<or>
     (let n = of_char c :: nat in (65 \<le> n \<and> n \<le> 90) \<or> (97 \<le> n \<and> n \<le> 122))"

definition is_ascii_hexdigit :: "char \<Rightarrow> bool" where
  "is_ascii_hexdigit c \<longleftrightarrow> is_ascii_digit c \<or>
     (let n = of_char c :: nat in (65 \<le> n \<and> n \<le> 70) \<or> (97 \<le> n \<and> n \<le> 102))"

text \<open>\<^verbatim>\<open>starts_with\<close> and \<^verbatim>\<open>contains\<close> of \<^verbatim>\<open>str\<close>.\<close>

fun starts_with :: "string \<Rightarrow> string \<Rightarrow> bool" where
  "starts_with s [] = True"
| "starts_with [] (p # ps) = False"
| "starts_with (c # cs) (p # ps) = (c = p \<and> starts_with cs ps)"

fun str_contains :: "string \<Rightarrow> string \<Rightarrow> bool" where
  "str_contains [] p = (p = [])"
| "str_contains (c # cs) p = (starts_with (c # cs) p \<or> str_contains cs p)"

fun join :: "string \<Rightarrow> string list \<Rightarrow> string" where
  "join sep [] = []"
| "join sep [s] = s"
| "join sep (s # t # ss) = s @ sep @ join sep (t # ss)"

text \<open>
  \<^verbatim>\<open>parse::<u32>()\<close> and \<^verbatim>\<open>parse::<u64>()\<close>: an optional plus sign, then one or more decimal
  digits; anything else, and a value that does not fit, is an error.
\<close>

definition digits_value :: "string \<Rightarrow> int" where
  "digits_value s = foldl (\<lambda>n c. n * 10 + (of_char c - 48)) 0 s"

definition strip_plus :: "string \<Rightarrow> string" where
  "strip_plus s = (case s of c # d # r \<Rightarrow> if c = CHR ''+'' then d # r else s | _ \<Rightarrow> s)"

definition parse_uint :: "nat \<Rightarrow> string \<Rightarrow> int option" where
  "parse_uint w s =
     (let t = strip_plus s
      in if t = [] \<or> \<not> list_all is_ascii_digit t then None
         else if digits_value t < 2 ^ w then Some (digits_value t) else None)"

definition parse_u32 :: "string \<Rightarrow> u32 option" where
  "parse_u32 s = map_option word_of_int (parse_uint 32 s)"

definition parse_u64 :: "string \<Rightarrow> u64 option" where
  "parse_u64 s = map_option word_of_int (parse_uint 64 s)"

lemma starts_with_append [text_simps]: "starts_with s p \<longleftrightarrow> (\<exists>r. s = p @ r)"
  by (induction s p rule: starts_with.induct) auto

lemma str_contains_iff: "str_contains s p \<longleftrightarrow> (\<exists>a b. s = a @ p @ b)"
proof (induction s p rule: str_contains.induct)
  case (1 p)
  then show ?case by auto
next
  case (2 c cs p)
  show ?case
  proof
    assume "str_contains (c # cs) p"
    then consider b where "c # cs = p @ b" | a b where "cs = a @ p @ b"
      using "2" by (auto simp: starts_with_append)
    then show "\<exists>a b. c # cs = a @ p @ b"
      by cases (metis append_Nil, metis append_Cons)
  next
    assume "\<exists>a b. c # cs = a @ p @ b"
    then obtain a b where ab: "c # cs = a @ p @ b" by blast
    show "str_contains (c # cs) p"
    proof (cases a)
      case Nil
      with ab have "starts_with (c # cs) p" by (auto simp: starts_with_append)
      then show ?thesis by simp
    next
      case (Cons d a')
      with ab "2" show ?thesis by auto
    qed
  qed
qed

lemma dropWhile_hd: "dropWhile P xs = y # ys \<Longrightarrow> \<not> P y"
  by (metis dropWhile_eq_Cons_conv)

lemma trim_start_idem: "trim_start (trim_start s) = trim_start s"
  by (simp add: trim_start_def dropWhile_idem)

lemma trim_start_trim_end: "trim_start (trim_end (trim_start s)) = trim_end (trim_start s)"
proof (cases "trim_end (trim_start s)")
  case Nil
  then show ?thesis by (simp add: trim_start_def)
next
  case (Cons c t)
  have "\<exists>r. trim_start s = trim_end (trim_start s) @ r"
    unfolding trim_end_def
    by (metis rev_append rev_rev_ident takeWhile_dropWhile_id)
  with Cons obtain r where "trim_start s = c # t @ r" by auto
  then have "\<not> is_whitespace c"
    unfolding trim_start_def by (rule dropWhile_hd)
  with Cons show ?thesis by (simp add: trim_start_def)
qed

lemma trim_idem [text_simps]: "trim (trim s) = trim s"
proof -
  have "trim_end (trim_end t) = trim_end t" for t
    by (simp add: trim_end_def dropWhile_idem)
  then show ?thesis by (simp add: trim_def trim_start_trim_end)
qed

lemma trim_subset: "set (trim s) \<subseteq> set s"
  unfolding trim_def trim_start_def trim_end_def
  by (metis set_dropWhileD set_rev subsetI)

lemma ascii_lower_idem [text_simps]: "ascii_lower (ascii_lower c) = ascii_lower c"
  by (auto simp: ascii_lower_def)

lemma length_to_ascii_lowercase [text_simps]: "length (to_ascii_lowercase s) = length s"
  by (simp add: to_ascii_lowercase_def)

lemma to_ascii_lowercase_idem [text_simps]:
  "to_ascii_lowercase (to_ascii_lowercase s) = to_ascii_lowercase s"
  by (simp add: to_ascii_lowercase_def ascii_lower_idem)

lemma is_ascii_digit_int: "is_ascii_digit c \<Longrightarrow> (48 :: int) \<le> of_char c"
proof -
  assume "is_ascii_digit c"
  then have "int 48 \<le> int (of_char c)" unfolding is_ascii_digit_def by (simp only: of_nat_le_iff)
  then show "(48 :: int) \<le> of_char c" by (simp only: of_nat_numeral of_nat_of_char)
qed

lemma digits_value_nonneg:
  assumes "list_all is_ascii_digit s"
  shows "0 \<le> digits_value s"
proof -
  have "0 \<le> n \<Longrightarrow> 0 \<le> foldl (\<lambda>n c. n * 10 + (of_char c - 48)) n s" for n :: int
    using assms
  proof (induction s arbitrary: n)
    case (Cons c s)
    then have "0 \<le> n * 10 + (of_char c - 48)" using is_ascii_digit_int [of c] by simp
    with Cons show ?case by simp
  qed simp
  then show ?thesis by (simp add: digits_value_def)
qed

lemma parse_uint_bound: "parse_uint w s = Some n \<Longrightarrow> 0 \<le> n \<and> n < 2 ^ w"
  by (auto simp: parse_uint_def Let_def digits_value_nonneg split: if_splits)

lemma parse_u32_uint: "parse_u32 s = Some n \<Longrightarrow> parse_uint 32 s = Some (uint n)"
  using parse_uint_bound [of 32 s]
  by (auto simp: parse_u32_def uint_word_of_int take_bit_int_eq_self)

lemma append_sep_inj: "x @ c # a = y @ c # b \<Longrightarrow> c \<notin> set x \<Longrightarrow> c \<notin> set y \<Longrightarrow> x = y \<and> a = b"
proof (induction x arbitrary: y)
  case Nil
  then show ?case by (cases y) auto
next
  case (Cons d x)
  then show ?case by (cases y) auto
qed

lemma join_sep_inj:
  assumes "join [c] xs = join [c] ys" "length xs = length ys" "\<forall>s\<in>set xs \<union> set ys. c \<notin> set s"
  shows "xs = ys"
  using assms
proof (induction xs arbitrary: ys)
  case (Cons x xs)
  then obtain y ys' where ys: "ys = y # ys'" "length xs = length ys'" by (cases ys) auto
  show ?case
  proof (cases xs)
    case Nil
    with Cons ys show ?thesis by simp
  next
    case (Cons x' xs')
    then obtain y' ys'' where ys': "ys' = y' # ys''" using ys(2) by (cases ys') auto
    have eq: "x @ c # join [c] xs = y @ c # join [c] ys'"
      using Cons.prems(1) Cons ys(1) ys' by simp
    have "c \<notin> set x" "c \<notin> set y" using Cons.prems(3) ys by auto
    with eq have "x = y \<and> join [c] xs = join [c] ys'"
      using append_sep_inj by fast
    moreover have "\<forall>s\<in>set xs \<union> set ys'. c \<notin> set s" using Cons.prems(3) ys by auto
    ultimately show ?thesis using Cons.IH [of ys'] ys by simp
  qed
qed simp

text \<open>\<^verbatim>\<open>Path::components\<close> of a Unix path: the names between slashes, without empty ones and dots.\<close>

fun split_on :: "char \<Rightarrow> string \<Rightarrow> string list" where
  "split_on c [] = [[]]"
| "split_on c (x # xs) = (if x = c then [] # split_on c xs
     else case split_on c xs of [] \<Rightarrow> [[x]] | w # ws \<Rightarrow> (x # w) # ws)"

definition path_components :: "string \<Rightarrow> string list" where
  "path_components s = filter (\<lambda>c. c \<noteq> [] \<and> c \<noteq> ''.'') (split_on (CHR ''/'') s)"

lemma split_on_nonempty: "split_on c xs \<noteq> []"
  by (induction xs) (auto split: list.split)

lemma split_on_last: "c \<notin> set suf \<Longrightarrow> split_on c (pre @ c # suf) = split_on c pre @ [suf]"
proof (induction pre)
  case Nil
  have "c \<notin> set suf \<Longrightarrow> split_on c suf = [suf]" for suf by (induction suf) auto
  with Nil show ?case by simp
next
  case (Cons x pre)
  then show ?case using split_on_nonempty [of c pre] by (auto split: list.split)
qed

text \<open>An environment variable that counts only when it is set to more than white space.\<close>

definition env_trim :: "env \<Rightarrow> string \<Rightarrow> string option" where
  "env_trim env key = (case env key of None \<Rightarrow> None | Some v \<Rightarrow> if trim v = [] then None else Some (trim v))"

subsection \<open>Vectors\<close>

text \<open>\<^verbatim>\<open>iter().position(P)\<close>, \<^verbatim>\<open>Vec::remove\<close> and in-place update of the first match.\<close>

fun position :: "('a \<Rightarrow> bool) \<Rightarrow> 'a list \<Rightarrow> nat option" where
  "position P [] = None"
| "position P (x # xs) = (if P x then Some 0 else map_option Suc (position P xs))"

definition remove_at :: "nat \<Rightarrow> 'a list \<Rightarrow> 'a list" where
  "remove_at i xs = take i xs @ drop (Suc i) xs"

fun update_first :: "('a \<Rightarrow> bool) \<Rightarrow> ('a \<Rightarrow> 'a) \<Rightarrow> 'a list \<Rightarrow> 'a list" where
  "update_first P f [] = []"
| "update_first P f (x # xs) = (if P x then f x # xs else x # update_first P f xs)"

lemma position_None: "position P xs = None \<longleftrightarrow> (\<forall>x\<in>set xs. \<not> P x)"
  by (induction xs) auto

lemma position_SomeD:
  "position P xs = Some i \<Longrightarrow> i < length xs \<and> P (xs ! i)"
  by (induction xs arbitrary: i) (auto split: if_splits)

lemma length_remove_at: "i < length xs \<Longrightarrow> length (remove_at i xs) = length xs - 1"
  by (simp add: remove_at_def)

lemma set_remove_at: "set (remove_at i xs) \<subseteq> set xs"
  by (auto simp: remove_at_def dest: in_set_takeD in_set_dropD)

lemma map_remove_at: "map f (remove_at i xs) = remove_at i (map f xs)"
  by (simp add: remove_at_def take_map drop_map)

lemma distinct_remove_at: "distinct xs \<Longrightarrow> distinct (remove_at i xs)"
  by (auto simp: remove_at_def set_take_disj_set_drop_if_distinct)

lemma remove_at_position:
  "position P xs = Some i \<Longrightarrow> \<exists>ys z zs. xs = ys @ z # zs \<and> P z \<and> (\<forall>y\<in>set ys. \<not> P y)
     \<and> remove_at i xs = ys @ zs \<and> i = length ys"
proof (induction xs arbitrary: i)
  case Nil
  then show ?case by simp
next
  case (Cons x xs)
  show ?case
  proof (cases "P x")
    case True
    with Cons.prems have "i = 0" by simp
    with True have "x # xs = [] @ x # xs \<and> P x \<and> (\<forall>y\<in>set []. \<not> P y)
       \<and> remove_at i (x # xs) = [] @ xs \<and> i = length []"
      by (simp add: remove_at_def)
    then show ?thesis by blast
  next
    case False
    with Cons.prems obtain j where j: "position P xs = Some j" and i: "i = Suc j" by auto
    from Cons.IH [OF j] obtain ys z zs where
      "xs = ys @ z # zs" "P z" "\<forall>y\<in>set ys. \<not> P y" "remove_at j xs = ys @ zs" "j = length ys"
      by blast
    with False i have "x # xs = (x # ys) @ z # zs \<and> P z \<and> (\<forall>y\<in>set (x # ys). \<not> P y)
       \<and> remove_at i (x # xs) = (x # ys) @ zs \<and> i = length (x # ys)"
      by (auto simp: remove_at_def)
    then show ?thesis by blast
  qed
qed

lemma length_update_first [simp]: "length (update_first P f xs) = length xs"
  by (induction xs) auto

lemma map_update_first: "(\<And>x. P x \<Longrightarrow> g (f x) = g x) \<Longrightarrow> map g (update_first P f xs) = map g xs"
  by (induction xs) auto

lemma update_first_id: "\<forall>x\<in>set xs. \<not> P x \<Longrightarrow> update_first P f xs = xs"
  by (induction xs) auto

lemma find_update_first:
  "(\<And>x. P x \<Longrightarrow> P (f x)) \<Longrightarrow> find P (update_first P f xs) = map_option f (find P xs)"
  by (induction xs) auto

lemma find_update_first_other:
  "(\<And>x. P x \<Longrightarrow> \<not> Q x \<and> \<not> Q (f x)) \<Longrightarrow> find Q (update_first P f xs) = find Q xs"
  by (induction xs) auto

lemma set_update_first: "set (update_first P f xs) \<subseteq> set xs \<union> f ` {x \<in> set xs. P x}"
  by (induction xs) auto

lemma find_None_set: "find P xs = None \<longleftrightarrow> (\<forall>x\<in>set xs. \<not> P x)"
  by (auto simp: find_None_iff)

lemma find_SomeD: "find P xs = Some x \<Longrightarrow> x \<in> set xs \<and> P x"
  by (auto simp: find_Some_iff)

lemma count_filter_partition: "length (filter P xs) + length (filter (\<lambda>x. \<not> P x) xs) = length xs"
  by (induction xs) auto

lemma filter_update_first_other:
  "(\<And>x. P x \<Longrightarrow> \<not> Q x \<and> \<not> Q (f x)) \<Longrightarrow> filter Q (update_first P f xs) = filter Q xs"
  by (induction xs) auto

lemma find_filter_other: "(\<And>x. P x \<Longrightarrow> Q x) \<Longrightarrow> find P (filter Q xs) = find P xs"
  by (induction xs) auto

lemma find_distinct: "distinct (map f xs) \<Longrightarrow> x \<in> set xs \<Longrightarrow> find (\<lambda>y. f y = f x) xs = Some x"
  by (induction xs) (auto simp: rev_image_eqI)

lemma nth_update_first_id:
  "(\<And>x. P x \<Longrightarrow> g (f x) = g x) \<Longrightarrow> i < length xs \<Longrightarrow> g (update_first P f xs ! i) = g (xs ! i)"
  by (metis length_map length_update_first map_update_first nth_map)

lemma sum_length_filter_image:
  "(\<Sum>k\<in>f ` set xs. length (filter (\<lambda>x. f x = k) xs)) = length xs"
proof (induction xs)
  case (Cons x xs)
  let ?g = "\<lambda>k. length (filter (\<lambda>y. f y = k) xs)"
  have fin: "finite (insert (f x) (f ` set xs))" by simp
  have "(\<Sum>k\<in>insert (f x) (f ` set xs). length (filter (\<lambda>y. f y = k) (x # xs)))
      = (\<Sum>k\<in>insert (f x) (f ` set xs). (if k = f x then 1 else 0) + ?g k)"
    by (rule sum.cong) auto
  also have "\<dots> = 1 + (\<Sum>k\<in>insert (f x) (f ` set xs). ?g k)"
    by (simp only: sum.distrib) (simp add: sum.delta' [OF fin])
  also have "(\<Sum>k\<in>insert (f x) (f ` set xs). ?g k) = (\<Sum>k\<in>f ` set xs. ?g k)"
  proof (cases "f x \<in> f ` set xs")
    case False
    then have "?g (f x) = 0" by (auto simp: filter_empty_conv image_iff)
    with False show ?thesis by simp
  qed (simp add: insert_absorb)
  finally show ?case using Cons.IH by simp
qed simp

subsection \<open>Sliding windows\<close>

text \<open>
  A time-ordered log pruned from its front: the contract behind the reconnect circuit and the
  control-plane rate limiter. An entry older than an expired one is expired, and an entry of this
  instant is not; then dropping the expired prefix keeps exactly the live entries.
\<close>

locale sliding_window =
  fixes expired :: "'t::linorder \<Rightarrow> 't \<Rightarrow> bool"
  assumes expired_older: "expired now t \<Longrightarrow> t' \<le> t \<Longrightarrow> expired now t'"
    and now_not_expired: "\<not> expired now now"
begin

lemma live_window_eq_filter:
  "sorted ts \<Longrightarrow> dropWhile (expired now) ts = filter (\<lambda>t. \<not> expired now t) ts"
proof (induction ts)
  case (Cons t ts)
  have "\<not> expired now t \<Longrightarrow> filter (\<lambda>t. \<not> expired now t) ts = ts"
    using Cons.prems expired_older [of now] by (intro filter_True) auto
  with Cons show ?case by simp
qed simp

lemma live_window_sorted:
  "sorted ts \<Longrightarrow> \<forall>t\<in>set ts. t \<le> now \<Longrightarrow> sorted (dropWhile (expired now) ts @ [now])"
  by (auto simp: live_window_eq_filter sorted_append intro: sorted_wrt_filter)

end

subsection \<open>State machines\<close>

text \<open>
  Reachable states of a step relation, and the contract under which a predicate holds of all of
  them. Every stateful component instantiates the locale with its own steps and invariant.
\<close>

inductive reachable :: "('s \<Rightarrow> bool) \<Rightarrow> ('s \<Rightarrow> 's \<Rightarrow> bool) \<Rightarrow> 's \<Rightarrow> bool"
  for init :: "'s \<Rightarrow> bool" and step :: "'s \<Rightarrow> 's \<Rightarrow> bool" where
  reachable_init: "init s \<Longrightarrow> reachable init step s"
| reachable_step: "reachable init step s \<Longrightarrow> step s t \<Longrightarrow> reachable init step t"

locale state_machine =
  fixes init :: "'s \<Rightarrow> bool" and step :: "'s \<Rightarrow> 's \<Rightarrow> bool" and inv :: "'s \<Rightarrow> bool"
  assumes init_inv: "init s \<Longrightarrow> inv s"
    and step_inv: "inv s \<Longrightarrow> step s t \<Longrightarrow> inv t"
begin

lemma reachable_inv: "reachable init step s \<Longrightarrow> inv s"
  by (induction rule: reachable.induct) (auto intro: init_inv step_inv)

end

end
