(* ===== verification/Float64.thy ===== *)
theory Float64
  imports Engine_Prelude "HOL-Library.Log_Nat"
begin

section \<open>The double-precision arithmetic the pool planners use\<close>

text \<open>
  The planners compute session counts through \<^verbatim>\<open>f64\<close>: \<^verbatim>\<open>((n as f64) * fraction).floor() as u32\<close>.
  A finite double is a dyadic number \<open>m * 2 ^ e\<close>; every operation computes the exact dyadic
  result and rounds it to 53 significant bits, ties to even, with gradual underflow at
  \<open>2 ^ -1074\<close> and overflow to infinity at \<open>2 ^ 1024\<close>, as IEEE 754 prescribes. The sign of
  zero is not kept: no operation of the engine observes it.

  The lemmas show what the planners rely on: a product of an unsigned 32-bit count with a
  fraction between 0 and 1, rounded and floored, never exceeds the count.
\<close>

datatype f64 = F64_NaN | F64_Inf bool | F64 int int

definition round_half_even :: "int \<Rightarrow> nat \<Rightarrow> int" where
  "round_half_even m s =
     (let q = m div 2 ^ s; r = m mod 2 ^ s
      in if 2 * r < 2 ^ s \<or> (2 * r = 2 ^ s \<and> even q) then q else q + 1)"

definition f64_round :: "int \<Rightarrow> int \<Rightarrow> f64" where
  "f64_round m e =
     (let s = max 0 (max (bitlen \<bar>m\<bar> - 53) (- 1074 - e));
          q = round_half_even m (nat s)
      in if q = 0 then F64 0 0
         else if bitlen \<bar>q\<bar> + (e + s) > 1024 then F64_Inf (m < 0) else F64 q (e + s))"

fun f64_mul :: "f64 \<Rightarrow> f64 \<Rightarrow> f64" where
  "f64_mul (F64 m e) (F64 n d) = f64_round (m * n) (e + d)"
| "f64_mul (F64_Inf a) (F64_Inf b) = F64_Inf (a \<noteq> b)"
| "f64_mul (F64_Inf a) (F64 n d) = (if n = 0 then F64_NaN else F64_Inf (a \<noteq> (n < 0)))"
| "f64_mul (F64 m e) (F64_Inf b) = (if m = 0 then F64_NaN else F64_Inf ((m < 0) \<noteq> b))"
| "f64_mul _ _ = F64_NaN"

definition f64_align :: "int \<Rightarrow> int \<Rightarrow> int \<Rightarrow> int" where
  "f64_align m e d = m * 2 ^ nat (e - d)"

fun f64_sub :: "f64 \<Rightarrow> f64 \<Rightarrow> f64" where
  "f64_sub (F64 m e) (F64 n d) =
     f64_round (f64_align m e (min e d) - f64_align n d (min e d)) (min e d)"
| "f64_sub (F64_Inf a) (F64_Inf b) = (if a = b then F64_NaN else F64_Inf a)"
| "f64_sub (F64_Inf a) (F64 n d) = F64_Inf a"
| "f64_sub (F64 m e) (F64_Inf b) = F64_Inf (\<not> b)"
| "f64_sub _ _ = F64_NaN"

fun f64_le :: "f64 \<Rightarrow> f64 \<Rightarrow> bool" where
  "f64_le (F64 m e) (F64 n d) = (f64_align m e (min e d) \<le> f64_align n d (min e d))"
| "f64_le (F64_Inf a) (F64_Inf b) = (a \<or> \<not> b)"
| "f64_le (F64_Inf a) (F64 n d) = a"
| "f64_le (F64 m e) (F64_Inf b) = (\<not> b)"
| "f64_le _ _ = False"

definition f64_is_nan :: "f64 \<Rightarrow> bool" where
  "f64_is_nan x \<longleftrightarrow> x = F64_NaN"

definition f64_lt :: "f64 \<Rightarrow> f64 \<Rightarrow> bool" where
  "f64_lt x y \<longleftrightarrow> f64_le x y \<and> \<not> f64_le y x"

fun f64_floor :: "f64 \<Rightarrow> f64" where
  "f64_floor (F64 m e) = (if 0 \<le> e then F64 m e else F64 (m div 2 ^ nat (- e)) 0)"
| "f64_floor x = x"

fun f64_ceil :: "f64 \<Rightarrow> f64" where
  "f64_ceil (F64 m e) = (if 0 \<le> e then F64 m e else F64 (- ((- m) div 2 ^ nat (- e))) 0)"
| "f64_ceil x = x"

definition f64_max :: "f64 \<Rightarrow> f64 \<Rightarrow> f64" where
  "f64_max x y = (if x = F64_NaN then y else if y = F64_NaN then x else if f64_le x y then y else x)"

definition f64_clamp :: "f64 \<Rightarrow> f64 \<Rightarrow> f64 \<Rightarrow> f64" where
  "f64_clamp x lo hi = (if f64_lt x lo then lo else if f64_lt hi x then hi else x)"

text \<open>Casts: from an unsigned integer (exact below \<open>2 ^ 53\<close>) and back, truncating and saturating.\<close>

definition f64_of_u32 :: "u32 \<Rightarrow> f64" where
  "f64_of_u32 n = F64 (uint n) 0"

fun f64_trunc :: "nat \<Rightarrow> f64 \<Rightarrow> int" where
  "f64_trunc w (F64 m e) =
     (if m \<le> 0 then 0
      else min (2 ^ w - 1) (if 0 \<le> e then m * 2 ^ nat e else m div 2 ^ nat (- e)))"
| "f64_trunc w (F64_Inf neg) = (if neg then 0 else 2 ^ w - 1)"
| "f64_trunc w F64_NaN = 0"

definition f64_to_u32 :: "f64 \<Rightarrow> u32" where
  "f64_to_u32 x = word_of_int (f64_trunc 32 x)"

definition f64_to_u64 :: "f64 \<Rightarrow> u64" where
  "f64_to_u64 x = word_of_int (f64_trunc 64 x)"

definition f64_zero :: f64 where "f64_zero = F64 0 0"
definition f64_one :: f64 where "f64_one = F64 1 0"
definition f64_minus_one :: f64 where "f64_minus_one = F64 (- 1) 0"

text \<open>\<^verbatim>\<open>(0.0..=1.0).contains(&x)\<close>; false for a NaN.\<close>

definition in_unit_range :: "f64 \<Rightarrow> bool" where
  "in_unit_range x \<longleftrightarrow> f64_le f64_zero x \<and> f64_le x f64_one"

subsection \<open>Parsing decimal literals\<close>

text \<open>
  \<^verbatim>\<open>parse::<f64>()\<close>: an optional sign, then \<^verbatim>\<open>inf\<close>, \<^verbatim>\<open>infinity\<close> or \<^verbatim>\<open>nan\<close> in any case, or
  digits with an optional point and an optional exponent; the value is the double nearest to
  the decimal. A decimal with a negative power of ten is scaled by a power of two that leaves
  at least 60 bits, with a sticky bit for the remainder, before the final rounding.
\<close>

definition f64_of_ratio :: "int \<Rightarrow> nat \<Rightarrow> f64" where
  "f64_of_ratio n j =
     (let d = 10 ^ j; p = nat (60 + bitlen d); q = (n * 2 ^ p) div d; r = (n * 2 ^ p) mod d
      in f64_round (2 * q + (if r = 0 then 0 else 1)) (- int p - 1))"

definition f64_of_decimal :: "int \<Rightarrow> int \<Rightarrow> f64" where
  "f64_of_decimal n k = (if 0 \<le> k then f64_round (n * 10 ^ nat k) 0 else f64_of_ratio n (nat (- k)))"

definition parse_signed :: "string \<Rightarrow> bool \<times> string" where
  "parse_signed s = (case s of c # r \<Rightarrow>
      if c = CHR ''-'' then (True, r) else if c = CHR ''+'' then (False, r) else (False, s)
    | [] \<Rightarrow> (False, []))"

definition parse_exponent :: "string \<Rightarrow> int option" where
  "parse_exponent s = (case s of [] \<Rightarrow> Some 0
    | c # r \<Rightarrow> if ascii_lower c \<noteq> CHR ''e'' then None
        else let (neg, ds) = parse_signed r
             in if ds = [] \<or> \<not> list_all is_ascii_digit ds then None
                else Some (if neg then - digits_value ds else digits_value ds))"

definition parse_f64 :: "string \<Rightarrow> f64 option" where
  "parse_f64 s =
     (let (neg, body) = parse_signed s; low = to_ascii_lowercase body;
          ip = takeWhile is_ascii_digit body; r1 = dropWhile is_ascii_digit body;
          (fp, r2) = (case r1 of c # r \<Rightarrow> if c = CHR ''.''
              then (takeWhile is_ascii_digit r, dropWhile is_ascii_digit r) else ([], r1)
            | [] \<Rightarrow> ([], []))
      in if low = ''inf'' \<or> low = ''infinity'' then Some (F64_Inf neg)
         else if low = ''nan'' then Some F64_NaN
         else if ip = [] \<and> fp = [] then None
         else (case parse_exponent r2 of None \<Rightarrow> None
           | Some k \<Rightarrow> let n = digits_value (ip @ fp)
               in Some (f64_of_decimal (if neg then - n else n) (k - int (length fp)))))"

subsection \<open>Rounding stays below an integer bound\<close>


lemma div_less_of_less_mult:
  fixes m k c :: int
  assumes "m < k * c" and "0 < c"
  shows "m div c < k"
proof (rule ccontr)
  assume "\<not> m div c < k"
  then have "k * c \<le> (m div c) * c" using assms(2) by simp
  also have "\<dots> \<le> m"
    using div_mult_mod_eq [of m c] pos_mod_sign [OF assms(2), of m] by linarith
  finally show False using assms(1) by simp
qed

lemma round_half_even_le:
  assumes "m \<le> k * 2 ^ s"
  shows "round_half_even m s \<le> k"
proof (cases "m = k * 2 ^ s")
  case True
  then show ?thesis by (simp add: round_half_even_def)
next
  case False
  with assms have "m < k * 2 ^ s" by simp
  then have "m div 2 ^ s < k" by (rule div_less_of_less_mult) simp
  then show ?thesis by (auto simp: round_half_even_def Let_def)
qed

lemma round_half_even_nonneg: "0 \<le> m \<Longrightarrow> 0 \<le> round_half_even m s"
  by (simp add: round_half_even_def Let_def pos_imp_zdiv_nonneg_iff)

lemma round_half_even_zero_shift [simp]: "round_half_even m 0 = m"
  by (simp add: round_half_even_def)

text \<open>\<open>dyadic_le m e k\<close> reads \<open>m * 2 ^ e \<le> k\<close>.\<close>

definition dyadic_le :: "int \<Rightarrow> int \<Rightarrow> int \<Rightarrow> bool" where
  "dyadic_le m e k \<longleftrightarrow> (if 0 \<le> e then m * 2 ^ nat e \<le> k else m \<le> k * 2 ^ nat (- e))"

lemma f64_le_int_iff: "f64_le (F64 m e) (F64 k 0) \<longleftrightarrow> dyadic_le m e k"
  by (simp add: dyadic_le_def f64_align_def min_def)

lemma f64_zero_le_iff: "f64_le f64_zero (F64 m e) \<longleftrightarrow> 0 \<le> m"
  by (simp add: f64_zero_def f64_align_def zero_le_mult_iff)

lemma bitlen_less_power: "0 \<le> m \<Longrightarrow> m < 2 ^ n \<Longrightarrow> bitlen m \<le> int n"
  by (simp add: bitlen_le_iff_power)

lemma bitlen_ge_power: "0 < m \<Longrightarrow> 2 ^ nat (bitlen m - 1) \<le> m"
  using bitlen_bounds [of m] by simp

lemma dyadic_le_rescale:
  fixes m k e s :: int
  assumes le: "m \<le> k * 2 ^ nat (- e)" and s: "0 \<le> s" and neg: "e + s \<le> 0"
  shows "m \<le> (k * 2 ^ nat (- (e + s))) * 2 ^ nat s"
proof -
  have "nat (- e) = nat (- (e + s)) + nat s" using s neg by simp
  then have "(2::int) ^ nat (- e) = 2 ^ nat (- (e + s)) * 2 ^ nat s"
    by (simp only: power_add)
  with le show ?thesis by (simp only: mult.assoc)
qed

text \<open>A product that is at most an integer below \<open>2 ^ 53\<close> is never shifted past the point.\<close>

lemma round_shift_nonpos:
  assumes m: "0 \<le> m" and e: "e < 0" and k: "k < 2 ^ 53" and le: "m \<le> k * 2 ^ nat (- e)"
  shows "e + max 0 (max (bitlen m - 53) (- 1074 - e)) \<le> 0"
proof -
  have "m < 2 ^ 53 * 2 ^ nat (- e)"
    using le k by (metis linorder_not_le mult_less_cancel_right_pos order_le_less_trans
        zero_less_numeral zero_less_power)
  then have "m < 2 ^ (53 + nat (- e))" by (simp add: power_add)
  with m have "bitlen m \<le> int (53 + nat (- e))" by (rule bitlen_less_power)
  with e show ?thesis by auto
qed

lemma bitlen_dyadic_bound:
  assumes q: "0 < q" and le: "dyadic_le q d k" and k: "k < 2 ^ 53"
  shows "bitlen q + d \<le> 53"
proof (cases "0 \<le> d")
  case True
  have "bitlen q \<noteq> 0" "0 \<le> bitlen q"
    using q bitlen_eq_zero_iff [of q] bitlen_nonneg [of q] by auto
  then have split: "nat (bitlen q - 1 + d) = nat (bitlen q - 1) + nat d" using True by simp
  have "2 ^ nat (bitlen q - 1) * 2 ^ nat d \<le> q * 2 ^ nat d"
    using bitlen_ge_power [OF q] by simp
  also have "\<dots> < 2 ^ 53" using le True k by (simp add: dyadic_le_def)
  finally have "(2::int) ^ nat (bitlen q - 1 + d) < 2 ^ 53" by (simp only: split power_add)
  then have "nat (bitlen q - 1 + d) < 53"
    by (rule power_less_imp_less_exp [rotated]) simp
  then show ?thesis by simp
next
  case False
  with le have "q \<le> k * 2 ^ nat (- d)" by (simp add: dyadic_le_def)
  then have "q < 2 ^ 53 * 2 ^ nat (- d)"
    using k by (metis linorder_not_le mult_less_cancel_right_pos order_le_less_trans
        zero_less_numeral zero_less_power)
  then have "q < 2 ^ (53 + nat (- d))" by (simp only: power_add)
  with q have "bitlen q \<le> int (53 + nat (- d))" by (intro bitlen_less_power) auto
  with False show ?thesis by simp
qed

lemma f64_round_le_int:
  assumes m: "0 \<le> m" and k: "0 \<le> k" "k < 2 ^ 53" and le: "dyadic_le m e k"
  obtains q d where "f64_round m e = F64 q d" and "0 \<le> q" and "dyadic_le q d k"
proof -
  define s where "s = max 0 (max (bitlen m - 53) (- 1074 - e))"
  define q where "q = round_half_even m (nat s)"
  have q0: "0 \<le> q" unfolding q_def using m by (rule round_half_even_nonneg)
  have s0: "0 \<le> s" by (simp add: s_def)
  have le': "dyadic_le q (e + s) k"
  proof (cases "0 \<le> e")
    case True
    have "m * 1 \<le> m * 2 ^ nat e" using m by (intro mult_left_mono) auto
    with le True k have "m < 2 ^ 53" by (simp add: dyadic_le_def)
    then have "bitlen m \<le> 53" using bitlen_less_power [of m 53] m by simp
    with True have "s = 0" by (simp add: s_def)
    with le True show ?thesis by (simp add: q_def)
  next
    case False
    with le have le2: "m \<le> k * 2 ^ nat (- e)" by (simp add: dyadic_le_def)
    have np: "e + s \<le> 0"
      unfolding s_def using round_shift_nonpos [OF m _ k(2) le2] False by simp
    have "q \<le> k * 2 ^ nat (- (e + s))"
      unfolding q_def by (rule round_half_even_le [OF dyadic_le_rescale [OF le2 s0 np]])
    with np show ?thesis by (auto simp: dyadic_le_def)
  qed
  show thesis
  proof (cases "q = 0")
    case True
    with m k have "f64_round m e = F64 0 0" "dyadic_le 0 0 k"
      by (simp_all add: f64_round_def q_def s_def Let_def dyadic_le_def)
    with that show ?thesis by blast
  next
    case False
    with q0 have qpos: "0 < q" by simp
    have "bitlen q + (e + s) \<le> 53"
      using qpos le' k(2) by (rule bitlen_dyadic_bound)
    with False m q0 have "f64_round m e = F64 q (e + s)"
      by (simp add: f64_round_def q_def [symmetric] s_def [symmetric] Let_def)
    with that q0 le' show ?thesis by blast
  qed
qed

lemma dyadic_le_mult:
  assumes "0 \<le> n" and "dyadic_le m e 1"
  shows "dyadic_le (n * m) e n"
proof (cases "0 \<le> e")
  case True
  with assms have "n * (m * 2 ^ nat e) \<le> n * 1" by (intro mult_left_mono) (auto simp: dyadic_le_def)
  with True show ?thesis by (simp add: dyadic_le_def mult.assoc)
next
  case False
  with assms have "n * m \<le> n * 2 ^ nat (- e)"
    by (intro mult_left_mono) (auto simp: dyadic_le_def)
  with False show ?thesis by (simp add: dyadic_le_def)
qed

lemma f64_trunc_le_int:
  assumes "0 \<le> q" and "dyadic_le q d k" and "0 \<le> k"
  shows "f64_trunc w (F64 q d) \<le> k"
proof (cases "0 \<le> d")
  case True
  with assms show ?thesis by (auto simp: dyadic_le_def)
next
  case False
  with assms have "q \<le> k * 2 ^ nat (- d)" by (simp add: dyadic_le_def)
  then have "q div 2 ^ nat (- d) \<le> k * 2 ^ nat (- d) div 2 ^ nat (- d)"
    by (intro zdiv_mono1) auto
  with False assms(3) show ?thesis by auto
qed

lemma f64_trunc_nonneg: "0 \<le> f64_trunc w x"
  by (cases x) (auto simp: pos_imp_zdiv_nonneg_iff)

lemma f64_trunc_floor: "f64_trunc w (f64_floor x) = f64_trunc w x"
proof (cases x)
  case (F64 m e)
  show ?thesis
  proof (cases "0 < m")
    case True
    then have "0 \<le> m div 2 ^ nat (- e)" by (simp add: pos_imp_zdiv_nonneg_iff)
    then show ?thesis using True by (cases "m div 2 ^ nat (- e) = 0") (auto simp: F64)
  next
    case False
    then have "m div 2 ^ nat (- e) \<le> 0"
      using zdiv_mono1 [of m 0 "2 ^ nat (- e)"] by simp
    with False show ?thesis by (auto simp: F64)
  qed
qed simp_all

subsection \<open>What the planners rely on\<close>

lemma in_unit_rangeE:
  assumes "in_unit_range f"
  obtains m e where "f = F64 m e" and "0 \<le> m" and "dyadic_le m e 1"
proof (cases f)
  case (F64 m e)
  with assms have "0 \<le> m" and "dyadic_le m e 1"
    unfolding in_unit_range_def F64 f64_zero_le_iff f64_one_def f64_le_int_iff by blast+
  with F64 that show ?thesis by blast
next
  case F64_NaN
  with assms show ?thesis by (simp add: in_unit_range_def f64_zero_def)
next
  case (F64_Inf x)
  with assms show ?thesis
    by (cases x) (simp_all add: in_unit_range_def f64_zero_def f64_one_def)
qed

lemma u32_below_mantissa: "uint (n :: u32) < 2 ^ 53"
  using uint_bounded [of n] by simp

lemma f64_scale_dyadic:
  assumes "in_unit_range f"
  obtains q d where "f64_mul (f64_of_u32 n) f = F64 q d" and "0 \<le> q" and "dyadic_le q d (uint n)"
proof -
  from assms obtain m e where f: "f = F64 m e" and m: "0 \<le> m" and le: "dyadic_le m e 1"
    by (rule in_unit_rangeE)
  have "0 \<le> uint n * m" using m by simp
  then obtain q d where "f64_round (uint n * m) e = F64 q d" "0 \<le> q" "dyadic_le q d (uint n)"
    using dyadic_le_mult [OF _ le, of "uint n"] u32_below_mantissa [of n]
    by (metis f64_round_le_int uint_nonnegative)
  with f that show ?thesis by (simp add: f64_of_u32_def)
qed

lemma uint_f64_to_u32: "f64_trunc 32 x \<le> uint (n :: u32) \<Longrightarrow> uint (f64_to_u32 x) = f64_trunc 32 x"
  using f64_trunc_nonneg [of 32 x] uint_bounded [of n]
  by (simp add: f64_to_u32_def uint_word_of_int take_bit_int_eq_self)

lemma f64_scale_le:
  assumes "in_unit_range f"
  shows "f64_to_u32 (f64_floor (f64_mul (f64_of_u32 n) f)) \<le> n"
proof -
  from assms obtain q d where "f64_mul (f64_of_u32 n) f = F64 q d" "0 \<le> q" "dyadic_le q d (uint n)"
    by (rule f64_scale_dyadic)
  then have "f64_trunc 32 (f64_mul (f64_of_u32 n) f) \<le> uint n"
    by (simp only: f64_trunc_le_int uint_nonnegative)
  then have "f64_trunc 32 (f64_floor (f64_mul (f64_of_u32 n) f)) \<le> uint n"
    by (simp only: f64_trunc_floor)
  then show ?thesis using uint_f64_to_u32 by (simp add: word_le_def)
qed

lemma f64_one_minus_unit:
  assumes "in_unit_range f"
  shows "in_unit_range (f64_sub f64_one f)"
proof -
  from assms obtain m e where f: "f = F64 m e" and m: "0 \<le> m" and le: "dyadic_le m e 1"
    by (rule in_unit_rangeE)
  define k where "k = min 0 e"
  define v where "v = f64_align 1 0 k - f64_align m e k"
  have "0 \<le> v"
    using le by (auto simp: v_def k_def dyadic_le_def f64_align_def min_def split: if_splits)
  moreover have "dyadic_le v k 1"
    using m by (simp add: v_def k_def dyadic_le_def f64_align_def min_def)
  ultimately obtain q d where "f64_round v k = F64 q d" "0 \<le> q" "dyadic_le q d 1"
    using f64_round_le_int [of v 1 k] by auto
  moreover have "f64_sub f64_one f = f64_round v k"
    by (simp add: f f64_one_def v_def k_def)
  ultimately show ?thesis
    unfolding in_unit_range_def by (simp only: f64_zero_le_iff f64_one_def f64_le_int_iff)
qed

lemma f64_scale_one: "f64_to_u32 (f64_floor (f64_mul (f64_of_u32 n) f64_one)) = n"
proof -
  have "bitlen (uint n) \<le> 53"
    using bitlen_less_power [of "uint n" 53] u32_below_mantissa [of n] by simp
  then have "f64_mul (f64_of_u32 n) f64_one = F64 (uint n) 0"
    by (simp add: f64_of_u32_def f64_one_def f64_round_def Let_def)
  moreover have "f64_trunc 32 (F64 (uint n) 0) = uint n"
    using uint_bounded [of n] by (auto simp: min_def order_antisym)
  ultimately show ?thesis by (simp add: f64_to_u32_def)
qed

lemma f64_scale_zero: "f64_to_u32 (f64_floor (f64_mul (f64_of_u32 n) f64_zero)) = 0"
  by (simp add: f64_of_u32_def f64_zero_def f64_round_def Let_def f64_to_u32_def)

lemma f64_one_minus_one: "f64_sub f64_one f64_one = f64_zero"
  by (simp add: f64_one_def f64_zero_def f64_round_def f64_align_def)

lemma in_unit_range_one: "in_unit_range f64_one" and in_unit_range_zero: "in_unit_range f64_zero"
  by (simp_all add: in_unit_range_def f64_one_def f64_zero_def f64_align_def)

end
