(* ===== verification/Cutover.thy ===== *)
theory Cutover
  imports Float64
begin

section \<open>Pool planning: drain, scale, migration\<close>

text \<open>
  The pure planners of \<^verbatim>\<open>ie-engine/src/cutover.rs\<close> and \<^verbatim>\<open>ie-engine/src/gateway_migration.rs\<close>,
  their request parsers (the JSON decoder of \<^verbatim>\<open>serde_json\<close> is the parameter \<open>from_str\<close>), the
  environment readers, the connect throttle and the chunked fan-out \<^verbatim>\<open>map_with_concurrency\<close>.
  The lemmas bound every planned count and show that the fan-out computes the plain map.
\<close>

subsection \<open>Plans and requests\<close>

record pool_drain_plan =
  pdp_target_remaining :: u32
  pdp_to_drain :: u32
  pdp_blocked :: bool
  pdp_reason :: "string option"

record pool_scale_plan =
  psp_target_size :: u32
  psp_to_add :: u32
  psp_blocked :: bool
  psp_reason :: "string option"

record pool_drain_request =
  pdr_fraction :: "f64 option"
  pdr_count :: "u32 option"

record pool_scale_request =
  psr_target_size :: u32

record gateway_migration_plan =
  gmp_target_count :: u32
  gmp_to_move :: u32
  gmp_blocked :: bool
  gmp_reason :: "string option"

record gateway_migration_request =
  gmr_target_url :: string
  gmr_fraction :: f64

definition DEFAULT_POOL_CONNECT_CONCURRENCY :: u32 where
  "DEFAULT_POOL_CONNECT_CONCURRENCY = 2"

definition DEFAULT_POOL_CONNECT_STAGGER_MS :: u64 where
  "DEFAULT_POOL_CONNECT_STAGGER_MS = 150"

definition DEFAULT_ENGINE_POOL_BASELINE :: u32 where
  "DEFAULT_ENGINE_POOL_BASELINE = 4"

subsection \<open>Planners\<close>

definition initial_pool_session_count :: "u32 \<Rightarrow> f64 \<Rightarrow> u32" where
  "initial_pool_session_count pool_target_size fraction =
     (if pool_target_size < 1 then 0
      else if f64_le fraction f64_zero then 0
      else if f64_le f64_one fraction then pool_target_size
      else f64_to_u32 (f64_max (f64_floor (f64_mul (f64_of_u32 pool_target_size) fraction)) f64_one))"

definition plan_pool_drain_by_count :: "u32 \<Rightarrow> u32 \<Rightarrow> u32 \<Rightarrow> pool_drain_plan" where
  "plan_pool_drain_by_count current_count count idle_count =
     (if current_count < 1 then
        \<lparr>pdp_target_remaining = 0, pdp_to_drain = 0, pdp_blocked = False, pdp_reason = None\<rparr>
      else if count < 1 then
        \<lparr>pdp_target_remaining = current_count, pdp_to_drain = 0, pdp_blocked = True,
         pdp_reason = Some ''invalid_count''\<rparr>
      else
        (let want_drain = min count current_count;
             to_drain = min want_drain idle_count;
             blocked = to_drain < want_drain
         in \<lparr>pdp_target_remaining = current_count - to_drain, pdp_to_drain = to_drain,
             pdp_blocked = blocked,
             pdp_reason = (if blocked then Some ''insufficient_idle_sessions'' else None)\<rparr>))"

definition plan_pool_drain ::
    "u32 \<Rightarrow> u32 \<Rightarrow> f64 option \<Rightarrow> u32 option \<Rightarrow> u32 \<Rightarrow> pool_drain_plan" where
  "plan_pool_drain pool_target_size current_count fraction count idle_count =
     (case count of Some c \<Rightarrow> plan_pool_drain_by_count current_count c idle_count
      | None \<Rightarrow>
       if current_count < 1 then
         \<lparr>pdp_target_remaining = 0, pdp_to_drain = 0, pdp_blocked = False, pdp_reason = None\<rparr>
       else if pool_target_size < 1 then
         \<lparr>pdp_target_remaining = current_count, pdp_to_drain = 0, pdp_blocked = True,
          pdp_reason = Some ''pool_size_zero''\<rparr>
       else
        (let fraction = (case fraction of None \<Rightarrow> f64_minus_one | Some f \<Rightarrow> f)
         in if \<not> in_unit_range fraction then
              \<lparr>pdp_target_remaining = current_count, pdp_to_drain = 0, pdp_blocked = True,
               pdp_reason = Some ''invalid_fraction''\<rparr>
            else
             (let target_remaining = f64_to_u32 (f64_floor
                    (f64_mul (f64_of_u32 pool_target_size) (f64_sub f64_one fraction)));
                  want_drain = saturating_sub current_count target_remaining
              in if want_drain = 0 then
                   \<lparr>pdp_target_remaining = current_count, pdp_to_drain = 0, pdp_blocked = False,
                    pdp_reason = None\<rparr>
                 else
                  (let to_drain = min want_drain idle_count;
                       blocked = to_drain < want_drain
                   in \<lparr>pdp_target_remaining = current_count - to_drain, pdp_to_drain = to_drain,
                       pdp_blocked = blocked,
                       pdp_reason = (if blocked then Some ''insufficient_idle_sessions''
                                     else None)\<rparr>))))"

definition plan_pool_scale :: "u32 \<Rightarrow> u32 \<Rightarrow> u32 \<Rightarrow> pool_scale_plan" where
  "plan_pool_scale pool_target_size current_count target_sz =
     (if pool_target_size < 1 then
        \<lparr>psp_target_size = target_sz, psp_to_add = 0, psp_blocked = True,
         psp_reason = Some ''pool_size_zero''\<rparr>
      else if target_sz < 1 \<or> pool_target_size < target_sz then
        \<lparr>psp_target_size = target_sz, psp_to_add = 0, psp_blocked = True,
         psp_reason = Some ''invalid_target_size''\<rparr>
      else
        \<lparr>psp_target_size = target_sz, psp_to_add = saturating_sub target_sz current_count,
         psp_blocked = False, psp_reason = None\<rparr>)"

definition plan_gateway_migration :: "u32 \<Rightarrow> u32 \<Rightarrow> f64 \<Rightarrow> gateway_migration_plan" where
  "plan_gateway_migration pool_size on_target fraction =
     (if pool_size < 1 then
        \<lparr>gmp_target_count = 0, gmp_to_move = 0, gmp_blocked = True,
         gmp_reason = Some ''pool_size_zero''\<rparr>
      else if \<not> in_unit_range fraction then
        \<lparr>gmp_target_count = 0, gmp_to_move = 0, gmp_blocked = True,
         gmp_reason = Some ''invalid_fraction''\<rparr>
      else
       (let target_count = f64_to_u32 (f64_floor (f64_mul (f64_of_u32 pool_size) fraction))
        in \<lparr>gmp_target_count = target_count, gmp_to_move = saturating_sub target_count on_target,
            gmp_blocked = False, gmp_reason = None\<rparr>))"

subsection \<open>Request parsers\<close>

definition parse_pool_drain_request_json ::
    "(string \<Rightarrow> string + pool_drain_request) \<Rightarrow> string \<Rightarrow> string + pool_drain_request" where
  "parse_pool_drain_request_json from_str raw =
     (case from_str raw of Inl e \<Rightarrow> Inl e
      | Inr parsed \<Rightarrow>
        (case pdr_count parsed of
           Some count \<Rightarrow>
             if count < 1 then Inl ''pool drain: count must be a positive integer''
             else Inr \<lparr>pdr_fraction = None, pdr_count = Some count\<rparr>
         | None \<Rightarrow>
           (case pdr_fraction parsed of
              None \<Rightarrow> Inl ''pool drain: require fraction (0..1) or count (>=1)''
            | Some fraction \<Rightarrow>
                if \<not> in_unit_range fraction then Inl ''pool drain: fraction must be 0..1''
                else Inr \<lparr>pdr_fraction = Some fraction, pdr_count = None\<rparr>)))"

definition parse_pool_scale_request_json ::
    "(string \<Rightarrow> string + pool_scale_request) \<Rightarrow> string \<Rightarrow> string + pool_scale_request" where
  "parse_pool_scale_request_json from_str raw =
     (case from_str raw of Inl e \<Rightarrow> Inl e
      | Inr parsed \<Rightarrow>
          if psr_target_size parsed < 1 then Inl ''pool scale: target_size must be a positive integer''
          else Inr parsed)"

definition parse_gateway_migration_request_json ::
    "(string \<Rightarrow> string + gateway_migration_request) \<Rightarrow> string \<Rightarrow> string + gateway_migration_request" where
  "parse_gateway_migration_request_json from_str raw =
     (case from_str raw of Inl e \<Rightarrow> Inl e
      | Inr parsed \<Rightarrow>
        (let target = trim (gmr_target_url parsed)
         in if target = [] then Inl ''gateway migration: target_url required''
            else if \<not> in_unit_range (gmr_fraction parsed)
              then Inl ''gateway migration: fraction must be 0..1''
            else Inr \<lparr>gmr_target_url = target, gmr_fraction = gmr_fraction parsed\<rparr>))"

subsection \<open>Environment readers\<close>

text \<open>\<^verbatim>\<open>env.get(k).map(|s| s.trim()).filter(|s| !s.is_empty())\<close>\<close>

definition env_nonempty :: "env \<Rightarrow> string \<Rightarrow> string option" where
  "env_nonempty env k = (case env k of None \<Rightarrow> None
     | Some v \<Rightarrow> if trim v = [] then None else Some (trim v))"

definition pool_initial_fraction_from_env :: "env \<Rightarrow> f64" where
  "pool_initial_fraction_from_env env =
     (case env_nonempty env ''TEECHAT_ENGINE_POOL_INITIAL_FRACTION'' of None \<Rightarrow> f64_one
      | Some raw \<Rightarrow> (case parse_f64 raw of None \<Rightarrow> f64_one
         | Some n \<Rightarrow> if \<not> in_unit_range n then f64_one else n))"

definition pool_baseline_from_env :: "env \<Rightarrow> u32" where
  "pool_baseline_from_env env =
     (case env_nonempty env ''TEECHAT_ENGINE_POOL_BASELINE'' of
        None \<Rightarrow> DEFAULT_ENGINE_POOL_BASELINE
      | Some raw \<Rightarrow> (case parse_u32 raw of
          Some n \<Rightarrow> if 1 \<le> n then n else DEFAULT_ENGINE_POOL_BASELINE
        | None \<Rightarrow> DEFAULT_ENGINE_POOL_BASELINE))"

definition boot_pool_session_count :: "u32 \<Rightarrow> env \<Rightarrow> f64 option \<Rightarrow> u32" where
  "boot_pool_session_count pool_target_size env pool_initial_fraction =
     (if pool_target_size < 1 then 0
      else
       (let fraction_explicit = (case env ''TEECHAT_ENGINE_POOL_INITIAL_FRACTION'' of
              None \<Rightarrow> False | Some s \<Rightarrow> trim s \<noteq> [])
        in if pool_initial_fraction \<noteq> None \<or> fraction_explicit
           then initial_pool_session_count pool_target_size
             (case pool_initial_fraction of Some f \<Rightarrow> f | None \<Rightarrow> pool_initial_fraction_from_env env)
           else min (pool_baseline_from_env env) pool_target_size))"

definition pool_connect_concurrency_from_env :: "env \<Rightarrow> u32 \<Rightarrow> u32" where
  "pool_connect_concurrency_from_env env session_count =
     (if session_count < 1 then 1
      else
       (let raw = map_option to_ascii_lowercase
              (env_nonempty env ''TEECHAT_ENGINE_POOL_CONNECT_CONCURRENCY'')
        in if raw = Some ''0'' \<or> raw = Some ''unlimited'' then session_count
           else min (case raw of None \<Rightarrow> DEFAULT_POOL_CONNECT_CONCURRENCY
                     | Some s \<Rightarrow> (case parse_u32 s of
                         Some n \<Rightarrow> if 1 \<le> n then n else DEFAULT_POOL_CONNECT_CONCURRENCY
                       | None \<Rightarrow> DEFAULT_POOL_CONNECT_CONCURRENCY)) session_count))"

definition pool_connect_stagger_ms_from_env :: "env \<Rightarrow> u64" where
  "pool_connect_stagger_ms_from_env env =
     (case env_nonempty env ''TEECHAT_ENGINE_POOL_CONNECT_STAGGER_MS'' of
        None \<Rightarrow> DEFAULT_POOL_CONNECT_STAGGER_MS
      | Some raw \<Rightarrow> if raw = ''0'' then 0
          else (case parse_u64 raw of
             Some n \<Rightarrow> if 0 < n then n else DEFAULT_POOL_CONNECT_STAGGER_MS
           | None \<Rightarrow> DEFAULT_POOL_CONNECT_STAGGER_MS))"

subsection \<open>The connect throttle\<close>

text \<open>
  \<^verbatim>\<open>PoolConnectThrottle\<close>: a semaphore with \<open>concurrency\<close> permits and the earliest instant the
  next dial may start. Instants are milliseconds on the monotone clock. \<open>throttle_slot now\<close> is
  the body of \<^verbatim>\<open>run\<close> between taking the permit and calling the closure: it returns how long to
  sleep and the throttle with \<open>next_start\<close> advanced.
\<close>

record pool_connect_throttle =
  th_concurrency :: u32
  th_stagger_ms :: u64
  th_next_start :: nat

definition pool_connect_throttle_new :: "nat \<Rightarrow> u32 \<Rightarrow> u64 \<Rightarrow> pool_connect_throttle" where
  "pool_connect_throttle_new now concurrency stagger_ms =
     \<lparr>th_concurrency = max concurrency 1, th_stagger_ms = stagger_ms, th_next_start = now\<rparr>"

definition throttle_slot :: "nat \<Rightarrow> pool_connect_throttle \<Rightarrow> nat \<times> pool_connect_throttle" where
  "throttle_slot now th =
     (let wait = th_next_start th - now
      in (wait, th\<lparr>th_next_start := max now (th_next_start th) + unat (th_stagger_ms th)\<rparr>))"

fun throttle_starts :: "pool_connect_throttle \<Rightarrow> nat list \<Rightarrow> nat list" where
  "throttle_starts th [] = []"
| "throttle_starts th (now # nows) =
     (let (wait, th') = throttle_slot now th in (now + wait) # throttle_starts th' nows)"

definition create_pool_connect_throttle_from_env :: "nat \<Rightarrow> env \<Rightarrow> u32 \<Rightarrow> pool_connect_throttle" where
  "create_pool_connect_throttle_from_env now env session_count_hint =
     pool_connect_throttle_new now (pool_connect_concurrency_from_env env session_count_hint)
       (pool_connect_stagger_ms_from_env env)"

subsection \<open>Chunked fan-out\<close>

text \<open>
  \<^verbatim>\<open>map_with_concurrency\<close> splits the indices into \<open>limit\<close> contiguous chunks, runs each chunk in
  a task and concatenates the outputs in worker order. \<open>mwc_ranges\<close> is the spawning loop with
  its early \<^verbatim>\<open>break\<close>; the closure is a function here, its effects are in the callers.
\<close>

definition div_ceil :: "nat \<Rightarrow> nat \<Rightarrow> nat" where
  "div_ceil a b = (a + b - 1) div b"

function mwc_ranges :: "nat \<Rightarrow> nat \<Rightarrow> nat \<Rightarrow> nat \<Rightarrow> (nat \<times> nat) list" where
  "mwc_ranges worker limit chunk count =
     (if limit \<le> worker then []
      else if count \<le> worker * chunk then []
      else (worker * chunk, min (worker * chunk + chunk) count) # mwc_ranges (Suc worker) limit chunk count)"
  by pat_completeness auto
termination
  by (relation "measure (\<lambda>(worker, limit, chunk, count). limit - worker)") auto

declare mwc_ranges.simps [simp del]

definition map_with_concurrency :: "u32 \<Rightarrow> u32 \<Rightarrow> (nat \<Rightarrow> 'a) \<Rightarrow> 'a list" where
  "map_with_concurrency count concurrency f =
     (if count = 0 then []
      else let limit = unat (min (max concurrency 1) count); chunk = div_ceil (unat count) limit
           in concat (map (\<lambda>(start, fin). map f [start..<fin]) (mwc_ranges 0 limit chunk (unat count))))"

subsection \<open>Bounds of the plans\<close>

lemma f64_trunc_ge_one:
  assumes "\<not> f64_le x f64_one" and "x \<noteq> F64_NaN"
  shows "1 \<le> f64_trunc 32 x"
proof (cases x)
  case (F64 m e)
  have gt: "\<not> dyadic_le m e 1"
    using assms(1) unfolding F64 f64_one_def f64_le_int_iff .
  show ?thesis
  proof (cases "0 \<le> e")
    case True
    with gt have "1 < m * 2 ^ nat e" by (simp add: dyadic_le_def)
    moreover from this have "0 < m" by (metis zero_less_mult_pos2 zero_less_numeral zero_less_power
        order_less_trans zero_less_one)
    ultimately show ?thesis using True F64 by simp
  next
    case False
    with gt have "2 ^ nat (- e) < m" by (simp add: dyadic_le_def)
    then have "2 ^ nat (- e) div 2 ^ nat (- e) \<le> m div 2 ^ nat (- e)"
      by (intro zdiv_mono1) auto
    moreover have "0 < m" using \<open>2 ^ nat (- e) < m\<close> by (rule order_less_trans [rotated]) simp
    ultimately show ?thesis using False F64 by simp
  qed
next
  case (F64_Inf b)
  with assms show ?thesis by (cases b) (simp_all add: f64_one_def)
next
  case F64_NaN
  with assms show ?thesis by simp
qed

lemma f64_to_u32_max_one: "1 \<le> f64_to_u32 (f64_max x f64_one)"
proof (cases "x = F64_NaN \<or> f64_le x f64_one")
  case True
  then show ?thesis by (auto simp: f64_max_def f64_to_u32_def f64_one_def)
next
  case False
  then have "1 \<le> f64_trunc 32 x" by (intro f64_trunc_ge_one) auto
  moreover have "f64_trunc 32 x < 2 ^ 32" by (cases x) auto
  ultimately show ?thesis using False
    by (simp add: f64_max_def f64_to_u32_def f64_one_def word_le_def uint_word_of_int
        take_bit_int_eq_self)
qed

lemma f64_to_u32_max_le:
  assumes "f64_to_u32 x \<le> n" and "1 \<le> n"
  shows "f64_to_u32 (f64_max x f64_one) \<le> n"
  using assms by (auto simp: f64_max_def f64_to_u32_def f64_one_def)

lemma one_le_word_iff: "1 \<le> (n :: 'a::len word) \<longleftrightarrow> \<not> n < 1"
  by (simp only: not_less)

lemma f64_strict_unit_range:
  assumes "\<not> f64_le f f64_zero" and "\<not> f64_le f64_one f" and "f \<noteq> F64_NaN"
  shows "in_unit_range f"
  using assms by (cases f) (auto simp: in_unit_range_def f64_zero_def f64_one_def min.commute)

lemma initial_pool_session_count_le: "initial_pool_session_count n f \<le> n"
proof (cases "n < 1 \<or> f64_le f f64_zero \<or> f64_le f64_one f")
  case True
  then show ?thesis by (auto simp: initial_pool_session_count_def)
next
  case False
  then have n: "1 \<le> n" by (simp only: one_le_word_iff simp_thms de_Morgan_disj)
  have "f64_to_u32 (f64_floor (f64_mul (f64_of_u32 n) f)) \<le> n"
  proof (cases "f = F64_NaN")
    case True
    then show ?thesis by (simp add: f64_of_u32_def f64_to_u32_def)
  next
    case F: False
    with False have "in_unit_range f" by (intro f64_strict_unit_range) auto
    then show ?thesis by (rule f64_scale_le)
  qed
  with False n show ?thesis
    by (simp add: initial_pool_session_count_def f64_to_u32_max_le)
qed

lemma initial_pool_session_count_ge:
  "1 \<le> n \<Longrightarrow> \<not> f64_le f f64_zero \<Longrightarrow> 1 \<le> initial_pool_session_count n f"
  by (auto simp: initial_pool_session_count_def f64_to_u32_max_one)

lemma boot_pool_session_count_le: "boot_pool_session_count n env f \<le> n"
  by (auto simp: boot_pool_session_count_def Let_def initial_pool_session_count_le)

lemma plan_pool_drain_by_count_bounds:
  assumes "plan_pool_drain_by_count cur c idle = p"
  shows "pdp_to_drain p \<le> idle" and "pdp_to_drain p \<le> cur"
    and "pdp_target_remaining p = cur - pdp_to_drain p" and "pdp_to_drain p \<le> c"
  using assms by (auto simp: plan_pool_drain_by_count_def Let_def min.coboundedI1)

lemma saturating_sub_le: "saturating_sub a b \<le> a"
  by (simp add: word_le_nat_alt nat_of_word)

lemma min_saturating_sub_le: "min (saturating_sub a b) c \<le> a"
  using saturating_sub_le [of a b] by (simp add: min.coboundedI1)

lemma plan_pool_drain_bounds:
  assumes "plan_pool_drain n cur f c idle = p"
  shows "pdp_to_drain p \<le> idle \<and> pdp_to_drain p \<le> cur \<and> pdp_target_remaining p = cur - pdp_to_drain p"
proof (cases c)
  case (Some k)
  with assms plan_pool_drain_by_count_bounds [of cur k idle p] show ?thesis
    by (simp add: plan_pool_drain_def)
next
  case None
  with assms show ?thesis
    by (auto simp: plan_pool_drain_def Let_def min_saturating_sub_le)
qed

lemma plan_gateway_migration_bounds:
  "gmp_target_count (plan_gateway_migration n k f) \<le> n
   \<and> gmp_to_move (plan_gateway_migration n k f) = saturating_sub (gmp_target_count (plan_gateway_migration n k f)) k"
  by (auto simp: plan_gateway_migration_def Let_def f64_scale_le saturating_sub_def)

subsection \<open>The fan-out is a map\<close>

lemma mwc_ranges_map:
  assumes "0 < chunk" and "count \<le> limit * chunk" and "worker \<le> limit"
  shows "concat (map (\<lambda>(start, fin). map f [start..<fin]) (mwc_ranges worker limit chunk count))
    = map f [worker * chunk..<count]"
  using assms
proof (induction worker limit chunk count rule: mwc_ranges.induct)
  case (1 worker limit chunk count)
  show ?case
  proof (cases "limit \<le> worker \<or> count \<le> worker * chunk")
    case True
    with "1.prems" have "count \<le> worker * chunk"
      using order_trans [OF _ mult_le_mono1] by (auto simp: order_antisym)
    then show ?thesis by (simp add: mwc_ranges.simps [of worker])
  next
    case False
    let ?m = "min (worker * chunk + chunk) count"
    from False "1.prems" "1.IH" have
      "concat (map (\<lambda>(start, fin). map f [start..<fin]) (mwc_ranges (Suc worker) limit chunk count))
        = map f [worker * chunk + chunk..<count]"
      by (simp add: add.commute)
    moreover have "[worker * chunk..<?m] @ [worker * chunk + chunk..<count] = [worker * chunk..<count]"
      using False upt_add_eq_append [of "worker * chunk" "worker * chunk + chunk"
          "count - (worker * chunk + chunk)"]
      by (cases "worker * chunk + chunk \<le> count") (simp_all add: min_def)
    then have "map f [worker * chunk..<?m] @ map f [worker * chunk + chunk..<count]
        = map f [worker * chunk..<count]"
      by (simp only: flip: map_append)
    ultimately show ?thesis using False by (simp add: mwc_ranges.simps [of worker])
  qed
qed

lemma div_ceil_mult:
  assumes "0 < b"
  shows "a \<le> b * div_ceil a b"
proof -
  have "a + b - 1 < b * ((a + b - 1) div b) + b"
    using assms by (metis add.commute dividend_less_div_times mult.commute)
  with assms show ?thesis by (simp add: div_ceil_def)
qed

lemma div_ceil_pos: "0 < a \<Longrightarrow> 0 < b \<Longrightarrow> 0 < div_ceil a b"
  using div_ceil_mult [of b a] by (cases "div_ceil a b") auto

lemma map_with_concurrency_map: "map_with_concurrency count concurrency f = map f [0..<unat count]"
proof (cases "count = 0")
  case True
  then show ?thesis by (simp add: map_with_concurrency_def)
next
  case False
  define limit where "limit = unat (min (max concurrency 1) count)"
  have pos: "0 < unat count" using False by (simp add: unat_gt_0)
  then have "0 < limit" by (simp add: limit_def nat_of_word)
  with pos False show ?thesis
    using mwc_ranges_map [of "div_ceil (unat count) limit" "unat count" limit 0 f]
      div_ceil_mult [of limit "unat count"] div_ceil_pos [of "unat count" limit]
    by (simp add: map_with_concurrency_def Let_def flip: limit_def)
qed

subsection \<open>Dial pacing\<close>

lemma throttle_starts_ge: "t \<in> set (throttle_starts th nows) \<Longrightarrow> th_next_start th \<le> t"
proof (induction th nows rule: throttle_starts.induct)
  case (2 th now nows)
  then show ?case by (fastforce simp: throttle_slot_def Let_def)
qed simp

lemma throttle_starts_spaced:
  "sorted_wrt (\<lambda>a b. a + unat (th_stagger_ms th) \<le> b) (throttle_starts th nows)"
proof (induction th nows rule: throttle_starts.induct)
  case (2 th now nows)
  define th' where "th' = snd (throttle_slot now th)"
  have st: "th_stagger_ms th' = th_stagger_ms th" and
    nx: "th_next_start th' = max now (th_next_start th) + unat (th_stagger_ms th)"
    by (simp_all add: th'_def throttle_slot_def Let_def)
  have "sorted_wrt (\<lambda>a b. a + unat (th_stagger_ms th) \<le> b) (throttle_starts th' nows)"
    using "2" by (simp add: th'_def throttle_slot_def Let_def)
  moreover have "now + (th_next_start th - now) + unat (th_stagger_ms th) \<le> t"
    if "t \<in> set (throttle_starts th' nows)" for t
    using throttle_starts_ge [OF that] nx by auto
  ultimately show ?case by (auto simp: th'_def throttle_slot_def Let_def)
qed simp

subsection \<open>Properties\<close>

text \<open>
  The number of sessions dialled at boot never exceeds the pool target, for every double
  (NaN and infinities included), and a positive or NaN fraction of a non-empty pool dials at
  least one session.
\<close>

theorem initial_pool_session_count_bounds:
  "initial_pool_session_count n f \<le> n
   \<and> (1 \<le> n \<longrightarrow> \<not> f64_le f f64_zero \<longrightarrow> 1 \<le> initial_pool_session_count n f)"
  by (simp add: initial_pool_session_count_le initial_pool_session_count_ge)

theorem initial_pool_session_count_bounds_witness:
  "initial_pool_session_count 4 (F64 1 (- 1)) \<le> 4 \<and> 1 \<le> initial_pool_session_count 4 (F64 1 (- 1))"
proof -
  have h: "1 \<le> (4 :: u32)" "\<not> f64_le (F64 1 (- 1)) f64_zero" by (simp, code_simp)
  show ?thesis using initial_pool_session_count_bounds [of 4 "F64 1 (- 1)"] h by blast
qed

text \<open>
  A drain plan never takes more sessions than are idle or than exist, and the remaining
  count it announces is the current count less the planned drain, for every request: by count,
  by fraction, malformed, or empty.
\<close>

theorem plan_pool_drain_sound:
  "pdp_to_drain (plan_pool_drain n cur f c idle) \<le> min idle cur
   \<and> unat (pdp_target_remaining (plan_pool_drain n cur f c idle))
     = unat cur - unat (pdp_to_drain (plan_pool_drain n cur f c idle))"
  using plan_pool_drain_bounds [OF refl, of n cur f c idle] by (auto simp: nat_of_word)

text \<open>
  The drain fraction is applied in floating point: asking for 90 percent of a pool of ten
  fully idle sessions plans to drain all ten, because \<open>1.0 - 0.9\<close> rounds below one tenth.
\<close>

theorem plan_pool_drain_ninety_percent:
  "parse_f64 ''0.9'' = Some (F64 8106479329266893 (- 53))
   \<and> plan_pool_drain 10 10 (Some (F64 8106479329266893 (- 53))) None 10
     = \<lparr>pdp_target_remaining = 0, pdp_to_drain = 10, pdp_blocked = False, pdp_reason = None\<rparr>"
  by code_simp

text \<open>
  Chunked fan-out equals the sequential map: for every count, every concurrency (zero
  included) and every closure, \<^verbatim>\<open>map_with_concurrency\<close> returns the results of the indices
  \<open>0..<count\<close> in order, none lost or repeated.
\<close>

theorem map_with_concurrency_eq_map:
  "map_with_concurrency count concurrency f = map f [0..<unat count]"
  by (rule map_with_concurrency_map)

text \<open>
  Dial pacing: whatever the instants at which dials arrive, any two dials released by one
  throttle start at least the configured stagger apart, in arrival order.
\<close>

theorem throttle_dials_spaced:
  "sorted_wrt (\<lambda>a b. a + unat (th_stagger_ms th) \<le> b) (throttle_starts th nows)"
  by (rule throttle_starts_spaced)

end
