(* ===== verification/Engine_Config.thy ===== *)
theory Engine_Config
  imports Cutover
begin

section \<open>Pool configuration\<close>

text \<open>
  \<^verbatim>\<open>ie-engine/src/config.rs\<close>: the reconnect policy and the supervised-pool configuration read
  from the environment, and the boot session count derived from it. The lemmas state the range
  of every configured value and that the count the pool boots with is the one the cutover
  module computes from the same environment.
\<close>

record pool_reconnect_config =
  fail_threshold :: u32
  fail_window_ms :: u64
  circuit_ms :: u64
  reconnect_base_ms :: u64
  reconnect_max_ms :: u64

definition pool_reconnect_config_default :: pool_reconnect_config where
  "pool_reconnect_config_default =
     \<lparr>fail_threshold = 8, fail_window_ms = 10000, circuit_ms = 30000,
      reconnect_base_ms = 1000, reconnect_max_ms = 30000\<rparr>"

definition pool_reconnect_config_from_env :: "env \<Rightarrow> pool_reconnect_config" where
  "pool_reconnect_config_from_env env =
     (let cfg = pool_reconnect_config_default;
          cfg = (case env ''TEECHAT_ENGINE_POOL_RECONNECT_FAIL_THRESHOLD'' of None \<Rightarrow> cfg
            | Some v \<Rightarrow> (case parse_u32 v of None \<Rightarrow> cfg
                | Some n \<Rightarrow> cfg\<lparr>fail_threshold := max n 1\<rparr>));
          cfg = (case env ''TEECHAT_ENGINE_POOL_RECONNECT_FAIL_WINDOW_MS'' of None \<Rightarrow> cfg
            | Some v \<Rightarrow> (case parse_u64 v of None \<Rightarrow> cfg
                | Some n \<Rightarrow> cfg\<lparr>fail_window_ms := max n 1000\<rparr>));
          cfg = (case env ''TEECHAT_ENGINE_POOL_RECONNECT_CIRCUIT_MS'' of None \<Rightarrow> cfg
            | Some v \<Rightarrow> (case parse_u64 v of None \<Rightarrow> cfg
                | Some n \<Rightarrow> cfg\<lparr>circuit_ms := max n 1000\<rparr>))
      in cfg)"

record supervised_pool_config =
  pool_target_size :: u32
  pool_initial_fraction :: f64
  pool_initial_fraction_explicit :: bool
  pool_baseline :: u32
  supervised :: bool
  reconnect :: pool_reconnect_config

definition supervised_pool_config_from_env :: "env \<Rightarrow> supervised_pool_config" where
  "supervised_pool_config_from_env env =
     (let raw_size = (case env ''TEECHAT_ENGINE_POOL_TARGET_SIZE'' of Some v \<Rightarrow> Some v
            | None \<Rightarrow> env ''TEECHAT_OPE_ENGINE_POOL_TARGET_SIZE'');
          size = max (case raw_size of None \<Rightarrow> 1
            | Some v \<Rightarrow> (case parse_u32 v of None \<Rightarrow> 1 | Some n \<Rightarrow> n)) 1;
          fraction_raw = env_nonempty env ''TEECHAT_ENGINE_POOL_INITIAL_FRACTION'';
          fraction = f64_clamp (case fraction_raw of None \<Rightarrow> f64_one
            | Some v \<Rightarrow> (case parse_f64 v of None \<Rightarrow> f64_one | Some x \<Rightarrow> x)) f64_zero f64_one;
          sup = \<not> (case env ''TEECHAT_ENGINE_SUPERVISED'' of None \<Rightarrow> False
            | Some v \<Rightarrow> eq_ignore_ascii_case v ''false'' \<or> v = ''0'')
      in \<lparr>pool_target_size = size, pool_initial_fraction = fraction,
          pool_initial_fraction_explicit = (fraction_raw \<noteq> None),
          pool_baseline = pool_baseline_from_env env, supervised = sup,
          reconnect = pool_reconnect_config_from_env env\<rparr>)"

definition initial_session_count :: "supervised_pool_config \<Rightarrow> u32" where
  "initial_session_count cfg =
     (if pool_initial_fraction_explicit cfg
      then initial_pool_session_count (pool_target_size cfg) (pool_initial_fraction cfg)
      else min (pool_baseline cfg) (pool_target_size cfg))"

definition boot_session_count_from_env :: "supervised_pool_config \<Rightarrow> env \<Rightarrow> u32" where
  "boot_session_count_from_env cfg env =
     boot_pool_session_count (pool_target_size cfg) env
       (if pool_initial_fraction_explicit cfg then Some (pool_initial_fraction cfg) else None)"

definition config_wf :: "supervised_pool_config \<Rightarrow> bool" where
  "config_wf cfg \<longleftrightarrow> 1 \<le> pool_target_size cfg \<and> 1 \<le> pool_baseline cfg
     \<and> 1 \<le> fail_threshold (reconnect cfg) \<and> 1000 \<le> fail_window_ms (reconnect cfg)
     \<and> 1000 \<le> circuit_ms (reconnect cfg)"

lemma pool_baseline_from_env_ge: "1 \<le> pool_baseline_from_env env"
  by (auto simp: pool_baseline_from_env_def DEFAULT_ENGINE_POOL_BASELINE_def split: option.splits)

lemma config_from_env_wf: "config_wf (supervised_pool_config_from_env env)"
  by (auto simp: config_wf_def supervised_pool_config_from_env_def pool_baseline_from_env_ge
      pool_reconnect_config_from_env_def pool_reconnect_config_default_def Let_def
      split: option.splits)

lemma initial_session_count_le: "initial_session_count cfg \<le> pool_target_size cfg"
  by (simp add: initial_session_count_def initial_pool_session_count_le)

lemma config_target_pos: "config_wf cfg \<Longrightarrow> \<not> pool_target_size cfg < 1"
  by (simp only: config_wf_def not_less)

text \<open>
  The session count the pool boots with (\<^verbatim>\<open>initial_session_count\<close>, computed from the parsed
  configuration) is the count the cutover module computes from the environment itself
  (\<^verbatim>\<open>boot_session_count_from_env\<close>), for every environment, and it lies within the pool target.
\<close>

theorem boot_count_agrees_with_env:
  "initial_session_count (supervised_pool_config_from_env env)
     = boot_session_count_from_env (supervised_pool_config_from_env env) env
   \<and> initial_session_count (supervised_pool_config_from_env env)
     \<le> pool_target_size (supervised_pool_config_from_env env)"
proof -
  let ?cfg = "supervised_pool_config_from_env env"
  have size: "\<not> pool_target_size ?cfg < 1"
    by (rule config_target_pos [OF config_from_env_wf])
  have expl: "pool_initial_fraction_explicit ?cfg
      \<longleftrightarrow> (case env ''TEECHAT_ENGINE_POOL_INITIAL_FRACTION'' of None \<Rightarrow> False | Some s \<Rightarrow> trim s \<noteq> [])"
    and base: "pool_baseline ?cfg = pool_baseline_from_env env"
    by (simp_all add: supervised_pool_config_from_env_def env_nonempty_def Let_def split: option.split)
  show ?thesis
    using size base
    by (simp add: initial_pool_session_count_le boot_session_count_from_env_def boot_pool_session_count_def
        initial_session_count_def [of ?cfg] flip: expl)
qed

end
