(* ===== verification/Wire_Types.thy ===== *)
theory Wire_Types
  imports Float64
begin

section \<open>Protocol data and shared errors\<close>

text \<open>
  The engine-plane wire types of \<^verbatim>\<open>ope-protocol\<close> (re-exported by \<^verbatim>\<open>ie-protocol\<close>) with the fields
  the engine builds or reads, \<^verbatim>\<open>EngineError\<close> with its \<^verbatim>\<open>Display\<close> text, and decimal printing of
  unsigned integers.
\<close>

subsection \<open>Printing numbers\<close>

fun show_nat :: "nat \<Rightarrow> string" where
  "show_nat n = (if n < 10 then [char_of (48 + n)] else show_nat (n div 10) @ [char_of (48 + n mod 10)])"

declare show_nat.simps [simp del]

definition show_word :: "'a::len word \<Rightarrow> string" where
  "show_word w = show_nat (unat w)"

lemma of_char_digit: "d < 10 \<Longrightarrow> of_char (char_of (48 + d) :: char) = 48 + int d"
proof -
  assume "d < 10"
  then have "of_char (char_of (48 + d) :: char) = 48 + d"
    by (simp add: of_char_of [where 'a = nat])
  then show "of_char (char_of (48 + d) :: char) = 48 + int d"
    by (metis of_nat_add of_nat_numeral of_nat_of_char)
qed

lemma digits_value_snoc: "digits_value (s @ [c]) = digits_value s * 10 + (of_char c - 48)"
  by (simp add: digits_value_def)

lemma digits_value_show_nat: "digits_value (show_nat n) = int n"
proof (induction n rule: show_nat.induct)
  case (1 n)
  show ?case
  proof (cases "n < 10")
    case True
    then show ?thesis
      using digits_value_snoc [of "[]" "char_of (48 + n)"] of_char_digit [OF True]
      by (simp add: show_nat.simps [of n] digits_value_def)
  next
    case False
    then have "digits_value (show_nat n) = int (n div 10) * 10 + int (n mod 10)"
      using "1" of_char_digit [of "n mod 10"]
      by (simp add: show_nat.simps [of n] digits_value_snoc)
    also have "\<dots> = int n" by (simp add: zdiv_int zmod_int)
    finally show ?thesis .
  qed
qed

lemma show_nat_inj: "show_nat a = show_nat b \<Longrightarrow> a = b"
  by (metis digits_value_show_nat of_nat_eq_iff)

lemma is_ascii_digit_char_of: "(d :: nat) < 10 \<Longrightarrow> is_ascii_digit (char_of (48 + d))"
  by (simp add: is_ascii_digit_def of_char_of [where 'a = nat])

lemma list_all_show_nat: "list_all is_ascii_digit (show_nat n)"
proof (induction n rule: show_nat.induct)
  case (1 n)
  then show ?case
    using is_ascii_digit_char_of [of n] is_ascii_digit_char_of [of "n mod 10"]
    by (cases "n < 10") (simp_all add: show_nat.simps [of n])
qed

lemma show_nat_nonempty: "show_nat n \<noteq> []"
  by (simp add: show_nat.simps [of n])

subsection \<open>Attestation bundle and connect request\<close>

datatype attestation_verdict = Verdict_Pass | Verdict_Fail

record cpu_tee_endorsement =
  ce_vcek_der_b64 :: string
  ce_ask_der_b64 :: "string option"
  ce_ark_der_b64 :: "string option"
  ce_crl_der_b64 :: "string option"

record cpu_tee_attestation =
  cpu_kind :: string
  cpu_quote :: string
  cpu_verdict :: attestation_verdict
  cpu_policy_id :: string
  cpu_endorsement :: "cpu_tee_endorsement option"

record gpu_tee_attestation =
  gpu_kind :: string
  gpu_evidence :: string
  gpu_verdict :: attestation_verdict

record workload_measurements =
  wm_version :: string
  wm_binary_sha256 :: string

record workload_identity =
  wi_version :: string
  wi_git_sha :: string
  wi_sha256 :: string

record attestation_bundle =
  ab_cpu_tee :: cpu_tee_attestation
  ab_gpu_tee :: gpu_tee_attestation
  ab_vllm :: workload_measurements
  ab_engine :: workload_measurements
  ab_ope :: "workload_identity option"
  ab_attested_mtls :: "workload_identity option"

record engine_startup_identity =
  id_engine_id :: string
  id_kex :: string
  id_ed25519_public :: string

record attested_connect_request =
  acr_session_id :: string
  acr_engine_id :: string
  acr_models :: "string list"
  acr_identity :: engine_startup_identity
  acr_attestation :: attestation_bundle
  acr_pool_target_size :: "u32 option"
  acr_instance_id :: "string option"
  acr_gateway_challenge_nonce :: "string option"
  acr_capabilities :: "string list option"

record attested_connect_response =
  acp_gateway_attestation :: "attestation_bundle option"
  acp_gateway_challenge_nonce :: "string option"

record connect_result =
  cr_session_id :: string
  cr_response :: attested_connect_response

subsection \<open>Inference envelope\<close>

record ope_e2e_descriptor =
  e2e_client_share :: "string option"
  e2e_content_alg :: "string option"
  e2e_ephemeral_epoch :: string
  e2e_engine_mlkem_encap :: string
  e2e_engine_x25519 :: string

record gateway_task_message =
  gtm_role :: string
  gtm_content :: string

record gateway_plane_task_payload =
  gtp_messages :: "gateway_task_message list"
  gtp_max_tokens :: "u32 option"
  gtp_temperature :: "f64 option"

record ope_envelope_meta =
  om_model :: "string option"
  om_conversation_id :: "string option"
  om_traffic_class :: "string option"
  om_gateway_task :: "gateway_plane_task_payload option"

record ope_envelope =
  oe_enc :: string
  oe_nonce :: string
  oe_engine_id :: "string option"
  oe_meta :: "ope_envelope_meta option"
  oe_sig :: "string option"
  oe_ciphertext :: "string option"
  oe_iv :: "string option"
  oe_e2e :: "ope_e2e_descriptor option"

subsection \<open>Engine errors\<close>

datatype engine_error =
    EConnect string
  | EAtCapacity nat nat
  | ECircuitOpen u64
  | EInfer string
  | EEpoch string
  | EScale string

fun engine_error_display :: "engine_error \<Rightarrow> string" where
  "engine_error_display (EConnect m) = ''pool connect failed: '' @ m"
| "engine_error_display (EAtCapacity current target) =
     ''pool at capacity ('' @ show_nat current @ ''/'' @ show_nat target @ '')''"
| "engine_error_display (ECircuitOpen until_ms) = ''pool circuit open until '' @ show_word until_ms"
| "engine_error_display (EInfer m) = ''inference upstream error: '' @ m"
| "engine_error_display (EEpoch m) = ''epoch error: '' @ m"
| "engine_error_display (EScale m) = ''pool scale error: '' @ m"

end
