(* ===== verification/Pool_Core.thy ===== *)
theory Pool_Core
  imports Engine_Config Wire_Types
begin

section \<open>The supervised pool: state, host and primitive operations\<close>

text \<open>
  \<^verbatim>\<open>ie-engine/src/pool.rs\<close> with \<^verbatim>\<open>pull_workers.rs\<close> and the interface of \<^verbatim>\<open>traits.rs\<close>: the slots of
  the pool, the reconnect circuit, the pull-worker registry, the migration hold.

  Every call the pool makes out of itself (to the connector, a callback, a pull worker, a timer)
  is a \<open>pool_event\<close>, appended to the history \<open>sp_history\<close>. The outside world is a
  \<open>pool_host\<close>: each answer (a dial result, the clock, whether a worker is busy) is a function of
  the history at the moment of the call, so one host is one behaviour of the environment, and a
  theorem over all hosts covers every behaviour, with worker flags and the clock free to change
  at each call. A method runs from its start to its end without another pool method between;
  tasks it spawns (the reconnect timer, the deferred retirement) are events, and their bodies are
  definitions of their own.
\<close>

subsection \<open>State\<close>

record session_slot =
  sl_session_id :: string
  sl_gateway_base_url :: string
  sl_busy :: bool
  sl_reconnect_attempt :: u32
  sl_reconnect_pending :: bool
  sl_suppress_reconnect :: bool

definition new_slot :: "string \<Rightarrow> string \<Rightarrow> session_slot" where
  "new_slot sid url =
     \<lparr>sl_session_id = sid, sl_gateway_base_url = url, sl_busy = False, sl_reconnect_attempt = 0,
      sl_reconnect_pending = False, sl_suppress_reconnect = False\<rparr>"

record migration_hold =
  mh_target_url :: string
  mh_pending_source :: "string list"
  mh_keep_source :: bool

datatype pool_event =
    EvConnect attested_connect_request
  | EvConnectTo string attested_connect_request
  | EvReconnect string string attested_connect_request
  | EvConnected string string
  | EvDisconnect string
  | EvTeardown string
  | EvShutdownDisconnect string
  | EvForceCloseAll
  | EvSetPrimary string
  | EvSessionReady string
  | EvSessionsChanged "string list"
  | EvWorkerStart string
  | EvWorkerStop string
  | EvAttestRefresh
  | EvReconnectTimer string u64
  | EvSpawnRetire "string list"
  | EvRetirePause
  | EvRetryPause
  | EvStopAllWorkers

record pool_host =
  h_now_ms :: "pool_event list \<Rightarrow> u64"
  h_connect :: "pool_event list \<Rightarrow> attested_connect_request \<Rightarrow> string + connect_result"
  h_connect_to :: "pool_event list \<Rightarrow> string \<Rightarrow> attested_connect_request \<Rightarrow> string + connect_result"
  h_reconnect ::
    "pool_event list \<Rightarrow> string \<Rightarrow> string \<Rightarrow> attested_connect_request \<Rightarrow> string + connect_result"
  h_is_session_closed :: "pool_event list \<Rightarrow> string \<Rightarrow> bool"
  h_worker_busy :: "pool_event list \<Rightarrow> string \<Rightarrow> bool"
  h_start_worker :: "(pool_event list \<Rightarrow> string \<Rightarrow> string + unit) option"
  h_session_ready :: "(pool_event list \<Rightarrow> string \<Rightarrow> string + unit) option"
  h_attestation_refresh :: "(pool_event list \<Rightarrow> string + attestation_bundle) option"
  h_on_sessions_changed :: bool
  h_new_uuid :: "pool_event list \<Rightarrow> string"
  h_new_nonce :: "pool_event list \<Rightarrow> string"

record supervised_pool =
  sp_config :: supervised_pool_config
  sp_gateway_base_url :: string
  sp_connect_template :: "attested_connect_request option"
  sp_workers :: "string set"
  sp_closed :: bool
  sp_booting :: bool
  sp_slots :: "session_slot list"
  sp_consecutive_failures :: u32
  sp_circuit_open_until_ms :: u64
  sp_reconnect_failure_times_ms :: "u64 list"
  sp_migration_hold :: "migration_hold option"
  sp_history :: "pool_event list"

definition supervised_pool_new :: "supervised_pool_config \<Rightarrow> string \<Rightarrow> supervised_pool" where
  "supervised_pool_new config gateway =
     \<lparr>sp_config = config, sp_gateway_base_url = gateway, sp_connect_template = None,
      sp_workers = {}, sp_closed = False, sp_booting = False, sp_slots = [],
      sp_consecutive_failures = 0, sp_circuit_open_until_ms = 0,
      sp_reconnect_failure_times_ms = [], sp_migration_hold = None, sp_history = []\<rparr>"

definition emit :: "pool_event \<Rightarrow> supervised_pool \<Rightarrow> supervised_pool" where
  "emit ev p = p\<lparr>sp_history := sp_history p @ [ev]\<rparr>"

definition pool_now_ms :: "pool_host \<Rightarrow> supervised_pool \<Rightarrow> u64" where
  "pool_now_ms H p = h_now_ms H (sp_history p)"

subsection \<open>Slots\<close>

definition find_slot :: "string \<Rightarrow> supervised_pool \<Rightarrow> session_slot option" where
  "find_slot sid p = find (\<lambda>s. sl_session_id s = sid) (sp_slots p)"

definition upd_slot :: "string \<Rightarrow> (session_slot \<Rightarrow> session_slot) \<Rightarrow> supervised_pool \<Rightarrow> supervised_pool" where
  "upd_slot sid f p = p\<lparr>sp_slots := update_first (\<lambda>s. sl_session_id s = sid) f (sp_slots p)\<rparr>"

definition push_slot :: "session_slot \<Rightarrow> supervised_pool \<Rightarrow> supervised_pool" where
  "push_slot s p = p\<lparr>sp_slots := sp_slots p @ [s]\<rparr>"

definition remove_slot :: "string \<Rightarrow> supervised_pool \<Rightarrow> bool \<times> supervised_pool" where
  "remove_slot sid p =
     (case position (\<lambda>s. sl_session_id s = sid) (sp_slots p) of
        Some index \<Rightarrow> (True, p\<lparr>sp_slots := remove_at index (sp_slots p)\<rparr>)
      | None \<Rightarrow> (False, p))"

definition session_ids :: "supervised_pool \<Rightarrow> string list" where
  "session_ids p = map sl_session_id (sp_slots p)"

definition live_session_count :: "supervised_pool \<Rightarrow> u32" where
  "live_session_count p = word_of_nat (length (sp_slots p))"

definition session_gateway_url :: "string \<Rightarrow> supervised_pool \<Rightarrow> string option" where
  "session_gateway_url sid p = map_option sl_gateway_base_url (find_slot sid p)"

definition sessions_by_gateway_url :: "supervised_pool \<Rightarrow> string \<rightharpoonup> u32" where
  "sessions_by_gateway_url p =
     fold (\<lambda>s m. m(sl_gateway_base_url s \<mapsto>
        (case m (sl_gateway_base_url s) of None \<Rightarrow> 0 | Some n \<Rightarrow> n) + 1)) (sp_slots p) Map.empty"

definition set_session_busy :: "string \<Rightarrow> bool \<Rightarrow> supervised_pool \<Rightarrow> supervised_pool" where
  "set_session_busy sid b = upd_slot sid (\<lambda>s. s\<lparr>sl_busy := b\<rparr>)"

definition clear_reconnect_pending :: "string \<Rightarrow> supervised_pool \<Rightarrow> supervised_pool" where
  "clear_reconnect_pending sid = upd_slot sid (\<lambda>s. s\<lparr>sl_reconnect_pending := False\<rparr>)"

definition suppress_reconnect :: "string \<Rightarrow> supervised_pool \<Rightarrow> supervised_pool" where
  "suppress_reconnect sid =
     upd_slot sid (\<lambda>s. s\<lparr>sl_suppress_reconnect := True, sl_reconnect_pending := False\<rparr>)"

subsection \<open>Pull workers\<close>

definition ensure_started :: "pool_host \<Rightarrow> string \<Rightarrow> supervised_pool \<Rightarrow> (string + unit) \<times> supervised_pool" where
  "ensure_started H sid p =
     (if sid \<in> sp_workers p then (Inr (), p)
      else case h_start_worker H of None \<Rightarrow> (Inr (), p)
        | Some start \<Rightarrow>
            (case start (sp_history p) sid of
               Inl e \<Rightarrow> (Inl e, emit (EvWorkerStart sid) p)
             | Inr _ \<Rightarrow> (Inr (), (emit (EvWorkerStart sid) p)\<lparr>sp_workers := insert sid (sp_workers p)\<rparr>)))"

definition stop_session :: "string \<Rightarrow> supervised_pool \<Rightarrow> supervised_pool" where
  "stop_session sid p =
     (if sid \<in> sp_workers p then (emit (EvWorkerStop sid) p)\<lparr>sp_workers := sp_workers p - {sid}\<rparr> else p)"

definition stop_all :: "supervised_pool \<Rightarrow> supervised_pool" where
  "stop_all p = (emit EvStopAllWorkers p)\<lparr>sp_workers := {}\<rparr>"

definition session_is_busy :: "pool_host \<Rightarrow> string \<Rightarrow> supervised_pool \<Rightarrow> bool" where
  "session_is_busy H sid p =
     (if sid \<in> sp_workers p then h_worker_busy H (sp_history p) sid
      else case find_slot sid p of None \<Rightarrow> False | Some s \<Rightarrow> sl_busy s)"

definition idle_session_ids :: "pool_host \<Rightarrow> supervised_pool \<Rightarrow> string list" where
  "idle_session_ids H p = filter (\<lambda>sid. \<not> session_is_busy H sid p) (session_ids p)"

definition inference_idle :: "pool_host \<Rightarrow> supervised_pool \<Rightarrow> bool" where
  "inference_idle H p = list_all (\<lambda>sid. \<not> session_is_busy H sid p) (session_ids p)"

definition invoke_session_ready :: "pool_host \<Rightarrow> string \<Rightarrow> supervised_pool \<Rightarrow> (string + unit) \<times> supervised_pool" where
  "invoke_session_ready H sid p =
     (case h_session_ready H of None \<Rightarrow> (Inr (), p)
      | Some ready \<Rightarrow> (ready (sp_history p) sid, emit (EvSessionReady sid) p))"

definition notify_sessions_changed :: "pool_host \<Rightarrow> supervised_pool \<Rightarrow> supervised_pool" where
  "notify_sessions_changed H p =
     (if h_on_sessions_changed H then emit (EvSessionsChanged (session_ids p)) p else p)"

text \<open>
  After a dial every caller registers the epoch and starts the pull worker, logging failures
  without acting on them.
\<close>

definition session_ready_and_start :: "pool_host \<Rightarrow> string \<Rightarrow> supervised_pool \<Rightarrow> supervised_pool" where
  "session_ready_and_start H sid p = snd (ensure_started H sid (snd (invoke_session_ready H sid p)))"

definition apply_fresh_attestation ::
    "pool_host \<Rightarrow> attested_connect_request \<Rightarrow> supervised_pool
     \<Rightarrow> (engine_error + attested_connect_request) \<times> supervised_pool" where
  "apply_fresh_attestation H request p =
     (case h_attestation_refresh H of None \<Rightarrow> (Inr request, p)
      | Some refresh \<Rightarrow>
          (case refresh (sp_history p) of
             Inl e \<Rightarrow> (Inl (EConnect (''attestation_refresh failed: '' @ e)), emit EvAttestRefresh p)
           | Inr fresh \<Rightarrow> (Inr (request\<lparr>acr_attestation := fresh\<rparr>), emit EvAttestRefresh p)))"

subsection \<open>Reconnect circuit\<close>

definition reconnect_delay_ms :: "supervised_pool_config \<Rightarrow> u32 \<Rightarrow> u64" where
  "reconnect_delay_ms cfg attempt =
     (let base = max (reconnect_base_ms (reconnect cfg)) 1;
          mx = max (reconnect_max_ms (reconnect cfg)) base;
          shift = min attempt 5
      in min (saturating_mul base (push_bit (unat shift) 1)) mx)"

definition circuit_delay_ms :: "pool_host \<Rightarrow> supervised_pool \<Rightarrow> u64" where
  "circuit_delay_ms H p = saturating_sub (sp_circuit_open_until_ms p) (pool_now_ms H p)"

definition record_reconnect_failure :: "pool_host \<Rightarrow> supervised_pool \<Rightarrow> supervised_pool" where
  "record_reconnect_failure H p =
     (let now = pool_now_ms H p; rc = reconnect (sp_config p);
          times = dropWhile (\<lambda>t. fail_window_ms rc < saturating_sub now t)
                    (sp_reconnect_failure_times_ms p) @ [now]
      in if fail_threshold rc \<le> word_of_nat (length times)
         then p\<lparr>sp_circuit_open_until_ms := now + circuit_ms rc, sp_reconnect_failure_times_ms := []\<rparr>
         else p\<lparr>sp_reconnect_failure_times_ms := times\<rparr>)"

definition clear_reconnect_circuit :: "supervised_pool \<Rightarrow> supervised_pool" where
  "clear_reconnect_circuit p =
     p\<lparr>sp_reconnect_failure_times_ms := [], sp_circuit_open_until_ms := 0, sp_consecutive_failures := 0\<rparr>"

definition record_failure :: "pool_host \<Rightarrow> supervised_pool \<Rightarrow> supervised_pool" where
  "record_failure H p =
     (let failures = sp_consecutive_failures p + 1
      in if fail_threshold (reconnect (sp_config p)) \<le> failures
         then p\<lparr>sp_consecutive_failures := failures,
                sp_circuit_open_until_ms := pool_now_ms H p + circuit_ms (reconnect (sp_config p))\<rparr>
         else p\<lparr>sp_consecutive_failures := failures\<rparr>)"

definition is_circuit_open :: "pool_host \<Rightarrow> supervised_pool \<Rightarrow> bool" where
  "is_circuit_open H p \<longleftrightarrow> pool_now_ms H p < sp_circuit_open_until_ms p"

subsection \<open>Reconnecting a slot\<close>

text \<open>
  \<^verbatim>\<open>schedule_reconnect\<close> up to the sleep: the timer event carries the delay. \<^verbatim>\<open>reconnect_slot\<close> is
  the body that runs when the timer fires.
\<close>

definition schedule_reconnect :: "pool_host \<Rightarrow> string \<Rightarrow> supervised_pool \<Rightarrow> supervised_pool" where
  "schedule_reconnect H sid p =
     (if sp_closed p then p
      else case find_slot sid p of None \<Rightarrow> p
        | Some slot \<Rightarrow>
            if sl_suppress_reconnect slot then p
            else if sl_reconnect_pending slot then p
            else
             (let delay = max (reconnect_delay_ms (sp_config p) (sl_reconnect_attempt slot))
                    (circuit_delay_ms H p)
              in emit (EvReconnectTimer sid delay)
                   (upd_slot sid (\<lambda>s. s\<lparr>sl_reconnect_pending := True\<rparr>) p)))"

definition retry_reconnect :: "pool_host \<Rightarrow> string \<Rightarrow> supervised_pool \<Rightarrow> supervised_pool" where
  "retry_reconnect H sid p =
     schedule_reconnect H sid (clear_reconnect_pending sid (record_reconnect_failure H p))"

definition reconnect_slot :: "pool_host \<Rightarrow> string \<Rightarrow> supervised_pool \<Rightarrow> supervised_pool" where
  "reconnect_slot H sid p =
     (if sp_closed p then p
      else case find_slot sid p of None \<Rightarrow> p
        | Some slot \<Rightarrow>
            if sl_suppress_reconnect slot then clear_reconnect_pending sid p
            else
             (let p = upd_slot sid (\<lambda>s. s\<lparr>sl_reconnect_attempt := sl_reconnect_attempt s + 1\<rparr>) p;
                  p = emit (EvTeardown sid) (stop_session sid p)
              in case sp_connect_template p of None \<Rightarrow> retry_reconnect H sid p
                 | Some template \<Rightarrow>
                    (case apply_fresh_attestation H template p of
                       (Inl e, p) \<Rightarrow> retry_reconnect H sid p
                     | (Inr request, p) \<Rightarrow>
                        (let request = request\<lparr>acr_session_id := sid\<rparr>;
                             url = sl_gateway_base_url slot;
                             ans = h_reconnect H (sp_history p) sid url request;
                             p = emit (EvReconnect sid url request) p
                         in case ans of
                              Inl e \<Rightarrow> retry_reconnect H sid p
                            | Inr result \<Rightarrow>
                               (let p = upd_slot sid (\<lambda>s. s\<lparr>sl_reconnect_attempt := 0, sl_busy := False\<rparr>) p;
                                    p = session_ready_and_start H sid p
                                in clear_reconnect_pending sid (clear_reconnect_circuit p))))))"

definition session_watch_tick :: "pool_host \<Rightarrow> supervised_pool \<Rightarrow> supervised_pool" where
  "session_watch_tick H p =
     (if sp_closed p then p
      else fold (\<lambda>sid p. if h_is_session_closed H (sp_history p) sid then schedule_reconnect H sid p else p)
             (session_ids p) p)"

subsection \<open>Dialling, boot and scale-up\<close>

definition connect_one ::
    "pool_host \<Rightarrow> attested_connect_request \<Rightarrow> supervised_pool
     \<Rightarrow> (engine_error + connect_result) \<times> supervised_pool" where
  "connect_one H request p =
     (if is_circuit_open H p then (Inl (ECircuitOpen (sp_circuit_open_until_ms p)), p)
      else case apply_fresh_attestation H request p of
        (Inl e, p) \<Rightarrow> (Inl e, p)
      | (Inr request, p) \<Rightarrow>
         (let p = p\<lparr>sp_connect_template := Some request\<rparr>;
              gateway = sp_gateway_base_url p;
              ans = h_connect H (sp_history p) request;
              p = emit (EvConnect request) p
          in case ans of
               Inr result \<Rightarrow>
                (let sid = cr_session_id result;
                     p = emit (EvConnected sid gateway) p;
                     p = p\<lparr>sp_consecutive_failures := 0\<rparr>;
                     p = push_slot (new_slot sid gateway) p;
                     p = (if \<not> sp_booting p then session_ready_and_start H sid p else p)
                 in (Inr result, notify_sessions_changed H p))
             | Inl e \<Rightarrow> (Inl (EConnect e), record_failure H p)))"

fun connect_many ::
    "pool_host \<Rightarrow> nat \<Rightarrow> attested_connect_request \<Rightarrow> supervised_pool
     \<Rightarrow> (engine_error + connect_result) list \<times> supervised_pool" where
  "connect_many H 0 request p = ([], p)"
| "connect_many H (Suc n) request p =
     (let (r, p) = connect_one H request p; (rs, p) = connect_many H n request p in (r # rs, p))"

text \<open>\<^verbatim>\<open>for result in results { result?; added += 1; }\<close>\<close>

fun collect_results :: "(engine_error + connect_result) list \<Rightarrow> engine_error + nat" where
  "collect_results [] = Inr 0"
| "collect_results (Inl e # rs) = Inl e"
| "collect_results (Inr r # rs) = map_sum id Suc (collect_results rs)"

definition boot_target :: "supervised_pool_config \<Rightarrow> u32" where
  "boot_target cfg = (if supervised cfg then initial_session_count cfg else pool_target_size cfg)"

definition boot ::
    "pool_host \<Rightarrow> attested_connect_request \<Rightarrow> supervised_pool \<Rightarrow> (engine_error + unit) \<times> supervised_pool" where
  "boot H connect_request p =
     (let req = connect_request\<lparr>acr_pool_target_size := Some (pool_target_size (sp_config p))\<rparr>;
          p = p\<lparr>sp_connect_template := Some req\<rparr>;
          (results, p) = connect_many H (unat (boot_target (sp_config p))) req (p\<lparr>sp_booting := True\<rparr>);
          p = p\<lparr>sp_booting := False\<rparr>
      in (map_sum id (\<lambda>_. ()) (collect_results results), p))"

record pool_scale_result =
  psc_added :: u32
  psc_total :: u32
  psc_target_size :: u32
  psc_blocked :: bool
  psc_reason :: "string option"

definition scale_pool :: "u32 \<Rightarrow> supervised_pool \<Rightarrow> pool_scale_result" where
  "scale_pool target_sz p =
     (let current = live_session_count p;
          plan = plan_pool_scale (pool_target_size (sp_config p)) current target_sz
      in if psp_blocked plan then
           \<lparr>psc_added = 0, psc_total = current, psc_target_size = target_sz, psc_blocked = True,
            psc_reason = psp_reason plan\<rparr>
         else
           \<lparr>psc_added = psp_to_add plan, psc_total = current + psp_to_add plan,
            psc_target_size = psp_target_size plan, psc_blocked = False, psc_reason = None\<rparr>)"

definition scale_to ::
    "pool_host \<Rightarrow> u32 \<Rightarrow> attested_connect_request \<Rightarrow> supervised_pool \<Rightarrow> (engine_error + u32) \<times> supervised_pool" where
  "scale_to H target_sz connect_request p =
     (let plan = scale_pool target_sz p
      in if psc_blocked plan
         then (Inl (EScale (case psc_reason plan of None \<Rightarrow> [] | Some r \<Rightarrow> r)), p)
         else if psc_added plan = 0 then (Inr 0, p)
         else (let (results, p) = connect_many H (unat (psc_added plan)) connect_request p
               in (map_sum id word_of_nat (collect_results results), p)))"

subsection \<open>Shutdown\<close>

text \<open>
  The disconnect futures run concurrently under a timeout and their results are only logged;
  each has been started by the time the timeout is armed.
\<close>

definition close_all :: "pool_host \<Rightarrow> supervised_pool \<Rightarrow> supervised_pool" where
  "close_all H p =
     (let p = p\<lparr>sp_closed := True\<rparr>;
          ids = session_ids p;
          p = fold (\<lambda>sid p. stop_session sid (suppress_reconnect sid p)) ids p;
          p = fold (\<lambda>sid. emit (EvShutdownDisconnect sid)) ids p;
          p = emit EvForceCloseAll p;
          p = stop_all p;
          p = p\<lparr>sp_slots := []\<rparr>
      in notify_sessions_changed H p)"

subsection \<open>Frame lemmas\<close>

text \<open>What each primitive leaves alone; every rule is a simplification rule.\<close>

lemma emit_fields [simp]:
  "sp_config (emit e p) = sp_config p" "sp_gateway_base_url (emit e p) = sp_gateway_base_url p"
  "sp_connect_template (emit e p) = sp_connect_template p" "sp_workers (emit e p) = sp_workers p"
  "sp_closed (emit e p) = sp_closed p" "sp_booting (emit e p) = sp_booting p"
  "sp_slots (emit e p) = sp_slots p"
  "sp_consecutive_failures (emit e p) = sp_consecutive_failures p"
  "sp_circuit_open_until_ms (emit e p) = sp_circuit_open_until_ms p"
  "sp_reconnect_failure_times_ms (emit e p) = sp_reconnect_failure_times_ms p"
  "sp_migration_hold (emit e p) = sp_migration_hold p"
  "sp_history (emit e p) = sp_history p @ [e]"
  by (simp_all add: emit_def)

lemma upd_slot_fields [simp]:
  "sp_config (upd_slot sid f p) = sp_config p"
  "sp_gateway_base_url (upd_slot sid f p) = sp_gateway_base_url p"
  "sp_connect_template (upd_slot sid f p) = sp_connect_template p"
  "sp_workers (upd_slot sid f p) = sp_workers p" "sp_closed (upd_slot sid f p) = sp_closed p"
  "sp_booting (upd_slot sid f p) = sp_booting p"
  "sp_consecutive_failures (upd_slot sid f p) = sp_consecutive_failures p"
  "sp_circuit_open_until_ms (upd_slot sid f p) = sp_circuit_open_until_ms p"
  "sp_reconnect_failure_times_ms (upd_slot sid f p) = sp_reconnect_failure_times_ms p"
  "sp_migration_hold (upd_slot sid f p) = sp_migration_hold p"
  "sp_history (upd_slot sid f p) = sp_history p"
  "sp_slots (upd_slot sid f p) = update_first (\<lambda>s. sl_session_id s = sid) f (sp_slots p)"
  by (simp_all add: upd_slot_def)

lemma push_slot_fields [simp]:
  "sp_config (push_slot s p) = sp_config p"
  "sp_gateway_base_url (push_slot s p) = sp_gateway_base_url p"
  "sp_connect_template (push_slot s p) = sp_connect_template p"
  "sp_workers (push_slot s p) = sp_workers p" "sp_closed (push_slot s p) = sp_closed p"
  "sp_booting (push_slot s p) = sp_booting p"
  "sp_consecutive_failures (push_slot s p) = sp_consecutive_failures p"
  "sp_circuit_open_until_ms (push_slot s p) = sp_circuit_open_until_ms p"
  "sp_reconnect_failure_times_ms (push_slot s p) = sp_reconnect_failure_times_ms p"
  "sp_migration_hold (push_slot s p) = sp_migration_hold p"
  "sp_history (push_slot s p) = sp_history p" "sp_slots (push_slot s p) = sp_slots p @ [s]"
  by (simp_all add: push_slot_def)

lemma stop_session_fields [simp]:
  "sp_config (stop_session sid p) = sp_config p"
  "sp_gateway_base_url (stop_session sid p) = sp_gateway_base_url p"
  "sp_connect_template (stop_session sid p) = sp_connect_template p"
  "sp_closed (stop_session sid p) = sp_closed p" "sp_booting (stop_session sid p) = sp_booting p"
  "sp_slots (stop_session sid p) = sp_slots p"
  "sp_consecutive_failures (stop_session sid p) = sp_consecutive_failures p"
  "sp_circuit_open_until_ms (stop_session sid p) = sp_circuit_open_until_ms p"
  "sp_reconnect_failure_times_ms (stop_session sid p) = sp_reconnect_failure_times_ms p"
  "sp_migration_hold (stop_session sid p) = sp_migration_hold p"
  "sp_workers (stop_session sid p) = sp_workers p - {sid}"
  "sp_history (stop_session sid p) = sp_history p @ (if sid \<in> sp_workers p then [EvWorkerStop sid] else [])"
  by (auto simp: stop_session_def)

lemma remove_slot_fields [simp]:
  "sp_config (snd (remove_slot sid p)) = sp_config p"
  "sp_gateway_base_url (snd (remove_slot sid p)) = sp_gateway_base_url p"
  "sp_connect_template (snd (remove_slot sid p)) = sp_connect_template p"
  "sp_workers (snd (remove_slot sid p)) = sp_workers p"
  "sp_closed (snd (remove_slot sid p)) = sp_closed p"
  "sp_booting (snd (remove_slot sid p)) = sp_booting p"
  "sp_consecutive_failures (snd (remove_slot sid p)) = sp_consecutive_failures p"
  "sp_circuit_open_until_ms (snd (remove_slot sid p)) = sp_circuit_open_until_ms p"
  "sp_reconnect_failure_times_ms (snd (remove_slot sid p)) = sp_reconnect_failure_times_ms p"
  "sp_migration_hold (snd (remove_slot sid p)) = sp_migration_hold p"
  "sp_history (snd (remove_slot sid p)) = sp_history p"
  by (simp_all add: remove_slot_def split: option.split)

lemma notify_fields [simp]:
  "sp_config (notify_sessions_changed H p) = sp_config p"
  "sp_gateway_base_url (notify_sessions_changed H p) = sp_gateway_base_url p"
  "sp_connect_template (notify_sessions_changed H p) = sp_connect_template p"
  "sp_workers (notify_sessions_changed H p) = sp_workers p"
  "sp_closed (notify_sessions_changed H p) = sp_closed p"
  "sp_booting (notify_sessions_changed H p) = sp_booting p"
  "sp_slots (notify_sessions_changed H p) = sp_slots p"
  "sp_consecutive_failures (notify_sessions_changed H p) = sp_consecutive_failures p"
  "sp_circuit_open_until_ms (notify_sessions_changed H p) = sp_circuit_open_until_ms p"
  "sp_reconnect_failure_times_ms (notify_sessions_changed H p) = sp_reconnect_failure_times_ms p"
  "sp_migration_hold (notify_sessions_changed H p) = sp_migration_hold p"
  by (simp_all add: notify_sessions_changed_def)

lemma record_failure_fields [simp]:
  "sp_config (record_failure H p) = sp_config p"
  "sp_gateway_base_url (record_failure H p) = sp_gateway_base_url p"
  "sp_connect_template (record_failure H p) = sp_connect_template p"
  "sp_workers (record_failure H p) = sp_workers p" "sp_closed (record_failure H p) = sp_closed p"
  "sp_booting (record_failure H p) = sp_booting p" "sp_slots (record_failure H p) = sp_slots p"
  "sp_reconnect_failure_times_ms (record_failure H p) = sp_reconnect_failure_times_ms p"
  "sp_migration_hold (record_failure H p) = sp_migration_hold p"
  "sp_history (record_failure H p) = sp_history p"
  by (simp_all add: record_failure_def Let_def)

lemma record_reconnect_failure_fields [simp]:
  "sp_config (record_reconnect_failure H p) = sp_config p"
  "sp_gateway_base_url (record_reconnect_failure H p) = sp_gateway_base_url p"
  "sp_connect_template (record_reconnect_failure H p) = sp_connect_template p"
  "sp_workers (record_reconnect_failure H p) = sp_workers p"
  "sp_closed (record_reconnect_failure H p) = sp_closed p"
  "sp_booting (record_reconnect_failure H p) = sp_booting p"
  "sp_slots (record_reconnect_failure H p) = sp_slots p"
  "sp_consecutive_failures (record_reconnect_failure H p) = sp_consecutive_failures p"
  "sp_migration_hold (record_reconnect_failure H p) = sp_migration_hold p"
  "sp_history (record_reconnect_failure H p) = sp_history p"
  by (simp_all add: record_reconnect_failure_def Let_def)

lemma clear_circuit_fields [simp]:
  "sp_config (clear_reconnect_circuit p) = sp_config p"
  "sp_gateway_base_url (clear_reconnect_circuit p) = sp_gateway_base_url p"
  "sp_connect_template (clear_reconnect_circuit p) = sp_connect_template p"
  "sp_workers (clear_reconnect_circuit p) = sp_workers p"
  "sp_closed (clear_reconnect_circuit p) = sp_closed p"
  "sp_booting (clear_reconnect_circuit p) = sp_booting p"
  "sp_slots (clear_reconnect_circuit p) = sp_slots p"
  "sp_migration_hold (clear_reconnect_circuit p) = sp_migration_hold p"
  "sp_history (clear_reconnect_circuit p) = sp_history p"
  "sp_circuit_open_until_ms (clear_reconnect_circuit p) = 0"
  "sp_reconnect_failure_times_ms (clear_reconnect_circuit p) = []"
  "sp_consecutive_failures (clear_reconnect_circuit p) = 0"
  by (simp_all add: clear_reconnect_circuit_def)

lemma ensure_started_fields [simp]:
  "sp_config (snd (ensure_started H sid p)) = sp_config p"
  "sp_gateway_base_url (snd (ensure_started H sid p)) = sp_gateway_base_url p"
  "sp_connect_template (snd (ensure_started H sid p)) = sp_connect_template p"
  "sp_closed (snd (ensure_started H sid p)) = sp_closed p"
  "sp_booting (snd (ensure_started H sid p)) = sp_booting p"
  "sp_slots (snd (ensure_started H sid p)) = sp_slots p"
  "sp_consecutive_failures (snd (ensure_started H sid p)) = sp_consecutive_failures p"
  "sp_circuit_open_until_ms (snd (ensure_started H sid p)) = sp_circuit_open_until_ms p"
  "sp_reconnect_failure_times_ms (snd (ensure_started H sid p)) = sp_reconnect_failure_times_ms p"
  "sp_migration_hold (snd (ensure_started H sid p)) = sp_migration_hold p"
  by (auto simp: ensure_started_def split: option.split sum.split)

lemma invoke_ready_fields [simp]:
  "sp_config (snd (invoke_session_ready H sid p)) = sp_config p"
  "sp_gateway_base_url (snd (invoke_session_ready H sid p)) = sp_gateway_base_url p"
  "sp_connect_template (snd (invoke_session_ready H sid p)) = sp_connect_template p"
  "sp_workers (snd (invoke_session_ready H sid p)) = sp_workers p"
  "sp_closed (snd (invoke_session_ready H sid p)) = sp_closed p"
  "sp_booting (snd (invoke_session_ready H sid p)) = sp_booting p"
  "sp_slots (snd (invoke_session_ready H sid p)) = sp_slots p"
  "sp_consecutive_failures (snd (invoke_session_ready H sid p)) = sp_consecutive_failures p"
  "sp_circuit_open_until_ms (snd (invoke_session_ready H sid p)) = sp_circuit_open_until_ms p"
  "sp_reconnect_failure_times_ms (snd (invoke_session_ready H sid p)) = sp_reconnect_failure_times_ms p"
  "sp_migration_hold (snd (invoke_session_ready H sid p)) = sp_migration_hold p"
  by (auto simp: invoke_session_ready_def split: option.split)

lemma ready_start_fields [simp]:
  "sp_config (session_ready_and_start H sid p) = sp_config p"
  "sp_gateway_base_url (session_ready_and_start H sid p) = sp_gateway_base_url p"
  "sp_connect_template (session_ready_and_start H sid p) = sp_connect_template p"
  "sp_closed (session_ready_and_start H sid p) = sp_closed p"
  "sp_booting (session_ready_and_start H sid p) = sp_booting p"
  "sp_slots (session_ready_and_start H sid p) = sp_slots p"
  "sp_consecutive_failures (session_ready_and_start H sid p) = sp_consecutive_failures p"
  "sp_circuit_open_until_ms (session_ready_and_start H sid p) = sp_circuit_open_until_ms p"
  "sp_reconnect_failure_times_ms (session_ready_and_start H sid p) = sp_reconnect_failure_times_ms p"
  "sp_migration_hold (session_ready_and_start H sid p) = sp_migration_hold p"
  by (simp_all add: session_ready_and_start_def)

lemma fresh_attestation_fields [simp]:
  "sp_config (snd (apply_fresh_attestation H r p)) = sp_config p"
  "sp_gateway_base_url (snd (apply_fresh_attestation H r p)) = sp_gateway_base_url p"
  "sp_connect_template (snd (apply_fresh_attestation H r p)) = sp_connect_template p"
  "sp_workers (snd (apply_fresh_attestation H r p)) = sp_workers p"
  "sp_closed (snd (apply_fresh_attestation H r p)) = sp_closed p"
  "sp_booting (snd (apply_fresh_attestation H r p)) = sp_booting p"
  "sp_slots (snd (apply_fresh_attestation H r p)) = sp_slots p"
  "sp_consecutive_failures (snd (apply_fresh_attestation H r p)) = sp_consecutive_failures p"
  "sp_circuit_open_until_ms (snd (apply_fresh_attestation H r p)) = sp_circuit_open_until_ms p"
  "sp_reconnect_failure_times_ms (snd (apply_fresh_attestation H r p)) = sp_reconnect_failure_times_ms p"
  "sp_migration_hold (snd (apply_fresh_attestation H r p)) = sp_migration_hold p"
  by (auto simp: apply_fresh_attestation_def split: option.split sum.split)


text \<open>Operations on one slot that keep its identity and address.\<close>

lemma session_ids_fields [simp]:
  "session_ids (emit e p) = session_ids p"
  "session_ids (stop_session sid p) = session_ids p"
  "session_ids (push_slot s p) = session_ids p @ [sl_session_id s]"
  "session_ids (notify_sessions_changed H p) = session_ids p"
  "session_ids (session_ready_and_start H sid p) = session_ids p"
  "session_ids (snd (apply_fresh_attestation H r p)) = session_ids p"
  "session_ids (record_failure H p) = session_ids p"
  "session_ids (record_reconnect_failure H p) = session_ids p"
  "session_ids (clear_reconnect_circuit p) = session_ids p"
  by (simp_all add: session_ids_def)

lemma session_ids_upd_slot:
  "(\<And>s. sl_session_id (f s) = sl_session_id s) \<Longrightarrow> session_ids (upd_slot sid f p) = session_ids p"
  by (simp add: session_ids_def map_update_first)

lemma session_ids_slot_flags [simp]:
  "session_ids (suppress_reconnect sid p) = session_ids p"
  "session_ids (clear_reconnect_pending sid p) = session_ids p"
  "session_ids (set_session_busy sid b p) = session_ids p"
  by (simp_all add: suppress_reconnect_def clear_reconnect_pending_def set_session_busy_def session_ids_upd_slot)

lemma new_slot_fields [simp]:
  "sl_session_id (new_slot sid url) = sid" "sl_gateway_base_url (new_slot sid url) = url"
  "\<not> sl_busy (new_slot sid url)" "\<not> sl_reconnect_pending (new_slot sid url)"
  "\<not> sl_suppress_reconnect (new_slot sid url)" "sl_reconnect_attempt (new_slot sid url) = 0"
  by (simp_all add: new_slot_def)

lemma find_slot_iff: "find_slot sid p \<noteq> None \<longleftrightarrow> sid \<in> set (session_ids p)"
  by (auto simp: find_slot_def session_ids_def find_None_iff)

lemma ensure_started_workers:
  "sp_workers (snd (ensure_started H sid p)) \<subseteq> insert sid (sp_workers p)"
  by (auto simp: ensure_started_def split: option.split sum.split)

lemma ready_start_workers: "sp_workers (session_ready_and_start H sid p) \<subseteq> insert sid (sp_workers p)"
  using ensure_started_workers [of H sid "snd (invoke_session_ready H sid p)"]
  by (simp add: session_ready_and_start_def)

text \<open>Session ids the connector handed out so far.\<close>

definition dialled :: "pool_event list \<Rightarrow> string list" where
  "dialled h = concat (map (\<lambda>e. case e of EvConnected sid url \<Rightarrow> [sid] | _ \<Rightarrow> []) h)"

lemma dialled_simps [simp]:
  "dialled [] = []"
  "dialled (e # h) = (case e of EvConnected sid url \<Rightarrow> [sid] | _ \<Rightarrow> []) @ dialled h"
  by (simp_all add: dialled_def)

lemma dialled_append [simp]: "dialled (h @ k) = dialled h @ dialled k"
  by (simp add: dialled_def)

lemma ready_start_dialled [simp]:
  "dialled (sp_history (session_ready_and_start H sid p)) = dialled (sp_history p)"
  by (simp add: session_ready_and_start_def ensure_started_def invoke_session_ready_def
      split: option.split sum.split)

end
