(* ===== verification/Pool_Properties.thy ===== *)
theory Pool_Properties
  imports Pool_Core
begin

section \<open>The supervised pool: invariant, circuit, reconnect, boot and shutdown\<close>

text \<open>
  The invariant \<open>pool_wf\<close> of the pool (distinct session ids, each handed out by the connector,
  pull workers only for live slots, no empty migration hold, fewer remembered failures than the
  threshold) and that every operation of \<^verbatim>\<open>Pool_Core\<close> keeps it; the outcome of boot, scale-up,
  the dial circuit, the reconnect circuit, a reconnect attempt and shutdown. The rules of
  \<open>wf_pool\<close> carry the invariant through composed operations.
\<close>

subsection \<open>Well-formed pools\<close>

definition hold_wf :: "migration_hold option \<Rightarrow> bool" where
  "hold_wf h \<longleftrightarrow> (case h of None \<Rightarrow> True | Some m \<Rightarrow> mh_pending_source m \<noteq> [])"

definition pool_wf :: "supervised_pool \<Rightarrow> bool" where
  "pool_wf p \<longleftrightarrow> distinct (session_ids p)
     \<and> set (session_ids p) \<subseteq> set (dialled (sp_history p))
     \<and> sp_workers p \<subseteq> set (session_ids p)
     \<and> hold_wf (sp_migration_hold p)
     \<and> length (sp_reconnect_failure_times_ms p) < max 1 (unat (fail_threshold (reconnect (sp_config p))))"

definition fresh_host :: "pool_host \<Rightarrow> bool" where
  "fresh_host H \<longleftrightarrow>
     (\<forall>h req r. h_connect H h req = Inr r \<longrightarrow> cr_session_id r \<notin> set (dialled h))
     \<and> (\<forall>h url req r. h_connect_to H h url req = Inr r \<longrightarrow> cr_session_id r \<notin> set (dialled h))"

named_theorems wf_pool \<open>introduction rules for well-formed pools\<close>

lemma pool_wf_fields [simp]:
  "pool_wf (p\<lparr>sp_gateway_base_url := u\<rparr>) = pool_wf p"
  "pool_wf (p\<lparr>sp_connect_template := t\<rparr>) = pool_wf p"
  "pool_wf (p\<lparr>sp_booting := b\<rparr>) = pool_wf p"
  "pool_wf (p\<lparr>sp_closed := b\<rparr>) = pool_wf p"
  "pool_wf (p\<lparr>sp_consecutive_failures := n\<rparr>) = pool_wf p"
  by (simp_all add: pool_wf_def session_ids_def)

lemma wf_emit [wf_pool]: "pool_wf p \<Longrightarrow> pool_wf (emit e p)"
  by (auto simp: pool_wf_def)

lemma wf_notify [wf_pool]: "pool_wf p \<Longrightarrow> pool_wf (notify_sessions_changed H p)"
  by (simp add: notify_sessions_changed_def wf_emit)

lemma wf_upd_slot: "(\<And>s. sl_session_id (f s) = sl_session_id s) \<Longrightarrow> pool_wf (upd_slot sid f p) = pool_wf p"
  by (simp add: pool_wf_def session_ids_upd_slot)

lemma wf_slot_flags [wf_pool]:
  "pool_wf p \<Longrightarrow> pool_wf (suppress_reconnect sid p)"
  "pool_wf p \<Longrightarrow> pool_wf (clear_reconnect_pending sid p)"
  "pool_wf p \<Longrightarrow> pool_wf (set_session_busy sid b p)"
  by (simp_all add: suppress_reconnect_def clear_reconnect_pending_def set_session_busy_def wf_upd_slot)

lemma wf_stop [wf_pool]: "pool_wf p \<Longrightarrow> pool_wf (stop_session sid p)"
  by (auto simp: pool_wf_def)

lemma wf_ready_start [wf_pool]:
  "pool_wf p \<Longrightarrow> sid \<in> set (session_ids p) \<Longrightarrow> pool_wf (session_ready_and_start H sid p)"
  using ready_start_workers [of H sid p] by (auto simp: pool_wf_def)

lemma wf_connected_push [wf_pool]:
  "pool_wf p \<Longrightarrow> sid \<notin> set (dialled (sp_history p))
   \<Longrightarrow> pool_wf (push_slot (new_slot sid url) (emit (EvConnected sid url') p))"
  by (auto simp: pool_wf_def)

lemma session_ids_remove:
  "sid \<in> set (session_ids p) \<Longrightarrow> \<exists>as bs. session_ids p = as @ sid # bs \<and> sid \<notin> set as
     \<and> session_ids (snd (remove_slot sid p)) = as @ bs"
proof -
  assume "sid \<in> set (session_ids p)"
  then have "position (\<lambda>s. sl_session_id s = sid) (sp_slots p) \<noteq> None"
    by (auto simp: session_ids_def position_None)
  then obtain i where i: "position (\<lambda>s. sl_session_id s = sid) (sp_slots p) = Some i" by blast
  then obtain as b bs where "sp_slots p = as @ b # bs" "sl_session_id b = sid"
    "\<forall>y\<in>set as. sl_session_id y \<noteq> sid" "remove_at i (sp_slots p) = as @ bs"
    using remove_at_position by blast
  then have "session_ids p = map sl_session_id as @ sid # map sl_session_id bs \<and> sid \<notin> set (map sl_session_id as)
     \<and> session_ids (snd (remove_slot sid p)) = map sl_session_id as @ map sl_session_id bs"
    using i by (auto simp: session_ids_def remove_slot_def)
  then show ?thesis by blast
qed

lemma remove_slot_absent:
  "sid \<notin> set (session_ids p) \<Longrightarrow> remove_slot sid p = (False, p)"
proof -
  assume "sid \<notin> set (session_ids p)"
  then have "position (\<lambda>s. sl_session_id s = sid) (sp_slots p) = None"
    by (auto simp: session_ids_def position_None)
  then show ?thesis by (simp add: remove_slot_def)
qed

lemma remove_slot_fst: "fst (remove_slot sid p) \<longleftrightarrow> sid \<in> set (session_ids p)"
proof (cases "sid \<in> set (session_ids p)")
  case True
  then have "position (\<lambda>s. sl_session_id s = sid) (sp_slots p) \<noteq> None"
    by (auto simp: session_ids_def position_None)
  with True show ?thesis by (auto simp: remove_slot_def)
qed (simp add: remove_slot_absent)

lemma session_ids_remove_filter:
  "distinct (session_ids p) \<Longrightarrow>
   session_ids (snd (remove_slot sid p)) = filter (\<lambda>i. i \<noteq> sid) (session_ids p)"
proof (cases "sid \<in> set (session_ids p)")
  case True
  assume dist: "distinct (session_ids p)"
  obtain as bs where ids: "session_ids p = as @ sid # bs"
    and rem: "session_ids (snd (remove_slot sid p)) = as @ bs"
    using session_ids_remove [OF True] by blast
  have "filter (\<lambda>i. i \<noteq> sid) as = as" "filter (\<lambda>i. i \<noteq> sid) bs = bs"
    using dist by (auto simp: ids filter_id_conv)
  then show ?thesis by (simp add: ids rem)
next
  case False
  then have "filter (\<lambda>i. i \<noteq> sid) (session_ids p) = session_ids p"
    by (auto simp: filter_id_conv)
  with False show ?thesis by (simp add: remove_slot_absent)
qed

lemma wf_remove [wf_pool]:
  "pool_wf p \<Longrightarrow> sid \<notin> sp_workers p \<Longrightarrow> pool_wf (snd (remove_slot sid p))"
  by (auto simp: pool_wf_def session_ids_remove_filter)

lemma wf_clear_circuit [wf_pool]: "pool_wf p \<Longrightarrow> pool_wf (clear_reconnect_circuit p)"
  by (auto simp: pool_wf_def)

lemma wf_fresh_attestation [wf_pool]: "pool_wf p \<Longrightarrow> pool_wf (snd (apply_fresh_attestation H r p))"
  by (auto simp: apply_fresh_attestation_def wf_emit split: option.split sum.split)

lemma wf_record_failure [wf_pool]: "pool_wf p \<Longrightarrow> pool_wf (record_failure H p)"
  by (auto simp: pool_wf_def)

lemma wf_record_reconnect_failure [wf_pool]: "pool_wf p \<Longrightarrow> pool_wf (record_reconnect_failure H p)"
proof -
  assume wf: "pool_wf p"
  let ?rc = "reconnect (sp_config p)"
  let ?ts = "dropWhile (\<lambda>t. fail_window_ms ?rc < saturating_sub (pool_now_ms H p) t)
               (sp_reconnect_failure_times_ms p)"
  have "length ?ts \<le> length (sp_reconnect_failure_times_ms p)"
    by (rule length_dropWhile_le)
  also have "\<dots> < max 1 (unat (fail_threshold ?rc))" using wf by (simp add: pool_wf_def)
  finally have le: "Suc (length ?ts) \<le> max 1 (unat (fail_threshold ?rc))" by simp
  have "\<not> fail_threshold ?rc \<le> word_of_nat (length (?ts @ [pool_now_ms H p]))
     \<Longrightarrow> length (?ts @ [pool_now_ms H p]) < max 1 (unat (fail_threshold ?rc))"
  proof -
    assume "\<not> fail_threshold ?rc \<le> word_of_nat (length (?ts @ [pool_now_ms H p]))"
    then have lt: "unat (word_of_nat (Suc (length ?ts)) :: u32) < unat (fail_threshold ?rc)"
      by (simp add: word_le_nat_alt not_le)
    have "Suc (length ?ts) < 2 ^ LENGTH(32)"
      using le unat_lt_size [of "fail_threshold ?rc"] by simp
    then have "unat (word_of_nat (Suc (length ?ts)) :: u32) = Suc (length ?ts)"
      by (rule unat_of_nat_small)
    with lt show ?thesis by simp
  qed
  with wf show ?thesis
    by (auto simp: pool_wf_def record_reconnect_failure_def Let_def session_ids_def)
qed

lemma wf_schedule_reconnect [wf_pool]: "pool_wf p \<Longrightarrow> pool_wf (schedule_reconnect H sid p)"
  by (auto simp: schedule_reconnect_def Let_def wf_upd_slot intro!: wf_emit split: option.split)

lemma wf_retry_reconnect [wf_pool]: "pool_wf p \<Longrightarrow> pool_wf (retry_reconnect H sid p)"
  unfolding retry_reconnect_def by (intro wf_pool)

lemma session_ids_schedule_reconnect [simp]: "session_ids (schedule_reconnect H sid p) = session_ids p"
  by (simp add: schedule_reconnect_def Let_def session_ids_upd_slot split: option.split)

lemma session_ids_retry_reconnect [simp]: "session_ids (retry_reconnect H sid p) = session_ids p"
  by (simp add: retry_reconnect_def)

lemma wf_reconnect_slot [wf_pool]: "pool_wf p \<Longrightarrow> pool_wf (reconnect_slot H sid p)"
proof (cases "find_slot sid p")
  case None
  assume "pool_wf p" with None show ?thesis by (simp add: reconnect_slot_def)
next
  case (Some slot)
  then have mem: "sid \<in> set (session_ids p)" using find_slot_iff [of sid p] by simp
  let ?p1 = "emit (EvTeardown sid) (stop_session sid
     (upd_slot sid (\<lambda>s. s\<lparr>sl_reconnect_attempt := sl_reconnect_attempt s + 1\<rparr>) p))"
  assume wf: "pool_wf p"
  then have wf1: "pool_wf ?p1" by (intro wf_pool) (simp add: wf_upd_slot)
  have mem1: "sid \<in> set (session_ids ?p1)" using mem by (simp add: session_ids_upd_slot)
  show ?thesis
  proof (cases "sp_connect_template p")
    case None
    with Some wf wf1 show ?thesis by (auto simp: reconnect_slot_def Let_def intro: wf_pool)
  next
    case (Some template)
    obtain r p2 where fa: "apply_fresh_attestation H template ?p1 = (r, p2)" by fastforce
    then have wf2: "pool_wf p2" and mem2: "sid \<in> set (session_ids p2)"
      using wf_fresh_attestation [OF wf1, of H template] mem1
        session_ids_fields(6) [of H template ?p1] by auto
    have fin: "pool_wf (clear_reconnect_pending sid (clear_reconnect_circuit (session_ready_and_start H sid
       (upd_slot sid (\<lambda>s. s\<lparr>sl_reconnect_attempt := 0, sl_busy := False\<rparr>) (emit e p2)))))" for e
      using wf2 mem2 by (intro wf_pool) (simp_all add: wf_upd_slot wf_emit session_ids_upd_slot)
    show ?thesis
      using \<open>find_slot sid p = Some slot\<close> Some fa wf wf2 fin
      by (auto simp: reconnect_slot_def Let_def intro!: wf_pool split: sum.split)
  qed
qed

lemma wf_session_watch_tick [wf_pool]: "pool_wf p \<Longrightarrow> pool_wf (session_watch_tick H p)"
proof -
  have "pool_wf p \<Longrightarrow> pool_wf (fold (\<lambda>sid p. if h_is_session_closed H (sp_history p) sid
      then schedule_reconnect H sid p else p) ids p)" for ids
    by (induction ids arbitrary: p) (auto intro: wf_pool)
  then show "pool_wf p \<Longrightarrow> pool_wf (session_watch_tick H p)" by (simp add: session_watch_tick_def)
qed

subsection \<open>Dialling\<close>

lemma fresh_connect: "fresh_host H \<Longrightarrow> h_connect H h req = Inr r \<Longrightarrow> cr_session_id r \<notin> set (dialled h)"
  by (simp add: fresh_host_def)

lemma fresh_attestation_dialled [simp]:
  "dialled (sp_history (snd (apply_fresh_attestation H r p))) = dialled (sp_history p)"
  by (simp add: apply_fresh_attestation_def split: option.split sum.split)

text \<open>The two results of a dial: a new slot at the end, or the slots unchanged.\<close>

definition same_pool_shape :: "supervised_pool \<Rightarrow> supervised_pool \<Rightarrow> bool" where
  "same_pool_shape p p' \<longleftrightarrow> sp_slots p' = sp_slots p \<and> sp_workers p' = sp_workers p
     \<and> sp_config p' = sp_config p \<and> sp_gateway_base_url p' = sp_gateway_base_url p
     \<and> sp_booting p' = sp_booting p \<and> sp_closed p' = sp_closed p
     \<and> sp_migration_hold p' = sp_migration_hold p"

text \<open>The four ways a dial ends, with the final pool spelled out.\<close>

definition dialled_pool :: "attested_connect_request \<Rightarrow> supervised_pool \<Rightarrow> supervised_pool" where
  "dialled_pool rq q = emit (EvConnect rq) (q\<lparr>sp_connect_template := Some rq\<rparr>)"

definition connected_pool :: "string \<Rightarrow> supervised_pool \<Rightarrow> supervised_pool" where
  "connected_pool sid q = push_slot (new_slot sid (sp_gateway_base_url q))
     ((emit (EvConnected sid (sp_gateway_base_url q)) q)\<lparr>sp_consecutive_failures := 0\<rparr>)"

lemma connect_one_cases:
  assumes "connect_one H req p = (r, p')"
  obtains (Open) "is_circuit_open H p" "r = Inl (ECircuitOpen (sp_circuit_open_until_ms p))" "p' = p"
  | (Attest) e where "\<not> is_circuit_open H p" "r = Inl e" "apply_fresh_attestation H req p = (Inl e, p')"
  | (Fail) e rq q where "\<not> is_circuit_open H p" "apply_fresh_attestation H req p = (Inr rq, q)"
      "h_connect H (sp_history q) rq = Inl e" "r = Inl (EConnect e)" "p' = record_failure H (dialled_pool rq q)"
  | (Ok) c rq q where "\<not> is_circuit_open H p" "apply_fresh_attestation H req p = (Inr rq, q)"
      "h_connect H (sp_history q) rq = Inr c" "r = Inr c"
      "p' = notify_sessions_changed H
         (let n = connected_pool (cr_session_id c) (dialled_pool rq q)
          in if \<not> sp_booting p then session_ready_and_start H (cr_session_id c) n else n)"
proof (cases "is_circuit_open H p")
  case True
  with assms show thesis by (intro Open) (auto simp: connect_one_def)
next
  case False
  obtain a q where fa: "apply_fresh_attestation H req p = (a, q)" by fastforce
  then have q: "sp_booting q = sp_booting p" using fresh_attestation_fields(6) [of H req p] by simp
  show thesis
  proof (cases a)
    case (Inl e)
    with assms False fa show thesis by (intro Attest) (auto simp: connect_one_def)
  next
    case (Inr rq)
    show thesis
    proof (cases "h_connect H (sp_history q) rq")
      case (Inl e)
      with assms False fa Inr show thesis
        by (intro Fail [of rq q e]) (auto simp: connect_one_def Let_def dialled_pool_def)
    next
      case ok: (Inr c)
      with assms False fa Inr q show thesis
        by (intro Ok [of rq q c]) (auto simp: connect_one_def Let_def dialled_pool_def connected_pool_def)
    qed
  qed
qed

lemma dialled_pool_fields [simp]:
  "sp_slots (dialled_pool rq q) = sp_slots q" "sp_workers (dialled_pool rq q) = sp_workers q"
  "sp_config (dialled_pool rq q) = sp_config q" "sp_gateway_base_url (dialled_pool rq q) = sp_gateway_base_url q"
  "sp_booting (dialled_pool rq q) = sp_booting q" "sp_closed (dialled_pool rq q) = sp_closed q"
  "sp_migration_hold (dialled_pool rq q) = sp_migration_hold q"
  "sp_consecutive_failures (dialled_pool rq q) = sp_consecutive_failures q"
  "sp_circuit_open_until_ms (dialled_pool rq q) = sp_circuit_open_until_ms q"
  "sp_history (dialled_pool rq q) = sp_history q @ [EvConnect rq]"
  by (simp_all add: dialled_pool_def)

lemma connected_pool_fields [simp]:
  "sp_slots (connected_pool sid q) = sp_slots q @ [new_slot sid (sp_gateway_base_url q)]"
  "sp_workers (connected_pool sid q) = sp_workers q"
  "sp_config (connected_pool sid q) = sp_config q"
  "sp_gateway_base_url (connected_pool sid q) = sp_gateway_base_url q"
  "sp_booting (connected_pool sid q) = sp_booting q" "sp_closed (connected_pool sid q) = sp_closed q"
  "sp_migration_hold (connected_pool sid q) = sp_migration_hold q"
  by (simp_all add: connected_pool_def)

lemma wf_connected_pool:
  "pool_wf q \<Longrightarrow> sid \<notin> set (dialled (sp_history q)) \<Longrightarrow> pool_wf (connected_pool sid q)"
  by (auto simp: connected_pool_def pool_wf_def session_ids_def)

lemma fresh_attestation_fieldsD:
  assumes "apply_fresh_attestation H req p = (a, q)"
  shows "same_pool_shape p q \<and> dialled (sp_history q) = dialled (sp_history p)
     \<and> sp_connect_template q = sp_connect_template p
     \<and> sp_circuit_open_until_ms q = sp_circuit_open_until_ms p
     \<and> sp_consecutive_failures q = sp_consecutive_failures p
     \<and> sp_reconnect_failure_times_ms q = sp_reconnect_failure_times_ms p"
proof -
  have "q = snd (apply_fresh_attestation H req p)" using assms by simp
  then show ?thesis by (simp add: same_pool_shape_def)
qed

lemma connect_one_slots:
  assumes "connect_one H req p = (r, p')"
  shows "(case r of Inl e \<Rightarrow> same_pool_shape p p'
     | Inr c \<Rightarrow> sp_slots p' = sp_slots p @ [new_slot (cr_session_id c) (sp_gateway_base_url p)])
     \<and> sp_config p' = sp_config p \<and> sp_gateway_base_url p' = sp_gateway_base_url p
     \<and> sp_booting p' = sp_booting p \<and> sp_closed p' = sp_closed p"
  using assms
proof (cases rule: connect_one_cases)
  case Attest
  then show ?thesis using fresh_attestation_fieldsD by (fastforce simp: same_pool_shape_def)
next
  case (Fail e rq q)
  with fresh_attestation_fieldsD [OF Fail(2)] show ?thesis by (simp add: same_pool_shape_def)
next
  case (Ok c rq q)
  with fresh_attestation_fieldsD [OF Ok(2)] show ?thesis by (simp add: same_pool_shape_def Let_def)
qed (simp add: same_pool_shape_def)

lemma wf_connect_one:
  assumes "fresh_host H" "pool_wf p" "connect_one H req p = (r, p')"
  shows "pool_wf p'"
  using assms(3)
proof (cases rule: connect_one_cases)
  case Attest
  then show ?thesis using wf_fresh_attestation [OF assms(2), of H req] by simp
next
  case (Fail e rq q)
  then have "pool_wf q" using wf_fresh_attestation [OF assms(2), of H req] by simp
  with Fail show ?thesis by (simp add: dialled_pool_def wf_pool)
next
  case (Ok c rq q)
  then have "pool_wf (dialled_pool rq q)"
    using wf_fresh_attestation [OF assms(2), of H req] by (simp add: dialled_pool_def wf_pool)
  then have "pool_wf (connected_pool (cr_session_id c) (dialled_pool rq q))"
    using fresh_connect [OF assms(1) Ok(3)] by (intro wf_connected_pool) simp_all
  with Ok show ?thesis by (auto simp: Let_def session_ids_def intro!: wf_pool)
qed (use assms in simp)

lemma wf_connect_many:
  "fresh_host H \<Longrightarrow> pool_wf p \<Longrightarrow> pool_wf (snd (connect_many H n req p))"
proof (induction n arbitrary: p)
  case (Suc n)
  obtain r q where one: "connect_one H req p = (r, q)" by fastforce
  from Suc.IH [OF Suc.prems(1) wf_connect_one [OF Suc.prems one]] one show ?case
    by (simp add: case_prod_beta)
qed simp

lemma wf_boot: "fresh_host H \<Longrightarrow> pool_wf p \<Longrightarrow> pool_wf (snd (boot H req p))"
  by (simp add: boot_def Let_def case_prod_beta wf_connect_many)

lemma wf_scale_to: "fresh_host H \<Longrightarrow> pool_wf p \<Longrightarrow> pool_wf (snd (scale_to H n req p))"
  by (simp add: scale_to_def Let_def case_prod_beta wf_connect_many)

lemma wf_close_all: "pool_wf p \<Longrightarrow> pool_wf (close_all H p)"
proof -
  assume wf: "pool_wf p"
  have stop: "pool_wf q \<Longrightarrow> pool_wf (fold (\<lambda>sid p. stop_session sid (suppress_reconnect sid p)) ids q)" for ids q
    by (induction ids arbitrary: q) (simp_all add: wf_pool)
  have disc: "pool_wf q \<Longrightarrow> pool_wf (fold (\<lambda>sid. emit (EvShutdownDisconnect sid)) ids q)" for ids q
    by (induction ids arbitrary: q) (auto intro!: wf_pool)
  have all: "pool_wf q \<Longrightarrow> pool_wf ((stop_all q)\<lparr>sp_slots := []\<rparr>)" for q
    by (auto simp: pool_wf_def stop_all_def session_ids_def)
  from wf show ?thesis unfolding close_all_def Let_def
    by (intro wf_notify all wf_emit disc stop) simp
qed

lemma connect_many_slots:
  assumes "connect_many H n req p = (rs, p')"
  shows "length rs = n \<and> (\<exists>new. sp_slots p' = sp_slots p @ new
     \<and> map sl_session_id new = map cr_session_id (concat (map (\<lambda>r. case r of Inl e \<Rightarrow> [] | Inr c \<Rightarrow> [c]) rs))
     \<and> (\<forall>s\<in>set new. sl_gateway_base_url s = sp_gateway_base_url p))
     \<and> sp_config p' = sp_config p \<and> sp_gateway_base_url p' = sp_gateway_base_url p
     \<and> sp_booting p' = sp_booting p \<and> sp_closed p' = sp_closed p"
  using assms
proof (induction n arbitrary: p rs)
  case 0
  then show ?case by simp
next
  case (Suc n)
  obtain r q where one: "connect_one H req p = (r, q)" by fastforce
  obtain rs' q' where many: "connect_many H n req q = (rs', q')" by fastforce
  from Suc.prems one many have rs: "rs = r # rs'" and p': "p' = q'" by simp_all
  note fields = connect_one_slots [OF one]
  from Suc.IH [OF many [folded p']] obtain new where len: "length rs' = n" and new: "sp_slots p' = sp_slots q @ new"
     "map sl_session_id new = map cr_session_id (concat (map (\<lambda>r. case r of Inl e \<Rightarrow> [] | Inr c \<Rightarrow> [c]) rs'))"
     "\<forall>s\<in>set new. sl_gateway_base_url s = sp_gateway_base_url q"
    and keep: "sp_config p' = sp_config q \<and> sp_gateway_base_url p' = sp_gateway_base_url q
     \<and> sp_booting p' = sp_booting q \<and> sp_closed p' = sp_closed q"
    by blast
  show ?case
  proof (cases r)
    case (Inl e)
    with fields have "sp_slots q = sp_slots p" by (simp add: same_pool_shape_def)
    with fields Inl len new keep show ?thesis by (auto simp: rs)
  next
    case (Inr c)
    with fields new len keep show ?thesis
      by (intro conjI exI [of _ "new_slot (cr_session_id c) (sp_gateway_base_url p) # new"]) (auto simp: rs)
  qed
qed

lemma length_successes:
  "length (concat (map (\<lambda>r. case r of Inl e \<Rightarrow> [] | Inr c \<Rightarrow> [c]) rs)) \<le> length rs
   \<and> (case collect_results rs of
        Inl e \<Rightarrow> length (concat (map (\<lambda>r. case r of Inl e \<Rightarrow> [] | Inr c \<Rightarrow> [c]) rs)) < length rs
      | Inr n \<Rightarrow> n = length rs \<and> length (concat (map (\<lambda>r. case r of Inl e \<Rightarrow> [] | Inr c \<Rightarrow> [c]) rs)) = length rs)"
proof (induction rs rule: collect_results.induct)
  case (2 e rs)
  have "length (concat (map (\<lambda>r. case r of Inl e \<Rightarrow> [] | Inr c \<Rightarrow> [c]) rs)) \<le> length rs"
    by (induction rs) (auto split: sum.split)
  then show ?case by (simp add: less_Suc_eq_le)
next
  case (3 r rs)
  then show ?case by (cases "collect_results rs") auto
qed simp

lemma connect_many_count:
  assumes "connect_many H n req p = (rs, p')"
  shows "length (sp_slots p') \<le> length (sp_slots p) + n
     \<and> (case collect_results rs of Inl e \<Rightarrow> length (sp_slots p') < length (sp_slots p) + n
        | Inr k \<Rightarrow> k = n \<and> length (sp_slots p') = length (sp_slots p) + n)"
proof -
  from connect_many_slots [OF assms] obtain new where len: "length rs = n" and sl: "sp_slots p' = sp_slots p @ new"
     and "map sl_session_id new = map cr_session_id (concat (map (\<lambda>r. case r of Inl e \<Rightarrow> [] | Inr c \<Rightarrow> [c]) rs))"
    by blast
  then have "length new = length (concat (map (\<lambda>r. case r of Inl e \<Rightarrow> [] | Inr c \<Rightarrow> [c]) rs))"
    by (metis length_map)
  with length_successes [of rs] len sl show ?thesis by (auto split: sum.split)
qed

lemma boot_target_le: "boot_target cfg \<le> pool_target_size cfg"
  by (simp add: boot_target_def initial_session_count_le)

text \<open>
  Booting dials the planned number of sessions: it reports success exactly when every dial
  succeeded, then the pool holds exactly the planned number of new sessions, all on the primary
  gateway; otherwise it holds fewer. Either way the pool never grows beyond its target by boot.
\<close>

theorem boot_dials_planned_sessions:
  "(case boot H req p of (r, p') \<Rightarrow>
     length (sp_slots p') \<le> length (sp_slots p) + unat (pool_target_size (sp_config p))
     \<and> (r = Inr () \<longleftrightarrow> length (sp_slots p') = length (sp_slots p) + unat (boot_target (sp_config p)))
     \<and> (\<exists>new. sp_slots p' = sp_slots p @ new
          \<and> list_all (\<lambda>s. sl_gateway_base_url s = sp_gateway_base_url p) new)
     \<and> \<not> sp_booting p')"
proof -
  let ?req = "req\<lparr>acr_pool_target_size := Some (pool_target_size (sp_config p))\<rparr>"
  let ?p = "p\<lparr>sp_connect_template := Some ?req, sp_booting := True\<rparr>"
  obtain rs q where many: "connect_many H (unat (boot_target (sp_config p))) ?req ?p = (rs, q)" by fastforce
  have boot: "boot H req p = (map_sum id (\<lambda>_. ()) (collect_results rs), q\<lparr>sp_booting := False\<rparr>)"
    using many by (simp add: boot_def Let_def)
  have le: "unat (boot_target (sp_config p)) \<le> unat (pool_target_size (sp_config p))"
    using boot_target_le by (simp add: word_le_nat_alt)
  from connect_many_slots [OF many] connect_many_count [OF many] le show ?thesis
    by (cases "collect_results rs") (auto simp: boot list_all_iff)
qed

lemma scale_to_count:
  assumes "length (sp_slots p) < 2 ^ 32"
  shows "case scale_to H n req p of (r, p') \<Rightarrow>
     length (sp_slots p) \<le> length (sp_slots p')
     \<and> length (sp_slots p') \<le> max (length (sp_slots p)) (unat n)
     \<and> (case r of Inl e \<Rightarrow> True
        | Inr k \<Rightarrow> length (sp_slots p') = max (length (sp_slots p)) (unat n)
            \<and> unat k = length (sp_slots p') - length (sp_slots p))
     \<and> (psc_blocked (scale_pool n p) \<longrightarrow> p' = p)"
proof -
  let ?cur = "live_session_count p"
  have cur: "unat ?cur = length (sp_slots p)"
    using assms by (simp add: live_session_count_def unat_of_nat_small)
  show ?thesis
  proof (cases "psc_blocked (scale_pool n p)")
    case True
    then show ?thesis by (simp add: scale_to_def)
  next
    case False
    then have add: "psc_added (scale_pool n p) = saturating_sub n ?cur"
      by (auto simp: scale_pool_def plan_pool_scale_def Let_def saturating_sub_def split: if_splits)
    show ?thesis
    proof (cases "saturating_sub n ?cur = 0")
      case True
      then have "unat n \<le> length (sp_slots p)"
        using cur by (metis diff_is_0_eq unat_0 unat_saturating_sub)
      with False True add show ?thesis by (simp add: scale_to_def max_def)
    next
      case nz: False
      obtain rs q where many: "connect_many H (unat (saturating_sub n ?cur)) req p = (rs, q)" by fastforce
      have k: "unat (saturating_sub n ?cur) = unat n - length (sp_slots p)"
        by (simp add: unat_saturating_sub cur)
      then have lt: "length (sp_slots p) < unat n" using nz by (metis unat_eq_0 zero_less_diff gr0I)
      have eq: "scale_to H n req p = (map_sum id word_of_nat (collect_results rs), q)"
        using False nz add many by (simp add: scale_to_def)
      have ge: "length (sp_slots p) \<le> length (sp_slots q)" using connect_many_slots [OF many] by auto
      have wn: "unat (word_of_nat (unat n - length (sp_slots p)) :: u32) = unat n - length (sp_slots p)"
        using unat_lt_size [of n] by (intro unat_of_nat_small) simp
      show ?thesis
        using connect_many_count [OF many] False ge lt wn
        by (cases "collect_results rs") (simp_all add: eq k max_def)
    qed
  qed
qed

lemma scale_to_exact:
  "length (sp_slots p) < 2 ^ 32 \<Longrightarrow> scale_to H n req p = (Inr k, p')
   \<Longrightarrow> length (sp_slots p') = max (length (sp_slots p)) (unat n)"
  using scale_to_count [where H = H and n = n and req = req and p = p] by simp

text \<open>
  Scaling never overshoots: the pool never ends with more sessions than the larger of its
  old size and the requested size; on success it has exactly that many and the reported count is
  the growth; a blocked request touches nothing.
\<close>

theorem scale_to_never_overshoots:
  assumes "length (sp_slots p) < 2 ^ 32"
  shows "case scale_to H n req p of (r, p') \<Rightarrow>
     length (sp_slots p) \<le> length (sp_slots p')
     \<and> length (sp_slots p') \<le> max (length (sp_slots p)) (unat n)
     \<and> (case r of Inl e \<Rightarrow> True
        | Inr k \<Rightarrow> length (sp_slots p') = max (length (sp_slots p)) (unat n)
            \<and> unat k = length (sp_slots p') - length (sp_slots p))
     \<and> (psc_blocked (scale_pool n p) \<longrightarrow> p' = p)"
  by (rule scale_to_count [OF assms])

subsection \<open>Reconnect circuit\<close>

lemma reconnect_window_expired_older:
  assumes "w < saturating_sub now t" "t' \<le> t"
  shows "w < saturating_sub now (t' :: u64)"
  using assms by (simp add: word_less_nat_alt word_le_nat_alt unat_saturating_sub)

lemma reconnect_window_now: "\<not> w < saturating_sub now (now :: u64)"
  by (simp add: word_less_nat_alt unat_saturating_sub)

interpretation reconnect_window: sliding_window "\<lambda>now t. w < saturating_sub now (t :: u64)" for w
  by unfold_locales (auto intro: reconnect_window_expired_older simp: reconnect_window_now)

definition recent_failures :: "pool_host \<Rightarrow> supervised_pool \<Rightarrow> nat" where
  "recent_failures H p = length (filter (\<lambda>t. unat (pool_now_ms H p) - unat t
       \<le> unat (fail_window_ms (reconnect (sp_config p)))) (sp_reconnect_failure_times_ms p))"

lemma wf_failure_times_small:
  assumes "pool_wf p"
  shows "Suc (length (sp_reconnect_failure_times_ms p)) < 2 ^ LENGTH(32)"
proof -
  let ?t = "unat (fail_threshold (reconnect (sp_config p)))"
  have "length (sp_reconnect_failure_times_ms p) < max 1 ?t" using assms by (simp add: pool_wf_def)
  moreover have "max 1 ?t < 2 ^ LENGTH(32)"
    using unat_lt_size [of "fail_threshold (reconnect (sp_config p))"] by simp
  ultimately show ?thesis by linarith
qed

text \<open>
  The reconnect circuit opens on the failure that makes the threshold within the sliding
  window: in a well-formed pool whose failure times are in order, a reconnect failure opens the
  circuit for \<^verbatim>\<open>circuit_ms\<close> and clears the record exactly when the failures of the last
  \<^verbatim>\<open>fail_window_ms\<close>, this one included, reach the threshold; otherwise the circuit is left alone
  and this failure is remembered.
\<close>

theorem reconnect_circuit_opens_at_threshold:
  assumes "pool_wf p" "sorted (sp_reconnect_failure_times_ms p)"
  shows "if unat (fail_threshold (reconnect (sp_config p))) \<le> recent_failures H p + 1
     then sp_circuit_open_until_ms (record_reconnect_failure H p)
            = pool_now_ms H p + circuit_ms (reconnect (sp_config p))
          \<and> sp_reconnect_failure_times_ms (record_reconnect_failure H p) = []
     else sp_circuit_open_until_ms (record_reconnect_failure H p) = sp_circuit_open_until_ms p
          \<and> length (sp_reconnect_failure_times_ms (record_reconnect_failure H p)) = recent_failures H p + 1
          \<and> last (sp_reconnect_failure_times_ms (record_reconnect_failure H p)) = pool_now_ms H p"
proof -
  let ?rc = "reconnect (sp_config p)" and ?now = "pool_now_ms H p"
  let ?ts = "dropWhile (\<lambda>t. fail_window_ms ?rc < saturating_sub ?now t) (sp_reconnect_failure_times_ms p)"
  have filt: "?ts = filter (\<lambda>t. unat ?now - unat t \<le> unat (fail_window_ms ?rc))
      (sp_reconnect_failure_times_ms p)"
    unfolding reconnect_window.live_window_eq_filter [OF assms(2)]
    by (simp add: word_less_nat_alt unat_saturating_sub not_less)
  then have len: "length ?ts = recent_failures H p" by (simp only: recent_failures_def)
  have "length ?ts \<le> length (sp_reconnect_failure_times_ms p)" by (rule length_dropWhile_le)
  then have "length (?ts @ [?now]) < 2 ^ LENGTH(32)"
    using wf_failure_times_small [OF assms(1)] by simp
  then have w: "unat (word_of_nat (length (?ts @ [?now])) :: u32) = recent_failures H p + 1"
    using len by (subst unat_of_nat_small) simp_all
  then have iff: "fail_threshold ?rc \<le> word_of_nat (length (?ts @ [?now]))
      \<longleftrightarrow> unat (fail_threshold ?rc) \<le> recent_failures H p + 1"
    by (simp only: word_le_nat_alt)
  show ?thesis
    using len iff by (simp add: record_reconnect_failure_def Let_def)
qed

text \<open>
  Exponential back-off: the delay before the next attempt is the base delay doubled per
  attempt, at most five times, and capped by the configured maximum; no wrap-around occurs for any
  configuration or attempt number.
\<close>

theorem reconnect_delay_exponential:
  "unat (reconnect_delay_ms cfg attempt)
     = min (max (unat (reconnect_base_ms (reconnect cfg))) 1 * 2 ^ min (unat attempt) 5)
         (max (unat (reconnect_max_ms (reconnect cfg))) (max (unat (reconnect_base_ms (reconnect cfg))) 1))"
proof -
  let ?b = "max (reconnect_base_ms (reconnect cfg)) 1" and ?k = "unat (min attempt 5)"
  let ?m = "max (reconnect_max_ms (reconnect cfg)) ?b"
  have k: "?k = min (unat attempt) 5" by (simp add: unat_min)
  have "?k < 6" by (simp add: k)
  then consider "?k = 0" | "?k = 1" | "?k = 2" | "?k = 3" | "?k = 4" | "?k = 5" by linarith
  then have "unat (push_bit ?k 1 :: u64) = 2 ^ ?k" by cases (simp_all only:, simp_all)
  then have "unat (reconnect_delay_ms cfg attempt)
     = min (min (unat ?b * 2 ^ ?k) (2 ^ LENGTH(64) - 1)) (unat ?m)"
    by (simp only: reconnect_delay_ms_def Let_def unat_min unat_saturating_mul)
  also have "\<dots> = min (unat ?b * 2 ^ ?k) (unat ?m)"
    using unat_lt_size [of ?m] by (simp only: min.assoc min_absorb2 less_eq_Suc_le Suc_pred' diff_Suc_1)
  finally show ?thesis by (simp only: unat_max k unat_1)
qed

subsection \<open>Reconnecting\<close>

lemma find_slot_fields [simp]:
  "find_slot sid (emit e p) = find_slot sid p"
  "find_slot sid (stop_session i p) = find_slot sid p"
  "find_slot sid (record_reconnect_failure H p) = find_slot sid p"
  "find_slot sid (clear_reconnect_circuit p) = find_slot sid p"
  "find_slot sid (session_ready_and_start H i p) = find_slot sid p"
  "find_slot sid (snd (apply_fresh_attestation H r p)) = find_slot sid p"
  by (simp_all add: find_slot_def)

lemma find_slot_upd:
  "(\<And>s. sl_session_id (f s) = sl_session_id s) \<Longrightarrow> find_slot sid (upd_slot sid f p) = map_option f (find_slot sid p)"
  by (simp add: find_slot_def find_update_first)

lemma find_slot_clear_pending:
  "find_slot sid (clear_reconnect_pending sid p)
     = map_option (\<lambda>s. s\<lparr>sl_reconnect_pending := False\<rparr>) (find_slot sid p)"
  by (simp add: clear_reconnect_pending_def find_slot_upd)

lemma clear_pending_fields [simp]:
  "sp_history (clear_reconnect_pending sid p) = sp_history p"
  "sp_closed (clear_reconnect_pending sid p) = sp_closed p"
  "sp_config (clear_reconnect_pending sid p) = sp_config p"
  "sp_workers (clear_reconnect_pending sid p) = sp_workers p"
  "sp_circuit_open_until_ms (clear_reconnect_pending sid p) = sp_circuit_open_until_ms p"
  "sp_reconnect_failure_times_ms (clear_reconnect_pending sid p) = sp_reconnect_failure_times_ms p"
  "sp_consecutive_failures (clear_reconnect_pending sid p) = sp_consecutive_failures p"
  by (simp_all add: clear_reconnect_pending_def)

text \<open>Identity and address of every slot, which reconnecting never changes.\<close>

definition slot_addresses :: "supervised_pool \<Rightarrow> (string \<times> string) list" where
  "slot_addresses p = map (\<lambda>s. (sl_session_id s, sl_gateway_base_url s)) (sp_slots p)"

lemma slot_addresses_fields [simp]:
  "slot_addresses (emit e p) = slot_addresses p"
  "slot_addresses (stop_session i p) = slot_addresses p"
  "slot_addresses (record_reconnect_failure H p) = slot_addresses p"
  "slot_addresses (clear_reconnect_circuit p) = slot_addresses p"
  "slot_addresses (session_ready_and_start H i p) = slot_addresses p"
  "slot_addresses (snd (apply_fresh_attestation H r p)) = slot_addresses p"
  by (simp_all add: slot_addresses_def)

lemma slot_addresses_upd:
  "(\<And>s. sl_session_id (f s) = sl_session_id s \<and> sl_gateway_base_url (f s) = sl_gateway_base_url s)
   \<Longrightarrow> slot_addresses (upd_slot sid f p) = slot_addresses p"
  by (simp add: slot_addresses_def map_update_first)

lemma slot_addresses_clear_pending [simp]: "slot_addresses (clear_reconnect_pending sid p) = slot_addresses p"
  by (simp add: clear_reconnect_pending_def slot_addresses_upd)

lemma slot_addresses_schedule [simp]: "slot_addresses (schedule_reconnect H sid p) = slot_addresses p"
  by (simp add: schedule_reconnect_def Let_def slot_addresses_upd split: option.split)

lemma slot_addresses_retry [simp]: "slot_addresses (retry_reconnect H sid p) = slot_addresses p"
  by (simp add: retry_reconnect_def)

text \<open>
  One timer per lost session: scheduling a reconnect that is already pending, suppressed, or
  on a closed pool changes nothing, so repeated transport-loss reports arm exactly one timer.
\<close>

theorem schedule_reconnect_idempotent:
  "schedule_reconnect H sid (schedule_reconnect H sid p) = schedule_reconnect H sid p"
proof (cases "sp_closed p \<or> find_slot sid p = None")
  case True
  then show ?thesis by (auto simp: schedule_reconnect_def)
next
  case False
  then obtain s where s: "find_slot sid p = Some s" by blast
  show ?thesis
  proof (cases "sl_suppress_reconnect s \<or> sl_reconnect_pending s")
    case True
    with s show ?thesis by (auto simp: schedule_reconnect_def)
  next
    case act: False
    then obtain ev where sch: "schedule_reconnect H sid p
        = emit ev (upd_slot sid (\<lambda>s. s\<lparr>sl_reconnect_pending := True\<rparr>) p)"
      using False s by (simp add: schedule_reconnect_def Let_def)
    have "find_slot sid (schedule_reconnect H sid p) = Some (s\<lparr>sl_reconnect_pending := True\<rparr>)"
      by (simp add: sch find_slot_upd s)
    then show ?thesis
      by (subst schedule_reconnect_def) simp
  qed
qed

lemma retry_reconnect_arms:
  assumes "find_slot sid p = Some s" "\<not> sp_closed p" "\<not> sl_suppress_reconnect s"
  shows "find_slot sid (retry_reconnect H sid p) = Some (s\<lparr>sl_reconnect_pending := True\<rparr>)
     \<and> (\<exists>q. sp_history (retry_reconnect H sid p) = sp_history p @
          [EvReconnectTimer sid (max (reconnect_delay_ms (sp_config p) (sl_reconnect_attempt s)) q)])
     \<and> sp_workers (retry_reconnect H sid p) = sp_workers p"
  using assms
  by (simp add: retry_reconnect_def schedule_reconnect_def Let_def find_slot_clear_pending find_slot_upd
      del: not_None_eq) blast

definition reconnected :: "string \<Rightarrow> supervised_pool \<Rightarrow> bool" where
  "reconnected sid p \<longleftrightarrow>
     (case find_slot sid p of None \<Rightarrow> False
      | Some s \<Rightarrow> sl_reconnect_attempt s = 0 \<and> \<not> sl_reconnect_pending s \<and> \<not> sl_busy s
          \<and> sp_circuit_open_until_ms p = 0 \<and> sp_reconnect_failure_times_ms p = [] \<and> sp_consecutive_failures p = 0)"

definition reconnect_rearmed :: "string \<Rightarrow> u32 \<Rightarrow> supervised_pool \<Rightarrow> bool" where
  "reconnect_rearmed sid attempt p \<longleftrightarrow>
     (case find_slot sid p of None \<Rightarrow> False
      | Some s \<Rightarrow> sl_reconnect_attempt s = attempt \<and> sl_reconnect_pending s \<and> sid \<notin> sp_workers p
          \<and> sp_history p \<noteq> [] \<and> (case last (sp_history p) of EvReconnectTimer i d \<Rightarrow> i = sid
               \<and> reconnect_delay_ms (sp_config p) attempt \<le> d | _ \<Rightarrow> False))"

lemma retry_reconnect_config [simp]: "sp_config (retry_reconnect H sid p) = sp_config p"
  by (simp add: retry_reconnect_def schedule_reconnect_def Let_def split: option.split)

lemma retry_rearmed:
  assumes "find_slot sid p = Some s" "\<not> sp_closed p" "\<not> sl_suppress_reconnect s" "sid \<notin> sp_workers p"
  shows "reconnect_rearmed sid (sl_reconnect_attempt s) (retry_reconnect H sid p)"
  using retry_reconnect_arms [OF assms(1-3), of H] assms(4)
  by (auto simp: reconnect_rearmed_def)

text \<open>
  A reconnect attempt never loses a session: on an open pool and a slot not being drained,
  every slot keeps its session id and gateway, and the slot ends either restored (attempt counter,
  busy flag, pending flag and circuit reset) or waiting with its pull worker stopped, its attempt
  counter one higher and one timer armed for at least the back-off delay.
\<close>

theorem reconnect_slot_outcome:
  assumes "find_slot sid p = Some slot" "\<not> sp_closed p" "\<not> sl_suppress_reconnect slot"
  shows "slot_addresses (reconnect_slot H sid p) = slot_addresses p
     \<and> (reconnected sid (reconnect_slot H sid p)
        \<or> reconnect_rearmed sid (sl_reconnect_attempt slot + 1) (reconnect_slot H sid p))"
proof -
  let ?f = "\<lambda>s. s\<lparr>sl_reconnect_attempt := sl_reconnect_attempt s + 1\<rparr>"
  let ?p1 = "emit (EvTeardown sid) (stop_session sid (upd_slot sid ?f p))"
  let ?s1 = "?f slot"
  have p1: "find_slot sid ?p1 = Some ?s1" "\<not> sp_closed ?p1" "sid \<notin> sp_workers ?p1"
      "slot_addresses ?p1 = slot_addresses p"
    using assms by (simp_all add: find_slot_upd slot_addresses_upd)
  have s1: "\<not> sl_suppress_reconnect ?s1" "sl_reconnect_attempt ?s1 = sl_reconnect_attempt slot + 1"
    using assms(3) by simp_all
  show ?thesis
  proof (cases "sp_connect_template p")
    case None
    then have "reconnect_slot H sid p = retry_reconnect H sid ?p1"
      using assms by (simp add: reconnect_slot_def Let_def)
    with retry_rearmed [OF p1(1,2) s1(1) p1(3), of H] p1 s1 show ?thesis by simp
  next
    case (Some template)
    obtain a q where fa: "apply_fresh_attestation H template ?p1 = (a, q)" by fastforce
    then have "q = snd (apply_fresh_attestation H template ?p1)" by simp
    then have q: "find_slot sid q = Some ?s1" "\<not> sp_closed q" "sid \<notin> sp_workers q"
        "slot_addresses q = slot_addresses p"
      using p1 by simp_all
    show ?thesis
    proof (cases a)
      case (Inl e)
      then have "reconnect_slot H sid p = retry_reconnect H sid q"
        using assms fa Some by (simp add: reconnect_slot_def Let_def)
      with retry_rearmed [OF q(1,2) s1(1) q(3), of H] q s1 show ?thesis by simp
    next
      case (Inr rq)
      let ?rq = "rq\<lparr>acr_session_id := sid\<rparr>" and ?u = "sl_gateway_base_url slot"
      let ?q = "emit (EvReconnect sid ?u ?rq) q"
      show ?thesis
      proof (cases "h_reconnect H (sp_history q) sid ?u ?rq")
        case (Inl e)
        then have "reconnect_slot H sid p = retry_reconnect H sid ?q"
          using assms fa Some Inr by (simp add: reconnect_slot_def Let_def)
        with retry_rearmed [of sid ?q ?s1 H] q s1 show ?thesis by simp
      next
        case ok: (Inr c)
        then have "reconnect_slot H sid p = clear_reconnect_pending sid (clear_reconnect_circuit
             (session_ready_and_start H sid
               (upd_slot sid (\<lambda>s. s\<lparr>sl_reconnect_attempt := 0, sl_busy := False\<rparr>) ?q)))"
          using assms fa Some Inr by (simp add: reconnect_slot_def Let_def)
        with q show ?thesis
          by (simp add: reconnected_def find_slot_clear_pending find_slot_upd slot_addresses_upd)
      qed
    qed
  qed
qed

subsection \<open>Circuit breaker of the dial path\<close>

definition connector_down :: "pool_host \<Rightarrow> bool" where
  "connector_down H \<longleftrightarrow> (\<forall>h req. \<exists>e. h_connect H h req = Inl e) \<and> h_attestation_refresh H = None"

lemma connect_one_down:
  assumes "connector_down H" "sp_circuit_open_until_ms p = 0"
  shows "\<exists>e rq. connect_one H req p = (Inl (EConnect e), record_failure H (dialled_pool rq p))"
proof -
  obtain r p' where one: "connect_one H req p = (r, p')" by fastforce
  have "\<not> is_circuit_open H p" using assms(2) by (simp add: is_circuit_open_def)
  with one show ?thesis
  proof (cases rule: connect_one_cases)
    case (Fail e rq q)
    then show ?thesis using assms(1) one by (auto simp: connector_down_def apply_fresh_attestation_def)
  next
    case (Ok c rq q)
    obtain e where "h_connect H (sp_history q) rq = Inl e" using assms(1) by (auto simp: connector_down_def)
    with Ok show ?thesis by simp
  qed (use assms(1) in \<open>auto simp: connector_down_def apply_fresh_attestation_def\<close>)
qed

lemma connect_many_down:
  assumes "connector_down H" "sp_circuit_open_until_ms p = 0"
    "unat (sp_consecutive_failures p) + n < unat (fail_threshold (reconnect (sp_config p)))"
  shows "sp_circuit_open_until_ms (snd (connect_many H n req p)) = 0
     \<and> unat (sp_consecutive_failures (snd (connect_many H n req p))) = unat (sp_consecutive_failures p) + n
     \<and> sp_config (snd (connect_many H n req p)) = sp_config p"
  using assms
proof (induction n arbitrary: p)
  case (Suc n)
  let ?thr = "fail_threshold (reconnect (sp_config p))"
  obtain e rq where one: "connect_one H req p = (Inl (EConnect e), record_failure H (dialled_pool rq p))"
    using connect_one_down [OF Suc.prems(1,2)] by blast
  let ?q = "record_failure H (dialled_pool rq p)"
  have exact: "unat (sp_consecutive_failures p + 1) = unat (sp_consecutive_failures p) + 1"
    using Suc.prems(3) unat_lt_size [of ?thr] by (subst unat_add_exact) simp_all
  have "\<not> ?thr \<le> sp_consecutive_failures p + 1"
    using Suc.prems(3) by (simp add: word_le_nat_alt exact)
  then have q: "sp_circuit_open_until_ms ?q = 0" "sp_consecutive_failures ?q = sp_consecutive_failures p + 1"
    "sp_config ?q = sp_config p"
    using Suc.prems(2) by (simp_all add: record_failure_def Let_def)
  have "unat (sp_consecutive_failures ?q) + n < unat (fail_threshold (reconnect (sp_config ?q)))"
    using Suc.prems(3) by (simp add: q exact)
  from Suc.IH [OF Suc.prems(1) q(1) this] show ?case
    by (simp add: one case_prod_beta q exact)
qed simp

text \<open>
  The dial circuit trips after exactly \<^verbatim>\<open>fail_threshold\<close> consecutive failures: on a pool
  with a clean circuit and a connector that fails, one dial fewer leaves the circuit closed, the
  threshold-th failure opens it until \<^verbatim>\<open>circuit_ms\<close> after its instant, and while it is open a dial
  is refused without any call to the outside and without any change of state.
\<close>

theorem dial_circuit_trips_at_threshold:
  assumes "connector_down H" "sp_circuit_open_until_ms p = 0" "sp_consecutive_failures p = 0"
    and "unat (fail_threshold (reconnect (sp_config p))) = Suc n"
    and "connect_many H n req p = (rs, q)" "connect_one H req q = (r, q')"
  shows "\<not> is_circuit_open H q
     \<and> sp_circuit_open_until_ms q' = pool_now_ms H q' + circuit_ms (reconnect (sp_config p))
     \<and> (is_circuit_open H q' \<longrightarrow> connect_one H req q' = (Inl (ECircuitOpen (sp_circuit_open_until_ms q')), q'))"
proof -
  let ?thr = "fail_threshold (reconnect (sp_config p))"
  have q: "sp_circuit_open_until_ms q = 0" "unat (sp_consecutive_failures q) = n" "sp_config q = sp_config p"
    using connect_many_down [OF assms(1,2), of n req] assms(3,4,5) by simp_all
  obtain rq where q': "q' = record_failure H (dialled_pool rq q)"
    using connect_one_down [OF assms(1) q(1), of req] assms(6) by auto
  have "unat (sp_consecutive_failures q + 1) = Suc n"
    using q(2) assms(4) unat_lt_size [of ?thr] by (subst unat_add_exact) simp_all
  then have "?thr \<le> sp_consecutive_failures q + 1" by (simp add: word_le_nat_alt assms(4))
  then have "sp_circuit_open_until_ms q' = pool_now_ms H q' + circuit_ms (reconnect (sp_config p))"
    using q(3) by (simp add: q' record_failure_def Let_def pool_now_ms_def)
  then show ?thesis using q(1) by (simp add: is_circuit_open_def connect_one_def)
qed

subsection \<open>Shutdown\<close>


definition shutdown_disconnects :: "pool_event list \<Rightarrow> string list" where
  "shutdown_disconnects h = concat (map (\<lambda>e. case e of EvShutdownDisconnect sid \<Rightarrow> [sid] | _ \<Rightarrow> []) h)"

lemma shutdown_disconnects_simps [simp]:
  "shutdown_disconnects [] = []"
  "shutdown_disconnects (e # h) = (case e of EvShutdownDisconnect sid \<Rightarrow> [sid] | _ \<Rightarrow> []) @ shutdown_disconnects h"
  "shutdown_disconnects (h @ k) = shutdown_disconnects h @ shutdown_disconnects k"
  by (simp_all add: shutdown_disconnects_def)

lemma suppress_fields [simp]:
  "sp_history (suppress_reconnect sid p) = sp_history p"
  "sp_closed (suppress_reconnect sid p) = sp_closed p"
  "sp_config (suppress_reconnect sid p) = sp_config p"
  "sp_workers (suppress_reconnect sid p) = sp_workers p"
  "sp_gateway_base_url (suppress_reconnect sid p) = sp_gateway_base_url p"
  "sp_connect_template (suppress_reconnect sid p) = sp_connect_template p"
  "sp_migration_hold (suppress_reconnect sid p) = sp_migration_hold p"
  "slot_addresses (suppress_reconnect sid p) = slot_addresses p"
  by (simp_all add: suppress_reconnect_def slot_addresses_upd)

lemma fold_suppress_stop:
  "session_ids (fold (\<lambda>sid p. stop_session sid (suppress_reconnect sid p)) ids p) = session_ids p
   \<and> shutdown_disconnects (sp_history (fold (\<lambda>sid p. stop_session sid (suppress_reconnect sid p)) ids p))
      = shutdown_disconnects (sp_history p)
   \<and> sp_closed (fold (\<lambda>sid p. stop_session sid (suppress_reconnect sid p)) ids p) = sp_closed p
   \<and> sp_workers (fold (\<lambda>sid p. stop_session sid (suppress_reconnect sid p)) ids p) = sp_workers p - set ids"
  by (induction ids arbitrary: p) auto

lemma fold_emit_shutdown:
  "fold (\<lambda>sid. emit (EvShutdownDisconnect sid)) ids p
     = p\<lparr>sp_history := sp_history p @ map EvShutdownDisconnect ids\<rparr>"
  by (induction ids arbitrary: p) (simp_all add: emit_def)

lemma shutdown_disconnects_map: "shutdown_disconnects (map EvShutdownDisconnect ids) = ids"
  by (induction ids) simp_all


subsection \<open>A concrete environment\<close>

text \<open>
  The environment at which the theorems with hypotheses are instantiated: a connector that
  answers every dial with a new session id, idle workers, a clock that stands still; and one whose
  connector is down.
\<close>

definition sample_bundle :: attestation_bundle where
  "sample_bundle =
     \<lparr>ab_cpu_tee = \<lparr>cpu_kind = ''sev-snp'', cpu_quote = ''q'', cpu_verdict = Verdict_Pass, cpu_policy_id = ''p'', cpu_endorsement = None\<rparr>,
      ab_gpu_tee = \<lparr>gpu_kind = ''nv-cc'', gpu_evidence = ''g'', gpu_verdict = Verdict_Pass\<rparr>,
      ab_vllm = \<lparr>wm_version = ''v'', wm_binary_sha256 = ''a''\<rparr>,
      ab_engine = \<lparr>wm_version = ''v'', wm_binary_sha256 = ''b''\<rparr>, ab_ope = None, ab_attested_mtls = None\<rparr>"

definition sample_request :: attested_connect_request where
  "sample_request =
     \<lparr>acr_session_id = ''x'', acr_engine_id = ''e'', acr_models = [''m''],
      acr_identity = \<lparr>id_engine_id = ''e'', id_kex = ''k'', id_ed25519_public = ''d''\<rparr>,
      acr_attestation = sample_bundle, acr_pool_target_size = None, acr_instance_id = None,
      acr_gateway_challenge_nonce = None, acr_capabilities = None\<rparr>"

definition sample_dial :: "pool_event list \<Rightarrow> string + connect_result" where
  "sample_dial h = Inr \<lparr>cr_session_id = CHR ''s'' # concat (dialled h),
     cr_response = \<lparr>acp_gateway_attestation = None, acp_gateway_challenge_nonce = None\<rparr>\<rparr>"

definition sample_host :: pool_host where
  "sample_host =
     \<lparr>h_now_ms = (\<lambda>_. 5000), h_connect = (\<lambda>h _. sample_dial h), h_connect_to = (\<lambda>h _ _. sample_dial h),
      h_reconnect = (\<lambda>h _ _ _. sample_dial h), h_is_session_closed = (\<lambda>_ _. False),
      h_worker_busy = (\<lambda>_ _. False), h_start_worker = Some (\<lambda>_ _. Inr ()), h_session_ready = None,
      h_attestation_refresh = None, h_on_sessions_changed = False,
      h_new_uuid = (\<lambda>_. ''u''), h_new_nonce = (\<lambda>_. ''n'')\<rparr>"

definition sample_down_host :: pool_host where
  "sample_down_host = sample_host\<lparr>h_connect := (\<lambda>_ _. Inl ''refused''), h_reconnect := (\<lambda>_ _ _ _. Inl ''refused'')\<rparr>"

definition sample_config :: supervised_pool_config where
  "sample_config =
     \<lparr>pool_target_size = 4, pool_initial_fraction = F64 1 0, pool_initial_fraction_explicit = True,
      pool_baseline = 1, supervised = True,
      reconnect = pool_reconnect_config_default\<lparr>fail_threshold := 2\<rparr>\<rparr>"

definition sample_pool :: supervised_pool where
  "sample_pool = snd (boot sample_host sample_request (supervised_pool_new sample_config ''gw''))"

lemma concat_member_length: "x \<in> set xs \<Longrightarrow> length x \<le> length (concat xs)"
  by (induction xs) auto

lemma sample_host_fresh: "fresh_host sample_host"
proof -
  have "CHR ''s'' # concat (dialled h) \<notin> set (dialled h)" for h
    using concat_member_length [of "CHR ''s'' # concat (dialled h)" "dialled h"] by fastforce
  then show ?thesis by (auto simp: fresh_host_def sample_host_def sample_dial_def)
qed

lemma supervised_pool_new_wf: "pool_wf (supervised_pool_new cfg url)"
  by (simp add: pool_wf_def supervised_pool_new_def session_ids_def hold_wf_def)

lemma sample_pool_wf: "pool_wf sample_pool"
  unfolding sample_pool_def by (intro wf_boot sample_host_fresh supervised_pool_new_wf)

lemma sample_pool_ids: "session_ids sample_pool = [''s'', ''ss'', ''ssss'', ''ssssssss'']"
  by code_simp

theorem scale_to_never_overshoots_witness:
  "length (sp_slots (snd (scale_to sample_host 6 sample_request (supervised_pool_new sample_config ''gw'')))) \<le> 6
   \<and> length (sp_slots (supervised_pool_new sample_config ''gw'')) < 2 ^ 32"
proof -
  let ?p = "supervised_pool_new sample_config ''gw''"
  have h: "length (sp_slots ?p) < 2 ^ 32" by (simp add: supervised_pool_new_def)
  have "sp_slots ?p = []" by (simp add: supervised_pool_new_def)
  then show ?thesis
    using scale_to_never_overshoots [OF h, where H = sample_host and n = 6 and req = sample_request] h
    by (simp add: case_prod_beta)
qed

theorem reconnect_circuit_opens_at_threshold_witness:
  "pool_wf (sample_pool\<lparr>sp_reconnect_failure_times_ms := [4000]\<rparr>)
   \<and> sp_circuit_open_until_ms (record_reconnect_failure sample_host (sample_pool\<lparr>sp_reconnect_failure_times_ms := [4000]\<rparr>))
     = 35000"
proof -
  let ?p = "sample_pool\<lparr>sp_reconnect_failure_times_ms := [4000]\<rparr>"
  have cfg: "fail_threshold (reconnect (sp_config sample_pool)) = 2" by code_simp
  have wf: "pool_wf ?p"
    using sample_pool_wf by (auto simp: pool_wf_def session_ids_def cfg)
  have "unat (fail_threshold (reconnect (sp_config ?p))) \<le> recent_failures sample_host ?p + 1" by code_simp
  moreover have "pool_now_ms sample_host ?p + circuit_ms (reconnect (sp_config ?p)) = 35000" by code_simp
  ultimately show ?thesis
    using reconnect_circuit_opens_at_threshold [OF wf, of sample_host] wf by simp
qed

theorem reconnect_slot_outcome_witness:
  "reconnected ''ss'' (reconnect_slot sample_host ''ss'' sample_pool)
   \<or> reconnect_rearmed ''ss'' 1 (reconnect_slot sample_host ''ss'' sample_pool)"
proof -
  have h: "find_slot ''ss'' sample_pool = Some (new_slot ''ss'' ''gw'')" "\<not> sp_closed sample_pool"
    by code_simp+
  show ?thesis using reconnect_slot_outcome [OF h, of sample_host] by simp
qed

theorem dial_circuit_trips_at_threshold_witness:
  "is_circuit_open sample_down_host
     (snd (connect_many sample_down_host 2 sample_request (supervised_pool_new sample_config ''gw'')))"
proof -
  let ?p = "supervised_pool_new sample_config ''gw''" and ?H = sample_down_host
  obtain rs q where many: "connect_many ?H 1 sample_request ?p = (rs, q)" by fastforce
  obtain r q' where one: "connect_one ?H sample_request q = (r, q')" by fastforce
  have down: "connector_down ?H" by (simp add: connector_down_def sample_down_host_def sample_host_def)
  have p: "sp_circuit_open_until_ms ?p = 0" "sp_consecutive_failures ?p = 0"
    "unat (fail_threshold (reconnect (sp_config ?p))) = Suc 1" by code_simp+
  have "pool_now_ms ?H q' < pool_now_ms ?H q' + circuit_ms (reconnect (sp_config ?p))"
    by (simp add: pool_now_ms_def sample_down_host_def sample_host_def supervised_pool_new_def sample_config_def
        pool_reconnect_config_default_def)
  then have "is_circuit_open ?H q'"
    using dial_circuit_trips_at_threshold [OF down p many one] by (simp add: is_circuit_open_def)
  moreover have "snd (connect_many ?H 2 sample_request ?p) = q'"
    using many one by (simp add: numeral_2_eq_2 case_prod_beta)
  ultimately show ?thesis by simp
qed

end
