(* ===== verification/Pool_Drain.thy ===== *)
theory Pool_Drain
  imports Pool_Properties
begin

section \<open>Idle drain and the desired-pool hint\<close>

text \<open>
  \<^verbatim>\<open>drain_with_plan\<close> of \<^verbatim>\<open>ie-engine/src/pool.rs\<close> and \<^verbatim>\<open>ie-engine/src/desired_pool.rs\<close>: which idle
  sessions a drain may take while a gateway migration holds, the order in which a session is torn
  down, and the scale-up or drain that applies a gateway hint. The lemmas show which sessions a
  drain disconnects, that each of them was idle when its worker was stopped, that a migration hold
  is respected, and that a hint never moves the pool past its target.
\<close>

record pool_drain_result =
  pdn_drained :: u32
  pdn_remaining :: u32
  pdn_target_remaining :: u32
  pdn_blocked :: bool
  pdn_reason :: "string option"

definition migration_keep_source :: "supervised_pool \<Rightarrow> bool" where
  "migration_keep_source p =
     (case sp_migration_hold p of None \<Rightarrow> False
      | Some h \<Rightarrow> mh_keep_source h \<and> mh_pending_source h \<noteq> [])"

definition migration_target_protected :: "supervised_pool \<Rightarrow> string option" where
  "migration_target_protected p =
     (case sp_migration_hold p of None \<Rightarrow> None
      | Some h \<Rightarrow> if mh_pending_source h = [] then None else Some (mh_target_url h))"

definition drain_candidates :: "pool_host \<Rightarrow> supervised_pool \<Rightarrow> string list" where
  "drain_candidates H p =
     filter (\<lambda>sid. case migration_target_protected p of None \<Rightarrow> True
               | Some target \<Rightarrow> session_gateway_url sid p \<noteq> Some target)
       (idle_session_ids H p)"

text \<open>Tear one idle session down: no redial, worker stopped, gateway told, slot removed.\<close>

definition drop_session :: "string \<Rightarrow> supervised_pool \<Rightarrow> bool \<times> supervised_pool" where
  "drop_session sid p = remove_slot sid (emit (EvDisconnect sid) (stop_session sid (suppress_reconnect sid p)))"

fun drain_loop :: "pool_host \<Rightarrow> string list \<Rightarrow> u32 \<Rightarrow> supervised_pool \<Rightarrow> u32 \<times> supervised_pool" where
  "drain_loop H [] drained p = (drained, p)"
| "drain_loop H (sid # sids) drained p =
     (if session_is_busy H sid p then drain_loop H sids drained p
      else let (removed, p) = drop_session sid p
           in drain_loop H sids (if removed then drained + 1 else drained) p)"

definition drain_with_plan ::
    "pool_host \<Rightarrow> u32 option \<Rightarrow> f64 option \<Rightarrow> supervised_pool \<Rightarrow> pool_drain_result \<times> supervised_pool" where
  "drain_with_plan H count fraction p =
     (let current = live_session_count p
      in if migration_keep_source p then
           (\<lparr>pdn_drained = 0, pdn_remaining = current, pdn_target_remaining = current,
             pdn_blocked = True, pdn_reason = Some ''migration_hold''\<rparr>, p)
         else
          (let candidates = drain_candidates H p;
               plan = plan_pool_drain (pool_target_size (sp_config p)) current fraction count
                        (word_of_nat (length candidates));
               (drained, p) = drain_loop H (take (unat (pdp_to_drain plan)) candidates) 0 p;
               p = notify_sessions_changed H p
           in (\<lparr>pdn_drained = drained, pdn_remaining = live_session_count p,
                pdn_target_remaining = pdp_target_remaining plan,
                pdn_blocked = (pdp_blocked plan \<or> (0 < pdp_to_drain plan \<and> drained < pdp_to_drain plan)),
                pdn_reason = pdp_reason plan\<rparr>, p)))"

definition drain_idle_pool :: "pool_host \<Rightarrow> f64 \<Rightarrow> supervised_pool \<Rightarrow> pool_drain_result \<times> supervised_pool" where
  "drain_idle_pool H fraction = drain_with_plan H None (Some fraction)"

definition drain_idle_sessions :: "pool_host \<Rightarrow> u32 \<Rightarrow> supervised_pool \<Rightarrow> pool_drain_result \<times> supervised_pool" where
  "drain_idle_sessions H count = drain_with_plan H (Some count) None"

subsection \<open>Desired-pool hint\<close>

definition parse_desired_pool_target_header :: "string option \<Rightarrow> u32 option" where
  "parse_desired_pool_target_header raw =
     (case raw of None \<Rightarrow> None
      | Some r \<Rightarrow> let value = trim r
          in if value = [] then None
             else case parse_u32 value of None \<Rightarrow> None
               | Some n \<Rightarrow> if n < 1 then None else Some n)"

definition clamp_desired_pool_target :: "u32 \<Rightarrow> u32 \<Rightarrow> u32 \<Rightarrow> u32" where
  "clamp_desired_pool_target raw baseline mx =
     (let lo = min baseline mx; hi = max baseline mx
      in if raw < lo then lo else if hi < raw then hi else raw)"

definition apply_desired_pool_target ::
    "pool_host \<Rightarrow> u32 \<Rightarrow> supervised_pool \<Rightarrow> (engine_error + unit) \<times> supervised_pool" where
  "apply_desired_pool_target H raw_desired p =
     (let config = sp_config p;
          desired = clamp_desired_pool_target raw_desired (pool_baseline config) (pool_target_size config);
          current = live_session_count p
      in if desired = current then (Inr (), p)
         else if current < desired then
           (case sp_connect_template p of
              None \<Rightarrow> (Inl (EScale ''no connect template; boot pool before scale''), p)
            | Some template \<Rightarrow>
               (case scale_to H desired template p of
                  (Inl e, p) \<Rightarrow> (Inl e, p)
                | (Inr added, p) \<Rightarrow> (Inr (), p)))
         else (Inr (), snd (drain_idle_sessions H (current - desired) p)))"

text \<open>
  One round of the debounced applier: the hints that arrived while it slept are coalesced into
  the last one, which is applied.
\<close>

definition coalesce_hints :: "u32 \<Rightarrow> u32 list \<Rightarrow> u32" where
  "coalesce_hints first later = foldl (\<lambda>_ n. n) first later"

definition desired_pool_applier_round ::
    "pool_host \<Rightarrow> u32 \<Rightarrow> u32 list \<Rightarrow> supervised_pool \<Rightarrow> supervised_pool" where
  "desired_pool_applier_round H first later p = snd (apply_desired_pool_target H (coalesce_hints first later) p)"

subsection \<open>Tear-down of one session\<close>

text \<open>Disconnects in a trace, each with the history at the moment it was sent.\<close>

fun disconnects_at :: "pool_event list \<Rightarrow> pool_event list \<Rightarrow> (string \<times> pool_event list) list" where
  "disconnects_at h [] = []"
| "disconnects_at h (e # es) =
     (case e of EvDisconnect sid \<Rightarrow> [(sid, h)] | _ \<Rightarrow> []) @ disconnects_at (h @ [e]) es"

lemma disconnects_at_append [simp]:
  "disconnects_at h (a @ b) = disconnects_at h a @ disconnects_at (h @ a) b"
  by (induction a arbitrary: h) simp_all

lemma drop_session_fields [simp]:
  "sp_config (snd (drop_session sid p)) = sp_config p"
  "sp_gateway_base_url (snd (drop_session sid p)) = sp_gateway_base_url p"
  "sp_connect_template (snd (drop_session sid p)) = sp_connect_template p"
  "sp_workers (snd (drop_session sid p)) = sp_workers p - {sid}"
  "sp_closed (snd (drop_session sid p)) = sp_closed p"
  "sp_migration_hold (snd (drop_session sid p)) = sp_migration_hold p"
  "sp_history (snd (drop_session sid p)) = sp_history p
     @ (if sid \<in> sp_workers p then [EvWorkerStop sid] else []) @ [EvDisconnect sid]"
  by (simp_all add: drop_session_def)

lemma drop_session_fst: "fst (drop_session sid p) \<longleftrightarrow> sid \<in> set (session_ids p)"
  by (simp add: drop_session_def remove_slot_fst)

lemma wf_drop_session [wf_pool]: "pool_wf p \<Longrightarrow> pool_wf (snd (drop_session sid p))"
  unfolding drop_session_def by (intro wf_pool) simp_all

lemma wf_distinct: "pool_wf p \<Longrightarrow> distinct (session_ids p)"
  by (simp add: pool_wf_def)

lemma session_ids_drop:
  "distinct (session_ids p) \<Longrightarrow> session_ids (snd (drop_session sid p)) = filter (\<lambda>i. i \<noteq> sid) (session_ids p)"
  by (simp add: drop_session_def session_ids_remove_filter)

lemma slots_remove_filter:
  "distinct (session_ids p) \<Longrightarrow>
   sp_slots (snd (remove_slot sid p)) = filter (\<lambda>s. sl_session_id s \<noteq> sid) (sp_slots p)"
proof (cases "position (\<lambda>s. sl_session_id s = sid) (sp_slots p)")
  case None
  then have "filter (\<lambda>s. sl_session_id s \<noteq> sid) (sp_slots p) = sp_slots p"
    by (intro filter_True) (simp add: position_None)
  with None show ?thesis by (simp add: remove_slot_def)
next
  case (Some i)
  assume dist: "distinct (session_ids p)"
  obtain as b bs where sl: "sp_slots p = as @ b # bs" "sl_session_id b = sid" "remove_at i (sp_slots p) = as @ bs"
    using remove_at_position [OF Some] by blast
  have "filter (\<lambda>s. sl_session_id s \<noteq> sid) as = as" "filter (\<lambda>s. sl_session_id s \<noteq> sid) bs = bs"
    using dist sl by (auto simp: session_ids_def filter_id_conv rev_image_eqI)
  with Some sl show ?thesis by (simp add: remove_slot_def)
qed

lemma slots_drop:
  "distinct (session_ids p) \<Longrightarrow>
   sp_slots (snd (drop_session sid p)) = filter (\<lambda>s. sl_session_id s \<noteq> sid) (sp_slots p)"
  unfolding drop_session_def
  by (subst slots_remove_filter) (simp_all add: suppress_reconnect_def filter_update_first_other session_ids_upd_slot)

lemma find_slot_drop_other:
  "distinct (session_ids p) \<Longrightarrow> i \<noteq> sid \<Longrightarrow> find_slot i (snd (drop_session sid p)) = find_slot i p"
  unfolding find_slot_def slots_drop by (rule find_filter_other) auto

text \<open>
  What makes a disconnect harmless: the session exists and is idle, and if it had a pull worker,
  that worker was stopped by the event just before, having reported idle just before that.
\<close>

definition harmless_disconnect :: "pool_host \<Rightarrow> supervised_pool \<Rightarrow> string \<Rightarrow> pool_event list \<Rightarrow> bool" where
  "harmless_disconnect H p sid h \<longleftrightarrow>
     (if sid \<in> sp_workers p
      then h \<noteq> [] \<and> last h = EvWorkerStop sid \<and> \<not> h_worker_busy H (butlast h) sid
      else (case find_slot sid p of None \<Rightarrow> False | Some s \<Rightarrow> \<not> sl_busy s))"

lemma harmless_drop:
  assumes "\<not> session_is_busy H sid p" "sid \<in> set (session_ids p)"
  shows "harmless_disconnect H p sid
     (sp_history p @ (if sid \<in> sp_workers p then [EvWorkerStop sid] else []))"
  using assms find_slot_iff [of sid p]
  by (auto simp: harmless_disconnect_def session_is_busy_def butlast_append split: option.splits if_splits)

lemma harmless_drop_other:
  assumes "distinct (session_ids p)" "i \<noteq> sid" "harmless_disconnect H (snd (drop_session sid p)) i h"
  shows "harmless_disconnect H p i h"
  using assms by (auto simp: harmless_disconnect_def find_slot_drop_other split: if_splits)

subsection \<open>The drain loop\<close>

text \<open>
  A drain from \<open>p\<close> to \<open>p'\<close> that disconnected the sessions \<open>D\<close>, in this order, with the events
  \<open>es\<close>.
\<close>

definition drained_to ::
    "pool_host \<Rightarrow> supervised_pool \<Rightarrow> string list \<Rightarrow> pool_event list \<Rightarrow> supervised_pool \<Rightarrow> bool" where
  "drained_to H p D es p' \<longleftrightarrow> sp_history p' = sp_history p @ es
     \<and> map fst (disconnects_at (sp_history p) es) = D \<and> distinct D \<and> set D \<subseteq> set (session_ids p)
     \<and> sp_slots p' = filter (\<lambda>s. sl_session_id s \<notin> set D) (sp_slots p)
     \<and> sp_workers p' = sp_workers p - set D \<and> pool_wf p'
     \<and> (\<forall>(i, h)\<in>set (disconnects_at (sp_history p) es). harmless_disconnect H p i h)"

lemma drained_to_refl: "pool_wf p \<Longrightarrow> drained_to H p [] [] p"
  by (simp add: drained_to_def)

lemma drained_to_drop:
  assumes "pool_wf p" "\<not> session_is_busy H sid p" "sid \<in> set (session_ids p)" "sid \<notin> set D"
    "drained_to H (snd (drop_session sid p)) D es p'"
  shows "drained_to H p (sid # D)
     ((if sid \<in> sp_workers p then [EvWorkerStop sid] else []) @ [EvDisconnect sid] @ es) p'"
proof -
  let ?w = "if sid \<in> sp_workers p then [EvWorkerStop sid] else []" and ?q = "snd (drop_session sid p)"
  have dist: "distinct (session_ids p)" using assms(1) by (rule wf_distinct)
  have disc: "disconnects_at (sp_history p) (?w @ [EvDisconnect sid] @ es)
      = (sid, sp_history p @ ?w) # disconnects_at (sp_history ?q) es" by simp
  have D: "map fst (disconnects_at (sp_history ?q) es) = D" using assms(5) by (simp only: drained_to_def)
  have later: "harmless_disconnect H p i h" if "(i, h) \<in> set (disconnects_at (sp_history ?q) es)" for i h
  proof -
    from that D have "i \<in> set D" by (metis fst_conv image_eqI list.set_map)
    with assms(4) have "i \<noteq> sid" by blast
    moreover from assms(5) that have "harmless_disconnect H ?q i h" by (auto simp only: drained_to_def)
    ultimately show ?thesis using harmless_drop_other [OF dist] by blast
  qed
  have "sp_slots p' = filter (\<lambda>s. sl_session_id s \<notin> set (sid # D)) (sp_slots p)"
    using assms(5) by (simp add: drained_to_def slots_drop dist conj_commute)
  moreover have "\<forall>(i, h)\<in>set (disconnects_at (sp_history p) (?w @ [EvDisconnect sid] @ es)).
      harmless_disconnect H p i h"
    unfolding disc using later harmless_drop [OF assms(2,3)] by auto
  moreover have "map fst (disconnects_at (sp_history p) (?w @ [EvDisconnect sid] @ es)) = sid # D"
    unfolding disc by (simp only: list.map D fst_conv)
  moreover have "set (sid # D) \<subseteq> set (session_ids p)" "sp_workers p' = sp_workers p - set (sid # D)"
    using assms(3,5) by (auto simp: drained_to_def session_ids_drop dist)
  ultimately show ?thesis
    using assms(4,5) unfolding drained_to_def by simp
qed

lemma drain_loop_outcome:
  assumes "drain_loop H ids d p = (d', p')" "pool_wf p" "distinct ids" "set ids \<subseteq> set (session_ids p)"
  shows "\<exists>D es. drained_to H p D es p' \<and> set D \<subseteq> set ids \<and> d' = d + word_of_nat (length D)"
  using assms
proof (induction ids arbitrary: d p)
  case Nil
  then show ?case using drained_to_refl by fastforce
next
  case (Cons sid ids)
  show ?case
  proof (cases "session_is_busy H sid p")
    case True
    then have "drain_loop H ids d p = (d', p')" using Cons.prems by simp
    from Cons.IH [OF this Cons.prems(2)] Cons.prems(3,4) show ?thesis by auto
  next
    case False
    let ?q = "snd (drop_session sid p)"
    have mem: "sid \<in> set (session_ids p)" and dist: "distinct (session_ids p)"
      using Cons.prems(2,4) by (auto simp: wf_distinct)
    have loop: "drain_loop H ids (d + 1) ?q = (d', p')"
      using Cons.prems(1) False mem drop_session_fst [of sid p] by (simp add: case_prod_beta)
    have "set ids \<subseteq> set (session_ids ?q)"
      using Cons.prems(3,4) by (auto simp: session_ids_drop dist)
    with Cons.IH [OF loop wf_drop_session [OF Cons.prems(2)]] Cons.prems(3)
    obtain D es where D: "drained_to H ?q D es p'" "set D \<subseteq> set ids" "d' = d + 1 + word_of_nat (length D)"
      by auto
    then have "sid \<notin> set D" using Cons.prems(3) by auto
    from drained_to_drop [OF Cons.prems(2) False mem this D(1)] D(2,3)
    have "drained_to H p (sid # D) ((if sid \<in> sp_workers p then [EvWorkerStop sid] else []) @ [EvDisconnect sid] @ es) p'
      \<and> set (sid # D) \<subseteq> set (sid # ids) \<and> d' = d + word_of_nat (length (sid # D))"
      by (auto simp: ac_simps)
    then show ?thesis by blast
  qed
qed

lemma drain_candidates_subset:
  "set (drain_candidates H p) \<subseteq> set (session_ids p)"
  by (auto simp: drain_candidates_def idle_session_ids_def)

lemma drain_candidates_distinct: "distinct (session_ids p) \<Longrightarrow> distinct (drain_candidates H p)"
  by (simp add: drain_candidates_def idle_session_ids_def)

lemma drain_candidates_length: "length (drain_candidates H p) \<le> length (sp_slots p)"
  unfolding drain_candidates_def idle_session_ids_def session_ids_def
  by (meson length_filter_le order_trans length_map [THEN eq_imp_le])

lemma drained_to_notify:
  assumes "drained_to H p D es p'"
  shows "\<exists>es'. drained_to H p D es' (notify_sessions_changed H p')"
proof (cases "h_on_sessions_changed H")
  case True
  then have "drained_to H p D (es @ [EvSessionsChanged (session_ids p')]) (notify_sessions_changed H p')"
    using assms by (simp add: drained_to_def notify_sessions_changed_def wf_emit)
  then show ?thesis by blast
next
  case False
  with assms show ?thesis by (auto simp: notify_sessions_changed_def)
qed

definition drain_plan :: "pool_host \<Rightarrow> u32 option \<Rightarrow> f64 option \<Rightarrow> supervised_pool \<Rightarrow> pool_drain_plan" where
  "drain_plan H count fraction p = plan_pool_drain (pool_target_size (sp_config p)) (live_session_count p)
     fraction count (word_of_nat (length (drain_candidates H p)))"

lemma drain_with_plan_outcome:
  assumes "drain_with_plan H count fraction p = (r, p')" "pool_wf p" "\<not> migration_keep_source p"
  shows "\<exists>D es. drained_to H p D es p'
     \<and> set D \<subseteq> set (take (unat (pdp_to_drain (drain_plan H count fraction p))) (drain_candidates H p))
     \<and> pdn_drained r = word_of_nat (length D) \<and> pdn_remaining r = live_session_count p'"
proof -
  let ?ids = "take (unat (pdp_to_drain (drain_plan H count fraction p))) (drain_candidates H p)"
  obtain d q where loop: "drain_loop H ?ids 0 p = (d, q)" by fastforce
  have ids: "distinct ?ids" "set ?ids \<subseteq> set (session_ids p)"
    using drain_candidates_distinct [OF wf_distinct [OF assms(2)], of H] drain_candidates_subset [of H p]
    by (auto dest: in_set_takeD)
  from drain_loop_outcome [OF loop assms(2) ids] obtain D es
    where D: "drained_to H p D es q" "set D \<subseteq> set ?ids" "d = word_of_nat (length D)" by auto
  have p': "p' = notify_sessions_changed H q" and r: "pdn_drained r = d" "pdn_remaining r = live_session_count p'"
    using assms(1,3) loop unfolding drain_plan_def drain_with_plan_def by (auto simp: Let_def)
  from drained_to_notify [OF D(1)] D(2,3) r show ?thesis unfolding p' by blast
qed

lemma drained_length:
  assumes "pool_wf p" "drained_to H p D es p'" "set D \<subseteq> set (session_ids p)"
  shows "length (sp_slots p') + length D = length (sp_slots p)"
proof -
  have "length (filter (\<lambda>s. sl_session_id s \<in> set D) (sp_slots p)) = card (set D)"
  proof -
    have "length (filter (\<lambda>s. sl_session_id s \<in> set D) (sp_slots p)) = length (filter (\<lambda>i. i \<in> set D) (session_ids p))"
      by (simp add: session_ids_def filter_map comp_def)
    also have "\<dots> = card (set (filter (\<lambda>i. i \<in> set D) (session_ids p)))"
      using wf_distinct [OF assms(1)] by (simp only: distinct_card distinct_filter)
    also have "set (filter (\<lambda>i. i \<in> set D) (session_ids p)) = set D" using assms(3) by auto
    finally show ?thesis .
  qed
  also have "\<dots> = length D" using assms(2) by (simp add: drained_to_def distinct_card)
  finally show ?thesis
    using assms(2) count_filter_partition [of "\<lambda>s. sl_session_id s \<in> set D" "sp_slots p"]
    by (simp add: drained_to_def)
qed

lemma drained_plan_le:
  assumes "drained_to H p D es p'" "set D \<subseteq> set (take n ids)"
  shows "length D \<le> n"
proof -
  have "length D = card (set D)" using assms(1) by (simp add: drained_to_def distinct_card)
  also have "\<dots> \<le> card (set (take n ids))" using assms(2) by (intro card_mono) simp_all
  also have "\<dots> \<le> n" by (rule order_trans [OF card_length]) simp
  finally show ?thesis .
qed

text \<open>
  (C25) A drain removes exactly the sessions it disconnects and reports truthfully: in a well-formed
  pool the slots that remain are the old ones less the disconnected ones, in order; every drained
  session was an idle candidate; the reported counts are the number drained and the number left,
  and the number drained is within the plan. The pool stays well formed.
\<close>

theorem drain_removes_exactly_drained:
  assumes "pool_wf p" "length (sp_slots p) < 2 ^ 32"
  shows "case drain_with_plan H count fraction p of (r, p') \<Rightarrow>
     (\<exists>es. sp_history p' = sp_history p @ es
        \<and> (let D = map fst (disconnects_at (sp_history p) es) in
            distinct D \<and> set D \<subseteq> set (drain_candidates H p)
            \<and> sp_slots p' = filter (\<lambda>s. sl_session_id s \<notin> set D) (sp_slots p)
            \<and> unat (pdn_drained r) = length D
            \<and> length D \<le> unat (pdp_to_drain (drain_plan H count fraction p))
            \<and> unat (pdn_remaining r) = length (sp_slots p) - length D))
     \<and> pool_wf p'"
proof (cases "migration_keep_source p")
  case True
  then have "drain_with_plan H count fraction p =
      (\<lparr>pdn_drained = 0, pdn_remaining = live_session_count p, pdn_target_remaining = live_session_count p,
        pdn_blocked = True, pdn_reason = Some ''migration_hold''\<rparr>, p)"
    by (simp add: drain_with_plan_def Let_def)
  with assms show ?thesis by (simp add: live_session_count_def unat_of_nat_small exI [of _ "[]"])
next
  case False
  obtain r p' where dr: "drain_with_plan H count fraction p = (r, p')" by fastforce
  let ?n = "unat (pdp_to_drain (drain_plan H count fraction p))"
  from drain_with_plan_outcome [OF dr assms(1) False] obtain D es
    where D: "drained_to H p D es p'" "set D \<subseteq> set (take ?n (drain_candidates H p))"
      "pdn_drained r = word_of_nat (length D)" "pdn_remaining r = live_session_count p'" by blast
  have cand: "set D \<subseteq> set (drain_candidates H p)" using D(2) by (auto dest: in_set_takeD)
  then have len: "length (sp_slots p') + length D = length (sp_slots p)"
    using drained_length [OF assms(1) D(1)] drain_candidates_subset [of H p] by blast
  have le: "length D \<le> ?n" by (rule drained_plan_le [OF D(1,2)])
  have wr: "unat (pdn_drained r) = length D" "unat (pdn_remaining r) = length (sp_slots p) - length D"
    using len assms(2) by (simp_all add: D(3,4) live_session_count_def unat_of_nat_small)
  have "sp_history p' = sp_history p @ es" and eq: "map fst (disconnects_at (sp_history p) es) = D"
    using D(1) by (simp_all add: drained_to_def)
  moreover have "distinct D" "sp_slots p' = filter (\<lambda>s. sl_session_id s \<notin> set D) (sp_slots p)" "pool_wf p'"
    using D(1) by (simp_all add: drained_to_def)
  ultimately show ?thesis unfolding dr prod.case Let_def using cand le wr by blast
qed

text \<open>
  (C9) A drain never interrupts an inference: every session it disconnects was idle at that moment.
  If the session had a pull worker, the worker was stopped by the event just before the disconnect
  and reported not busy just before it was stopped; if not, its slot was not marked busy. This
  holds whatever the workers do between the plan and the tear-down.
\<close>

theorem drain_never_interrupts:
  assumes "pool_wf p" "drain_with_plan H count fraction p = (r, p')"
    "sp_history p' = sp_history p @ es" "(sid, h) \<in> set (disconnects_at (sp_history p) es)"
  shows "harmless_disconnect H p sid h"
proof (cases "migration_keep_source p")
  case True
  then have "p' = p" using assms(2) by (simp add: drain_with_plan_def Let_def)
  with assms(3,4) show ?thesis by simp
next
  case False
  from drain_with_plan_outcome [OF assms(2,1) this] obtain D es' where "drained_to H p D es' p'" by blast
  moreover from this assms(3) have "es' = es" by (simp add: drained_to_def)
  ultimately show ?thesis using assms(4) by (auto simp: drained_to_def)
qed

text \<open>
  A drain respects a running gateway migration: while busy source sessions await retirement,
  a drain of a partial migration does nothing and reports \<^verbatim>\<open>migration_hold\<close>, and a drain of a full
  migration keeps every session already on the target gateway.
\<close>

theorem drain_respects_migration_hold:
  assumes "pool_wf p" "sp_migration_hold p = Some hold" "drain_with_plan H count fraction p = (r, p')"
  shows "if mh_keep_source hold then p' = p \<and> pdn_blocked r \<and> pdn_reason r = Some ''migration_hold''
     else filter (\<lambda>s. sl_gateway_base_url s = mh_target_url hold) (sp_slots p')
        = filter (\<lambda>s. sl_gateway_base_url s = mh_target_url hold) (sp_slots p)"
proof -
  have pend: "mh_pending_source hold \<noteq> []" using assms(1,2) by (simp add: pool_wf_def hold_wf_def)
  show ?thesis
  proof (cases "mh_keep_source hold")
    case True
    with pend assms(2,3) show ?thesis
      by (auto simp: drain_with_plan_def migration_keep_source_def Let_def)
  next
    case False
    then have keep: "\<not> migration_keep_source p" using assms(2) by (simp add: migration_keep_source_def)
    from drain_with_plan_outcome [OF assms(3,1) keep] obtain D es
      where D: "drained_to H p D es p'" "set D \<subseteq> set (drain_candidates H p)"
      by (metis (no_types, lifting) set_take_subset subset_trans)
    have "s \<in> set (sp_slots p) \<Longrightarrow> sl_gateway_base_url s = mh_target_url hold \<Longrightarrow> sl_session_id s \<notin> set D" for s
    proof -
      assume s: "s \<in> set (sp_slots p)" "sl_gateway_base_url s = mh_target_url hold"
      have "find_slot (sl_session_id s) p = Some s"
        using find_distinct s(1) wf_distinct [OF assms(1)] unfolding find_slot_def session_ids_def by metis
      then have "session_gateway_url (sl_session_id s) p = Some (mh_target_url hold)"
        by (simp add: session_gateway_url_def s(2))
      with pend assms(2) have "sl_session_id s \<notin> set (drain_candidates H p)"
        by (simp add: drain_candidates_def migration_target_protected_def)
      with D(2) show "sl_session_id s \<notin> set D" by blast
    qed
    then have "filter (\<lambda>s. sl_gateway_base_url s = mh_target_url hold) (sp_slots p')
        = filter (\<lambda>s. sl_gateway_base_url s = mh_target_url hold) (sp_slots p)"
      using D(1) by (auto simp: drained_to_def intro!: filter_cong)
    with False show ?thesis by simp
  qed
qed

subsection \<open>Desired-pool hints\<close>

lemma plan_drain_count_le: "pdp_to_drain (plan_pool_drain n cur None (Some c) idle) \<le> c"
  by (simp add: plan_pool_drain_def plan_pool_drain_by_count_def Let_def min.coboundedI1)

lemma wf_drain_with_plan:
  assumes "pool_wf p"
  shows "pool_wf (snd (drain_with_plan H count fraction p))"
proof (cases "migration_keep_source p")
  case True
  with assms show ?thesis by (simp add: drain_with_plan_def Let_def)
next
  case False
  obtain r p' where dr: "drain_with_plan H count fraction p = (r, p')" by fastforce
  with drain_with_plan_outcome [OF dr assms False] show ?thesis by (auto simp: drained_to_def)
qed

lemma wf_apply_desired:
  "fresh_host H \<Longrightarrow> pool_wf p \<Longrightarrow> pool_wf (snd (apply_desired_pool_target H n p))"
proof -
  assume H: "fresh_host H" and wf: "pool_wf p"
  have "pool_wf q" if "scale_to H m t p = (r, q)" for m t r q
    using wf_scale_to [OF H wf, of m t] that by simp
  then show ?thesis
    using wf by (auto simp: apply_desired_pool_target_def Let_def drain_idle_sessions_def wf_drain_with_plan
        split: option.split prod.split sum.split)
qed

text \<open>
  A gateway hint moves the pool towards the clamped target and never past it: when applying a
  hint succeeds, a pool at or below the target has exactly the target number of sessions, and a
  pool above it has lost only sessions above the target (busy ones may stay).
\<close>

theorem desired_pool_never_overshoots:
  assumes "pool_wf p" "length (sp_slots p) < 2 ^ 32"
    and "apply_desired_pool_target H hint p = (Inr (), p')"
    and "desired = unat (clamp_desired_pool_target hint (pool_baseline (sp_config p)) (pool_target_size (sp_config p)))"
  shows "if length (sp_slots p) \<le> desired then length (sp_slots p') = desired
     else desired \<le> length (sp_slots p') \<and> length (sp_slots p') \<le> length (sp_slots p)"
proof -
  let ?d = "clamp_desired_pool_target hint (pool_baseline (sp_config p)) (pool_target_size (sp_config p))"
  let ?cur = "live_session_count p"
  have cur: "unat ?cur = length (sp_slots p)" using assms(2) by (simp add: live_session_count_def unat_of_nat_small)
  consider (eq) "?d = ?cur" | (up) "?cur < ?d" | (down) "?d < ?cur" by force
  then show ?thesis
  proof cases
    case eq
    with assms(3) have "p' = p" by (simp add: apply_desired_pool_target_def Let_def)
    then show ?thesis using cur by (simp add: assms(4) eq)
  next
    case up
    then obtain t k where sc: "scale_to H ?d t p = (Inr k, p')"
      using assms(3) by (auto simp: apply_desired_pool_target_def Let_def split: option.splits prod.splits sum.splits if_splits)
    have "length (sp_slots p) < unat ?d" using up cur by (simp add: word_less_nat_alt)
    with scale_to_exact [OF assms(2) sc] show ?thesis by (simp add: assms(4))
  next
    case down
    then have lt: "unat ?d < length (sp_slots p)" using cur by (simp add: word_less_nat_alt)
    have sub: "unat (?cur - ?d) = length (sp_slots p) - unat ?d"
      using down cur by (simp add: unat_sub_le order_less_imp_le)
    have p': "p' = snd (drain_with_plan H (Some (?cur - ?d)) None p)"
      using assms(3) order_less_not_sym [OF down] less_imp_neq [OF down]
      by (simp add: apply_desired_pool_target_def Let_def drain_idle_sessions_def)
    obtain r where dr: "drain_with_plan H (Some (?cur - ?d)) None p = (r, p')" using p' by (metis prod.collapse)
    show ?thesis
    proof (cases "migration_keep_source p")
      case True
      then have "p' = p" using dr by (simp add: drain_with_plan_def Let_def)
      with lt show ?thesis by (simp add: assms(4))
    next
      case False
      from drain_with_plan_outcome [OF dr assms(1) False] obtain D es where D: "drained_to H p D es p'"
        "set D \<subseteq> set (take (unat (pdp_to_drain (drain_plan H (Some (?cur - ?d)) None p))) (drain_candidates H p))"
        by blast
      have "unat (pdp_to_drain (drain_plan H (Some (?cur - ?d)) None p)) \<le> unat (?cur - ?d)"
        using plan_drain_count_le by (simp add: drain_plan_def word_le_nat_alt)
      with drained_plan_le [OF D] have le: "length D \<le> length (sp_slots p) - unat ?d" using sub by simp
      have "set D \<subseteq> set (session_ids p)"
        using D(2) drain_candidates_subset [of H p] by (auto dest!: in_set_takeD)
      from drained_length [OF assms(1) D(1) this] le lt show ?thesis by (simp add: assms(4))
    qed
  qed
qed

lemma is_whitespace_digit: "is_ascii_digit c \<Longrightarrow> \<not> is_whitespace c"
  by (auto simp: is_ascii_digit_def is_whitespace_def)

lemma trim_digits:
  assumes "list_all is_ascii_digit s" "list_all is_whitespace a" "list_all is_whitespace b" "s \<noteq> []"
  shows "trim (a @ s @ b) = s"
proof -
  obtain c t where s: "s = c # t" using assms(4) by (cases s) auto
  then have c: "\<not> is_whitespace c" using assms(1) by (auto simp: is_whitespace_digit)
  have "trim_start (a @ s @ b) = s @ b"
    using assms(2) c unfolding trim_start_def s by (induction a) auto
  moreover have "trim_end (s @ b) = s"
  proof -
    have "rev s \<noteq> []" "\<not> is_whitespace (hd (rev s))"
      using assms(1,4) by (auto simp: hd_rev list_all_iff intro!: is_whitespace_digit)
    then obtain d u where r: "rev s = d # u" "\<not> is_whitespace d" by (cases "rev s") auto
    have "dropWhile is_whitespace (rev b @ d # u) = d # u"
      using assms(3) r(2) by (subst dropWhile_append2) (auto simp: list_all_iff)
    then show ?thesis by (simp add: trim_end_def r flip: r(1))
  qed
  ultimately show ?thesis by (simp add: trim_def)
qed

lemma strip_plus_digits: "list_all is_ascii_digit s \<Longrightarrow> strip_plus s = s"
  by (auto simp: strip_plus_def is_ascii_digit_def split: list.split)

lemma parse_u32_show: "parse_u32 (show_word (n :: u32)) = Some n"
proof -
  have "uint n < 2 ^ LENGTH(32)" by (rule unsigned_less)
  then show ?thesis
    by (simp add: parse_u32_def parse_uint_def show_word_def strip_plus_digits list_all_show_nat
        show_nat_nonempty digits_value_show_nat Let_def)
qed

text \<open>
  The desired-pool header round-trips: any positive count printed in decimal, with white space
  around it, parses back to itself, and every value the parser accepts is positive.
\<close>

theorem desired_pool_header_roundtrip:
  assumes "1 \<le> n" "list_all is_whitespace a" "list_all is_whitespace b"
  shows "parse_desired_pool_target_header (Some (a @ show_word n @ b)) = Some n
     \<and> (parse_desired_pool_target_header raw = Some m \<longrightarrow> 1 \<le> m)"
proof -
  have "trim (a @ show_word n @ b) = show_word n"
    using assms(2,3) by (intro trim_digits) (simp_all add: show_word_def list_all_show_nat show_nat_nonempty)
  moreover have "show_word n \<noteq> []" by (simp add: show_word_def show_nat_nonempty)
  ultimately show ?thesis
    using assms(1) by (auto simp: parse_desired_pool_target_header_def parse_u32_show one_le_word_iff Let_def
        split: option.splits if_splits)
qed

subsection \<open>Instances\<close>

definition sample_busy_host :: pool_host where
  "sample_busy_host = sample_host\<lparr>h_worker_busy := (\<lambda>_ sid. sid = ''ss'')\<rparr>"

definition sample_running_pool :: supervised_pool where
  "sample_running_pool = sample_pool\<lparr>sp_workers := {''ss'', ''ssss''}\<rparr>"

definition sample_held_pool :: supervised_pool where
  "sample_held_pool = sample_pool\<lparr>sp_migration_hold :=
     Some \<lparr>mh_target_url = ''gw'', mh_pending_source = [''old''], mh_keep_source = False\<rparr>\<rparr>"

lemma sample_running_pool_wf: "pool_wf sample_running_pool"
proof -
  have ids: "session_ids sample_running_pool = [''s'', ''ss'', ''ssss'', ''ssssssss'']"
    using sample_pool_ids by (simp add: sample_running_pool_def session_ids_def)
  show ?thesis using sample_pool_wf
    by (simp add: pool_wf_def ids sample_pool_ids) (simp add: sample_running_pool_def)
qed

lemma sample_held_pool_wf: "pool_wf sample_held_pool"
  using sample_pool_wf by (simp add: pool_wf_def sample_held_pool_def session_ids_def hold_wf_def)

theorem drain_removes_exactly_drained_witness:
  "pool_wf sample_running_pool
   \<and> pool_wf (snd (drain_with_plan sample_busy_host (Some 2) None sample_running_pool))
   \<and> session_ids (snd (drain_with_plan sample_busy_host (Some 2) None sample_running_pool)) = [''ss'', ''ssssssss'']"
proof -
  have "length (sp_slots sample_running_pool) = 4" by code_simp
  then have h: "length (sp_slots sample_running_pool) < 2 ^ 32" by simp
  have "session_ids (snd (drain_with_plan sample_busy_host (Some 2) None sample_running_pool)) = [''ss'', ''ssssssss'']"
    by code_simp
  with drain_removes_exactly_drained [OF sample_running_pool_wf h,
      where H = sample_busy_host and count = "Some 2" and fraction = None]
  show ?thesis using sample_running_pool_wf by (simp add: case_prod_beta)
qed

theorem drain_never_interrupts_witness:
  "\<exists>h. harmless_disconnect sample_busy_host sample_running_pool ''ssss'' h"
proof -
  let ?H = sample_busy_host and ?p = sample_running_pool
  let ?p' = "snd (drain_with_plan ?H (Some 2) None ?p)" and ?r = "fst (drain_with_plan ?H (Some 2) None ?p)"
  let ?es = "drop (length (sp_history ?p)) (sp_history ?p')"
  have es: "sp_history ?p' = sp_history ?p @ ?es" by code_simp
  have "map fst (disconnects_at (sp_history ?p) ?es) = [''s'', ''ssss'']" by code_simp
  then have "''ssss'' \<in> fst ` set (disconnects_at (sp_history ?p) ?es)"
    by (metis list.set_intros(1,2) list.set_map)
  then obtain h where "(''ssss'', h) \<in> set (disconnects_at (sp_history ?p) ?es)" by force
  from drain_never_interrupts [OF sample_running_pool_wf prod.collapse [symmetric] es this]
  show ?thesis by blast
qed

theorem drain_respects_migration_hold_witness:
  "length (filter (\<lambda>s. sl_gateway_base_url s = ''gw'')
     (sp_slots (snd (drain_with_plan sample_host (Some 2) None sample_held_pool)))) = 4"
proof -
  let ?h = "\<lparr>mh_target_url = ''gw'', mh_pending_source = [''old''], mh_keep_source = False\<rparr>"
  have h: "sp_migration_hold sample_held_pool = Some ?h" by (simp add: sample_held_pool_def)
  have n: "length (filter (\<lambda>s. sl_gateway_base_url s = ''gw'') (sp_slots sample_held_pool)) = 4" by code_simp
  show ?thesis
    using drain_respects_migration_hold [OF sample_held_pool_wf h prod.collapse [symmetric],
        where H = sample_host and count = "Some 2" and fraction = None] n
    by simp
qed

theorem desired_pool_never_overshoots_witness:
  "2 \<le> length (sp_slots (snd (apply_desired_pool_target sample_busy_host 2 sample_running_pool)))
   \<and> length (sp_slots (snd (apply_desired_pool_target sample_busy_host 2 sample_running_pool))) \<le> 4"
proof -
  let ?p = sample_running_pool and ?H = sample_busy_host
  have r: "fst (apply_desired_pool_target ?H 2 ?p) = Inr ()" by code_simp
  then have ap: "apply_desired_pool_target ?H 2 ?p = (Inr (), snd (apply_desired_pool_target ?H 2 ?p))"
    by (metis prod.collapse)
  have n: "length (sp_slots ?p) = 4"
    "unat (clamp_desired_pool_target 2 (pool_baseline (sp_config ?p)) (pool_target_size (sp_config ?p))) = 2"
    by code_simp+
  then have "length (sp_slots ?p) < 2 ^ 32" by simp
  from desired_pool_never_overshoots [OF sample_running_pool_wf this ap refl] show ?thesis by (simp add: n)
qed

theorem desired_pool_header_roundtrip_witness:
  "1 \<le> (12 :: u32) \<and> parse_desired_pool_target_header (Some ('' '' @ show_word (12 :: u32) @ [])) = Some 12"
proof -
  have "list_all is_whitespace '' ''" by code_simp
  then show ?thesis using desired_pool_header_roundtrip [of 12 "'' ''" "[]"] by simp
qed

end
