(* ===== verification/Pool_Migrate.thy ===== *)
theory Pool_Migrate
  imports Pool_Drain
begin

section \<open>Gateway migration\<close>

text \<open>
  \<^verbatim>\<open>migrate_gateway_pool\<close> of \<^verbatim>\<open>ie-engine/src/pool.rs\<close>: make-before-break migration of the pool to
  another gateway. Idle source sessions are redialled in place, busy ones get a replacement on the
  target and are retired by a spawned task once their chat ends; the migration hold protects both
  from a concurrent drain. The lemmas show that the whole migration is make-before-break and that a
  success reaches the planned count; that retirement disconnects idle sessions only, and that it
  finishes once they are idle.
\<close>

record gateway_migration_result =
  gmx_moved :: u32
  gmx_on_target :: u32
  gmx_on_source :: u32
  gmx_target_count :: u32
  gmx_blocked :: bool
  gmx_reason :: "string option"

subsection \<open>The hold\<close>

definition prune_migration_hold :: "supervised_pool \<Rightarrow> supervised_pool" where
  "prune_migration_hold p =
     (case sp_migration_hold p of None \<Rightarrow> p
      | Some h \<Rightarrow>
         (let target = mh_target_url h;
              pending = filter (\<lambda>sid. list_ex (\<lambda>s. sl_session_id s = sid \<and> sl_gateway_base_url s \<noteq> target)
                                  (sp_slots p)) (mh_pending_source h)
          in if pending = [] then p\<lparr>sp_migration_hold := None\<rparr>
             else p\<lparr>sp_migration_hold := Some (h\<lparr>mh_pending_source := pending\<rparr>)\<rparr>))"

definition arm_migration_hold :: "string \<Rightarrow> string list \<Rightarrow> bool \<Rightarrow> supervised_pool \<Rightarrow> supervised_pool" where
  "arm_migration_hold target pending keep_source p =
     p\<lparr>sp_migration_hold := Some \<lparr>mh_target_url = target, mh_pending_source = pending,
        mh_keep_source = keep_source\<rparr>\<rparr>"

definition forget_migration_pending :: "string \<Rightarrow> supervised_pool \<Rightarrow> supervised_pool" where
  "forget_migration_pending sid p =
     (case sp_migration_hold p of None \<Rightarrow> p
      | Some h \<Rightarrow>
         (let pending = filter (\<lambda>i. i \<noteq> sid) (mh_pending_source h)
          in if pending = [] then p\<lparr>sp_migration_hold := None\<rparr>
             else p\<lparr>sp_migration_hold := Some (h\<lparr>mh_pending_source := pending\<rparr>)\<rparr>))"

subsection \<open>Dialling the target\<close>

definition no_template_error :: engine_error where
  "no_template_error = EConnect ''no connect template; boot the pool first''"

text \<open>The dial both migration paths share: fresh session id and nonce, fresh attestation.\<close>

definition migration_dial ::
    "pool_host \<Rightarrow> string \<Rightarrow> supervised_pool \<Rightarrow> (engine_error + string) \<times> supervised_pool" where
  "migration_dial H url p =
     (case sp_connect_template p of None \<Rightarrow> (Inl no_template_error, p)
      | Some template \<Rightarrow>
         (let req = template\<lparr>acr_session_id := h_new_uuid H (sp_history p),
                acr_gateway_challenge_nonce := Some (h_new_nonce H (sp_history p))\<rparr>
          in case apply_fresh_attestation H req p of
               (Inl e, p) \<Rightarrow> (Inl e, p)
             | (Inr req, p) \<Rightarrow>
                (let p = p\<lparr>sp_connect_template := Some req\<rparr>;
                     ans = h_connect_to H (sp_history p) url req;
                     p = emit (EvConnectTo url req) p
                 in case ans of
                      Inl e \<Rightarrow> (Inl (EConnect e), p)
                    | Inr conn \<Rightarrow> (Inr (cr_session_id conn), emit (EvConnected (cr_session_id conn) url) p))))"

definition dial_session_onto :: "pool_host \<Rightarrow> string \<Rightarrow> supervised_pool \<Rightarrow> (engine_error + unit) \<times> supervised_pool" where
  "dial_session_onto H url p =
     (case migration_dial H url p of
        (Inl e, p) \<Rightarrow> (Inl e, p)
      | (Inr sid, p) \<Rightarrow> (Inr (), session_ready_and_start H sid (push_slot (new_slot sid url) p)))"

definition migrate_session_to ::
    "pool_host \<Rightarrow> string \<Rightarrow> string \<Rightarrow> supervised_pool \<Rightarrow> (engine_error + unit) \<times> supervised_pool" where
  "migrate_session_to H old normalized p =
     (case position (\<lambda>s. sl_session_id s = old \<and> sl_gateway_base_url s \<noteq> normalized) (sp_slots p) of
        None \<Rightarrow> (Inr (), p)
      | Some index \<Rightarrow>
         (case migration_dial H normalized p of
            (Inl e, p) \<Rightarrow> (Inl e, p)
          | (Inr new, p) \<Rightarrow>
             (let p = emit (EvDisconnect old) (stop_session old (suppress_reconnect old p));
                  slots = sp_slots p;
                  p = (if index < length slots then
                         (if sl_session_id (slots ! index) = old
                          then p\<lparr>sp_slots := slots[index := new_slot new normalized]\<rparr>
                          else push_slot (new_slot new normalized) p)
                       else p)
              in (Inr (), session_ready_and_start H new p))))"

fun migrate_idle ::
    "pool_host \<Rightarrow> string \<Rightarrow> string list \<Rightarrow> u32 \<Rightarrow> u32 \<Rightarrow> supervised_pool
     \<Rightarrow> (engine_error + u32 \<times> u32) \<times> supervised_pool" where
  "migrate_idle H normalized [] need moved p = (Inr (need, moved), p)"
| "migrate_idle H normalized (sid # sids) need moved p =
     (if need = 0 then (Inr (need, moved), p)
      else case migrate_session_to H sid normalized p of
        (Inl e, p) \<Rightarrow> (Inl e, p)
      | (Inr _, p) \<Rightarrow> migrate_idle H normalized sids (need - 1) (moved + 1) p)"

definition spawn_deferred_source_retire :: "string list \<Rightarrow> supervised_pool \<Rightarrow> supervised_pool" where
  "spawn_deferred_source_retire ids p = (if ids = [] then p else emit (EvSpawnRetire ids) p)"

fun dial_ahead ::
    "pool_host \<Rightarrow> string \<Rightarrow> bool \<Rightarrow> string list \<Rightarrow> string list \<Rightarrow> u32 \<Rightarrow> supervised_pool
     \<Rightarrow> (engine_error + string list \<times> u32) \<times> supervised_pool" where
  "dial_ahead H normalized keep_source [] ready moved p = (Inr (ready, moved), p)"
| "dial_ahead H normalized keep_source (sid # sids) ready moved p =
     (case dial_session_onto H normalized p of
        (Inl e, p) \<Rightarrow>
          (Inl e, if ready = [] then p\<lparr>sp_migration_hold := None\<rparr>
                  else spawn_deferred_source_retire ready (arm_migration_hold normalized ready keep_source p))
      | (Inr _, p) \<Rightarrow> dial_ahead H normalized keep_source sids (ready @ [sid]) (moved + 1) p)"

subsection \<open>The migration\<close>

definition on_gateway :: "string \<Rightarrow> supervised_pool \<Rightarrow> session_slot list" where
  "on_gateway url p = filter (\<lambda>s. sl_gateway_base_url s = url) (sp_slots p)"

definition held_sources :: "supervised_pool \<Rightarrow> string list" where
  "held_sources p = (case sp_migration_hold p of None \<Rightarrow> [] | Some h \<Rightarrow> mh_pending_source h)"

text \<open>The pool as the migration plans on it: new primary announced, stale hold entries pruned.\<close>

definition migration_start :: "string \<Rightarrow> supervised_pool \<Rightarrow> supervised_pool" where
  "migration_start normalized p =
     prune_migration_hold (emit (EvSetPrimary normalized) (p\<lparr>sp_gateway_base_url := normalized\<rparr>))"

text \<open>Sessions not on the target yet, and the plan computed from them.\<close>

definition migration_sources :: "string \<Rightarrow> supervised_pool \<Rightarrow> string list" where
  "migration_sources normalized p =
     map sl_session_id (filter (\<lambda>s. sl_gateway_base_url s \<noteq> normalized) (sp_slots p))"

definition migration_plan :: "string \<Rightarrow> f64 \<Rightarrow> supervised_pool \<Rightarrow> gateway_migration_plan" where
  "migration_plan normalized fraction p =
     (let pending = word_of_nat (length (held_sources p)) :: u32;
          on_target = word_of_nat (length (on_gateway normalized p)) :: u32;
          source_count = word_of_nat (length (migration_sources normalized p)) :: u32;
          logical = source_count + on_target - min pending (source_count + on_target)
      in plan_gateway_migration logical on_target fraction)"

definition idle_sources :: "pool_host \<Rightarrow> string \<Rightarrow> supervised_pool \<Rightarrow> string list" where
  "idle_sources H normalized p =
     filter (\<lambda>sid. sid \<notin> set (held_sources p) \<and> \<not> session_is_busy H sid p) (migration_sources normalized p)"

definition busy_sources :: "pool_host \<Rightarrow> string \<Rightarrow> supervised_pool \<Rightarrow> string list" where
  "busy_sources H normalized p =
     filter (\<lambda>sid. sid \<notin> set (held_sources p) \<and> session_is_busy H sid p) (migration_sources normalized p)"

text \<open>The second half of the migration: replacements for the planned busy sessions, then the report.\<close>

definition migrate_busy ::
    "pool_host \<Rightarrow> string \<Rightarrow> f64 \<Rightarrow> gateway_migration_plan \<Rightarrow> string list \<Rightarrow> u32 \<Rightarrow> supervised_pool
     \<Rightarrow> (engine_error + gateway_migration_result) \<times> supervised_pool" where
  "migrate_busy H normalized fraction plan planned moved p =
     (let keep_source = f64_lt fraction f64_one;
          p = (if planned \<noteq> [] then arm_migration_hold normalized planned keep_source p else p)
      in case dial_ahead H normalized keep_source planned [] moved p of
           (Inl e, p) \<Rightarrow> (Inl e, p)
         | (Inr (ready, moved), p) \<Rightarrow>
            (let p = spawn_deferred_source_retire ready p;
                 p = (if 0 < moved then notify_sessions_changed H p else p);
                 final_on_target = word_of_nat (length (on_gateway normalized p)) :: u32
             in (Inr \<lparr>gmx_moved = moved, gmx_on_target = final_on_target,
                      gmx_on_source = word_of_nat (length (sp_slots p)) - final_on_target,
                      gmx_target_count = gmp_target_count plan, gmx_blocked = False,
                      gmx_reason = None\<rparr>, p)))"

definition migrate_planned ::
    "pool_host \<Rightarrow> string \<Rightarrow> f64 \<Rightarrow> supervised_pool
     \<Rightarrow> (engine_error + gateway_migration_result) \<times> supervised_pool" where
  "migrate_planned H normalized fraction p =
     (let plan = migration_plan normalized fraction p
      in if gmp_blocked plan then
           (Inr \<lparr>gmx_moved = 0, gmx_on_target = word_of_nat (length (on_gateway normalized p)),
                 gmx_on_source = word_of_nat (length (migration_sources normalized p)),
                 gmx_target_count = gmp_target_count plan, gmx_blocked = True,
                 gmx_reason = gmp_reason plan\<rparr>, p)
         else
          (case migrate_idle H normalized (idle_sources H normalized p) (gmp_to_move plan) 0 p of
             (Inl e, p') \<Rightarrow> (Inl e, p')
           | (Inr (need, moved), p') \<Rightarrow>
              migrate_busy H normalized fraction plan (take (unat need) (busy_sources H normalized p)) moved p'))"

definition migrate_gateway_pool ::
    "pool_host \<Rightarrow> string \<Rightarrow> f64 \<Rightarrow> supervised_pool
     \<Rightarrow> (engine_error + gateway_migration_result) \<times> supervised_pool" where
  "migrate_gateway_pool H target_url fraction p =
     (let normalized = trim target_url
      in if normalized = [] then (Inl (EConnect ''empty migration target_url''), p)
         else migrate_planned H normalized fraction (migration_start normalized p))"

subsection \<open>Deferred retirement\<close>

definition session_on_source :: "string \<Rightarrow> string \<Rightarrow> supervised_pool \<Rightarrow> bool" where
  "session_on_source sid target p =
     list_ex (\<lambda>s. sl_session_id s = sid \<and> sl_gateway_base_url s \<noteq> target) (sp_slots p)"

definition retire_session :: "pool_host \<Rightarrow> string \<Rightarrow> supervised_pool \<Rightarrow> supervised_pool" where
  "retire_session H sid p =
     (if session_is_busy H sid p then p
      else let (removed, p) = drop_session sid p;
               p = forget_migration_pending sid p
           in if removed then notify_sessions_changed H p else p)"

fun retire_pass :: "pool_host \<Rightarrow> string list \<Rightarrow> supervised_pool \<Rightarrow> string list \<times> supervised_pool" where
  "retire_pass H [] p = ([], p)"
| "retire_pass H (sid # sids) p =
     (if \<not> session_on_source sid (sp_gateway_base_url p) p then
        retire_pass H sids (forget_migration_pending sid p)
      else if session_is_busy H sid p then
        (let (still, p) = retire_pass H sids p in (sid # still, p))
      else retire_pass H sids (retire_session H sid p))"

text \<open>The polling loop of the spawned task; \<^const>\<open>None\<close> is fuel spent before the loop ended.\<close>

fun retire_source_when_idle :: "pool_host \<Rightarrow> nat \<Rightarrow> string list \<Rightarrow> supervised_pool \<Rightarrow> supervised_pool option" where
  "retire_source_when_idle H fuel [] p = Some p"
| "retire_source_when_idle H 0 (sid # sids) p = None"
| "retire_source_when_idle H (Suc fuel) (sid # sids) p =
     (if sp_closed p then Some p
      else let (still, p) = retire_pass H (sid # sids) p
           in retire_source_when_idle H fuel still (if still = [] then p else emit EvRetirePause p))"

subsection \<open>Make before break\<close>

text \<open>
  Replay of a trace with the number of replacement sessions in hand: a connect adds one, a
  disconnect uses one up, and a disconnect without one in hand is \<^const>\<open>None\<close>.
\<close>

fun spare_sessions :: "nat \<Rightarrow> pool_event list \<Rightarrow> nat option" where
  "spare_sessions n [] = Some n"
| "spare_sessions n (e # es) =
     (case e of EvConnected sid url \<Rightarrow> spare_sessions (Suc n) es
      | EvDisconnect sid \<Rightarrow> (case n of 0 \<Rightarrow> None | Suc m \<Rightarrow> spare_sessions m es)
      | _ \<Rightarrow> spare_sessions n es)"

lemma spare_sessions_append:
  "spare_sessions n (a @ b) = Option.bind (spare_sessions n a) (\<lambda>m. spare_sessions m b)"
proof (induction a arbitrary: n)
  case (Cons e a)
  then show ?case by (cases e; cases n) auto
qed simp

lemma spare_sessions_shift:
  "spare_sessions n es = Some m \<Longrightarrow> spare_sessions (n + k) es = Some (m + k)"
proof (induction es arbitrary: n)
  case (Cons e es)
  note ih = Cons.IH [of n] Cons.IH [of "Suc n"] Cons.IH [of "n - 1"]
  show ?case using Cons.prems ih by (cases e; cases n) simp_all
qed simp

definition neutral_event :: "pool_event \<Rightarrow> bool" where
  "neutral_event e \<longleftrightarrow> (case e of EvConnected sid url \<Rightarrow> False | EvDisconnect sid \<Rightarrow> False | _ \<Rightarrow> True)"

lemma spare_sessions_neutral: "list_all neutral_event es \<Longrightarrow> spare_sessions n es = Some n"
  by (induction es) (auto simp: neutral_event_def split: pool_event.splits)

lemma disconnects_at_neutral: "list_all neutral_event es \<Longrightarrow> disconnects_at h es = []"
  by (induction es arbitrary: h) (auto simp: neutral_event_def split: pool_event.splits)

lemma dialled_neutral: "list_all neutral_event es \<Longrightarrow> dialled es = []"
  by (induction es) (auto simp: neutral_event_def split: pool_event.splits)

definition make_before_break :: "supervised_pool \<Rightarrow> supervised_pool \<Rightarrow> bool" where
  "make_before_break p p' \<longleftrightarrow>
     (\<exists>es n. sp_history p' = sp_history p @ es \<and> spare_sessions 0 es = Some n
        \<and> length (sp_slots p') = length (sp_slots p) + n)"

lemma mbb_trans [trans]:
  assumes "make_before_break p q" "make_before_break q r"
  shows "make_before_break p r"
proof -
  from assms obtain es n fs m where
    "sp_history q = sp_history p @ es" "spare_sessions 0 es = Some n" "length (sp_slots q) = length (sp_slots p) + n"
    "sp_history r = sp_history q @ fs" "spare_sessions 0 fs = Some m" "length (sp_slots r) = length (sp_slots q) + m"
    by (auto simp: make_before_break_def)
  moreover from this have "spare_sessions 0 (es @ fs) = Some (n + m)"
    using spare_sessions_shift [of 0 fs m n] by (simp add: spare_sessions_append add.commute)
  ultimately show ?thesis by (auto simp: make_before_break_def)
qed

lemma mbb_neutral:
  "sp_history q = sp_history p @ es \<Longrightarrow> list_all neutral_event es \<Longrightarrow> sp_slots q = sp_slots p
   \<Longrightarrow> make_before_break p q"
  by (auto simp: make_before_break_def spare_sessions_neutral)

lemma mbb_refl: "make_before_break p p"
  by (rule mbb_neutral [of _ _ "[]"]) simp_all

lemma notify_history: "\<exists>es. sp_history (notify_sessions_changed H p) = sp_history p @ es \<and> list_all neutral_event es"
  by (auto simp: notify_sessions_changed_def neutral_event_def)

lemma ready_start_history:
  "\<exists>es. sp_history (session_ready_and_start H sid p) = sp_history p @ es \<and> list_all neutral_event es"
  by (auto simp: session_ready_and_start_def ensure_started_def invoke_session_ready_def neutral_event_def
      split: option.split sum.split)

lemma fresh_attestation_history:
  "\<exists>es. sp_history (snd (apply_fresh_attestation H r p)) = sp_history p @ es \<and> list_all neutral_event es"
  by (auto simp: apply_fresh_attestation_def neutral_event_def split: option.split sum.split)

subsection \<open>The migration dial\<close>

lemma migration_dial_outcome:
  assumes "migration_dial H url p = (r, q)"
  shows "same_pool_shape p q \<and> sp_reconnect_failure_times_ms q = sp_reconnect_failure_times_ms p
     \<and> (\<exists>es. list_all neutral_event es \<and> (case r of
           Inl e \<Rightarrow> sp_history q = sp_history p @ es
         | Inr sid \<Rightarrow> sp_history q = sp_history p @ es @ [EvConnected sid url]
             \<and> (fresh_host H \<longrightarrow> sid \<notin> set (dialled (sp_history p)))))"
proof (cases "sp_connect_template p")
  case None
  with assms show ?thesis by (auto simp: migration_dial_def same_pool_shape_def intro!: exI [of _ "[]"])
next
  case (Some template)
  let ?req = "template\<lparr>acr_session_id := h_new_uuid H (sp_history p),
     acr_gateway_challenge_nonce := Some (h_new_nonce H (sp_history p))\<rparr>"
  obtain a q1 where fa: "apply_fresh_attestation H ?req p = (a, q1)" by fastforce
  note shape = fresh_attestation_fieldsD [OF fa]
  obtain es where es: "sp_history q1 = sp_history p @ es" "list_all neutral_event es"
    using fresh_attestation_history [of H ?req p] fa by auto
  show ?thesis
  proof (cases a)
    case (Inl e)
    with assms Some fa shape es show ?thesis by (auto simp: migration_dial_def Let_def)
  next
    case (Inr rq)
    have neutral: "list_all neutral_event (es @ [EvConnectTo url rq])" using es(2) by (simp add: neutral_event_def)
    show ?thesis
    proof (cases "h_connect_to H (sp_history q1) url rq")
      case (Inl e)
      with assms Some fa Inr have "r = Inl (EConnect e)"
        "q = emit (EvConnectTo url rq) (q1\<lparr>sp_connect_template := Some rq\<rparr>)"
        by (simp_all add: migration_dial_def Let_def)
      with shape es neutral show ?thesis by (auto simp: same_pool_shape_def)
    next
      case ok: (Inr c)
      have "fresh_host H \<longrightarrow> cr_session_id c \<notin> set (dialled (sp_history p))"
        using ok shape unfolding fresh_host_def by metis
      moreover from assms Some fa Inr ok have "r = Inr (cr_session_id c)"
        "q = emit (EvConnected (cr_session_id c) url) (emit (EvConnectTo url rq) (q1\<lparr>sp_connect_template := Some rq\<rparr>))"
        by (simp_all add: migration_dial_def Let_def)
      ultimately show ?thesis using shape es neutral
        by (auto simp: same_pool_shape_def intro!: exI [of _ "es @ [EvConnectTo url rq]"])
    qed
  qed
qed

lemma migration_dial_error:
  "migration_dial H url p = (Inl e, q) \<Longrightarrow> make_before_break p q"
  using migration_dial_outcome [of H url p "Inl e" q] mbb_neutral by (fastforce simp: same_pool_shape_def)

lemma wf_same_shape:
  "pool_wf p \<Longrightarrow> same_pool_shape p q \<Longrightarrow> sp_reconnect_failure_times_ms q = sp_reconnect_failure_times_ms p
   \<Longrightarrow> set (dialled (sp_history p)) \<subseteq> set (dialled (sp_history q)) \<Longrightarrow> pool_wf q"
  by (auto simp: pool_wf_def same_pool_shape_def session_ids_def)

lemma wf_migration_dial:
  assumes "pool_wf p" "migration_dial H url p = (r, q)"
  shows "pool_wf q"
proof -
  have "\<exists>fs. sp_history q = sp_history p @ fs"
    using migration_dial_outcome [OF assms(2)] by (cases r) auto
  then have "set (dialled (sp_history p)) \<subseteq> set (dialled (sp_history q))" by auto
  with assms migration_dial_outcome [OF assms(2)] show ?thesis by (blast intro: wf_same_shape)
qed

subsection \<open>Dialling ahead for a busy session\<close>

lemma dial_session_onto_error:
  "dial_session_onto H url p = (Inl e, q) \<Longrightarrow> migration_dial H url p = (Inl e, q)"
  by (auto simp: dial_session_onto_def split: prod.splits sum.splits)

lemma dial_session_onto_ok:
  assumes "dial_session_onto H url p = (Inr u, q)"
  obtains sid q0 es where "migration_dial H url p = (Inr sid, q0)"
    "q = session_ready_and_start H sid (push_slot (new_slot sid url) q0)"
    "sp_slots q = sp_slots p @ [new_slot sid url]"
    "sp_history q = sp_history p @ es" "spare_sessions 0 es = Some 1" "disconnects_at (sp_history p) es = []"
proof -
  from assms obtain sid q0 where d: "migration_dial H url p = (Inr sid, q0)"
    and q: "q = session_ready_and_start H sid (push_slot (new_slot sid url) q0)"
    by (auto simp: dial_session_onto_def split: prod.splits sum.splits)
  note out = migration_dial_outcome [OF d]
  from out obtain es where es: "list_all neutral_event es" "sp_history q0 = sp_history p @ es @ [EvConnected sid url]"
    by auto
  obtain fs where fs: "sp_history q = sp_history q0 @ fs" "list_all neutral_event fs"
    using ready_start_history [of H sid "push_slot (new_slot sid url) q0"] q by auto
  have "sp_slots q = sp_slots p @ [new_slot sid url]" using out by (simp add: q same_pool_shape_def)
  moreover have "spare_sessions 0 (es @ [EvConnected sid url] @ fs) = Some 1"
    using es(1) fs(2) by (simp add: spare_sessions_append spare_sessions_neutral)
  moreover have "disconnects_at (sp_history p) (es @ [EvConnected sid url] @ fs) = []"
    using es(1) fs(2) by (simp add: disconnects_at_neutral)
  ultimately show thesis using that [OF d q] es fs by auto
qed

lemma mbb_dial_session_onto: "dial_session_onto H url p = (r, q) \<Longrightarrow> make_before_break p q"
proof (cases r)
  case (Inl e)
  then show "dial_session_onto H url p = (r, q) \<Longrightarrow> ?thesis"
    using dial_session_onto_error migration_dial_error by blast
next
  case (Inr u)
  assume "dial_session_onto H url p = (r, q)"
  with Inr have "dial_session_onto H url p = (Inr u, q)" by simp
  then show ?thesis by (rule dial_session_onto_ok) (auto simp: make_before_break_def)
qed

lemma wf_dial_session_onto:
  assumes "fresh_host H" "pool_wf p" "dial_session_onto H url p = (r, q)"
  shows "pool_wf q"
proof (cases r)
  case (Inl e)
  with assms show ?thesis using dial_session_onto_error wf_migration_dial by blast
next
  case (Inr u)
  with assms(3) have "dial_session_onto H url p = (Inr u, q)" by simp
  then obtain sid q0 where d: "migration_dial H url p = (Inr sid, q0)"
    and q: "q = session_ready_and_start H sid (push_slot (new_slot sid url) q0)"
    by (rule dial_session_onto_ok) blast
  from migration_dial_outcome [OF d] assms(1)
  have "sid \<in> set (dialled (sp_history q0))" "sid \<notin> set (session_ids q0)"
    using assms(2) by (auto simp: pool_wf_def same_pool_shape_def session_ids_def)
  then have "pool_wf (push_slot (new_slot sid url) q0)"
    using wf_migration_dial [OF assms(2) d] by (auto simp: pool_wf_def)
  then show ?thesis unfolding q by (intro wf_pool) simp_all
qed

subsection \<open>Moving an idle session\<close>

text \<open>The pool in which the old session has been torn down and its slot taken over by the new one.\<close>

definition replaced_pool :: "nat \<Rightarrow> string \<Rightarrow> string \<Rightarrow> string \<Rightarrow> supervised_pool \<Rightarrow> supervised_pool" where
  "replaced_pool i old new url q =
     (let q' = emit (EvDisconnect old) (stop_session old (suppress_reconnect old q))
      in q'\<lparr>sp_slots := (sp_slots q')[i := new_slot new url]\<rparr>)"

lemma migrate_session_to_cases:
  assumes "migrate_session_to H old url p = (r, p')"
  obtains (Absent) "\<not> session_on_source old url p" "r = Inr ()" "p' = p"
  | (Fail) e where "session_on_source old url p" "r = Inl e" "migration_dial H url p = (Inl e, p')"
  | (Moved) i new q where "session_on_source old url p" "r = Inr ()" "migration_dial H url p = (Inr new, q)"
      "i < length (sp_slots p)" "sl_session_id (sp_slots p ! i) = old" "sl_gateway_base_url (sp_slots p ! i) \<noteq> url"
      "p' = session_ready_and_start H new (replaced_pool i old new url q)"
proof (cases "position (\<lambda>s. sl_session_id s = old \<and> sl_gateway_base_url s \<noteq> url) (sp_slots p)")
  case None
  then have "\<not> session_on_source old url p" by (auto simp: session_on_source_def position_None list_ex_iff)
  with None assms show thesis by (intro Absent) (auto simp: migrate_session_to_def)
next
  case (Some i)
  have i: "i < length (sp_slots p)" "sl_session_id (sp_slots p ! i) = old" "sl_gateway_base_url (sp_slots p ! i) \<noteq> url"
    using position_SomeD [OF Some] by auto
  then have src: "session_on_source old url p" by (auto simp: session_on_source_def list_ex_iff)
  obtain d q where d: "migration_dial H url p = (d, q)" by fastforce
  have sl: "sp_slots q = sp_slots p" using migration_dial_outcome [OF d] by (simp add: same_pool_shape_def)
  show thesis
  proof (cases d)
    case (Inl e)
    with assms Some d src show thesis by (intro Fail) (auto simp: migrate_session_to_def)
  next
    case (Inr new)
    have "sl_session_id (sp_slots (suppress_reconnect old q) ! i) = old"
      using i sl by (simp add: suppress_reconnect_def nth_update_first_id)
    moreover have "i < length (sp_slots (suppress_reconnect old q))"
      using i sl by (simp add: suppress_reconnect_def)
    ultimately show thesis
      using assms Some d Inr src i
      by (intro Moved [of new q i]) (auto simp: migrate_session_to_def replaced_pool_def Let_def)
  qed
qed

lemma replaced_pool_fields [simp]:
  "sp_config (replaced_pool i old new url q) = sp_config q"
  "sp_gateway_base_url (replaced_pool i old new url q) = sp_gateway_base_url q"
  "sp_workers (replaced_pool i old new url q) = sp_workers q - {old}"
  "sp_closed (replaced_pool i old new url q) = sp_closed q"
  "sp_migration_hold (replaced_pool i old new url q) = sp_migration_hold q"
  "sp_reconnect_failure_times_ms (replaced_pool i old new url q) = sp_reconnect_failure_times_ms q"
  "sp_history (replaced_pool i old new url q)
     = sp_history q @ (if old \<in> sp_workers q then [EvWorkerStop old] else []) @ [EvDisconnect old]"
  by (simp_all add: replaced_pool_def Let_def suppress_reconnect_def)

lemma slot_addresses_replaced:
  "slot_addresses (replaced_pool i old new url q) = (slot_addresses q)[i := (new, url)]"
proof -
  have "slot_addresses (replaced_pool i old new url q)
      = (slot_addresses (suppress_reconnect old q))[i := (new, url)]"
    by (simp add: replaced_pool_def Let_def slot_addresses_def map_update)
  then show ?thesis by simp
qed

lemma slot_addresses_length: "length (slot_addresses p) = length (sp_slots p)"
  by (simp add: slot_addresses_def)

lemma session_ids_addresses: "session_ids p = map fst (slot_addresses p)"
  by (simp add: session_ids_def slot_addresses_def)

lemma session_on_source_addresses:
  "session_on_source sid url p \<longleftrightarrow> (\<exists>u. (sid, u) \<in> set (slot_addresses p) \<and> u \<noteq> url)"
  by (auto simp: session_on_source_def slot_addresses_def list_ex_iff image_iff)

lemma on_gateway_addresses: "length (on_gateway url p) = length (filter (\<lambda>a. snd a = url) (slot_addresses p))"
  by (simp add: on_gateway_def slot_addresses_def filter_map comp_def)

text \<open>The trace of a successful move: one connect, then one disconnect, of the old session.\<close>

lemma moved_trace:
  assumes "migration_dial H url p = (Inr new, q)"
    and "p' = session_ready_and_start H new (replaced_pool i old new url q)"
  obtains es where "sp_history p' = sp_history p @ es" "spare_sessions 0 es = Some 0"
    "map fst (disconnects_at (sp_history p) es) = [old]"
proof -
  from migration_dial_outcome [OF assms(1)] obtain as
    where as: "list_all neutral_event as" "sp_history q = sp_history p @ as @ [EvConnected new url]" by auto
  obtain fs where fs: "sp_history p' = sp_history (replaced_pool i old new url q) @ fs" "list_all neutral_event fs"
    using ready_start_history [of H new "replaced_pool i old new url q"] assms(2) by auto
  let ?w = "if old \<in> sp_workers q then [EvWorkerStop old] else []"
  let ?es = "as @ [EvConnected new url] @ ?w @ [EvDisconnect old] @ fs"
  have "sp_history p' = sp_history p @ ?es" using as fs by simp
  moreover have "list_all neutral_event ?w" by (simp add: neutral_event_def)
  then have "spare_sessions 0 ?es = Some 0" "map fst (disconnects_at (sp_history p) ?es) = [old]"
    using as(1) fs(2) by (simp_all add: spare_sessions_append spare_sessions_neutral disconnects_at_neutral
        split del: if_split)
  ultimately show thesis by (rule that)
qed

lemma moved_addresses:
  assumes "migration_dial H url p = (Inr new, q)"
    and "p' = session_ready_and_start H new (replaced_pool i old new url q)"
  shows "slot_addresses p' = (slot_addresses p)[i := (new, url)]"
proof -
  have "slot_addresses q = slot_addresses p"
    using migration_dial_outcome [OF assms(1)] by (simp add: same_pool_shape_def slot_addresses_def)
  then show ?thesis by (simp add: assms(2) slot_addresses_replaced)
qed

lemma mbb_migrate_session_to:
  assumes "migrate_session_to H old url p = (r, p')"
  shows "make_before_break p p'"
  using assms
proof (cases rule: migrate_session_to_cases)
  case (Moved i new q)
  from moved_trace [OF Moved(3,7)] obtain es where
    es: "sp_history p' = sp_history p @ es" "spare_sessions 0 es = Some 0" by blast
  have "length (sp_slots p') = length (sp_slots p)"
    using moved_addresses [OF Moved(3,7)] by (metis length_list_update slot_addresses_length)
  with es show ?thesis by (auto simp: make_before_break_def)
qed (auto intro: mbb_refl migration_dial_error)

lemma wf_migrate_session_to:
  assumes "fresh_host H" "pool_wf p" "migrate_session_to H old url p = (r, p')"
  shows "pool_wf p'"
  using assms(3)
proof (cases rule: migrate_session_to_cases)
  case (Moved i new q)
  note out = migration_dial_outcome [OF Moved(3)]
  have q: "pool_wf q" by (rule wf_migration_dial [OF assms(2) Moved(3)])
  have new: "new \<notin> set (session_ids q)" "new \<in> set (dialled (sp_history q))"
    using out assms(1,2) by (auto simp: pool_wf_def same_pool_shape_def session_ids_def)
  let ?ids = "session_ids q" and ?q = "replaced_pool i old new url q"
  have ids: "session_ids ?q = ?ids[i := new]"
    by (simp add: session_ids_addresses slot_addresses_replaced map_update)
  have old: "i < length ?ids" "?ids ! i = old"
    using Moved(4,5) out by (simp_all add: session_ids_def same_pool_shape_def)
  have dist: "distinct (?ids[i := new])"
    using wf_distinct [OF q] new(1) by (simp add: distinct_list_update)
  have set: "set (?ids[i := new]) = insert new (set ?ids - {old})"
    using wf_distinct [OF q] old by (simp add: set_update_distinct)
  have "pool_wf ?q"
    using q new unfolding pool_wf_def ids set by (auto simp: dist)
  moreover have "new \<in> set (session_ids ?q)" unfolding ids set by simp
  ultimately show ?thesis using Moved(7) by (simp add: wf_ready_start)
qed (use assms wf_migration_dial in auto)

lemma migrate_session_to_splits:
  assumes "migrate_session_to H old url p = (Inr u, p')" "session_on_source old url p"
  obtains as v new bs where "slot_addresses p = as @ (old, v) # bs" "v \<noteq> url"
    "slot_addresses p' = as @ (new, url) # bs"
  using assms(1)
proof (cases rule: migrate_session_to_cases)
  case (Moved i new q)
  let ?as = "slot_addresses p"
  have i: "i < length ?as" "?as ! i = (old, sl_gateway_base_url (sp_slots p ! i))"
    using Moved(4,5) by (simp_all add: slot_addresses_def)
  have "?as = take i ?as @ (old, sl_gateway_base_url (sp_slots p ! i)) # drop (Suc i) ?as"
    using id_take_nth_drop [OF i(1)] i(2) by simp
  moreover have "slot_addresses p' = take i ?as @ (new, url) # drop (Suc i) ?as"
    by (simp add: moved_addresses [OF Moved(3,7)] upd_conv_take_nth_drop i(1))
  ultimately show thesis using Moved(6) that by blast
qed (use assms(2) in auto)

lemma migrate_session_to_moves:
  assumes "migrate_session_to H old url p = (Inr u, p')" "session_on_source old url p"
  shows "length (on_gateway url p') = Suc (length (on_gateway url p))"
    and "j \<noteq> old \<Longrightarrow> session_on_source j url p \<Longrightarrow> session_on_source j url p'"
    and "j \<noteq> old \<Longrightarrow> j \<in> set (session_ids p) \<Longrightarrow> j \<in> set (session_ids p')"
    and "length (sp_slots p') = length (sp_slots p)"
proof -
  obtain as v new bs where a: "slot_addresses p = as @ (old, v) # bs" "v \<noteq> url"
    "slot_addresses p' = as @ (new, url) # bs"
    using assms by (rule migrate_session_to_splits)
  show "length (on_gateway url p') = Suc (length (on_gateway url p))"
    using a by (simp add: on_gateway_addresses)
  show "j \<noteq> old \<Longrightarrow> session_on_source j url p \<Longrightarrow> session_on_source j url p'"
    using a by (auto simp: session_on_source_addresses)
  show "j \<noteq> old \<Longrightarrow> j \<in> set (session_ids p) \<Longrightarrow> j \<in> set (session_ids p')"
    using a by (auto simp: session_ids_addresses)
  show "length (sp_slots p') = length (sp_slots p)"
    using a slot_addresses_length [of p] slot_addresses_length [of p'] by simp
qed

text \<open>Only sessions of \<open>D\<close> are disconnected on the way from one pool to another.\<close>

definition disconnects_within :: "string set \<Rightarrow> supervised_pool \<Rightarrow> supervised_pool \<Rightarrow> bool" where
  "disconnects_within D p p' \<longleftrightarrow>
     (\<exists>es. sp_history p' = sp_history p @ es \<and> fst ` set (disconnects_at (sp_history p) es) \<subseteq> D)"

lemma within_trans: "disconnects_within D p q \<Longrightarrow> disconnects_within E q r \<Longrightarrow> disconnects_within (D \<union> E) p r"
  unfolding disconnects_within_def by (force simp: image_Un)

lemma within_mono: "disconnects_within D p q \<Longrightarrow> D \<subseteq> E \<Longrightarrow> disconnects_within E p q"
  unfolding disconnects_within_def by blast

lemma within_neutral:
  "sp_history q = sp_history p @ es \<Longrightarrow> list_all neutral_event es \<Longrightarrow> disconnects_within D p q"
  by (auto simp: disconnects_within_def disconnects_at_neutral)

lemma within_migrate_session_to:
  assumes "migrate_session_to H old url p = (r, p')"
  shows "disconnects_within {old} p p'"
  using assms
proof (cases rule: migrate_session_to_cases)
  case Absent
  then show ?thesis by (intro within_neutral [of _ _ "[]"]) simp_all
next
  case (Fail e)
  from migration_dial_outcome [OF Fail(3)] show ?thesis by (auto intro: within_neutral)
next
  case (Moved i new q)
  obtain es where es: "sp_history p' = sp_history p @ es" "map fst (disconnects_at (sp_history p) es) = [old]"
    using Moved(3,7) by (rule moved_trace)
  have "fst ` set (disconnects_at (sp_history p) es) = set (map fst (disconnects_at (sp_history p) es))" by simp
  with es show ?thesis by (auto simp: disconnects_within_def simp del: set_map list.set_map)
qed

lemma within_dial_session_onto:
  assumes "dial_session_onto H url p = (r, q)"
  shows "disconnects_within {} p q"
proof (cases r)
  case (Inl e)
  with assms have "migration_dial H url p = (Inl e, q)" using dial_session_onto_error by blast
  from migration_dial_outcome [OF this] show ?thesis by (auto intro: within_neutral)
next
  case (Inr u)
  with assms have "dial_session_onto H url p = (Inr u, q)" by simp
  then show ?thesis by (rule dial_session_onto_ok) (auto simp: disconnects_within_def)
qed

subsection \<open>The two loops of a migration\<close>

lemma migrate_idle_keeps:
  assumes "migrate_idle H url ids need moved p = (r, p')"
  shows "make_before_break p p' \<and> disconnects_within (set ids) p p' \<and> (fresh_host H \<longrightarrow> pool_wf p \<longrightarrow> pool_wf p')"
  using assms
proof (induction ids arbitrary: need moved p)
  case Nil
  then show ?case by (auto intro: mbb_refl within_neutral [of _ _ "[]"])
next
  case (Cons sid ids)
  show ?case
  proof (cases "need = 0")
    case True
    with Cons.prems show ?thesis by (auto intro: mbb_refl within_neutral [of _ _ "[]"])
  next
    case False
    obtain s q where s: "migrate_session_to H sid url p = (s, q)" by fastforce
    have wf: "fresh_host H \<longrightarrow> pool_wf p \<longrightarrow> pool_wf q" using wf_migrate_session_to s by blast
    show ?thesis
    proof (cases s)
      case (Inl e)
      with Cons.prems False s have "p' = q" by simp
      with mbb_migrate_session_to [OF s] within_migrate_session_to [OF s] wf show ?thesis
        by (auto intro: within_mono)
    next
      case (Inr u)
      with Cons.prems False s have "migrate_idle H url ids (need - 1) (moved + 1) q = (r, p')" by simp
      from Cons.IH [OF this] mbb_migrate_session_to [OF s] within_migrate_session_to [OF s] wf show ?thesis
        by (auto intro: mbb_trans dest: within_trans)
    qed
  qed
qed

lemma migrate_idle_moves:
  assumes "migrate_idle H url ids need moved p = (Inr (need', moved'), p')"
    and "distinct ids" "\<forall>i\<in>set ids. session_on_source i url p" "k = min (unat need) (length ids)"
  shows "unat need' = unat need - k \<and> moved' = moved + word_of_nat k
     \<and> length (on_gateway url p') = length (on_gateway url p) + k \<and> length (sp_slots p') = length (sp_slots p)
     \<and> (\<forall>j. j \<notin> set ids \<longrightarrow> j \<in> set (session_ids p) \<longrightarrow> j \<in> set (session_ids p'))"
  using assms
proof (induction ids arbitrary: need moved p k)
  case Nil
  then show ?case by simp
next
  case (Cons sid ids)
  show ?case
  proof (cases "need = 0")
    case True
    with Cons.prems show ?thesis by simp
  next
    case False
    obtain s q where s: "migrate_session_to H sid url p = (s, q)" by fastforce
    with Cons.prems(1) False obtain u where u: "s = Inr u"
      and rest: "migrate_idle H url ids (need - 1) (moved + 1) q = (Inr (need', moved'), p')"
      by (auto split: sum.splits)
    note mv = migrate_session_to_moves [OF s [unfolded u]]
    have src: "session_on_source sid url p" using Cons.prems(3) by simp
    have src': "\<forall>i\<in>set ids. session_on_source i url q"
      using mv(2) [OF src] Cons.prems(2,3) by (metis distinct.simps(2) list.set_intros(2))
    have need: "unat (need - 1) = unat need - 1"
      using False by (simp add: unat_sub_le one_le_word_iff word_less_one_iff)
    have pos: "0 < unat need" using False by (simp add: unat_gt_0)
    let ?k = "min (unat need - 1) (length ids)"
    have k: "k = Suc ?k" using Cons.prems(4) pos by (auto simp: min_def)
    from Cons.IH [OF rest _ src' refl] Cons.prems(2) need mv(1) [OF src] mv(3) [OF src] mv(4) [OF src] show ?thesis
      by (auto simp: k ac_simps)
  qed
qed

lemma arm_hold_fields [simp]:
  "sp_history (arm_migration_hold t ids b p) = sp_history p"
  "sp_slots (arm_migration_hold t ids b p) = sp_slots p"
  "session_ids (arm_migration_hold t ids b p) = session_ids p"
  "on_gateway u (arm_migration_hold t ids b p) = on_gateway u p"
  by (simp_all add: arm_migration_hold_def session_ids_def on_gateway_def)

lemma spawn_retire_history:
  "\<exists>es. sp_history (spawn_deferred_source_retire ids p) = sp_history p @ es \<and> list_all neutral_event es"
  by (simp add: spawn_deferred_source_retire_def neutral_event_def)

lemma spawn_retire_fields [simp]:
  "sp_slots (spawn_deferred_source_retire ids p) = sp_slots p"
  "session_ids (spawn_deferred_source_retire ids p) = session_ids p"
  "on_gateway u (spawn_deferred_source_retire ids p) = on_gateway u p"
  by (simp_all add: spawn_deferred_source_retire_def on_gateway_def)

lemma wf_arm_hold: "pool_wf p \<Longrightarrow> ids \<noteq> [] \<Longrightarrow> pool_wf (arm_migration_hold t ids b p)"
  by (simp add: pool_wf_def hold_wf_def) (simp add: arm_migration_hold_def)

lemma wf_clear_hold: "pool_wf p \<Longrightarrow> pool_wf (p\<lparr>sp_migration_hold := None\<rparr>)"
  by (simp add: pool_wf_def hold_wf_def session_ids_def)

lemma wf_spawn_retire [wf_pool]: "pool_wf p \<Longrightarrow> pool_wf (spawn_deferred_source_retire ids p)"
  by (simp add: spawn_deferred_source_retire_def wf_emit)

lemma mbb_spawn_retire: "make_before_break p (spawn_deferred_source_retire ids p)"
  and within_spawn_retire: "disconnects_within D p (spawn_deferred_source_retire ids p)"
  using spawn_retire_history [of ids p] by (auto intro: mbb_neutral within_neutral)

lemma mbb_arm: "make_before_break p q \<Longrightarrow> make_before_break p (arm_migration_hold t ids b q)"
  and within_arm: "disconnects_within D p q \<Longrightarrow> disconnects_within D p (arm_migration_hold t ids b q)"
  by (simp_all add: make_before_break_def disconnects_within_def)

lemma dial_ahead_keeps:
  assumes "dial_ahead H url b sids ready moved p = (r, p')"
  shows "make_before_break p p' \<and> disconnects_within {} p p' \<and> (fresh_host H \<longrightarrow> pool_wf p \<longrightarrow> pool_wf p')
     \<and> set (session_ids p) \<subseteq> set (session_ids p')"
  using assms
proof (induction sids arbitrary: ready moved p)
  case Nil
  then show ?case by (auto intro: mbb_refl within_neutral [of _ _ "[]"])
next
  case (Cons sid sids)
  obtain d q where d: "dial_session_onto H url p = (d, q)" by fastforce
  have wf: "fresh_host H \<longrightarrow> pool_wf p \<longrightarrow> pool_wf q" using wf_dial_session_onto d by blast
  note step = mbb_dial_session_onto [OF d] within_dial_session_onto [OF d]
  show ?case
  proof (cases d)
    case (Inl e)
    then have "migration_dial H url p = (Inl e, q)" using d dial_session_onto_error by blast
    then have sl: "session_ids q = session_ids p"
      using migration_dial_outcome by (fastforce simp: same_pool_shape_def session_ids_def)
    show ?thesis
    proof (cases "ready = []")
      case True
      with Inl d Cons.prems have p': "p' = q\<lparr>sp_migration_hold := None\<rparr>" by simp
      then have "sp_history p' = sp_history q @ []" "sp_slots p' = sp_slots q" by simp_all
      then have "make_before_break q p'" "disconnects_within {} q p'"
        by (auto intro: mbb_neutral within_neutral)
      with step wf sl show ?thesis
        by (auto simp: p' session_ids_def intro: mbb_trans wf_clear_hold dest: within_trans)
    next
      case False
      with Inl d Cons.prems have p': "p' = spawn_deferred_source_retire ready (arm_migration_hold url ready b q)"
        by simp
      have "make_before_break p p'"
        unfolding p' by (rule mbb_trans [OF mbb_arm [OF step(1)] mbb_spawn_retire])
      moreover have "disconnects_within {} p p'"
        unfolding p' using within_trans [OF within_arm [OF step(2)] within_spawn_retire] by simp
      ultimately show ?thesis using wf sl False by (simp add: p' wf_arm_hold wf_spawn_retire)
    qed
  next
    case (Inr u)
    with d Cons.prems have rest: "dial_ahead H url b sids (ready @ [sid]) (moved + 1) q = (r, p')" by simp
    have "dial_session_onto H url p = (Inr u, q)" using d Inr by simp
    then have "set (session_ids p) \<subseteq> set (session_ids q)"
      by (rule dial_session_onto_ok) (auto simp: session_ids_def)
    with Cons.IH [OF rest] step wf show ?thesis by (auto intro: mbb_trans dest: within_trans)
  qed
qed

lemma dial_ahead_dials:
  assumes "dial_ahead H url b sids ready moved p = (Inr (ready', moved'), p')"
  shows "ready' = ready @ sids \<and> moved' = moved + word_of_nat (length sids)
     \<and> length (on_gateway url p') = length (on_gateway url p) + length sids
     \<and> length (sp_slots p') = length (sp_slots p) + length sids"
  using assms
proof (induction sids arbitrary: ready moved p)
  case (Cons sid sids)
  obtain d q where d: "dial_session_onto H url p = (d, q)" by fastforce
  with Cons.prems obtain u where u: "dial_session_onto H url p = (Inr u, q)"
    and rest: "dial_ahead H url b sids (ready @ [sid]) (moved + 1) q = (Inr (ready', moved'), p')"
    by (cases d) (auto split: if_splits)
  from u have "length (on_gateway url q) = Suc (length (on_gateway url p)) \<and> length (sp_slots q) = Suc (length (sp_slots p))"
    by (rule dial_session_onto_ok) (auto simp: on_gateway_def)
  with Cons.IH [OF rest] show ?case by (simp add: ac_simps)
qed simp

subsection \<open>The migration\<close>

lemma prune_hold_fields [simp]:
  "sp_history (prune_migration_hold p) = sp_history p" "sp_slots (prune_migration_hold p) = sp_slots p"
  "sp_workers (prune_migration_hold p) = sp_workers p" "sp_config (prune_migration_hold p) = sp_config p"
  "session_ids (prune_migration_hold p) = session_ids p"
  "sp_reconnect_failure_times_ms (prune_migration_hold p) = sp_reconnect_failure_times_ms p"
  by (simp_all add: prune_migration_hold_def Let_def session_ids_def split: option.split)

lemma wf_prune_hold [wf_pool]: "pool_wf p \<Longrightarrow> pool_wf (prune_migration_hold p)"
proof -
  assume "pool_wf p"
  moreover have "hold_wf (sp_migration_hold (prune_migration_hold p))"
    by (auto simp: prune_migration_hold_def hold_wf_def Let_def split: option.split)
  ultimately show ?thesis by (simp add: pool_wf_def)
qed

lemma migration_start_fields [simp]:
  "sp_history (migration_start url p) = sp_history p @ [EvSetPrimary url]"
  "sp_slots (migration_start url p) = sp_slots p" "sp_workers (migration_start url p) = sp_workers p"
  "session_ids (migration_start url p) = session_ids p" "on_gateway u (migration_start url p) = on_gateway u p"
  by (simp_all add: migration_start_def session_ids_def on_gateway_def)

lemma wf_migration_start: "pool_wf p \<Longrightarrow> pool_wf (migration_start url p)"
  unfolding migration_start_def by (intro wf_pool) simp

text \<open>What every stage of a migration keeps, whether it succeeds or fails.\<close>

definition migration_keeps ::
    "pool_host \<Rightarrow> string set \<Rightarrow> supervised_pool \<Rightarrow> supervised_pool \<Rightarrow> bool" where
  "migration_keeps H D p p' \<longleftrightarrow> make_before_break p p' \<and> disconnects_within D p p'
     \<and> (fresh_host H \<longrightarrow> pool_wf p \<longrightarrow> pool_wf p')"

lemma keeps_trans:
  "migration_keeps H D p q \<Longrightarrow> migration_keeps H E q r \<Longrightarrow> migration_keeps H (D \<union> E) p r"
  by (auto simp: migration_keeps_def intro: mbb_trans within_trans)

lemma keeps_neutral:
  "sp_history q = sp_history p @ es \<Longrightarrow> list_all neutral_event es \<Longrightarrow> sp_slots q = sp_slots p
   \<Longrightarrow> (pool_wf p \<Longrightarrow> pool_wf q) \<Longrightarrow> migration_keeps H {} p q"
  by (auto simp: migration_keeps_def intro: mbb_neutral within_neutral)

lemma keeps_arm: "ids \<noteq> [] \<Longrightarrow> migration_keeps H {} p (arm_migration_hold t ids b p)"
  by (rule keeps_neutral [of _ _ "[]"]) (simp_all add: wf_arm_hold)

lemma keeps_refl: "migration_keeps H {} p p"
  by (rule keeps_neutral [of _ _ "[]"]) simp_all

lemma keeps_start: "migration_keeps H {} p (migration_start url p)"
  by (rule keeps_neutral [of _ _ "[EvSetPrimary url]"]) (simp_all add: neutral_event_def wf_migration_start)

lemma keeps_spawn: "migration_keeps H {} p (spawn_deferred_source_retire ids p)"
  using spawn_retire_history [of ids p] by (auto intro!: keeps_neutral wf_pool)

lemma keeps_notify: "migration_keeps H {} p (notify_sessions_changed G p)"
  using notify_history [of G p] by (auto intro!: keeps_neutral wf_pool)

lemma keeps_dial_ahead:
  "dial_ahead H url b sids ready moved p = (r, p') \<Longrightarrow> migration_keeps H {} p p'"
  using dial_ahead_keeps by (simp add: migration_keeps_def)

lemma keeps_migrate_busy:
  assumes "migrate_busy H url fraction plan planned moved p = (r, p')"
  shows "migration_keeps H {} p p' \<and> set (session_ids p) \<subseteq> set (session_ids p')"
proof -
  define q where q: "q = (if planned \<noteq> [] then arm_migration_hold url planned (f64_lt fraction f64_one) p else p)"
  obtain d q2 where d: "dial_ahead H url (f64_lt fraction f64_one) planned [] moved q = (d, q2)" by fastforce
  have 1: "migration_keeps H {} p q" by (simp add: q keeps_arm keeps_refl)
  have 2: "migration_keeps H {} q q2" by (rule keeps_dial_ahead [OF d])
  have ids: "set (session_ids p) \<subseteq> set (session_ids q2)" using dial_ahead_keeps [OF d] by (simp add: q split: if_splits)
  note 3 = keeps_trans [OF 1 2, simplified]
  show ?thesis
  proof (cases d)
    case (Inl e)
    with assms d have "p' = q2" by (simp add: migrate_busy_def Let_def flip: q)
    with 3 ids show ?thesis by simp
  next
    case (Inr rm)
    obtain ready m where rm: "rm = (ready, m)" by fastforce
    let ?t = "spawn_deferred_source_retire ready q2"
    have p': "p' = (if 0 < m then notify_sessions_changed H ?t else ?t)"
      using assms d Inr rm by (simp add: migrate_busy_def Let_def flip: q)
    have "migration_keeps H {} p ?t" using keeps_trans [OF 3 keeps_spawn] by simp
    with keeps_trans [OF this keeps_notify] ids show ?thesis by (simp add: p')
  qed
qed

lemma migrate_planned_keeps:
  assumes "migrate_planned H url fraction s = (r, p')"
  shows "migration_keeps H (set (idle_sources H url s)) s p'"
proof (cases "gmp_blocked (migration_plan url fraction s)")
  case True
  with assms have "p' = s" by (simp add: migrate_planned_def Let_def)
  then show ?thesis using keeps_refl [of H s] by (auto simp: migration_keeps_def intro: within_mono)
next
  case False
  obtain mi q where mi: "migrate_idle H url (idle_sources H url s) (gmp_to_move (migration_plan url fraction s)) 0 s
      = (mi, q)" by fastforce
  have 1: "migration_keeps H (set (idle_sources H url s)) s q"
    using migrate_idle_keeps [OF mi] by (simp add: migration_keeps_def)
  show ?thesis
  proof (cases mi)
    case (Inl e)
    with assms False mi 1 show ?thesis by (simp add: migrate_planned_def Let_def)
  next
    case (Inr nm)
    obtain need moved where "nm = (need, moved)" by fastforce
    with assms False mi Inr have "migrate_busy H url fraction (migration_plan url fraction s)
        (take (unat need) (busy_sources H url s)) moved q = (r, p')"
      by (simp add: migrate_planned_def Let_def)
    from keeps_trans [OF 1 keeps_migrate_busy [OF this, THEN conjunct1]] show ?thesis by simp
  qed
qed

lemma migrate_gateway_pool_keeps:
  assumes "migrate_gateway_pool H target fraction p = (r, p')"
  shows "migration_keeps H (set (idle_sources H (trim target) (migration_start (trim target) p))) p p'"
proof (cases "trim target = []")
  case True
  with assms have "p' = p" by (simp add: migrate_gateway_pool_def)
  then show ?thesis using keeps_refl [of H p] by (auto simp: migration_keeps_def intro: within_mono)
next
  case False
  with assms have "migrate_planned H (trim target) fraction (migration_start (trim target) p) = (r, p')"
    by (simp add: migrate_gateway_pool_def Let_def)
  from keeps_trans [OF keeps_start migrate_planned_keeps [OF this]] show ?thesis by simp
qed

lemma wf_migrate_gateway_pool:
  "fresh_host H \<Longrightarrow> pool_wf p \<Longrightarrow> pool_wf (snd (migrate_gateway_pool H target fraction p))"
  using migrate_gateway_pool_keeps [of H target fraction p] by (metis migration_keeps_def prod.collapse)


text \<open>
  Migration disconnects only sessions that were idle, on another gateway and not awaiting
  retirement when the migration was planned; a session that was busy then is never disconnected.
\<close>

theorem migration_disconnects_only_idle:
  assumes "migrate_gateway_pool H target fraction p = (r, p')" "sp_history p' = sp_history p @ es"
    "(sid, h) \<in> set (disconnects_at (sp_history p) es)"
  shows "\<not> session_is_busy H sid (migration_start (trim target) p)
     \<and> sid \<notin> set (held_sources (migration_start (trim target) p))
     \<and> (\<exists>u. u \<noteq> trim target \<and> (sid, u) \<in> set (slot_addresses p))"
proof -
  let ?s = "migration_start (trim target) p"
  have "disconnects_within (set (idle_sources H (trim target) ?s)) p p'"
    using migrate_gateway_pool_keeps [OF assms(1)] by (simp add: migration_keeps_def)
  then have "fst ` set (disconnects_at (sp_history p) es) \<subseteq> set (idle_sources H (trim target) ?s)"
    using assms(2) by (auto simp: disconnects_within_def)
  then have "sid \<in> set (idle_sources H (trim target) ?s)" using assms(3) by force
  then show ?thesis by (auto simp: idle_sources_def migration_sources_def slot_addresses_def)
qed

lemma migration_sources_on_source: "i \<in> set (migration_sources url p) \<Longrightarrow> session_on_source i url p"
  by (auto simp: migration_sources_def session_on_source_def list_ex_iff)

lemma migration_sources_distinct: "distinct (session_ids p) \<Longrightarrow> distinct (migration_sources url p)"
  unfolding migration_sources_def session_ids_def by (rule distinct_map_filter)

lemma sources_targets: "length (migration_sources url p) + length (on_gateway url p) = length (sp_slots p)"
  using count_filter_partition [of "\<lambda>s. sl_gateway_base_url s = url" "sp_slots p"]
  by (simp add: migration_sources_def on_gateway_def)

lemma idle_busy_sources:
  "held_sources p = [] \<Longrightarrow>
   length (idle_sources H url p) + length (busy_sources H url p) = length (migration_sources url p)"
  using count_filter_partition [of "\<lambda>sid. session_is_busy H sid p" "migration_sources url p"]
  by (simp add: idle_sources_def busy_sources_def)

lemma migration_plan_le:
  assumes "held_sources p = []" "length (sp_slots p) < 2 ^ 32"
  shows "unat (gmp_target_count (migration_plan url fraction p)) \<le> length (sp_slots p)
     \<and> (\<not> gmp_blocked (migration_plan url fraction p) \<longrightarrow>
        unat (gmp_to_move (migration_plan url fraction p))
          = unat (gmp_target_count (migration_plan url fraction p)) - length (on_gateway url p))"
proof -
  let ?n = "word_of_nat (length (sp_slots p)) :: u32" and ?t = "word_of_nat (length (on_gateway url p)) :: u32"
  have sum: "word_of_nat (length (migration_sources url p)) + ?t = ?n"
    using sources_targets [of url p] by (metis of_nat_add)
  have plan: "migration_plan url fraction p = plan_gateway_migration ?n ?t fraction"
    by (simp add: migration_plan_def assms(1) sum)
  have n: "unat ?n = length (sp_slots p)" "unat ?t = length (on_gateway url p)"
    using assms(2) sources_targets [of url p] by (simp_all add: unat_of_nat_small)
  have "gmp_target_count (plan_gateway_migration ?n ?t fraction) \<le> ?n"
    using plan_gateway_migration_bounds by blast
  then show ?thesis
    by (auto simp: plan word_le_nat_alt n plan_gateway_migration_def unat_saturating_sub Let_def)
qed


subsection \<open>Deferred retirement\<close>

lemma forget_pending_fields [simp]:
  "sp_history (forget_migration_pending sid p) = sp_history p"
  "sp_slots (forget_migration_pending sid p) = sp_slots p"
  "sp_workers (forget_migration_pending sid p) = sp_workers p"
  "sp_config (forget_migration_pending sid p) = sp_config p"
  "sp_closed (forget_migration_pending sid p) = sp_closed p"
  "sp_gateway_base_url (forget_migration_pending sid p) = sp_gateway_base_url p"
  "session_ids (forget_migration_pending sid p) = session_ids p"
  "sp_reconnect_failure_times_ms (forget_migration_pending sid p) = sp_reconnect_failure_times_ms p"
  by (simp_all add: forget_migration_pending_def Let_def session_ids_def split: option.split)

lemma wf_forget_pending [wf_pool]: "pool_wf p \<Longrightarrow> pool_wf (forget_migration_pending sid p)"
proof -
  assume "pool_wf p"
  moreover have "hold_wf (sp_migration_hold p) \<Longrightarrow> hold_wf (sp_migration_hold (forget_migration_pending sid p))"
    by (auto simp: forget_migration_pending_def hold_wf_def Let_def split: option.split)
  ultimately show ?thesis by (simp add: pool_wf_def)
qed

lemma wf_retire_session [wf_pool]: "pool_wf p \<Longrightarrow> pool_wf (retire_session H sid p)"
  using wf_drop_session [of p sid]
  by (auto simp: retire_session_def Let_def case_prod_beta intro: wf_pool)

lemma retire_session_fields [simp]:
  "sp_closed (retire_session H sid p) = sp_closed p"
  "sp_gateway_base_url (retire_session H sid p) = sp_gateway_base_url p"
  by (simp_all add: retire_session_def Let_def case_prod_beta)

lemma wf_retire_pass: "pool_wf p \<Longrightarrow> pool_wf (snd (retire_pass H ids p))"
proof (induction ids arbitrary: p)
  case (Cons sid ids)
  then show ?case by (simp add: case_prod_beta wf_forget_pending wf_retire_session)
qed simp

lemma wf_retire_source_when_idle:
  "pool_wf p \<Longrightarrow> retire_source_when_idle H fuel ids p = Some p' \<Longrightarrow> pool_wf p'"
proof (induction H fuel ids p rule: retire_source_when_idle.induct)
  case (3 H fuel sid sids p)
  let ?r = "retire_pass H (sid # sids) p"
  show ?case
  proof (cases "sp_closed p")
    case False
    have wf: "pool_wf (if fst ?r = [] then snd ?r else emit EvRetirePause (snd ?r))"
      using wf_retire_pass [OF "3.prems"(1), of H "sid # sids"] wf_emit by simp
    have "retire_source_when_idle H fuel (fst ?r) (if fst ?r = [] then snd ?r else emit EvRetirePause (snd ?r)) = Some p'"
      using "3.prems"(2) False by (simp add: case_prod_beta Let_def del: retire_pass.simps)
    from "3.IH" [OF False refl prod.collapse wf this] show ?thesis .
  qed (use 3 in simp)
qed simp_all

lemma find_slot_filter:
  "sp_slots q = filter (\<lambda>s. sl_session_id s \<notin> D) (sp_slots p) \<Longrightarrow> i \<notin> D \<Longrightarrow> find_slot i q = find_slot i p"
  unfolding find_slot_def by (simp only:) (rule find_filter_other, auto)

lemma drained_to_trans:
  assumes "drained_to H p D es q" "drained_to H q E fs r"
  shows "drained_to H p (D @ E) (es @ fs) r"
proof -
  have ids: "set (session_ids q) = set (session_ids p) - set D"
    using assms(1) by (auto simp: drained_to_def session_ids_def)
  have disj: "set D \<inter> set E = {}" using assms(2) ids by (auto simp: drained_to_def)
  have "harmless_disconnect H p i h" if "(i, h) \<in> set (disconnects_at (sp_history q) fs)" for i h
  proof -
    have "harmless_disconnect H q i h" using assms(2) that by (auto simp: drained_to_def)
    moreover have "i \<in> set E"
    proof -
      have "map fst (disconnects_at (sp_history q) fs) = E" using assms(2) by (simp add: drained_to_def)
      with that show ?thesis by (metis fst_conv image_eqI list.set_map)
    qed
    then have "i \<notin> set D" using disj by blast
    moreover have "sp_workers q = sp_workers p - set D" using assms(1) by (simp add: drained_to_def)
    moreover have "find_slot i q = find_slot i p"
      using assms(1) \<open>i \<notin> set D\<close> by (intro find_slot_filter [of q "set D" p]) (simp_all add: drained_to_def)
    ultimately show ?thesis by (simp add: harmless_disconnect_def split: if_splits)
  qed
  then have "\<forall>(i, h)\<in>set (disconnects_at (sp_history p) (es @ fs)). harmless_disconnect H p i h"
    using assms(1) by (auto simp: drained_to_def)
  moreover have "set (D @ E) \<subseteq> set (session_ids p)"
    using assms ids by (auto simp: drained_to_def)
  moreover have "map fst (disconnects_at (sp_history p) (es @ fs)) = D @ E"
    using assms by (simp add: drained_to_def)
  ultimately show ?thesis using assms disj by (auto simp: drained_to_def conj_commute)
qed

lemma drained_to_neutral:
  assumes "sp_history q = sp_history p @ es" "list_all neutral_event es" "sp_slots q = sp_slots p"
    "sp_workers q = sp_workers p" "pool_wf q"
  shows "drained_to H p [] es q"
  using assms by (simp add: drained_to_def disconnects_at_neutral)

lemma drained_to_retire:
  assumes "pool_wf p" "\<not> session_is_busy H sid p" "sid \<in> set (session_ids p)"
  shows "\<exists>es. drained_to H p [sid] es (retire_session H sid p)"
proof -
  let ?q = "snd (drop_session sid p)" and ?w = "if sid \<in> sp_workers p then [EvWorkerStop sid] else []"
  let ?f = "forget_migration_pending sid ?q"
  have wfq: "pool_wf ?q" by (rule wf_drop_session [OF assms(1)])
  have 1: "drained_to H p [sid] (?w @ [EvDisconnect sid]) ?q"
    using drained_to_drop [OF assms, of "[]" "[]" ?q] drained_to_refl [OF wfq] by simp
  have 2: "drained_to H ?q [] [] ?f"
    by (rule drained_to_neutral) (simp_all add: wf_forget_pending wfq)
  obtain es where es: "sp_history (notify_sessions_changed H ?f) = sp_history ?f @ es" "list_all neutral_event es"
    using notify_history by blast
  have 3: "drained_to H ?f [] es (notify_sessions_changed H ?f)"
    using es by (intro drained_to_neutral) (simp_all add: wf_pool wfq)
  have r: "retire_session H sid p = notify_sessions_changed H ?f"
    using assms(2,3) drop_session_fst [of sid p] by (simp add: retire_session_def Let_def case_prod_beta)
  show ?thesis unfolding r using drained_to_trans [OF drained_to_trans [OF 1 2] 3] by auto
qed

lemma retire_pass_fields [simp]:
  "sp_closed (snd (retire_pass H ids p)) = sp_closed p"
  "sp_gateway_base_url (snd (retire_pass H ids p)) = sp_gateway_base_url p"
  by (induction ids arbitrary: p) (simp_all add: case_prod_beta)

lemma session_on_source_sub:
  "set (sp_slots q) \<subseteq> set (sp_slots p) \<Longrightarrow> session_on_source i u q \<Longrightarrow> session_on_source i u p"
  by (auto simp: session_on_source_def list_ex_iff)

lemma drained_slots_sub: "drained_to H p D es q \<Longrightarrow> set (sp_slots q) \<subseteq> set (sp_slots p)"
  by (auto simp: drained_to_def)

lemma session_on_source_member: "session_on_source i u p \<Longrightarrow> i \<in> set (session_ids p)"
  by (auto simp: session_on_source_def session_ids_def list_ex_iff)

definition retirable :: "string list \<Rightarrow> supervised_pool \<Rightarrow> string set" where
  "retirable ids p = {i \<in> set ids. session_on_source i (sp_gateway_base_url p) p}"

lemma retire_pass_outcome:
  assumes "pool_wf p" "retire_pass H ids p = (still, p')"
  shows "\<exists>D es. drained_to H p D es p' \<and> set D \<subseteq> retirable ids p \<and> set still \<subseteq> set ids
     \<and> (\<forall>i\<in>set ids - set still. \<not> session_on_source i (sp_gateway_base_url p) p')"
  using assms
proof (induction ids arbitrary: p still)
  case Nil
  then show ?case by (auto intro!: exI [of _ "[]"] drained_to_refl)
next
  case (Cons sid ids)
  consider (gone) "\<not> session_on_source sid (sp_gateway_base_url p) p"
    | (busy) "session_on_source sid (sp_gateway_base_url p) p" "session_is_busy H sid p"
    | (idle) "session_on_source sid (sp_gateway_base_url p) p" "\<not> session_is_busy H sid p" by blast
  then show ?case
  proof cases
    case gone
    let ?q = "forget_migration_pending sid p"
    have q: "drained_to H p [] [] ?q"
      by (rule drained_to_neutral) (simp_all add: wf_forget_pending Cons.prems(1))
    have rest: "retire_pass H ids ?q = (still, p')" using gone Cons.prems(2) by simp
    obtain D es where D: "drained_to H ?q D es p'" "set D \<subseteq> retirable ids ?q" "set still \<subseteq> set ids"
      "\<forall>i\<in>set ids - set still. \<not> session_on_source i (sp_gateway_base_url p) p'"
      using Cons.IH [OF wf_forget_pending [OF Cons.prems(1)] rest] by auto
    have "\<not> session_on_source sid (sp_gateway_base_url p) p'"
      using gone session_on_source_sub drained_slots_sub [OF D(1)] by (metis forget_pending_fields(2))
    moreover have "retirable ids ?q \<subseteq> retirable (sid # ids) p"
      by (auto simp: retirable_def session_on_source_def)
    ultimately show ?thesis using drained_to_trans [OF q D(1)] D(2-4) by fastforce
  next
    case busy
    obtain st where rest: "retire_pass H ids p = (st, p')" and still: "still = sid # st"
      using busy Cons.prems(2) by (auto split: prod.splits)
    from Cons.IH [OF Cons.prems(1) rest] show ?thesis by (fastforce simp: still retirable_def)
  next
    case idle
    let ?q = "retire_session H sid p"
    have rest: "retire_pass H ids ?q = (still, p')" using idle Cons.prems(2) by simp
    obtain es0 where q: "drained_to H p [sid] es0 ?q"
      using drained_to_retire [OF Cons.prems(1) idle(2) session_on_source_member [OF idle(1)]] by blast
    obtain D es where D: "drained_to H ?q D es p'" "set D \<subseteq> retirable ids ?q" "set still \<subseteq> set ids"
      "\<forall>i\<in>set ids - set still. \<not> session_on_source i (sp_gateway_base_url p) p'"
      using Cons.IH [OF wf_retire_session [OF Cons.prems(1)] rest] by auto
    have tr: "drained_to H p (sid # D) (es0 @ es) p'" using drained_to_trans [OF q D(1)] by simp
    then have "\<not> session_on_source sid (sp_gateway_base_url p) p'"
      by (auto simp: drained_to_def session_on_source_def list_ex_iff)
    moreover have "retirable ids ?q \<subseteq> retirable (sid # ids) p"
      using session_on_source_sub [OF drained_slots_sub [OF q]] by (auto simp: retirable_def)
    moreover have "sid \<in> retirable (sid # ids) p" using idle(1) by (simp add: retirable_def)
    ultimately show ?thesis using tr D(2-4) by fastforce
  qed
qed

text \<open>One round of the polling loop: a pass, and the pause when sessions are still busy.\<close>

definition retire_round :: "pool_host \<Rightarrow> string list \<Rightarrow> supervised_pool \<Rightarrow> string list \<times> supervised_pool" where
  "retire_round H ids p =
     (let (still, q) = retire_pass H ids p in (still, if still = [] then q else emit EvRetirePause q))"

lemma retire_source_round:
  "\<not> sp_closed p \<Longrightarrow> ids \<noteq> [] \<Longrightarrow> retire_source_when_idle H (Suc fuel) ids p
     = (let (still, q) = retire_round H ids p in retire_source_when_idle H fuel still q)"
  by (cases ids) (simp_all add: retire_round_def case_prod_beta Let_def del: retire_pass.simps)

lemma retire_round_outcome:
  assumes "pool_wf p" "retire_round H ids p = (still, p')"
  shows "\<exists>D es. drained_to H p D es p' \<and> set D \<subseteq> retirable ids p \<and> set still \<subseteq> set ids
     \<and> (\<forall>i\<in>set ids - set still. \<not> session_on_source i (sp_gateway_base_url p) p')
     \<and> sp_closed p' = sp_closed p \<and> sp_gateway_base_url p' = sp_gateway_base_url p"
proof -
  obtain q where pass: "retire_pass H ids p = (still, q)" and p': "p' = (if still = [] then q else emit EvRetirePause q)"
    using assms(2) by (auto simp: retire_round_def split: prod.splits)
  obtain D es where D: "drained_to H p D es q" "set D \<subseteq> retirable ids p" "set still \<subseteq> set ids"
      "\<forall>i\<in>set ids - set still. \<not> session_on_source i (sp_gateway_base_url p) q"
    using retire_pass_outcome [OF assms(1) pass] by blast
  have "drained_to H q [] (if still = [] then [] else [EvRetirePause]) p'"
    using D(1) by (intro drained_to_neutral) (simp_all add: p' neutral_event_def drained_to_def wf_emit)
  from drained_to_trans [OF D(1) this] have "drained_to H p D (es @ (if still = [] then [] else [EvRetirePause])) p'"
    by simp
  moreover have "sp_closed p' = sp_closed p" "sp_gateway_base_url p' = sp_gateway_base_url p"
    using retire_pass_fields [of H ids p] pass by (simp_all add: p')
  moreover have "\<forall>i\<in>set ids - set still. \<not> session_on_source i (sp_gateway_base_url p) p'"
    using D(4) by (simp add: p' session_on_source_def)
  ultimately show ?thesis using D(2,3) by blast
qed

lemma retirable_sub:
  assumes "drained_to H p D es q" "set still \<subseteq> set ids" "sp_gateway_base_url q = sp_gateway_base_url p"
  shows "retirable still q \<subseteq> retirable ids p"
  using assms session_on_source_sub [OF drained_slots_sub [OF assms(1)]] by (auto simp: retirable_def)

lemma retire_source_outcome:
  assumes "pool_wf p" "retire_source_when_idle H fuel ids p = Some p'"
  shows "\<exists>D es. drained_to H p D es p' \<and> set D \<subseteq> retirable ids p"
  using assms
proof (induction fuel arbitrary: ids p)
  case 0
  then have "p' = p" by (cases ids) simp_all
  with 0 show ?case by (auto intro!: exI [of _ "[]"] drained_to_refl)
next
  case (Suc fuel)
  show ?case
  proof (cases "ids = [] \<or> sp_closed p")
    case True
    then have "p' = p" using Suc.prems(2) by (cases ids) auto
    with Suc.prems show ?thesis by (auto intro!: exI [of _ "[]"] drained_to_refl)
  next
    case False
    obtain still q where rnd: "retire_round H ids p = (still, q)" by fastforce
    then have rest: "retire_source_when_idle H fuel still q = Some p'"
      using Suc.prems(2) False by (simp add: retire_source_round)
    obtain D es where D: "drained_to H p D es q" "set D \<subseteq> retirable ids p" "set still \<subseteq> set ids"
        "sp_gateway_base_url q = sp_gateway_base_url p"
      using retire_round_outcome [OF Suc.prems(1) rnd] by blast
    have "pool_wf q" using D(1) by (simp add: drained_to_def)
    from Suc.IH [OF this rest] obtain E fs where E: "drained_to H q E fs p'" "set E \<subseteq> retirable still q" by blast
    have "set (D @ E) \<subseteq> retirable ids p" using D(2) E(2) retirable_sub [OF D(1,3,4)] by auto
    with drained_to_trans [OF D(1) E(1)] show ?thesis by blast
  qed
qed

text \<open>
  Deferred retirement never interrupts an inference: every session the retirement task
  disconnects is one it was spawned for, is still on a gateway other than the primary, and was idle
  (its worker reported idle just before it was stopped, just before the disconnect).
\<close>

theorem retirement_never_interrupts:
  assumes "pool_wf p" "retire_source_when_idle H fuel ids p = Some p'"
    "sp_history p' = sp_history p @ es" "(sid, h) \<in> set (disconnects_at (sp_history p) es)"
  shows "harmless_disconnect H p sid h \<and> sid \<in> retirable ids p"
proof -
  obtain D fs where D: "drained_to H p D fs p'" "set D \<subseteq> retirable ids p"
    using retire_source_outcome [OF assms(1,2)] by blast
  moreover from D(1) assms(3) have "fs = es" by (simp add: drained_to_def)
  moreover have "sid \<in> set (map fst (disconnects_at (sp_history p) es))" using assms(4) by force
  ultimately show ?thesis using assms(4) by (auto simp: drained_to_def)
qed

subsection \<open>Retirement finishes\<close>

definition calm_after :: "pool_host \<Rightarrow> nat \<Rightarrow> bool" where
  "calm_after H k \<longleftrightarrow> (\<forall>h sid. k \<le> count_list h EvRetirePause \<longrightarrow> \<not> h_worker_busy H h sid)"

lemma calm_not_busy:
  assumes "calm_after H k" "k \<le> count_list (sp_history p) EvRetirePause" "\<forall>s\<in>set (sp_slots p). \<not> sl_busy s"
  shows "\<not> session_is_busy H sid p"
proof (cases "find_slot sid p")
  case (Some s)
  then have "s \<in> set (sp_slots p)" unfolding find_slot_def using find_SomeD by fastforce
  with Some assms show ?thesis by (simp add: session_is_busy_def calm_after_def)
qed (use assms in \<open>simp add: session_is_busy_def calm_after_def\<close>)

lemma retire_pass_calm:
  assumes "pool_wf p" "calm_after H k" "k \<le> count_list (sp_history p) EvRetirePause"
    "\<forall>s\<in>set (sp_slots p). \<not> sl_busy s"
  shows "fst (retire_pass H ids p) = []"
  using assms
proof (induction ids arbitrary: p)
  case (Cons sid ids)
  note idle = calm_not_busy [OF Cons.prems(2-4)]
  show ?case
  proof (cases "session_on_source sid (sp_gateway_base_url p) p")
    case False
    then show ?thesis using Cons.IH [of "forget_migration_pending sid p"] Cons.prems by (simp add: wf_forget_pending)
  next
    case True
    let ?q = "retire_session H sid p"
    obtain es where q: "drained_to H p [sid] es ?q"
      using drained_to_retire [OF Cons.prems(1) idle session_on_source_member [OF True]] by blast
    have "pool_wf ?q" "k \<le> count_list (sp_history ?q) EvRetirePause" "\<forall>s\<in>set (sp_slots ?q). \<not> sl_busy s"
      using q Cons.prems by (auto simp: drained_to_def)
    with Cons.IH [of ?q] Cons.prems(2) True idle show ?thesis by simp
  qed
qed simp

lemma retire_source_terminates:
  assumes "pool_wf p" "\<not> sp_closed p" "calm_after H k" "\<forall>s\<in>set (sp_slots p). \<not> sl_busy s"
    "k - count_list (sp_history p) EvRetirePause < fuel"
  shows "\<exists>p'. retire_source_when_idle H fuel ids p = Some p'
     \<and> (\<forall>i\<in>set ids. \<not> session_on_source i (sp_gateway_base_url p) p')"
  using assms
proof (induction fuel arbitrary: ids p)
  case (Suc fuel)
  show ?case
  proof (cases "ids = []")
    case False
    obtain still q where rnd: "retire_round H ids p = (still, q)" by fastforce
    obtain D es where D: "drained_to H p D es q" "set still \<subseteq> set ids"
        "\<forall>i\<in>set ids - set still. \<not> session_on_source i (sp_gateway_base_url p) q"
        "sp_closed q = sp_closed p" "sp_gateway_base_url q = sp_gateway_base_url p"
      using retire_round_outcome [OF Suc.prems(1) rnd] by blast
    have run: "retire_source_when_idle H (Suc fuel) ids p = retire_source_when_idle H fuel still q"
      using rnd False Suc.prems(2) by (simp add: retire_source_round)
    show ?thesis
    proof (cases "still = []")
      case True
      with run D(3) show ?thesis by simp
    next
      case busy: False
      have "\<not> k \<le> count_list (sp_history p) EvRetirePause"
        using busy rnd retire_pass_calm [OF Suc.prems(1,3) _ Suc.prems(4), of ids]
        by (auto simp: retire_round_def split: prod.splits)
      moreover have "count_list (sp_history p) EvRetirePause < count_list (sp_history q) EvRetirePause"
      proof -
        obtain r where pass: "retire_pass H ids p = (still, r)" and q: "q = emit EvRetirePause r"
          using rnd busy by (auto simp: retire_round_def split: prod.splits)
        from retire_pass_outcome [OF Suc.prems(1) pass] show ?thesis by (auto simp: q drained_to_def)
      qed
      ultimately have fuel: "k - count_list (sp_history q) EvRetirePause < fuel" using Suc.prems(5) by linarith
      have q: "pool_wf q" "\<not> sp_closed q" "\<forall>s\<in>set (sp_slots q). \<not> sl_busy s"
        using D(1,4) Suc.prems(2,4) by (auto simp: drained_to_def)
      obtain p' where p': "retire_source_when_idle H fuel still q = Some p'"
        "\<forall>i\<in>set still. \<not> session_on_source i (sp_gateway_base_url p) p'"
        using Suc.IH [OF q(1,2) Suc.prems(3) q(3) fuel] D(5) by metis
      obtain E fs where "drained_to H q E fs p'" using retire_source_outcome [OF q(1) p'(1)] by blast
      then have "\<forall>i\<in>set ids - set still. \<not> session_on_source i (sp_gateway_base_url p) p'"
        using D(3) session_on_source_sub drained_slots_sub by blast
      with p' run show ?thesis by auto
    qed
  qed simp
qed simp


subsection \<open>Instances\<close>

definition new_events :: "supervised_pool \<Rightarrow> supervised_pool \<Rightarrow> pool_event list" where
  "new_events p p' = drop (length (sp_history p)) (sp_history p')"

lemma hd_fst_member: "hd (map fst xs) = a \<Longrightarrow> xs \<noteq> [] \<Longrightarrow> \<exists>b. (a, b) \<in> set xs"
  by (cases xs) auto

lemma last_fst_member: "last (map fst xs) = a \<Longrightarrow> xs \<noteq> [] \<Longrightarrow> \<exists>b. (a, b) \<in> set xs"
  by (cases xs rule: rev_cases) auto

lemma sample_migration_start: "held_sources (migration_start ''new'' sample_running_pool) = []"
  by (simp add: held_sources_def migration_start_def prune_migration_hold_def sample_running_pool_def sample_pool_def
      boot_def supervised_pool_new_def Let_def case_prod_beta) code_simp

text \<open>
  A host on which the worker of session \<open>ss\<close> picks up an inference while the replacement dial of
  the migration is in flight.
\<close>

definition sample_race_host :: pool_host where
  "sample_race_host = sample_host\<lparr>h_worker_busy := (\<lambda>h sid. sid = ''ss''
     \<and> list_ex (\<lambda>e. case e of EvConnectTo u r \<Rightarrow> True | _ \<Rightarrow> False) h)\<rparr>"

text \<open>
  A full migration can cut an inference that starts while the replacement is being dialled:
  \<^verbatim>\<open>migrate_session_to\<close> stops the worker and disconnects without asking again whether the session is
  busy. On a pool whose sessions are all idle when the migration is planned, one whose worker
  becomes busy during the dial is disconnected while it reports busy.
\<close>

theorem migration_may_cut_started_inference:
  "\<not> session_is_busy sample_race_host ''ss'' (migration_start ''new'' sample_running_pool)
   \<and> list_ex (\<lambda>(sid, h). sid = ''ss'' \<and> last h = EvWorkerStop ''ss'' \<and> h_worker_busy sample_race_host (butlast h) ''ss'')
       (disconnects_at (sp_history sample_running_pool)
         (new_events sample_running_pool
            (snd (migrate_gateway_pool sample_race_host ''new'' f64_one sample_running_pool))))"
  by code_simp

theorem migration_disconnects_only_idle_witness:
  "\<exists>h. (''s'', h) \<in> set (disconnects_at (sp_history sample_running_pool)
      (new_events sample_running_pool (snd (migrate_gateway_pool sample_busy_host ''new'' f64_one sample_running_pool))))
   \<and> \<not> session_is_busy sample_busy_host ''s'' (migration_start (trim ''new'') sample_running_pool)"
proof -
  let ?p = sample_running_pool
  let ?p' = "snd (migrate_gateway_pool sample_busy_host ''new'' f64_one ?p)"
  let ?es = "new_events ?p ?p'"
  have es: "sp_history ?p' = sp_history ?p @ ?es" by code_simp
  have d: "hd (map fst (disconnects_at (sp_history ?p) ?es)) = ''s''" "disconnects_at (sp_history ?p) ?es \<noteq> []" by code_simp+
  obtain h where h: "(''s'', h) \<in> set (disconnects_at (sp_history ?p) ?es)"
    using hd_fst_member [OF d] ..
  show ?thesis
    by (rule exI [of _ h], rule conjI [OF h])
      (rule migration_disconnects_only_idle [OF prod.collapse [symmetric] es h, THEN conjunct1])
qed


definition sample_migrated_pool :: supervised_pool where
  "sample_migrated_pool = sample_running_pool\<lparr>sp_gateway_base_url := ''new''\<rparr>"

lemma sample_migrated_pool_wf: "pool_wf sample_migrated_pool"
  using sample_running_pool_wf by (simp add: sample_migrated_pool_def)

definition sample_calming_host :: pool_host where
  "sample_calming_host = sample_host\<lparr>h_worker_busy := (\<lambda>h sid. sid = ''ss'' \<and> count_list h EvRetirePause < 2)\<rparr>"


theorem retirement_never_interrupts_witness:
  "\<exists>h. harmless_disconnect sample_calming_host sample_migrated_pool ''ss'' h"
proof -
  let ?p = sample_migrated_pool and ?H = sample_calming_host
  let ?r = "retire_source_when_idle ?H 3 [''s'', ''ss''] ?p"
  let ?p' = "the ?r"
  let ?es = "new_events ?p ?p'"
  have es: "sp_history ?p' = sp_history ?p @ ?es" and "?r \<noteq> None" by code_simp+
  then have some: "?r = Some ?p'" by simp
  have d: "last (map fst (disconnects_at (sp_history ?p) ?es)) = ''ss''" "disconnects_at (sp_history ?p) ?es \<noteq> []" by code_simp+
  obtain h where h: "(''ss'', h) \<in> set (disconnects_at (sp_history ?p) ?es)"
    using last_fst_member [OF d] ..
  show ?thesis
    by (rule exI [of _ h]) (rule retirement_never_interrupts [OF sample_migrated_pool_wf some es h, THEN conjunct1])
qed

end
