(* ===== verification/Pool_Machine.thy ===== *)
theory Pool_Machine
  imports Pool_Migrate
begin

section \<open>The pool as a state machine\<close>

text \<open>
  All public operations and spawned tasks of the pool as one step relation over an arbitrary host,
  in any order and any number: boot, single dials, scale-up, drain, desired-pool hints, gateway
  migration, one pass of the retirement task, transport-loss reports, reconnect timers, session
  watch ticks, busy marks, worker starts, the pause of the migration handler and shutdown. The invariant of the pool holds in every reachable state.
\<close>

definition pool_init :: "supervised_pool \<Rightarrow> bool" where
  "pool_init p \<longleftrightarrow> p = supervised_pool_new (sp_config p) (sp_gateway_base_url p)"

inductive pool_step :: "pool_host \<Rightarrow> supervised_pool \<Rightarrow> supervised_pool \<Rightarrow> bool" for H :: pool_host where
  step_boot: "pool_step H p (snd (boot H req p))"
| step_connect_one: "pool_step H p (snd (connect_one H req p))"
| step_scale_to: "pool_step H p (snd (scale_to H n req p))"
| step_drain: "pool_step H p (snd (drain_with_plan H count fraction p))"
| step_desired: "pool_step H p (desired_pool_applier_round H hint later p)"
| step_migrate: "pool_step H p (snd (migrate_gateway_pool H target fraction p))"
| step_retire: "pool_step H p (snd (retire_pass H ids p))"
| step_transport_lost: "pool_step H p (schedule_reconnect H sid p)"
| step_reconnect: "pool_step H p (reconnect_slot H sid p)"
| step_watch: "pool_step H p (session_watch_tick H p)"
| step_set_busy: "pool_step H p (set_session_busy sid b p)"
| step_set_template: "pool_step H p (p\<lparr>sp_connect_template := Some req\<rparr>)"
| step_close: "pool_step H p (close_all H p)"
| step_worker: "sid \<in> set (session_ids p) \<Longrightarrow> pool_step H p (snd (ensure_started H sid p))"
| step_pause: "pool_step H p (emit EvRetryPause p)"

inductive_cases pool_stepE: "pool_step H p p'"

lemma wf_ensure_started [wf_pool]: "pool_wf p \<Longrightarrow> sid \<in> set (session_ids p) \<Longrightarrow> pool_wf (snd (ensure_started H sid p))"
  by (auto simp: ensure_started_def pool_wf_def session_ids_def split: option.split sum.split)

lemma pool_step_wf: "fresh_host H \<Longrightarrow> pool_wf p \<Longrightarrow> pool_step H p p' \<Longrightarrow> pool_wf p'"
  by (erule pool_stepE)
    (auto simp: desired_pool_applier_round_def wf_boot wf_scale_to wf_drain_with_plan wf_apply_desired
      wf_migrate_gateway_pool wf_retire_pass wf_schedule_reconnect wf_reconnect_slot wf_session_watch_tick
      wf_slot_flags wf_close_all wf_ensure_started wf_emit intro: wf_connect_one [OF _ _ prod.collapse [symmetric]])

interpretation pool_machine: state_machine pool_init "pool_step H" "\<lambda>p. fresh_host H \<longrightarrow> pool_wf p" for H
proof
  show "fresh_host H \<longrightarrow> pool_wf s" if "pool_init s" for s
    using that supervised_pool_new_wf [of "sp_config s" "sp_gateway_base_url s"] by (metis pool_init_def)
  show "fresh_host H \<longrightarrow> pool_wf t" if "fresh_host H \<longrightarrow> pool_wf s" "pool_step H s t" for s t
    using that pool_step_wf by blast
qed



end
