(* ===== verification/Controls.thy ===== *)
theory Controls
  imports Pool_Machine
begin

section \<open>Control files and signals\<close>

text \<open>
  \<^verbatim>\<open>ie-engine/src/controls/\<close>: where control files may live (\<^verbatim>\<open>paths.rs\<close>), and the handlers that apply
  a request file to the pool: drain on SIGUSR2, migration with retries on SIGUSR1, polled scale-up,
  the published status. The content of a request file is an optional string, the JSON decoder a
  parameter; a handler that is already running ignores further signals. The lemmas show that an
  accepted path stays below an allowed root, that the retry loop of a migration ends, and that the
  published counts add up.
\<close>

subsection \<open>Paths\<close>

definition trim_end_slashes :: "string \<Rightarrow> string" where
  "trim_end_slashes s = rev (dropWhile (\<lambda>c. c = CHR ''/'') (rev s))"

definition is_allowed_control_path :: "string \<Rightarrow> env \<Rightarrow> bool" where
  "is_allowed_control_path s env \<longleftrightarrow>
     starts_with s ''/etc/teechat/''
     \<or> (case env_nonempty env ''TEECHAT_ENGINE_CONTROL_DIR'' of None \<Rightarrow> False
        | Some v \<Rightarrow> let root = trim_end_slashes v in s = root \<or> starts_with s (root @ ''/''))"

definition resolve_control_file_path :: "string \<Rightarrow> env \<Rightarrow> string + string" where
  "resolve_control_file_path raw env =
     (let trimmed = trim raw
      in if trimmed = [] then Inl ''empty control file path''
         else if list_ex (\<lambda>c. c = ''..'') (path_components trimmed)
           then Inl (''control path must not contain '' @ [CHR 0x27] @ ''..'' @ [CHR 0x27] @ '': '' @ trimmed)
         else if \<not> is_allowed_control_path trimmed env
           then Inl (''control path not allowed (must be under /etc/teechat/ or TEECHAT_ENGINE_CONTROL_DIR): '' @ trimmed)
         else Inr trimmed)"

definition resolve_or_default :: "env \<Rightarrow> string \<Rightarrow> string \<Rightarrow> string" where
  "resolve_or_default env override_key dflt =
     (case env override_key of None \<Rightarrow> dflt
      | Some path \<Rightarrow>
          if trim path = [] then dflt
          else (case resolve_control_file_path (trim path) env of Inr p \<Rightarrow> p | Inl e \<Rightarrow> dflt))"

definition slot_path :: "env \<Rightarrow> string \<Rightarrow> string \<Rightarrow> string" where
  "slot_path env stem fallback =
     (case env ''TEECHAT_ENGINE_SLOT'' of None \<Rightarrow> fallback
      | Some s \<Rightarrow> if trim s = [] then fallback else ''/etc/teechat/'' @ stem @ ''-'' @ trim s @ ''.json'')"

definition default_pool_drain_file :: "env \<Rightarrow> string" where
  "default_pool_drain_file env = resolve_or_default env ''TEECHAT_ENGINE_POOL_DRAIN_FILE''
     (slot_path env ''engine-pool-drain'' ''/etc/teechat/engine-pool-drain.json'')"

definition default_pool_scale_file :: "env \<Rightarrow> string" where
  "default_pool_scale_file env = resolve_or_default env ''TEECHAT_ENGINE_POOL_SCALE_FILE''
     (slot_path env ''engine-pool-scale'' ''/etc/teechat/engine-pool-scale.json'')"

definition default_pool_status_file :: "env \<Rightarrow> string" where
  "default_pool_status_file env = resolve_or_default env ''TEECHAT_ENGINE_POOL_STATUS_FILE''
     (slot_path env ''engine-pool-status'' ''/etc/teechat/engine-pool-status.json'')"

definition default_gateway_migration_file :: "env \<Rightarrow> string" where
  "default_gateway_migration_file env = resolve_or_default env ''TEECHAT_ENGINE_GATEWAY_MIGRATION_FILE''
     ''/etc/teechat/engine-gateway-migration.json''"

subsection \<open>Handlers\<close>

record control_state =
  ct_handling :: bool
  ct_file :: "string option"

definition read_request_file :: "(string \<Rightarrow> string + 'r) \<Rightarrow> control_state \<Rightarrow> string + 'r" where
  "read_request_file parse c = (case ct_file c of None \<Rightarrow> Inl ''No such file or directory'' | Some raw \<Rightarrow> parse raw)"

definition f64_half :: f64 where
  "f64_half = F64 1 (- 1)"

definition run_pool_drain_once ::
    "pool_host \<Rightarrow> pool_drain_request \<Rightarrow> supervised_pool \<Rightarrow> pool_drain_result \<times> supervised_pool" where
  "run_pool_drain_once H request p =
     (case pdr_count request of
        Some count \<Rightarrow> drain_idle_sessions H count p
      | None \<Rightarrow> drain_idle_pool H (case pdr_fraction request of None \<Rightarrow> f64_half | Some f \<Rightarrow> f) p)"

definition drain_handle_signal ::
    "pool_host \<Rightarrow> (string \<Rightarrow> string + pool_drain_request) \<Rightarrow> control_state \<times> supervised_pool
     \<Rightarrow> control_state \<times> supervised_pool" where
  "drain_handle_signal H from_str = (\<lambda>(c, p).
     if ct_handling c then (c, p)
     else (case read_request_file (parse_pool_drain_request_json from_str) c of
             Inl e \<Rightarrow> (c\<lparr>ct_handling := False\<rparr>, p)
           | Inr req \<Rightarrow> (c\<lparr>ct_file := None, ct_handling := False\<rparr>, snd (run_pool_drain_once H req p))))"

definition scale_run_once ::
    "pool_host \<Rightarrow> (string \<Rightarrow> string + pool_scale_request) \<Rightarrow> control_state \<times> supervised_pool
     \<Rightarrow> control_state \<times> supervised_pool" where
  "scale_run_once H from_str = (\<lambda>(c, p).
     if ct_handling c then (c, p)
     else (case read_request_file (parse_pool_scale_request_json from_str) c of
             Inl e \<Rightarrow> (c\<lparr>ct_handling := False\<rparr>, p)
           | Inr req \<Rightarrow>
              (case sp_connect_template p of None \<Rightarrow> (c\<lparr>ct_handling := False\<rparr>, p)
               | Some template \<Rightarrow>
                  (case scale_to H (psr_target_size req) template p of
                     (Inl e, p) \<Rightarrow> (c\<lparr>ct_handling := False\<rparr>, p)
                   | (Inr added, p) \<Rightarrow> (c\<lparr>ct_file := None, ct_handling := False\<rparr>, p)))))"

text \<open>One tick of the scale poller: the file is tried only when it can be read.\<close>

definition scale_poll_tick ::
    "pool_host \<Rightarrow> (string \<Rightarrow> string + pool_scale_request) \<Rightarrow> control_state \<times> supervised_pool
     \<Rightarrow> control_state \<times> supervised_pool" where
  "scale_poll_tick H from_str cp = (if ct_file (fst cp) = None then cp else scale_run_once H from_str cp)"

definition MIGRATION_RETRY_MAX_MS :: nat where
  "MIGRATION_RETRY_MAX_MS = 360000"

definition migration_target_reached :: "gateway_migration_result \<Rightarrow> bool" where
  "migration_target_reached r \<longleftrightarrow> \<not> gmx_blocked r \<and> gmx_target_count r \<le> gmx_on_target r"

text \<open>
  The retry loop. \<open>clock\<close> is the monotonic clock as a function of the pool's history, in which the
  sleep of two seconds before each retry is an event. \<^const>\<open>None\<close> is fuel spent before the loop
  ended.
\<close>

fun migrate_retry ::
    "pool_host \<Rightarrow> (pool_event list \<Rightarrow> nat) \<Rightarrow> gateway_migration_request \<Rightarrow> nat \<Rightarrow> nat
     \<Rightarrow> gateway_migration_result \<Rightarrow> supervised_pool
     \<Rightarrow> ((engine_error + gateway_migration_result) \<times> supervised_pool) option" where
  "migrate_retry H clock req deadline fuel result p =
     (if migration_target_reached result \<or> deadline \<le> clock (sp_history p) then Some (Inr result, p)
      else case fuel of 0 \<Rightarrow> None
        | Suc fuel \<Rightarrow>
           (case migrate_gateway_pool H (gmr_target_url req) (gmr_fraction req) (emit EvRetryPause p) of
              (Inl e, p) \<Rightarrow> Some (Inl e, p)
            | (Inr result, p) \<Rightarrow> migrate_retry H clock req deadline fuel result p))"

declare migrate_retry.simps [simp del]

definition migrate_handle_signal ::
    "pool_host \<Rightarrow> (pool_event list \<Rightarrow> nat) \<Rightarrow> nat \<Rightarrow> (string \<Rightarrow> string + gateway_migration_request)
     \<Rightarrow> control_state \<times> supervised_pool \<Rightarrow> (control_state \<times> supervised_pool) option" where
  "migrate_handle_signal H clock fuel from_str = (\<lambda>(c, p).
     if ct_handling c then Some (c, p)
     else (case read_request_file (parse_gateway_migration_request_json from_str) c of
             Inl e \<Rightarrow> Some (c\<lparr>ct_handling := False\<rparr>, p)
           | Inr req \<Rightarrow>
              (let deadline = clock (sp_history p) + MIGRATION_RETRY_MAX_MS
               in case migrate_gateway_pool H (gmr_target_url req) (gmr_fraction req) p of
                    (Inl e, p) \<Rightarrow> Some (c\<lparr>ct_handling := False\<rparr>, p)
                  | (Inr result, p) \<Rightarrow>
                     (case migrate_retry H clock req deadline fuel result p of
                        None \<Rightarrow> None
                      | Some (Inl e, p) \<Rightarrow> Some (c\<lparr>ct_handling := False\<rparr>, p)
                      | Some (Inr result, p) \<Rightarrow> Some (c\<lparr>ct_file := None, ct_handling := False\<rparr>, p)))))"

subsection \<open>Status\<close>

record engine_pool_status_snapshot =
  st_schema :: string
  st_engine_id :: string
  st_live_sessions :: u32
  st_sessions_by_gateway_url :: "string \<rightharpoonup> u32"
  st_updated_at :: string

definition build_pool_status_snapshot ::
    "string \<Rightarrow> string \<Rightarrow> u32 \<Rightarrow> (string \<rightharpoonup> u32) \<Rightarrow> engine_pool_status_snapshot" where
  "build_pool_status_snapshot now engine_id live by_url =
     \<lparr>st_schema = ''teechat-engine-pool-status/v1'', st_engine_id = engine_id, st_live_sessions = live,
      st_sessions_by_gateway_url = by_url, st_updated_at = now\<rparr>"

definition publish_once :: "string \<Rightarrow> string \<Rightarrow> supervised_pool \<Rightarrow> engine_pool_status_snapshot" where
  "publish_once now engine_id p =
     build_pool_status_snapshot now engine_id (live_session_count p) (sessions_by_gateway_url p)"

subsection \<open>Containment\<close>

definition path_contained :: "env \<Rightarrow> string \<Rightarrow> bool" where
  "path_contained env s \<longleftrightarrow> ''..'' \<notin> set (path_components s) \<and> is_allowed_control_path s env"

lemma resolve_contained: "resolve_control_file_path raw env = Inr s \<Longrightarrow> path_contained env s"
  by (auto simp: resolve_control_file_path_def path_contained_def Let_def list_ex_iff split: if_splits)

lemma resolve_or_default_contained:
  "path_contained env dflt \<Longrightarrow> path_contained env (resolve_or_default env key dflt)"
  by (auto simp: resolve_or_default_def resolve_contained split: option.split sum.split)

lemma slot_path_contained:
  assumes "\<forall>slot. env ''TEECHAT_ENGINE_SLOT'' = Some slot \<longrightarrow> CHR ''/'' \<notin> set slot"
    and "CHR ''/'' \<notin> set stem" "path_contained env fallback"
  shows "path_contained env (slot_path env stem fallback)"
proof (cases "env ''TEECHAT_ENGINE_SLOT''")
  case None
  with assms(3) show ?thesis by (simp add: slot_path_def)
next
  case (Some s)
  let ?suf = "stem @ ''-'' @ trim s @ ''.json''"
  have "CHR ''/'' \<notin> set (trim s)" using assms(1) Some trim_subset by blast
  then have suf: "CHR ''/'' \<notin> set ?suf" using assms(2) by simp
  have path: "''/etc/teechat/'' @ ?suf = ''/etc/teechat'' @ CHR ''/'' # ?suf" by simp
  have "split_on (CHR ''/'') (''/etc/teechat/'' @ ?suf) = split_on (CHR ''/'') ''/etc/teechat'' @ [?suf]"
    unfolding path by (rule split_on_last [OF suf])
  moreover have "?suf \<noteq> ''..''"
  proof
    assume "?suf = ''..''"
    then have "length ?suf = length ''..''" by (rule arg_cong)
    then show False by simp
  qed
  ultimately have "''..'' \<notin> set (path_components (''/etc/teechat/'' @ ?suf))" by (simp add: path_components_def)
  moreover have "is_allowed_control_path (''/etc/teechat/'' @ ?suf) env"
    by (simp add: is_allowed_control_path_def starts_with_append)
  ultimately show ?thesis using Some assms(3) by (simp add: slot_path_def path_contained_def)
qed

lemma fixed_defaults_contained:
  "path_contained env ''/etc/teechat/engine-pool-drain.json''"
  "path_contained env ''/etc/teechat/engine-pool-scale.json''"
  "path_contained env ''/etc/teechat/engine-pool-status.json''"
  "path_contained env ''/etc/teechat/engine-gateway-migration.json''"
  by (simp_all add: path_contained_def is_allowed_control_path_def path_components_def)



text \<open>
  A slot name is not checked: with a slash in \<^verbatim>\<open>TEECHAT_ENGINE_SLOT\<close> the default drain file
  climbs out of \<^verbatim>\<open>/etc/teechat\<close>, although the same path given as an override would be refused.
\<close>

theorem slot_name_escapes_directory:
  "default_pool_drain_file [''TEECHAT_ENGINE_SLOT'' \<mapsto> ''x/../../tmp/a''] = ''/etc/teechat/engine-pool-drain-x/../../tmp/a.json''
   \<and> ''..'' \<in> set (path_components ''/etc/teechat/engine-pool-drain-x/../../tmp/a.json'')
   \<and> (\<exists>e. resolve_control_file_path ''/etc/teechat/engine-pool-drain-x/../../tmp/a.json'' Map.empty = Inl e)"
proof -
  have "default_pool_drain_file [''TEECHAT_ENGINE_SLOT'' \<mapsto> ''x/../../tmp/a'']
      = ''/etc/teechat/engine-pool-drain-x/../../tmp/a.json''"
    "''..'' \<in> set (path_components ''/etc/teechat/engine-pool-drain-x/../../tmp/a.json'')"
    "(case resolve_control_file_path ''/etc/teechat/engine-pool-drain-x/../../tmp/a.json'' Map.empty of
        Inl e \<Rightarrow> True | Inr s \<Rightarrow> False)"
    by code_simp+
  then show ?thesis by (auto split: sum.splits)
qed

subsection \<open>The migration retry loop\<close>

definition retry_clock :: "(pool_event list \<Rightarrow> nat) \<Rightarrow> bool" where
  "retry_clock clock \<longleftrightarrow>
     (\<forall>h es. clock h \<le> clock (h @ es)) \<and> (\<forall>h. clock h + 2000 \<le> clock (h @ [EvRetryPause]))"

lemma migrate_history_grows:
  "migrate_gateway_pool H target fraction p = (r, p') \<Longrightarrow> \<exists>es. sp_history p' = sp_history p @ es"
  using migrate_gateway_pool_keeps [of H target fraction p r p']
  by (auto simp: migration_keeps_def disconnects_within_def)

lemma migrate_retry_ends:
  assumes "retry_clock clock" "deadline \<le> clock (sp_history p) + 2000 * fuel"
  shows "migrate_retry H clock req deadline fuel result p \<noteq> None"
  using assms(2)
proof (induction fuel arbitrary: result p)
  case 0
  then show ?case by (simp add: migrate_retry.simps)
next
  case (Suc fuel)
  let ?q = "emit EvRetryPause p"
  obtain r p' where m: "migrate_gateway_pool H (gmr_target_url req) (gmr_fraction req) ?q = (r, p')" by fastforce
  obtain es where "sp_history p' = sp_history ?q @ es" using migrate_history_grows [OF m] by blast
  then have "clock (sp_history ?q) \<le> clock (sp_history p')" using assms(1) unfolding retry_clock_def by metis
  moreover have "clock (sp_history p) + 2000 \<le> clock (sp_history ?q)" using assms(1) by (simp add: retry_clock_def)
  ultimately have "deadline \<le> clock (sp_history p') + 2000 * fuel" using Suc.prems by simp
  from Suc.IH [OF this] m show ?case
    by (cases r) (simp_all add: migrate_retry.simps [of H clock req deadline "Suc fuel"])
qed

text \<open>
  The migration handler always comes back: with sleeps that last their two seconds, after at
  most 180 retries of a migration that does not reach its target the deadline has passed; the
  handler has then released its busy flag, whatever the gateway answers, so a later signal is
  served.
\<close>

theorem migration_handler_returns:
  assumes "retry_clock clock"
  shows "\<exists>c' p'. migrate_handle_signal H clock 180 from_str (c, p) = Some (c', p')
     \<and> (\<not> ct_handling c \<longrightarrow> \<not> ct_handling c')"
proof (cases "ct_handling c")
  case True
  then show ?thesis by (simp add: migrate_handle_signal_def)
next
  case False
  show ?thesis
  proof (cases "read_request_file (parse_gateway_migration_request_json from_str) c")
    case (Inl e)
    with False show ?thesis by (simp add: migrate_handle_signal_def)
  next
    case (Inr req)
    obtain r q where m: "migrate_gateway_pool H (gmr_target_url req) (gmr_fraction req) p = (r, q)" by fastforce
    show ?thesis
    proof (cases r)
      case (Inl e)
      with False Inr m show ?thesis by (simp add: migrate_handle_signal_def)
    next
      case ok: (Inr result)
      let ?dl = "clock (sp_history p) + MIGRATION_RETRY_MAX_MS"
      have "clock (sp_history p) \<le> clock (sp_history q)"
        using migrate_history_grows [OF m] assms by (auto simp: retry_clock_def)
      then have "?dl \<le> clock (sp_history q) + 2000 * 180" by (simp add: MIGRATION_RETRY_MAX_MS_def)
      from migrate_retry_ends [OF assms this, of H req result]
      obtain x q' where "migrate_retry H clock req ?dl 180 result q = Some (x, q')" by auto
      with False Inr m ok show ?thesis by (cases x) (simp_all add: migrate_handle_signal_def Let_def)
    qed
  qed
qed

theorem migration_handler_returns_witness:
  "\<exists>c' p'. migrate_handle_signal sample_host (\<lambda>h. 2000 * count_list h EvRetryPause) 180 (\<lambda>_. Inl ''bad'')
     (\<lparr>ct_handling = False, ct_file = Some ''x''\<rparr>, sample_pool) = Some (c', p')"
proof -
  have "retry_clock (\<lambda>h. 2000 * count_list h EvRetryPause)" by (simp add: retry_clock_def)
  from migration_handler_returns [OF this] show ?thesis by blast
qed

subsection \<open>Published counts\<close>

lemma sessions_by_url_fold:
  "fold (\<lambda>s m. m(sl_gateway_base_url s \<mapsto> (case m (sl_gateway_base_url s) of None \<Rightarrow> 0 | Some n \<Rightarrow> n) + 1)) ss m url
   = (if \<forall>s\<in>set ss. sl_gateway_base_url s \<noteq> url then m url
      else Some ((case m url of None \<Rightarrow> 0 | Some n \<Rightarrow> n)
             + (word_of_nat (length (filter (\<lambda>s. sl_gateway_base_url s = url) ss)) :: u32)))"
proof (induction ss arbitrary: m)
  case (Cons s ss)
  have "(\<forall>s\<in>set ss. sl_gateway_base_url s \<noteq> url) \<Longrightarrow> filter (\<lambda>s. sl_gateway_base_url s = url) ss = []"
    by (simp add: filter_empty_conv)
  then show ?case
    by (simp only: fold_simps Cons.IH) (auto simp: ac_simps)
qed simp

lemma sessions_by_gateway_url_count:
  "sessions_by_gateway_url p url
     = (if on_gateway url p = [] then None else Some (word_of_nat (length (on_gateway url p))))"
  by (auto simp: sessions_by_gateway_url_def sessions_by_url_fold on_gateway_def filter_empty_conv)

text \<open>
  The published status is exact: for a pool of fewer than two to the 32 sessions the status
  counts, for every gateway, exactly the sessions on it, and the counts of all gateways add up to
  the published number of live sessions.
\<close>

theorem status_counts_add_up:
  assumes "length (sp_slots p) < 2 ^ 32"
  shows "let st = publish_once now engine_id p; by_url = st_sessions_by_gateway_url st in
     (\<forall>url. (case by_url url of None \<Rightarrow> 0 | Some n \<Rightarrow> unat n) = length (on_gateway url p))
     \<and> (\<Sum>url\<in>dom by_url. unat (the (by_url url))) = unat (st_live_sessions st)"
proof -
  have small: "unat (word_of_nat (length (on_gateway url p)) :: u32) = length (on_gateway url p)" for url
    using le_less_trans [OF length_filter_le assms]
    by (intro unat_of_nat_small) (simp add: on_gateway_def)
  let ?urls = "sl_gateway_base_url ` set (sp_slots p)"
  have dom: "dom (sessions_by_gateway_url p) = ?urls"
    by (auto simp: sessions_by_gateway_url_count on_gateway_def filter_empty_conv dom_def split: if_splits)
  have "(\<Sum>url\<in>?urls. length (on_gateway url p)) = length (sp_slots p)"
    unfolding on_gateway_def by (rule sum_length_filter_image)
  moreover have "unat (the (sessions_by_gateway_url p url)) = length (on_gateway url p)" if "url \<in> ?urls" for url
    using that by (auto simp: sessions_by_gateway_url_count small) (auto simp: on_gateway_def filter_empty_conv)
  ultimately have "(\<Sum>url\<in>dom (sessions_by_gateway_url p). unat (the (sessions_by_gateway_url p url))) = length (sp_slots p)"
    unfolding dom by simp
  moreover have "(case sessions_by_gateway_url p url of None \<Rightarrow> 0 | Some n \<Rightarrow> unat n) = length (on_gateway url p)" for url
    by (simp add: sessions_by_gateway_url_count small)
  ultimately show ?thesis
    using assms by (simp add: publish_once_def build_pool_status_snapshot_def Let_def live_session_count_def
        unat_of_nat_small)
qed

theorem status_counts_add_up_witness:
  "(\<Sum>url\<in>dom (sessions_by_gateway_url sample_pool). unat (the (sessions_by_gateway_url sample_pool url))) = 4"
proof -
  have n: "length (sp_slots sample_pool) = 4" by code_simp
  then have h: "length (sp_slots sample_pool) < 2 ^ 32" by simp
  from status_counts_add_up [OF h, of "''t''" "''e''"] show ?thesis
    by (simp add: publish_once_def build_pool_status_snapshot_def Let_def live_session_count_def n)
qed

subsection \<open>The handlers keep the pool well formed\<close>

lemma drain_handler_wf:
  "pool_wf p \<Longrightarrow> pool_wf (snd (drain_handle_signal H from_str (c, p)))"
  by (auto simp: drain_handle_signal_def run_pool_drain_once_def drain_idle_sessions_def drain_idle_pool_def
      wf_drain_with_plan split: sum.split option.split)

lemma scale_handler_wf:
  "fresh_host H \<Longrightarrow> pool_wf p \<Longrightarrow> pool_wf (snd (scale_run_once H from_str (c, p)))"
proof -
  assume H: "fresh_host H" and wf: "pool_wf p"
  have "pool_wf q" if "scale_to H m t p = (r, q)" for m t r q
    using wf_scale_to [OF H wf, of m t] that by simp
  with wf show ?thesis by (auto simp: scale_run_once_def split: sum.split option.split prod.split)
qed

end
