(* ===== verification/Ops_Control.thy ===== *)
theory Ops_Control
  imports Controls
begin

section \<open>Attested control requests from the gateway\<close>

text \<open>
  \<^verbatim>\<open>ie-engine/src/plane/ops_control.rs\<close> and its wiring in \<^verbatim>\<open>ie-bin/src/main.rs\<close>: validation of a
  control request, its application to the pool, and the sliding-window rate limit. The lemmas show
  that an unvalidated request never touches the pool, that the reported session count is the real
  one on every path, and that no window ever admits more than the configured number of requests.
\<close>

datatype engine_ops_control_op = ForceTarget | Drain | Migrate | Status

record engine_ops_control_request =
  orq_op :: engine_ops_control_op
  orq_target_size :: "u32 option"
  orq_drain_fraction :: "f64 option"
  orq_drain_count :: "u32 option"
  orq_migrate_url :: "string option"
  orq_migrate_fraction :: "f64 option"
  orq_confirm :: "bool option"

record engine_ops_control_result =
  ors_ok :: bool
  ors_op :: engine_ops_control_op
  ors_engine_id :: string
  ors_pool_target :: "u32 option"
  ors_live_sessions :: "u32 option"
  ors_draining :: "u32 option"
  ors_detail :: "string option"
  ors_error :: "string option"

subsection \<open>Validation\<close>

definition ops_migrate_url :: "engine_ops_control_request \<Rightarrow> string" where
  "ops_migrate_url req = trim (case orq_migrate_url req of None \<Rightarrow> [] | Some u \<Rightarrow> u)"

definition validate_ops_control_request :: "engine_ops_control_request \<Rightarrow> string + unit" where
  "validate_ops_control_request req =
     (case orq_op req of
        ForceTarget \<Rightarrow>
          (case orq_target_size req of
             None \<Rightarrow> Inl ''target_size_required''
           | Some n \<Rightarrow> if n = 0 then Inl ''target_size_invalid'' else Inr ())
      | Drain \<Rightarrow>
          (case (orq_drain_count req, orq_drain_fraction req) of
             (Some c, None) \<Rightarrow> if 0 < c then Inr () else Inl ''drain_fraction_or_count_required''
           | (None, Some f) \<Rightarrow> if in_unit_range f then Inr () else Inl ''drain_fraction_or_count_required''
           | (Some _, Some _) \<Rightarrow> Inl ''drain_count_and_fraction_exclusive''
           | (None, None) \<Rightarrow> Inl ''drain_fraction_or_count_required'')
      | Migrate \<Rightarrow>
          if ops_migrate_url req = [] then Inl ''migrate_url_required''
          else if orq_confirm req \<noteq> Some True then Inl ''migrate_confirm_required''
          else (case orq_migrate_fraction req of
              None \<Rightarrow> Inr ()
            | Some f \<Rightarrow> if in_unit_range f then Inr () else Inl ''migrate_fraction_invalid'')
      | Status \<Rightarrow> Inr ())"

subsection \<open>Application\<close>

definition ops_failure ::
    "string \<Rightarrow> engine_ops_control_op \<Rightarrow> u32 option \<Rightarrow> string \<Rightarrow> supervised_pool \<Rightarrow> engine_ops_control_result" where
  "ops_failure engine_id op pool_target err p =
     \<lparr>ors_ok = False, ors_op = op, ors_engine_id = engine_id, ors_pool_target = pool_target,
      ors_live_sessions = Some (live_session_count p), ors_draining = None, ors_detail = None,
      ors_error = Some err\<rparr>"

definition apply_force_target ::
    "pool_host \<Rightarrow> string \<Rightarrow> u32 \<Rightarrow> supervised_pool \<Rightarrow> engine_ops_control_result \<times> supervised_pool" where
  "apply_force_target H engine_id target p =
     (case apply_desired_pool_target H target p of
        (Inr _, p) \<Rightarrow>
          (\<lparr>ors_ok = True, ors_op = ForceTarget, ors_engine_id = engine_id, ors_pool_target = Some target,
            ors_live_sessions = Some (live_session_count p), ors_draining = None,
            ors_detail = Some (''forced_to_'' @ show_word target), ors_error = None\<rparr>, p)
      | (Inl e, p) \<Rightarrow> (ops_failure engine_id ForceTarget (Some target) (engine_error_display e) p, p))"

definition apply_drain ::
    "pool_host \<Rightarrow> string \<Rightarrow> engine_ops_control_request \<Rightarrow> supervised_pool
     \<Rightarrow> engine_ops_control_result \<times> supervised_pool" where
  "apply_drain H engine_id req p =
     (let (r, p) = (case orq_drain_count req of
            Some count \<Rightarrow> drain_idle_sessions H count p
          | None \<Rightarrow> drain_idle_pool H (the (orq_drain_fraction req)) p)
      in (\<lparr>ors_ok = (\<not> pdn_blocked r \<or> 0 < pdn_drained r), ors_op = Drain, ors_engine_id = engine_id,
           ors_pool_target = None, ors_live_sessions = Some (pdn_remaining r),
           ors_draining = Some (pdn_drained r), ors_detail = pdn_reason r,
           ors_error = (if pdn_blocked r \<and> pdn_drained r = 0 then Some ''drain_blocked'' else None)\<rparr>, p))"

definition apply_migrate ::
    "pool_host \<Rightarrow> string \<Rightarrow> engine_ops_control_request \<Rightarrow> supervised_pool
     \<Rightarrow> engine_ops_control_result \<times> supervised_pool" where
  "apply_migrate H engine_id req p =
     (let fraction = (case orq_migrate_fraction req of None \<Rightarrow> f64_one | Some f \<Rightarrow> f)
      in case migrate_gateway_pool H (ops_migrate_url req) fraction p of
           (Inr r, p) \<Rightarrow>
             (\<lparr>ors_ok = (\<not> gmx_blocked r \<or> 0 < gmx_moved r), ors_op = Migrate, ors_engine_id = engine_id,
               ors_pool_target = None, ors_live_sessions = Some (gmx_on_source r + gmx_on_target r),
               ors_draining = None,
               ors_detail = (case gmx_reason r of Some m \<Rightarrow> Some m
                 | None \<Rightarrow> Some (''moved_'' @ show_word (gmx_moved r))),
               ors_error = (if gmx_blocked r \<and> gmx_moved r = 0 then Some ''migrate_blocked'' else None)\<rparr>, p)
         | (Inl e, p) \<Rightarrow> (ops_failure engine_id Migrate None (engine_error_display e) p, p))"

definition apply_status :: "string \<Rightarrow> supervised_pool \<Rightarrow> engine_ops_control_result" where
  "apply_status engine_id p =
     \<lparr>ors_ok = True, ors_op = Status, ors_engine_id = engine_id,
      ors_pool_target = (case Option.bind (sp_connect_template p) acr_pool_target_size of
          Some n \<Rightarrow> Some n | None \<Rightarrow> Some (pool_target_size (sp_config p))),
      ors_live_sessions = Some (live_session_count p), ors_draining = None, ors_detail = None,
      ors_error = None\<rparr>"

definition apply_engine_ops_control ::
    "pool_host \<Rightarrow> string \<Rightarrow> engine_ops_control_request \<Rightarrow> supervised_pool
     \<Rightarrow> engine_ops_control_result \<times> supervised_pool" where
  "apply_engine_ops_control H engine_id req p =
     (case validate_ops_control_request req of
        Inl err \<Rightarrow> (ops_failure engine_id (orq_op req) None err p, p)
      | Inr _ \<Rightarrow>
         (case orq_op req of
            ForceTarget \<Rightarrow> apply_force_target H engine_id (the (orq_target_size req)) p
          | Drain \<Rightarrow> apply_drain H engine_id req p
          | Migrate \<Rightarrow> apply_migrate H engine_id req p
          | Status \<Rightarrow> (apply_status engine_id p, p)))"

subsection \<open>Rate limit\<close>

text \<open>Instants of the monotonic clock as natural numbers.\<close>

record ops_control_rate_limiter =
  rl_window :: nat
  rl_max_hits :: nat
  rl_hits :: "nat list"

definition rate_limiter_new :: "nat \<Rightarrow> nat \<Rightarrow> ops_control_rate_limiter" where
  "rate_limiter_new window max_hits = \<lparr>rl_window = window, rl_max_hits = max max_hits 1, rl_hits = []\<rparr>"

definition rate_limited_op :: "engine_ops_control_op \<Rightarrow> bool" where
  "rate_limited_op op \<longleftrightarrow> op = ForceTarget \<or> op = Drain"

definition rate_check ::
    "engine_ops_control_op \<Rightarrow> nat \<Rightarrow> ops_control_rate_limiter \<Rightarrow> (string + unit) \<times> ops_control_rate_limiter" where
  "rate_check op now l =
     (if \<not> rate_limited_op op then (Inr (), l)
      else
       (let hits = filter (\<lambda>t. now - t \<le> rl_window l) (rl_hits l)
        in if rl_max_hits l \<le> length hits then (Inl ''rate_limited'', l\<lparr>rl_hits := hits\<rparr>)
           else (Inr (), l\<lparr>rl_hits := hits @ [now]\<rparr>)))"

text \<open>The handler installed by \<^verbatim>\<open>make_engine_ops_control_handler\<close>: limit first, then apply.\<close>

definition engine_ops_control_handler ::
    "pool_host \<Rightarrow> string \<Rightarrow> nat \<Rightarrow> engine_ops_control_request \<Rightarrow> ops_control_rate_limiter \<times> supervised_pool
     \<Rightarrow> engine_ops_control_result \<times> ops_control_rate_limiter \<times> supervised_pool" where
  "engine_ops_control_handler H engine_id now req = (\<lambda>(l, p).
     case rate_check (orq_op req) now l of
       (Inl err, l) \<Rightarrow> (ops_failure engine_id (orq_op req) None err p, l, p)
     | (Inr _, l) \<Rightarrow> (let (r, p) = apply_engine_ops_control H engine_id req p in (r, l, p)))"

text \<open>A sequence of requests with their instants, and the instants of the limited ones that passed.\<close>

fun admitted :: "ops_control_rate_limiter \<Rightarrow> (engine_ops_control_op \<times> nat) list \<Rightarrow> nat list" where
  "admitted l [] = []"
| "admitted l ((op, now) # calls) =
     (let (r, l') = rate_check op now l
      in (if rate_limited_op op \<and> r = Inr () then [now] else []) @ admitted l' calls)"

subsection \<open>Guarded application\<close>

lemma live_session_notify: "live_session_count (notify_sessions_changed H p) = live_session_count p"
  by (simp add: live_session_count_def)

lemma drain_remaining: "drain_with_plan H c f p = (r, p') \<Longrightarrow> pdn_remaining r = live_session_count p'"
  by (auto simp: drain_with_plan_def Let_def split: if_splits prod.splits)

lemma migrate_report_total:
  assumes "migrate_gateway_pool H target fraction p = (Inr r, p')"
  shows "gmx_on_source r + gmx_on_target r = live_session_count p'"
proof (cases "trim target = []")
  case True
  with assms show ?thesis by (simp add: migrate_gateway_pool_def)
next
  case False
  let ?s = "migration_start (trim target) p"
  have mp: "migrate_planned H (trim target) fraction ?s = (Inr r, p')"
    using assms False by (simp add: migrate_gateway_pool_def Let_def)
  show ?thesis
  proof (cases "gmp_blocked (migration_plan (trim target) fraction ?s)")
    case True
    with mp have "gmx_on_source r = word_of_nat (length (migration_sources (trim target) ?s))"
      "gmx_on_target r = word_of_nat (length (on_gateway (trim target) ?s))" "p' = ?s"
      by (auto simp: migrate_planned_def Let_def)
    then show ?thesis
      unfolding live_session_count_def using sources_targets [of "trim target" ?s] by (metis of_nat_add)
  next
    case False
    with mp show ?thesis
      by (auto simp: migrate_planned_def migrate_busy_def Let_def live_session_count_def
          split: prod.splits sum.splits)
  qed
qed

text \<open>
  (C20) A control request acts only as validated and reports the truth: whatever the request, the
  result names the engine and the operation and its session count is the pool's count afterwards;
  the pool changes only for a valid request, never for a status request, and a migration only with
  a non-empty URL, an explicit confirmation and a fraction from zero to one.
\<close>

theorem ops_control_guarded_and_truthful:
  "case apply_engine_ops_control H engine_id req p of (r, p') \<Rightarrow>
     ors_live_sessions r = Some (live_session_count p') \<and> ors_op r = orq_op req \<and> ors_engine_id r = engine_id
     \<and> (p' = p \<or> (validate_ops_control_request req = Inr ()
         \<and> (case orq_op req of
              Status \<Rightarrow> False
            | Migrate \<Rightarrow> 0 < length (ops_migrate_url req) \<and> orq_confirm req = Some True
                \<and> (case orq_migrate_fraction req of None \<Rightarrow> True | Some f \<Rightarrow> in_unit_range f)
            | _ \<Rightarrow> True)))"
proof (cases "validate_ops_control_request req")
  case (Inl e)
  then show ?thesis by (simp add: apply_engine_ops_control_def ops_failure_def)
next
  case (Inr u)
  show ?thesis
  proof (cases "orq_op req")
    case ForceTarget
    with Inr show ?thesis
      by (auto simp: apply_engine_ops_control_def apply_force_target_def ops_failure_def split: prod.split sum.split)
  next
    case Drain
    with Inr show ?thesis
      using drain_remaining
      by (auto simp: apply_engine_ops_control_def apply_drain_def Let_def drain_idle_sessions_def drain_idle_pool_def
          split: prod.split option.split)
  next
    case Migrate
    then have ok: "ops_migrate_url req \<noteq> []" "orq_confirm req = Some True"
      "case orq_migrate_fraction req of None \<Rightarrow> True | Some f \<Rightarrow> in_unit_range f"
      using Inr by (auto simp: validate_ops_control_request_def split: if_splits option.splits)
    show ?thesis
      using Inr Migrate ok migrate_report_total
      by (auto simp: apply_engine_ops_control_def apply_migrate_def Let_def ops_failure_def
          split: prod.split sum.split)
  next
    case Status
    with Inr show ?thesis by (simp add: apply_engine_ops_control_def apply_status_def)
  qed
qed

lemma wf_ops_control:
  assumes "fresh_host H" "pool_wf p"
  shows "pool_wf (snd (apply_engine_ops_control H engine_id req p))"
proof -
  have "pool_wf q" if "apply_desired_pool_target H n p = (r, q)" for n r q
    using wf_apply_desired [OF assms, of n] that by simp
  moreover have "pool_wf q" if "migrate_gateway_pool H u f p = (r, q)" for u f r q
    using wf_migrate_gateway_pool [OF assms, of u f] that by simp
  moreover have "pool_wf q" if "drain_with_plan H c f p = (r, q)" for c f r q
    using wf_drain_with_plan [OF assms(2), of H c f] that by simp
  ultimately show ?thesis
    using assms(2)
    by (auto simp: apply_engine_ops_control_def apply_force_target_def apply_drain_def apply_migrate_def Let_def
        drain_idle_sessions_def drain_idle_pool_def split: sum.split prod.split option.split engine_ops_control_op.split)
qed

subsection \<open>The limiter admits no burst\<close>

interpretation limiter_window: sliding_window "\<lambda>now t. w < now - (t :: nat)" for w
  by unfold_locales auto

lemma retain_is_prune:
  "sorted ts \<Longrightarrow> filter (\<lambda>t. now - t \<le> w) ts = dropWhile (\<lambda>t. w < now - t) (ts :: nat list)"
  using limiter_window.live_window_eq_filter [of ts w now] by (simp add: not_less)

definition limiter_tracks :: "ops_control_rate_limiter \<Rightarrow> nat \<Rightarrow> nat list \<Rightarrow> bool" where
  "limiter_tracks l now acc \<longleftrightarrow> rl_hits l = filter (\<lambda>t. now - t \<le> rl_window l) acc \<and> (\<forall>t\<in>set acc. t \<le> now)"

lemma limiter_tracks_later:
  "limiter_tracks l now acc \<Longrightarrow> now \<le> now' \<Longrightarrow>
   filter (\<lambda>t. now' - t \<le> rl_window l) (rl_hits l) = filter (\<lambda>t. now' - t \<le> rl_window l) acc"
  by (auto simp: limiter_tracks_def intro: filter_cong)

definition burst_free :: "nat \<Rightarrow> nat \<Rightarrow> nat list \<Rightarrow> bool" where
  "burst_free w k acc \<longleftrightarrow>
     (\<forall>i<length acc. length (filter (\<lambda>t. acc ! i - t \<le> w) (take (Suc i) acc)) \<le> k)"

lemma burst_free_snoc:
  "burst_free w k acc \<Longrightarrow> length (filter (\<lambda>t. now - t \<le> w) acc) < k \<Longrightarrow> burst_free w k (acc @ [now])"
  unfolding burst_free_def by (auto simp: less_Suc_eq nth_append)

lemma admitted_burst_free:
  assumes "limiter_tracks l t acc" "sorted (t # map snd calls)" "burst_free (rl_window l) (rl_max_hits l) acc"
  shows "burst_free (rl_window l) (rl_max_hits l) (acc @ admitted l calls)"
  using assms
proof (induction calls arbitrary: l t acc)
  case (Cons call calls)
  obtain op now where call: "call = (op, now)" by fastforce
  obtain r l' where chk: "rate_check op now l = (r, l')" by fastforce
  let ?acc = "acc @ (if rate_limited_op op \<and> r = Inr () then [now] else [])"
  let ?live = "filter (\<lambda>t. now - t \<le> rl_window l) acc"
  have le: "t \<le> now" and sorted: "sorted (now # map snd calls)" using Cons.prems(2) call by auto
  have win: "rl_window l' = rl_window l" "rl_max_hits l' = rl_max_hits l"
    using chk by (auto simp: rate_check_def Let_def split: if_splits)
  note retain = limiter_tracks_later [OF Cons.prems(1) le]
  have old: "\<forall>s\<in>set acc. s \<le> now" using Cons.prems(1) le by (auto simp: limiter_tracks_def)
  show ?case
  proof (cases "rate_limited_op op")
    case True
    then have "limiter_tracks l' now ?acc" "burst_free (rl_window l') (rl_max_hits l') ?acc"
      using chk retain old Cons.prems(3) burst_free_snoc [OF Cons.prems(3), of now]
      by (auto simp: rate_check_def Let_def limiter_tracks_def split: if_splits)
    from Cons.IH [OF this(1) sorted this(2)] show ?thesis
      by (simp add: call chk win split del: if_split)
  next
    case False
    then have "l' = l" "r = Inr ()" using chk by (auto simp: rate_check_def)
    moreover have "sorted (t # map snd calls)" using Cons.prems(2) call by auto
    ultimately show ?thesis
      using Cons.IH [OF Cons.prems(1) _ Cons.prems(3)] False by (simp add: call chk)
  qed
qed simp

text \<open>
  (C22) The rate limit holds in every window: for any sequence of control requests at non-decreasing
  instants, counting back the window from any admitted force-target or drain request finds at most
  the configured number of admitted ones, that one included.
\<close>

theorem rate_limit_holds_in_every_window:
  assumes "sorted (map snd calls)"
  shows "burst_free w (max k 1) (admitted (rate_limiter_new w k) calls)"
proof -
  have "limiter_tracks (rate_limiter_new w k) 0 []" by (simp add: limiter_tracks_def rate_limiter_new_def)
  moreover have "sorted (0 # map snd calls)" using assms by simp
  ultimately show ?thesis
    using admitted_burst_free [of "rate_limiter_new w k" 0 "[]" calls]
    by (simp add: burst_free_def rate_limiter_new_def)
qed

theorem rate_limit_holds_in_every_window_witness:
  "admitted (rate_limiter_new 10 2) [(Drain, 1), (ForceTarget, 3), (Drain, 5), (Status, 6), (Drain, 12)] = [1, 3, 12]
   \<and> burst_free 10 2 (admitted (rate_limiter_new 10 2) [(Drain, 1), (ForceTarget, 3), (Drain, 5), (Status, 6), (Drain, 12)])"
proof -
  have "admitted (rate_limiter_new 10 2) [(Drain, 1), (ForceTarget, 3), (Drain, 5), (Status, 6), (Drain, 12)] = [1, 3, 12]"
    by code_simp
  moreover have "sorted (map snd [(Drain, 1), (ForceTarget, 3), (Drain, 5), (Status, 6), (Drain, 12 :: nat)])" by simp
  moreover have "max (2 :: nat) 1 = 2" by simp
  ultimately show ?thesis
    using rate_limit_holds_in_every_window
      [where w = 10 and k = 2 and calls = "[(Drain, 1), (ForceTarget, 3), (Drain, 5), (Status, 6), (Drain, 12)]"]
    by (simp only: simp_thms)
qed

end
