(* ===== verification/Epoch.thy ===== *)
theory Epoch
  imports Wire_Types
begin

section \<open>Ephemeral epochs and their rotation\<close>

text \<open>
  \<^verbatim>\<open>ie-engine/src/epoch/policy.rs\<close>, \<^verbatim>\<open>engine_epoch.rs\<close>, \<^verbatim>\<open>rotator.rs\<close> and \<^verbatim>\<open>ops/ephemeral.rs\<close>: the
  rotation schedule, the creation of an epoch and its registration on the live sessions, the
  rotation itself. Key generation, randomness, signatures, the evidence minter, the clock, the
  ISO-8601 text of a time (\<^verbatim>\<open>chrono\<close>) and the HTTP poster are the host, whose answers are functions
  of the events so far. Times are milliseconds. The lemmas show what an epoch's request and evidence
  bind, when a rotation switches the epoch, what a failed rotation leaves behind, and when the next
  rotation is due.
\<close>

subsection \<open>Rotation policy\<close>

record epoch_rotation_policy =
  rotation_interval_ms :: u64
  overlap_grace_ms :: u64

definition env_u64_or :: "env \<Rightarrow> string \<Rightarrow> u64 \<Rightarrow> u64" where
  "env_u64_or env key d = (case Option.bind (env key) parse_u64 of None \<Rightarrow> d | Some n \<Rightarrow> n)"

definition epoch_rotation_policy_from_env :: "env \<Rightarrow> epoch_rotation_policy" where
  "epoch_rotation_policy_from_env env =
     (let rotation_hours = max (env_u64_or env ''TEECHAT_OPE_EPOCH_ROTATION_HOURS'' 24) 1;
          overlap_minutes = max (env_u64_or env ''TEECHAT_OPE_EPOCH_OVERLAP_GRACE_MIN'' 15) 1
      in \<lparr>rotation_interval_ms = rotation_hours * 60 * 60 * 1000,
          overlap_grace_ms = overlap_minutes * 60 * 1000\<rparr>)"

definition epoch_rotation_lead_ms_from_env :: "env \<Rightarrow> u64" where
  "epoch_rotation_lead_ms_from_env env =
     max (env_u64_or env ''TEECHAT_OPE_EPOCH_ROTATION_LEAD_MIN'' 60) 1 * 60 * 1000"

definition epoch_ttl_ms_from_policy :: "epoch_rotation_policy \<Rightarrow> u64" where
  "epoch_ttl_ms_from_policy policy = rotation_interval_ms policy"

text \<open>\<open>parse_iso\<close> is \<^verbatim>\<open>parse_iso_time_ms\<close>, the RFC 3339 parser of \<^verbatim>\<open>chrono\<close>.\<close>

definition compute_epoch_rotate_at_ms :: "(string \<Rightarrow> u64 option) \<Rightarrow> string \<Rightarrow> u64 \<Rightarrow> u64 \<Rightarrow> u64" where
  "compute_epoch_rotate_at_ms parse_iso not_after_iso lead_ms now_ms =
     (let not_after_ms = (case parse_iso not_after_iso of None \<Rightarrow> now_ms | Some t \<Rightarrow> t)
      in max now_ms (saturating_sub not_after_ms lead_ms))"

definition is_epoch_active :: "(string \<Rightarrow> u64 option) \<Rightarrow> string \<Rightarrow> string \<Rightarrow> u64 \<Rightarrow> u64 \<Rightarrow> bool" where
  "is_epoch_active parse_iso not_before not_after now_ms skew_ms \<longleftrightarrow>
     (let start = (case parse_iso not_before of None \<Rightarrow> 0 | Some t \<Rightarrow> t);
          fin = (case parse_iso not_after of None \<Rightarrow> 0 | Some t \<Rightarrow> t)
      in saturating_sub start skew_ms \<le> now_ms \<and> now_ms \<le> saturating_add fin skew_ms)"

subsection \<open>Epochs\<close>

record engine_hybrid_public =
  hy_kex :: string
  hy_mlkem_encapsulation_key :: string
  hy_x25519_public :: string

record quote_epoch_claims =
  qc_engine_id :: string
  qc_epoch_id :: string
  qc_not_before :: string
  qc_not_after :: string
  qc_mlkem_encapsulation_key :: string
  qc_x25519_public :: string
  qc_usage_signing_public :: string

record engine_ephemeral_register_request =
  err_engine_id :: string
  err_epoch_id :: string
  err_not_before :: string
  err_not_after :: string
  err_hybrid :: engine_hybrid_public
  err_identity_signature :: string
  err_attestation :: "attestation_bundle option"

record engine_epoch =
  ep_epoch_id :: string
  ep_hybrid :: engine_hybrid_public
  ep_ephemeral_request :: engine_ephemeral_register_request
  ep_not_before :: string
  ep_not_after :: string
  ep_handle :: "u64 option"
  ep_usage_signing_key :: string
  ep_usage_signing_public_b64 :: string

datatype epoch_event =
    EpGenerate
  | EpMint quote_epoch_claims
  | EpPost string string
  | EpRotated string "string option"
  | EpSleep u64

record epoch_host =
  eh_now_ms :: "epoch_event list \<Rightarrow> u64"
  eh_iso :: "u64 \<Rightarrow> string"
  eh_parse_iso :: "string \<Rightarrow> u64 option"
  eh_suffix :: "epoch_event list \<Rightarrow> string"
  eh_generate_hybrid :: "epoch_event list \<Rightarrow> string \<Rightarrow> string \<Rightarrow> string + engine_hybrid_public \<times> u64 option"
  eh_usage_key :: "epoch_event list \<Rightarrow> string"
  eh_usage_public :: "string \<Rightarrow> string"
  eh_identity_sign :: "string \<Rightarrow> string"
  eh_mint :: "(epoch_event list \<Rightarrow> quote_epoch_claims \<Rightarrow> attestation_bundle option) option"
  eh_list_sessions :: "epoch_event list \<Rightarrow> string list"
  eh_post :: "epoch_event list \<Rightarrow> string \<Rightarrow> engine_ephemeral_register_request \<Rightarrow> string + u16"
  eh_on_rotated :: bool

definition ephemeral_signing_bytes ::
    "string \<Rightarrow> string \<Rightarrow> string \<Rightarrow> engine_hybrid_public \<Rightarrow> string" where
  "ephemeral_signing_bytes engine_id epoch_id not_after hybrid =
     join [CHR 0x00] [''OPE-ENGINE-EPHEMERAL-v1'', engine_id, epoch_id, not_after,
       hy_mlkem_encapsulation_key hybrid, hy_x25519_public hybrid]"

record create_engine_epoch_args =
  ca_engine_id :: string
  ca_ed25519_public_b64 :: string
  ca_attestation :: "attestation_bundle option"
  ca_epoch_id :: "string option"
  ca_ttl_ms :: "u64 option"

definition epoch_claims :: "string \<Rightarrow> string \<Rightarrow> string \<Rightarrow> string \<Rightarrow> engine_hybrid_public \<Rightarrow> string \<Rightarrow> quote_epoch_claims" where
  "epoch_claims engine_id epoch_id not_before not_after hybrid usage_public =
     \<lparr>qc_engine_id = engine_id, qc_epoch_id = epoch_id, qc_not_before = not_before, qc_not_after = not_after,
      qc_mlkem_encapsulation_key = hy_mlkem_encapsulation_key hybrid,
      qc_x25519_public = hy_x25519_public hybrid, qc_usage_signing_public = usage_public\<rparr>"

definition create_engine_epoch ::
    "epoch_host \<Rightarrow> create_engine_epoch_args \<Rightarrow> epoch_event list
     \<Rightarrow> (engine_error + engine_epoch) \<times> epoch_event list" where
  "create_engine_epoch E args h =
     (let now_ms = eh_now_ms E h;
          not_before = eh_iso E now_ms;
          ttl = (case ca_ttl_ms args of None \<Rightarrow> 86400000 | Some t \<Rightarrow> t);
          not_after = eh_iso E (now_ms + ttl);
          epoch_id = (case ca_epoch_id args of Some i \<Rightarrow> i
            | None \<Rightarrow> ''epoch-'' @ show_word now_ms @ ''-'' @ eh_suffix E h);
          h = h @ [EpGenerate]
      in case eh_generate_hybrid E h (ca_engine_id args) (ca_ed25519_public_b64 args) of
           Inl e \<Rightarrow> (Inl (EEpoch e), h)
         | Inr (hybrid, handle) \<Rightarrow>
            (let usage_key = eh_usage_key E h;
                 usage_public = eh_usage_public E usage_key;
                 claims = epoch_claims (ca_engine_id args) epoch_id not_before not_after hybrid usage_public;
                 minted = (case eh_mint E of None \<Rightarrow> None | Some mint \<Rightarrow> mint h claims);
                 h = (if eh_mint E = None then h else h @ [EpMint claims]);
                 attestation = (case minted of Some b \<Rightarrow> Some b | None \<Rightarrow> ca_attestation args);
                 signature = eh_identity_sign E
                   (ephemeral_signing_bytes (ca_engine_id args) epoch_id not_after hybrid)
             in (Inr \<lparr>ep_epoch_id = epoch_id, ep_hybrid = hybrid,
                   ep_ephemeral_request =
                     \<lparr>err_engine_id = ca_engine_id args, err_epoch_id = epoch_id,
                      err_not_before = not_before, err_not_after = not_after, err_hybrid = hybrid,
                      err_identity_signature = signature, err_attestation = attestation\<rparr>,
                   ep_not_before = not_before, ep_not_after = not_after, ep_handle = handle,
                   ep_usage_signing_key = usage_key, ep_usage_signing_public_b64 = usage_public\<rparr>, h)))"

subsection \<open>The rotator\<close>

record epoch_rotator =
  er_engine_id :: string
  er_ed25519_public_b64 :: string
  er_lead_ms :: u64
  er_ttl_ms :: u64
  er_attestation :: "attestation_bundle option"
  er_current :: engine_epoch
  er_rotating :: bool
  er_stopped :: bool
  er_history :: "epoch_event list"

definition epoch_rotator_new ::
    "epoch_host \<Rightarrow> env \<Rightarrow> string \<Rightarrow> string \<Rightarrow> attestation_bundle option \<Rightarrow> engine_error + epoch_rotator" where
  "epoch_rotator_new E env engine_id ed25519_public attestation =
     (let ttl_ms = epoch_ttl_ms_from_policy (epoch_rotation_policy_from_env env)
      in case create_engine_epoch E \<lparr>ca_engine_id = engine_id, ca_ed25519_public_b64 = ed25519_public,
             ca_attestation = attestation, ca_epoch_id = None, ca_ttl_ms = Some ttl_ms\<rparr> [] of
           (Inl e, h) \<Rightarrow> Inl e
         | (Inr current, h) \<Rightarrow>
             Inr \<lparr>er_engine_id = engine_id, er_ed25519_public_b64 = ed25519_public,
                  er_lead_ms = epoch_rotation_lead_ms_from_env env, er_ttl_ms = ttl_ms,
                  er_attestation = attestation, er_current = current, er_rotating = False,
                  er_stopped = False, er_history = h\<rparr>)"

definition set_attestation :: "attestation_bundle \<Rightarrow> epoch_rotator \<Rightarrow> epoch_rotator" where
  "set_attestation bundle r = r\<lparr>er_attestation := Some bundle\<rparr>"

definition rotator_stop :: "epoch_rotator \<Rightarrow> epoch_rotator" where
  "rotator_stop r = r\<lparr>er_stopped := True\<rparr>"

definition post_error :: "string + u16 \<Rightarrow> string option" where
  "post_error ans = (case ans of
       Inr status \<Rightarrow> if status = 201 then None else Some (''ephemeral register HTTP '' @ show_word status)
     | Inl e \<Rightarrow> Some e)"

definition register_epoch_on_session ::
    "epoch_host \<Rightarrow> string \<Rightarrow> epoch_rotator \<Rightarrow> (engine_error + unit) \<times> epoch_rotator" where
  "register_epoch_on_session E sid r =
     (let epoch = er_current r;
          ans = eh_post E (er_history r) sid (ep_ephemeral_request epoch);
          r = r\<lparr>er_history := er_history r @ [EpPost sid (ep_epoch_id epoch)]\<rparr>
      in (case post_error ans of None \<Rightarrow> Inr () | Some e \<Rightarrow> Inl (EEpoch e), r))"

fun post_loop ::
    "epoch_host \<Rightarrow> engine_epoch \<Rightarrow> string list \<Rightarrow> string option \<Rightarrow> epoch_event list
     \<Rightarrow> string option \<times> epoch_event list" where
  "post_loop E epoch [] last_error h = (last_error, h)"
| "post_loop E epoch (sid # sids) last_error h =
     (let err = post_error (eh_post E h sid (ep_ephemeral_request epoch))
      in post_loop E epoch sids (if err = None then last_error else err) (h @ [EpPost sid (ep_epoch_id epoch)]))"

definition post_epoch_to_sessions ::
    "epoch_host \<Rightarrow> engine_epoch \<Rightarrow> epoch_event list \<Rightarrow> (engine_error + unit) \<times> epoch_event list" where
  "post_epoch_to_sessions E epoch h =
     (let sessions = eh_list_sessions E h
      in if sessions = [] then (Inl (EEpoch ''no live attested sessions for ephemeral register''), h)
         else (case post_loop E epoch sessions None h of
             (Some e, h) \<Rightarrow> (Inl (EEpoch e), h)
           | (None, h) \<Rightarrow> (Inr (), h)))"

definition register_initial_epoch :: "epoch_host \<Rightarrow> epoch_rotator \<Rightarrow> (engine_error + unit) \<times> epoch_rotator" where
  "register_initial_epoch E r =
     (let (res, h) = post_epoch_to_sessions E (er_current r) (er_history r) in (res, r\<lparr>er_history := h\<rparr>))"

definition rotator_args :: "epoch_rotator \<Rightarrow> create_engine_epoch_args" where
  "rotator_args r =
     \<lparr>ca_engine_id = er_engine_id r, ca_ed25519_public_b64 = er_ed25519_public_b64 r,
      ca_attestation = er_attestation r, ca_epoch_id = None, ca_ttl_ms = Some (er_ttl_ms r)\<rparr>"

definition rotate_internal :: "epoch_host \<Rightarrow> epoch_rotator \<Rightarrow> (engine_error + unit) \<times> epoch_rotator" where
  "rotate_internal E r =
     (if er_rotating r \<or> er_stopped r then (Inr (), r)
      else
       (let r = r\<lparr>er_rotating := True\<rparr>; previous = er_current r
        in case create_engine_epoch E (rotator_args r) (er_history r) of
             (Inl e, h) \<Rightarrow> (Inl e, r\<lparr>er_history := h\<rparr>)
           | (Inr next, h) \<Rightarrow>
              (case post_epoch_to_sessions E next h of
                 (Inl e, h) \<Rightarrow> (Inl e, r\<lparr>er_history := h\<rparr>)
               | (Inr _, h) \<Rightarrow>
                  (let h = (if eh_on_rotated E
                            then h @ [EpRotated (ep_epoch_id next) (Some (ep_epoch_id previous))] else h)
                   in (Inr (), r\<lparr>er_current := next, er_rotating := False, er_history := h\<rparr>)))))"

text \<open>
  One iteration of \<^verbatim>\<open>schedule_loop\<close> in two parts, before and after its sleep, since \<^verbatim>\<open>stop\<close> may
  come in between; the flag says whether the loop goes on. Sleeps are events that carry their
  length.
\<close>

definition schedule_delay :: "epoch_host \<Rightarrow> epoch_rotator \<Rightarrow> u64" where
  "schedule_delay E r =
     (let now_ms = eh_now_ms E (er_history r)
      in saturating_sub
           (compute_epoch_rotate_at_ms (eh_parse_iso E) (ep_not_after (er_current r)) (er_lead_ms r) now_ms) now_ms)"

definition schedule_arm :: "epoch_host \<Rightarrow> epoch_rotator \<Rightarrow> bool \<times> epoch_rotator" where
  "schedule_arm E r =
     (if er_stopped r then (False, r)
      else (True, r\<lparr>er_history := er_history r @ [EpSleep (schedule_delay E r)]\<rparr>))"

definition schedule_wake :: "epoch_host \<Rightarrow> epoch_rotator \<Rightarrow> bool \<times> epoch_rotator" where
  "schedule_wake E r =
     (if er_stopped r then (False, r)
      else (case rotate_internal E r of
              (Inl e, r) \<Rightarrow> (True, r\<lparr>er_history := er_history r @ [EpSleep 30000]\<rparr>)
            | (Inr _, r) \<Rightarrow> (True, r)))"

subsection \<open>Registration on the live sessions\<close>

lemma post_loop_history:
  "snd (post_loop E epoch sids err h) = h @ map (\<lambda>sid. EpPost sid (ep_epoch_id epoch)) sids"
  by (induction sids arbitrary: err h) (simp_all add: Let_def)

definition post_accepted :: "epoch_host \<Rightarrow> engine_epoch \<Rightarrow> epoch_event list \<Rightarrow> string \<Rightarrow> bool" where
  "post_accepted E epoch h sid \<longleftrightarrow> eh_post E h sid (ep_ephemeral_request epoch) = Inr 201"

lemma post_error_None: "post_error ans = None \<longleftrightarrow> ans = Inr 201"
  by (auto simp: post_error_def split: sum.splits)

lemma post_loop_result:
  "fst (post_loop E epoch sids err h) = None \<longleftrightarrow> err = None
     \<and> (\<forall>i<length sids. post_accepted E epoch (h @ map (\<lambda>sid. EpPost sid (ep_epoch_id epoch)) (take i sids)) (sids ! i))"
proof (induction sids arbitrary: err h)
  case (Cons sid sids)
  let ?h = "h @ [EpPost sid (ep_epoch_id epoch)]"
  have split: "(\<forall>i<length (sid # sids). Q i) \<longleftrightarrow> Q 0 \<and> (\<forall>i<length sids. Q (Suc i))" for Q
    by (auto simp: less_Suc_eq_0_disj)
  show ?case
    by (subst split) (auto simp: Let_def Cons.IH post_error_None post_accepted_def)
qed simp

text \<open>
  An epoch registration reaches every live session and reports the truth: it is posted to each
  listed session exactly once, in order, also after a failure, and it succeeds exactly when there
  is at least one session and every one of them answered 201.
\<close>

theorem epoch_posted_to_every_session:
  "case post_epoch_to_sessions E epoch h of (res, h') \<Rightarrow>
     h' = h @ map (\<lambda>sid. EpPost sid (ep_epoch_id epoch)) (eh_list_sessions E h)
     \<and> (res = Inr () \<longleftrightarrow> eh_list_sessions E h \<noteq> []
         \<and> list_all (\<lambda>i. post_accepted E epoch
               (h @ map (\<lambda>sid. EpPost sid (ep_epoch_id epoch)) (take i (eh_list_sessions E h))) (eh_list_sessions E h ! i))
             [0..<length (eh_list_sessions E h)])"
proof -
  let ?s = "eh_list_sessions E h"
  obtain err k where l: "post_loop E epoch ?s None h = (err, k)" by fastforce
  have "k = h @ map (\<lambda>sid. EpPost sid (ep_epoch_id epoch)) ?s" using post_loop_history [of E epoch ?s None h] l by simp
  moreover have "err = None \<longleftrightarrow> (\<forall>i<length ?s. post_accepted E epoch
      (h @ map (\<lambda>sid. EpPost sid (ep_epoch_id epoch)) (take i ?s)) (?s ! i))"
    using post_loop_result [of E epoch ?s None h] l by simp
  ultimately show ?thesis
    by (cases err) (auto simp: post_epoch_to_sessions_def Let_def l list_all_iff)
qed

lemma post_epoch_accepted:
  "post_epoch_to_sessions E epoch h = (Inr u, h') \<Longrightarrow> eh_list_sessions E h \<noteq> []
     \<and> h' = h @ map (\<lambda>sid. EpPost sid (ep_epoch_id epoch)) (eh_list_sessions E h)"
  using post_loop_history [of E epoch "eh_list_sessions E h" None h]
  by (auto simp: post_epoch_to_sessions_def Let_def split: if_splits prod.splits option.splits)

subsection \<open>Creation\<close>

definition epoch_wf :: "string \<Rightarrow> engine_epoch \<Rightarrow> bool" where
  "epoch_wf engine_id ep \<longleftrightarrow>
     (let q = ep_ephemeral_request ep
      in err_engine_id q = engine_id \<and> err_epoch_id q = ep_epoch_id ep \<and> err_not_before q = ep_not_before ep
         \<and> err_not_after q = ep_not_after ep \<and> err_hybrid q = ep_hybrid ep)"

definition own_claims :: "string \<Rightarrow> engine_epoch \<Rightarrow> quote_epoch_claims" where
  "own_claims engine_id ep = epoch_claims engine_id (ep_epoch_id ep) (ep_not_before ep) (ep_not_after ep)
     (ep_hybrid ep) (ep_usage_signing_public_b64 ep)"

lemma create_engine_epoch_ok:
  assumes "create_engine_epoch E args h = (Inr ep, h')"
  shows "epoch_wf (ca_engine_id args) ep
     \<and> err_attestation (ep_ephemeral_request ep) =
         (case (case eh_mint E of None \<Rightarrow> None | Some mint \<Rightarrow> mint (h @ [EpGenerate]) (own_claims (ca_engine_id args) ep)) of
            Some b \<Rightarrow> Some b | None \<Rightarrow> ca_attestation args)
     \<and> h' = h @ [EpGenerate] @ (if eh_mint E = None then [] else [EpMint (own_claims (ca_engine_id args) ep)])
     \<and> ep_not_before ep = eh_iso E (eh_now_ms E h)
     \<and> ep_not_after ep = eh_iso E (eh_now_ms E h + (case ca_ttl_ms args of None \<Rightarrow> 86400000 | Some t \<Rightarrow> t))
     \<and> ep_usage_signing_public_b64 ep = eh_usage_public E (ep_usage_signing_key ep)
     \<and> err_identity_signature (ep_ephemeral_request ep) = eh_identity_sign E
         (ephemeral_signing_bytes (ca_engine_id args) (ep_epoch_id ep) (ep_not_after ep) (ep_hybrid ep))"
  using assms
  by (auto simp: create_engine_epoch_def Let_def epoch_wf_def own_claims_def split: sum.splits prod.splits)

text \<open>
  A new epoch vouches for itself: the register request carries the epoch's own id, validity
  and hybrid keys, the evidence minter (when there is one) is asked exactly once and about exactly
  this epoch's id, validity, keys and usage-signing key, the request carries what it minted and
  falls back to the connect bundle only when it minted nothing, and the identity signature is over
  this epoch's signing bytes.
\<close>

theorem epoch_binds_its_own_keys:
  assumes "create_engine_epoch E args h = (Inr ep, h')"
  shows "epoch_wf (ca_engine_id args) ep
     \<and> (\<forall>mint. eh_mint E = Some mint \<longrightarrow>
          h' = h @ [EpGenerate, EpMint (own_claims (ca_engine_id args) ep)]
          \<and> err_attestation (ep_ephemeral_request ep) =
              (case mint (h @ [EpGenerate]) (own_claims (ca_engine_id args) ep) of
                 Some b \<Rightarrow> Some b | None \<Rightarrow> ca_attestation args))
     \<and> err_identity_signature (ep_ephemeral_request ep) = eh_identity_sign E
         (ephemeral_signing_bytes (ca_engine_id args) (ep_epoch_id ep) (ep_not_after ep) (ep_hybrid ep))"
  using create_engine_epoch_ok [OF assms] by simp

text \<open>
  The identity signature covers every field: for fields without NUL characters, equal signing
  bytes mean equal engine id, epoch id, expiry and hybrid keys, so no two different registrations
  share a signature.
\<close>

theorem ephemeral_signing_bytes_injective:
  assumes "ephemeral_signing_bytes e i n hy = ephemeral_signing_bytes e' i' n' hy'"
    and "\<forall>s\<in>set [e, i, n, hy_mlkem_encapsulation_key hy, hy_x25519_public hy,
            e', i', n', hy_mlkem_encapsulation_key hy', hy_x25519_public hy']. CHR 0x00 \<notin> set s"
  shows "e = e' \<and> i = i' \<and> n = n' \<and> hy_mlkem_encapsulation_key hy = hy_mlkem_encapsulation_key hy'
     \<and> hy_x25519_public hy = hy_x25519_public hy'"
proof -
  let ?l = "\<lambda>e i n h. [''OPE-ENGINE-EPHEMERAL-v1'', e, i, n, hy_mlkem_encapsulation_key h, hy_x25519_public h]"
  have "?l e i n hy = ?l e' i' n' hy'"
    using assms(1) unfolding ephemeral_signing_bytes_def
    by (rule join_sep_inj) (use assms(2) in auto)
  then show ?thesis by simp
qed

subsection \<open>Rotation\<close>

lemma create_history: "\<exists>es. snd (create_engine_epoch E args h) = h @ es"
  by (auto simp: create_engine_epoch_def Let_def split: sum.split prod.split)

lemma post_epoch_history: "\<exists>es. snd (post_epoch_to_sessions E ep h) = h @ es"
  using post_loop_history [of E ep "eh_list_sessions E h" None h]
  by (auto simp: post_epoch_to_sessions_def Let_def split: prod.split option.split)

lemma rotate_internal_cases:
  assumes "rotate_internal E r = (res, r')"
  obtains (Skip) "er_rotating r \<or> er_stopped r" "res = Inr ()" "r' = r"
  | (Fail) e es where "\<not> er_rotating r" "\<not> er_stopped r" "res = Inl e"
      "r' = r\<lparr>er_rotating := True, er_history := er_history r @ es\<rparr>"
  | (Rotated) ep h where "\<not> er_rotating r" "\<not> er_stopped r" "res = Inr ()"
      "create_engine_epoch E (rotator_args r) (er_history r) = (Inr ep, h)"
      "eh_list_sessions E h \<noteq> []"
      "fst (post_epoch_to_sessions E ep h) = Inr ()"
      "r' = r\<lparr>er_current := ep, er_rotating := False,
          er_history := h @ map (\<lambda>sid. EpPost sid (ep_epoch_id ep)) (eh_list_sessions E h)
            @ (if eh_on_rotated E then [EpRotated (ep_epoch_id ep) (Some (ep_epoch_id (er_current r)))] else [])\<rparr>"
proof (cases "er_rotating r \<or> er_stopped r")
  case True
  with assms show thesis by (intro Skip) (auto simp: rotate_internal_def)
next
  case False
  obtain c h where c: "create_engine_epoch E (rotator_args r) (er_history r) = (c, h)" by fastforce
  have args: "rotator_args (r\<lparr>er_rotating := True\<rparr>) = rotator_args r" by (simp add: rotator_args_def)
  obtain es where es: "h = er_history r @ es" using create_history [of E "rotator_args r" "er_history r"] c by auto
  show thesis
  proof (cases c)
    case (Inl e)
    with assms False c args show thesis by (intro Fail [of e es]) (auto simp: rotate_internal_def es)
  next
    case (Inr ep)
    obtain p k where p: "post_epoch_to_sessions E ep h = (p, k)" by fastforce
    obtain fs where fs: "k = h @ fs" using post_epoch_history [of E ep h] p by auto
    show thesis
    proof (cases p)
      case (Inl e)
      with assms False c args Inr p show thesis
        by (intro Fail [of e "es @ fs"]) (auto simp: rotate_internal_def es fs)
    next
      case ok: (Inr u)
      with p have "post_epoch_to_sessions E ep h = (Inr (), k)" by simp
      from post_epoch_accepted [OF this] assms False c args Inr p ok show thesis
        by (intro Rotated [of ep h]) (auto simp: rotate_internal_def Let_def)
    qed
  qed
qed


text \<open>
  (C40) A failed rotation blocks every later one: after a rotation that returned an error (key
  generation or one session's registration failed) the \<^verbatim>\<open>rotating\<close> flag stays set, and every
  further rotation, also the retry of the schedule loop 30 seconds later, reports success without
  doing anything, whatever the environment answers; the old epoch stays current for good.
\<close>

theorem failed_rotation_is_sticky:
  assumes "rotate_internal E r = (Inl e, r')"
  shows "er_current r' = er_current r \<and> er_rotating r'
     \<and> rotate_internal E' (r'\<lparr>er_history := h\<rparr>) = (Inr (), r'\<lparr>er_history := h\<rparr>)"
  using assms
proof (cases rule: rotate_internal_cases)
  case (Fail e h)
  then show ?thesis by (simp add: rotate_internal_def)
qed auto

subsection \<open>Schedule\<close>

definition iso_roundtrip :: "epoch_host \<Rightarrow> bool" where
  "iso_roundtrip E \<longleftrightarrow> (\<forall>t. eh_parse_iso E (eh_iso E t) = Some t)"

lemma schedule_delay_nat:
  assumes "eh_parse_iso E (ep_not_after (er_current r)) = Some t"
  shows "unat (schedule_delay E r) = unat t - unat (er_lead_ms r) - unat (eh_now_ms E (er_history r))"
  using assms
  by (auto simp: schedule_delay_def compute_epoch_rotate_at_ms_def Let_def nat_of_word max_def word_le_nat_alt)

text \<open>
  The rotator sleeps until the lead time before the current epoch expires: for an epoch created
  at \<open>t\<close> with the rotator's lifetime (no overflow of the clock), the delay computed at any later
  instant is what is left of \<open>t + ttl - lead\<close>, and zero after that.
\<close>

theorem rotation_scheduled_before_expiry:
  assumes "iso_roundtrip E" "create_engine_epoch E (rotator_args r) h0 = (Inr (er_current r), h1)"
    and "unat (eh_now_ms E h0) + unat (er_ttl_ms r) < 2 ^ 64"
  shows "unat (schedule_delay E r)
     = unat (eh_now_ms E h0) + unat (er_ttl_ms r) - unat (er_lead_ms r) - unat (eh_now_ms E (er_history r))"
proof -
  have "ep_not_after (er_current r) = eh_iso E (eh_now_ms E h0 + er_ttl_ms r)"
    using create_engine_epoch_ok [OF assms(2)] by (simp add: rotator_args_def)
  then have "eh_parse_iso E (ep_not_after (er_current r)) = Some (eh_now_ms E h0 + er_ttl_ms r)"
    using assms(1) by (simp add: iso_roundtrip_def)
  from schedule_delay_nat [OF this] show ?thesis
    using assms(3) by (simp add: unat_add_exact)
qed

text \<open>
  An hourly rotation never waits: with \<^verbatim>\<open>TEECHAT_OPE_EPOCH_ROTATION_HOURS=1\<close> and the default
  lead of 60 minutes the lead equals the lifetime, so from the moment an epoch is created the
  computed delay is zero and the loop mints and registers epochs without pause.
\<close>

theorem hourly_rotation_never_waits:
  assumes "iso_roundtrip E" "env ''TEECHAT_OPE_EPOCH_ROTATION_HOURS'' = Some ''1''"
    "env ''TEECHAT_OPE_EPOCH_ROTATION_LEAD_MIN'' = None"
    and "epoch_rotator_new E env engine_id pub att = Inr r" "eh_now_ms E [] \<le> eh_now_ms E (er_history r)"
    and "unat (eh_now_ms E []) + unat (er_ttl_ms r) < 2 ^ 64"
  shows "schedule_delay E r = 0"
proof -
  have ttl: "er_ttl_ms r = 3600000" "er_lead_ms r = 3600000"
  proof -
    have "er_ttl_ms r = epoch_ttl_ms_from_policy (epoch_rotation_policy_from_env env)"
      "er_lead_ms r = epoch_rotation_lead_ms_from_env env"
      using assms(4) by (auto simp: epoch_rotator_new_def Let_def split: prod.splits sum.splits)
    moreover have "parse_u64 ''1'' = Some 1" by code_simp
    ultimately show "er_ttl_ms r = 3600000" "er_lead_ms r = 3600000"
      using assms(2,3) by (simp_all add: epoch_ttl_ms_from_policy_def epoch_rotation_policy_from_env_def
          epoch_rotation_lead_ms_from_env_def env_u64_or_def)
  qed
  have "\<exists>h. create_engine_epoch E (rotator_args r) [] = (Inr (er_current r), h)"
    using assms(4) by (auto simp: epoch_rotator_new_def Let_def rotator_args_def split: prod.splits sum.splits)
  then obtain h where c: "create_engine_epoch E (rotator_args r) [] = (Inr (er_current r), h)" by blast
  have na: "ep_not_after (er_current r) = eh_iso E (eh_now_ms E [] + er_ttl_ms r)"
    using create_engine_epoch_ok [OF c] by (simp add: rotator_args_def)
  then have "eh_parse_iso E (ep_not_after (er_current r)) = Some (eh_now_ms E [] + er_ttl_ms r)"
    using assms(1) by (simp add: iso_roundtrip_def)
  from schedule_delay_nat [OF this] have "unat (schedule_delay E r) = 0"
    using assms(5,6) ttl by (simp add: unat_add_exact word_le_nat_alt)
  then show ?thesis by (simp add: unat_eq_0)
qed

subsection \<open>The rotator as a state machine\<close>

inductive rotator_step :: "epoch_host \<Rightarrow> epoch_rotator \<Rightarrow> epoch_rotator \<Rightarrow> bool" for E :: epoch_host where
  rstep_rotate: "rotator_step E r (snd (rotate_internal E r))"
| rstep_arm: "rotator_step E r (snd (schedule_arm E r))"
| rstep_wake: "rotator_step E r (snd (schedule_wake E r))"
| rstep_register: "rotator_step E r (snd (register_epoch_on_session E sid r))"
| rstep_initial: "rotator_step E r (snd (register_initial_epoch E r))"
| rstep_attestation: "rotator_step E r (set_attestation bundle r)"
| rstep_stop: "rotator_step E r (rotator_stop r)"

inductive_cases rotator_stepE: "rotator_step E r r'"

definition rotator_init :: "epoch_host \<Rightarrow> epoch_rotator \<Rightarrow> bool" where
  "rotator_init E r \<longleftrightarrow> (\<exists>env engine_id pub att. epoch_rotator_new E env engine_id pub att = Inr r)"

definition minted_epochs :: "epoch_event list \<Rightarrow> string list" where
  "minted_epochs h = concat (map (\<lambda>e. case e of EpMint c \<Rightarrow> [qc_epoch_id c] | _ \<Rightarrow> []) h)"

definition rotator_wf :: "epoch_host \<Rightarrow> epoch_rotator \<Rightarrow> bool" where
  "rotator_wf E r \<longleftrightarrow> epoch_wf (er_engine_id r) (er_current r)
     \<and> (eh_mint E \<noteq> None \<longrightarrow> ep_epoch_id (er_current r) \<in> set (minted_epochs (er_history r)))"

lemma minted_epochs_simps [simp]:
  "minted_epochs [] = []"
  "minted_epochs (e # h) = (case e of EpMint c \<Rightarrow> [qc_epoch_id c] | _ \<Rightarrow> []) @ minted_epochs h"
  "minted_epochs (h @ k) = minted_epochs h @ minted_epochs k"
  by (simp_all add: minted_epochs_def)

lemma own_claims_id [simp]: "qc_epoch_id (own_claims e ep) = ep_epoch_id ep"
  by (simp add: own_claims_def epoch_claims_def)

lemma create_wf_minted:
  assumes "create_engine_epoch E args h = (Inr ep, h')"
  shows "epoch_wf (ca_engine_id args) ep
     \<and> (eh_mint E \<noteq> None \<longrightarrow> ep_epoch_id ep \<in> set (minted_epochs h'))"
  using create_engine_epoch_ok [OF assms] by auto

lemma rotate_fields:
  "er_engine_id (snd (rotate_internal E r)) = er_engine_id r
   \<and> (rotator_wf E r \<longrightarrow> rotator_wf E (snd (rotate_internal E r)))"
proof -
  obtain res r' where rot: "rotate_internal E r = (res, r')" by fastforce
  then show ?thesis
  proof (cases rule: rotate_internal_cases)
    case (Fail e es)
    with rot show ?thesis by (auto simp: rotator_wf_def)
  next
    case (Rotated ep h)
    with create_wf_minted [OF Rotated(4)] rot show ?thesis by (auto simp: rotator_wf_def rotator_args_def)
  qed (use rot in auto)
qed

lemma rotator_step_wf: "rotator_wf E r \<Longrightarrow> rotator_step E r r' \<Longrightarrow> rotator_wf E r'"
proof (erule rotator_stepE)
  assume "rotator_wf E r" "r' = snd (rotate_internal E r)"
  then show ?thesis using rotate_fields by blast
next
  fix sid assume "rotator_wf E r" "r' = snd (register_epoch_on_session E sid r)"
  then show ?thesis by (auto simp: register_epoch_on_session_def Let_def rotator_wf_def)
next
  assume wf: "rotator_wf E r" and r': "r' = snd (register_initial_epoch E r)"
  with post_epoch_history [of E "er_current r" "er_history r"] show ?thesis by (auto simp: register_initial_epoch_def case_prod_beta rotator_wf_def)
next
  assume wf: "rotator_wf E r" and r': "r' = snd (schedule_wake E r)"
  have "rotator_wf E (snd (rotate_internal E r))" using rotate_fields wf by blast
  with wf r' show ?thesis by (auto simp: schedule_wake_def rotator_wf_def split: prod.splits sum.splits)
qed (auto simp: schedule_arm_def set_attestation_def rotator_stop_def rotator_wf_def)

interpretation rotator_machine: state_machine "rotator_init E" "rotator_step E" "rotator_wf E" for E
proof
  show "rotator_wf E r" if init: "rotator_init E r" for r
  proof -
    obtain env engine_id pub att where new: "epoch_rotator_new E env engine_id pub att = Inr r"
      using init by (auto simp: rotator_init_def)
    then have c: "create_engine_epoch E (rotator_args r) [] = (Inr (er_current r), er_history r)"
      by (auto simp: epoch_rotator_new_def Let_def rotator_args_def split: prod.splits sum.splits)
    have "ca_engine_id (rotator_args r) = er_engine_id r" by (simp add: rotator_args_def)
    with create_wf_minted [OF c] show ?thesis by (simp add: rotator_wf_def)
  qed
  show "rotator_wf E t" if "rotator_wf E s" "rotator_step E s t" for s t
    using that by (rule rotator_step_wf)
qed

text \<open>
  In every state the rotator can reach, the current epoch's register request carries the
  epoch's own id, validity and keys under the engine's id, and when evidence can be minted, evidence
  was minted for this very epoch, never reused from the epoch before.
\<close>

theorem reachable_epoch_is_bound:
  assumes "reachable (rotator_init E) (rotator_step E) r"
  shows "epoch_wf (er_engine_id r) (er_current r)
     \<and> (eh_mint E \<noteq> None \<longrightarrow> ep_epoch_id (er_current r) \<in> set (minted_epochs (er_history r)))"
  using rotator_machine.reachable_inv [OF assms] by (simp add: rotator_wf_def)

subsection \<open>Instances\<close>

text \<open>
  A host with a binary text for times (which parses back), one live session and a poster that
  accepts or, in the second host, refuses.
\<close>

definition sample_hybrid :: engine_hybrid_public where
  "sample_hybrid = \<lparr>hy_kex = ''x25519-mlkem768'', hy_mlkem_encapsulation_key = ''mlk'', hy_x25519_public = ''x''\<rparr>"

definition bits_of_time :: "u64 \<Rightarrow> string" where
  "bits_of_time t = map (\<lambda>i. if bit t i then CHR ''1'' else CHR ''0'') [0..<64]"

definition time_of_bits :: "string \<Rightarrow> u64 option" where
  "time_of_bits s = Some (horner_sum of_bool 2 (map (\<lambda>c. c = CHR ''1'') s))"

definition sample_epoch_host :: epoch_host where
  "sample_epoch_host =
     \<lparr>eh_now_ms = (\<lambda>h. 5 + word_of_nat (length h)), eh_iso = bits_of_time, eh_parse_iso = time_of_bits,
      eh_suffix = (\<lambda>h. show_nat (length h)), eh_generate_hybrid = (\<lambda>_ _ _. Inr (sample_hybrid, Some 7)),
      eh_usage_key = (\<lambda>_. ''k''), eh_usage_public = (\<lambda>k. k @ ''pub''), eh_identity_sign = (\<lambda>b. ''sig''),
      eh_mint = Some (\<lambda>_ _. None), eh_list_sessions = (\<lambda>_. [''s1'']), eh_post = (\<lambda>_ _ _. Inr 201),
      eh_on_rotated = True\<rparr>"

definition sample_refusing_host :: epoch_host where
  "sample_refusing_host = sample_epoch_host\<lparr>eh_post := (\<lambda>_ _ _. Inr 503)\<rparr>"

definition hourly_env :: env where
  "hourly_env = [''TEECHAT_OPE_EPOCH_ROTATION_HOURS'' \<mapsto> ''1'']"

definition sample_rotator :: "env \<Rightarrow> epoch_rotator" where
  "sample_rotator env = (case epoch_rotator_new sample_epoch_host env ''eng'' ''pk'' None of Inr r \<Rightarrow> r)"

lemma sample_iso_roundtrip: "iso_roundtrip sample_epoch_host"
proof -
  have "map (\<lambda>c. c = CHR ''1'') (bits_of_time t) = map (bit t) [0..<64]" for t
    by (simp add: bits_of_time_def)
  then have "time_of_bits (bits_of_time t) = Some t" for t
    by (simp add: time_of_bits_def horner_sum_bit_eq_take_bit take_bit_word_eq_self)
  then show ?thesis by (simp add: iso_roundtrip_def sample_epoch_host_def)
qed

lemma sample_rotator_new: "epoch_rotator_new sample_epoch_host env ''eng'' ''pk'' None = Inr (sample_rotator env)"
  by (simp add: sample_rotator_def epoch_rotator_new_def create_engine_epoch_def sample_epoch_host_def Let_def)

theorem hourly_rotation_never_waits_witness:
  "schedule_delay sample_epoch_host (sample_rotator hourly_env) = 0"
proof -
  have "eh_now_ms sample_epoch_host [] \<le> eh_now_ms sample_epoch_host (er_history (sample_rotator hourly_env))"
    by code_simp
  moreover have "unat (eh_now_ms sample_epoch_host []) = 5" by (simp add: sample_epoch_host_def)
  moreover have "er_ttl_ms (sample_rotator hourly_env) = 3600000" by code_simp
  ultimately show ?thesis
    by (intro hourly_rotation_never_waits [OF sample_iso_roundtrip _ _ sample_rotator_new])
      (simp_all add: hourly_env_def)
qed

theorem rotation_scheduled_before_expiry_witness:
  "unat (schedule_delay sample_epoch_host (sample_rotator Map.empty)) = 5 + 86400000 - 3600000 - 7"
proof -
  let ?r = "sample_rotator Map.empty"
  have "fst (create_engine_epoch sample_epoch_host (rotator_args ?r) []) = Inr (er_current ?r)" by code_simp
  then have c: "create_engine_epoch sample_epoch_host (rotator_args ?r) []
      = (Inr (er_current ?r), snd (create_engine_epoch sample_epoch_host (rotator_args ?r) []))" by (metis prod.collapse)
  have n: "eh_now_ms sample_epoch_host [] = 5" "eh_now_ms sample_epoch_host (er_history ?r) = 7"
    "er_ttl_ms ?r = 86400000" "er_lead_ms ?r = 3600000" by code_simp+
  have "unat (eh_now_ms sample_epoch_host []) + unat (er_ttl_ms ?r) < 2 ^ 64" by (simp add: n)
  from rotation_scheduled_before_expiry [OF sample_iso_roundtrip c this] show ?thesis by (simp add: n)
qed

theorem failed_rotation_is_sticky_witness:
  "\<exists>e. fst (rotate_internal sample_refusing_host (sample_rotator Map.empty)) = Inl e
     \<and> er_rotating (snd (rotate_internal sample_refusing_host (sample_rotator Map.empty)))"
proof -
  let ?m = "rotate_internal sample_refusing_host (sample_rotator Map.empty)"
  have "(case fst ?m of Inl e \<Rightarrow> True | Inr u \<Rightarrow> False)" by code_simp
  then obtain e where "fst ?m = Inl e" by (auto split: sum.splits)
  then have "?m = (Inl e, snd ?m)" by (metis prod.collapse)
  from failed_rotation_is_sticky [OF this] \<open>fst ?m = Inl e\<close> show ?thesis by blast
qed


theorem epoch_binds_its_own_keys_witness:
  "\<exists>ep h. create_engine_epoch sample_epoch_host (rotator_args (sample_rotator Map.empty)) [] = (Inr ep, h) \<and> epoch_wf ''eng'' ep"
proof -
  let ?c = "create_engine_epoch sample_epoch_host (rotator_args (sample_rotator Map.empty)) []"
  have "(case fst ?c of Inl e \<Rightarrow> False | Inr ep \<Rightarrow> True)" by code_simp
  then obtain ep where "fst ?c = Inr ep" by (auto split: sum.splits)
  then have c: "?c = (Inr ep, snd ?c)" by (metis prod.collapse)
  have "ca_engine_id (rotator_args (sample_rotator Map.empty)) = ''eng''" by code_simp
  with epoch_binds_its_own_keys [OF c] c show ?thesis by metis
qed

theorem ephemeral_signing_bytes_injective_witness:
  "CHR 0x00 \<notin> set ''eng'' \<and> (ephemeral_signing_bytes ''eng'' ''e1'' ''t'' sample_hybrid
     = ephemeral_signing_bytes ''eng'' ''e1'' ''t'' sample_hybrid)"
  using ephemeral_signing_bytes_injective [of "''eng''" "''e1''" "''t''" sample_hybrid "''eng''" "''e1''" "''t''" sample_hybrid]
  by (simp add: sample_hybrid_def)

theorem reachable_epoch_is_bound_witness:
  "epoch_wf ''eng'' (er_current (snd (rotate_internal sample_epoch_host (sample_rotator Map.empty))))"
proof -
  let ?r = "sample_rotator Map.empty" and ?E = sample_epoch_host
  have "rotator_init ?E ?r" using sample_rotator_new unfolding rotator_init_def by blast
  then have reach: "reachable (rotator_init ?E) (rotator_step ?E) (snd (rotate_internal ?E ?r))"
    by (rule reachable_step [OF reachable_init]) (rule rstep_rotate)
  have "er_engine_id (snd (rotate_internal ?E ?r)) = ''eng''" by code_simp
  with reachable_epoch_is_bound [OF reach] show ?thesis by simp
qed

end
