(* ===== verification/Epoch_Decryptor.thy ===== *)
theory Epoch_Decryptor
  imports Epoch "HOL-Library.AList"
begin

section \<open>Decrypting across a rotation\<close>

text \<open>
  \<^verbatim>\<open>ie-engine/src/epoch/rotating_decryptor.rs\<close>: the epochs that can still decrypt, by id, the
  current one, and the pruning of the others once their validity and the overlap grace are over.
  The hash map is an association list with distinct keys; \<open>dec_freed\<close> records the handles released
  through \<^verbatim>\<open>dispose_engine_epoch\<close>. The lemmas show the overlap guarantee (a request for an epoch in
  its grace period is decrypted with that epoch's key), that pruning frees exactly the retired
  handles and never the current one, and the fallback for unknown epochs.
\<close>

record rotating_epoch_decryptor =
  dec_epochs :: "(string \<times> engine_epoch) list"
  dec_current_epoch_id :: "string option"
  dec_overlap_grace_ms :: u64
  dec_freed :: "u64 list"

definition decryptor_new :: "engine_epoch \<Rightarrow> u64 \<Rightarrow> rotating_epoch_decryptor" where
  "decryptor_new initial grace =
     \<lparr>dec_epochs = [(ep_epoch_id initial, initial)], dec_current_epoch_id = Some (ep_epoch_id initial),
      dec_overlap_grace_ms = grace, dec_freed = []\<rparr>"

definition decryptor_handle :: "rotating_epoch_decryptor \<Rightarrow> engine_error + u64" where
  "decryptor_handle d =
     (case dec_current_epoch_id d of None \<Rightarrow> Inl (EEpoch ''no current epoch'')
      | Some i \<Rightarrow>
         (case map_of (dec_epochs d) i of None \<Rightarrow> Inl (EEpoch (''missing epoch '' @ i))
          | Some epoch \<Rightarrow>
             (case ep_handle epoch of None \<Rightarrow> Inl (EEpoch ''current epoch has no native decrypt handle'')
              | Some handle \<Rightarrow> Inr handle)))"

definition requested_epoch_id :: "ope_envelope \<Rightarrow> rotating_epoch_decryptor \<Rightarrow> string option" where
  "requested_epoch_id envelope d =
     (case Option.bind (oe_e2e envelope)
         (\<lambda>e2e. if e2e_ephemeral_epoch e2e = [] then None else Some (e2e_ephemeral_epoch e2e)) of
        Some i \<Rightarrow> Some i
      | None \<Rightarrow> dec_current_epoch_id d)"

definition resolve_handle :: "ope_envelope \<Rightarrow> rotating_epoch_decryptor \<Rightarrow> engine_error + u64" where
  "resolve_handle envelope d =
     (let epoch_id = requested_epoch_id envelope d;
          target = (case Option.bind epoch_id (map_of (dec_epochs d)) of
              Some e \<Rightarrow> Some e
            | None \<Rightarrow> Option.bind (dec_current_epoch_id d) (map_of (dec_epochs d)))
      in case Option.bind target ep_handle of
           Some handle \<Rightarrow> Inr handle
         | None \<Rightarrow> Inl (EEpoch (''no decrypt handle for epoch '' @
              (case epoch_id of None \<Rightarrow> ''current'' | Some i \<Rightarrow> i))))"

definition resolve_usage_signing_key :: "ope_envelope \<Rightarrow> rotating_epoch_decryptor \<Rightarrow> string option" where
  "resolve_usage_signing_key envelope d =
     (case requested_epoch_id envelope d of None \<Rightarrow> None
      | Some i \<Rightarrow> map_option ep_usage_signing_key (map_of (dec_epochs d) i))"

definition add_epoch :: "engine_epoch \<Rightarrow> rotating_epoch_decryptor \<Rightarrow> rotating_epoch_decryptor" where
  "add_epoch epoch d =
     d\<lparr>dec_epochs := AList.update (ep_epoch_id epoch) epoch (dec_epochs d),
       dec_current_epoch_id := Some (ep_epoch_id epoch)\<rparr>"

definition epoch_retired ::
    "(string \<Rightarrow> u64 option) \<Rightarrow> u64 \<Rightarrow> u64 \<Rightarrow> string option \<Rightarrow> string \<times> engine_epoch \<Rightarrow> bool" where
  "epoch_retired parse_iso now_ms grace current e \<longleftrightarrow>
     (if current = Some (fst e) then False
      else case parse_iso (ep_not_after (snd e)) of None \<Rightarrow> False
        | Some fin \<Rightarrow> saturating_add fin grace < now_ms)"

definition dispose_engine_epoch :: "engine_epoch \<Rightarrow> u64 list" where
  "dispose_engine_epoch epoch = (case ep_handle epoch of None \<Rightarrow> [] | Some handle \<Rightarrow> [handle])"

definition prune_retired ::
    "(string \<Rightarrow> u64 option) \<Rightarrow> u64 \<Rightarrow> u64 option \<Rightarrow> rotating_epoch_decryptor \<Rightarrow> rotating_epoch_decryptor" where
  "prune_retired parse_iso now_ms overlap d =
     (let grace = (case overlap of None \<Rightarrow> dec_overlap_grace_ms d | Some g \<Rightarrow> g);
          gone = epoch_retired parse_iso now_ms grace (dec_current_epoch_id d)
      in d\<lparr>dec_epochs := filter (\<lambda>e. \<not> gone e) (dec_epochs d),
           dec_freed := dec_freed d @ concat (map (\<lambda>e. dispose_engine_epoch (snd e)) (filter gone (dec_epochs d)))\<rparr>)"

subsection \<open>Invariant\<close>

definition decryptor_wf :: "rotating_epoch_decryptor \<Rightarrow> bool" where
  "decryptor_wf d \<longleftrightarrow> distinct (map fst (dec_epochs d))
     \<and> (\<forall>(i, e)\<in>set (dec_epochs d). ep_epoch_id e = i)
     \<and> (case dec_current_epoch_id d of None \<Rightarrow> False | Some i \<Rightarrow> map_of (dec_epochs d) i \<noteq> None)"

lemma decryptor_new_wf: "decryptor_wf (decryptor_new e g)"
  by (simp add: decryptor_wf_def decryptor_new_def)

lemma add_epoch_wf: "decryptor_wf d \<Longrightarrow> decryptor_wf (add_epoch e d)"
proof -
  assume wf: "decryptor_wf d"
  have "(i, x) \<in> set (AList.update (ep_epoch_id e) e (dec_epochs d)) \<Longrightarrow> ep_epoch_id x = i" for i x
  proof -
    assume "(i, x) \<in> set (AList.update (ep_epoch_id e) e (dec_epochs d))"
    moreover have "distinct (map fst (AList.update (ep_epoch_id e) e (dec_epochs d)))"
      using wf by (simp add: decryptor_wf_def distinct_update)
    ultimately have "map_of (AList.update (ep_epoch_id e) e (dec_epochs d)) i = Some x" by simp
    then have "((map_of (dec_epochs d))(ep_epoch_id e \<mapsto> e)) i = Some x" by (simp add: update_conv')
    then show ?thesis
      using wf by (auto simp: decryptor_wf_def split: if_splits dest!: map_of_SomeD)
  qed
  then show ?thesis
    using wf by (auto simp: decryptor_wf_def add_epoch_def distinct_update update_conv')
qed

lemma map_of_filter_keep:
  "map_of xs i = Some e \<Longrightarrow> P (i, e) \<Longrightarrow> distinct (map fst xs) \<Longrightarrow> map_of (filter P xs) i = Some e"
  by (induction xs) (auto split: if_splits dest: map_of_SomeD)

lemma map_of_filter_sub: "distinct (map fst xs) \<Longrightarrow> map_of (filter P xs) i = Some e \<Longrightarrow> map_of xs i = Some e"
  by (metis distinct_map_filter filter_is_subset map_of_SomeD map_of_eq_Some_iff subsetD)

lemma map_of_filter_drop:
  "map_of xs i = Some e \<Longrightarrow> \<not> P (i, e) \<Longrightarrow> distinct (map fst xs) \<Longrightarrow> map_of (filter P xs) i = None"
proof (rule ccontr)
  assume h: "map_of xs i = Some e" "\<not> P (i, e)" "distinct (map fst xs)" "map_of (filter P xs) i \<noteq> None"
  then obtain x where x: "map_of (filter P xs) i = Some x" by auto
  with map_of_filter_sub [OF h(3) x] h(1,2) map_of_SomeD [OF x] show False by auto
qed

lemma prune_retired_wf: "decryptor_wf d \<Longrightarrow> decryptor_wf (prune_retired parse_iso now_ms g d)"
proof -
  assume wf: "decryptor_wf d"
  then obtain c e where c: "dec_current_epoch_id d = Some c" "map_of (dec_epochs d) c = Some e"
    by (auto simp: decryptor_wf_def split: option.splits)
  have "map_of (dec_epochs (prune_retired parse_iso now_ms g d)) c = Some e"
    using wf c by (simp add: prune_retired_def Let_def map_of_filter_keep epoch_retired_def decryptor_wf_def)
  moreover have "distinct (map fst (dec_epochs (prune_retired parse_iso now_ms g d)))"
    using wf by (simp add: prune_retired_def Let_def decryptor_wf_def distinct_map_filter)
  ultimately show ?thesis
    using wf c(1) by (auto simp: decryptor_wf_def prune_retired_def Let_def)
qed

subsection \<open>Handles\<close>

definition live_handles :: "rotating_epoch_decryptor \<Rightarrow> u64 list" where
  "live_handles d = concat (map (\<lambda>e. dispose_engine_epoch (snd e)) (dec_epochs d))"

lemma resolve_handle_live: "resolve_handle envelope d = Inr h \<Longrightarrow> h \<in> set (live_handles d)"
  by (auto simp: resolve_handle_def Let_def live_handles_def dispose_engine_epoch_def bind_eq_Some_conv
      split: option.splits dest!: map_of_SomeD) force+

definition handles_wf :: "rotating_epoch_decryptor \<Rightarrow> bool" where
  "handles_wf d \<longleftrightarrow> distinct (live_handles d) \<and> set (live_handles d) \<inter> set (dec_freed d) = {}"

lemma decryptor_new_handles: "handles_wf (decryptor_new e g)"
  by (simp add: handles_wf_def live_handles_def decryptor_new_def dispose_engine_epoch_def split: option.split)

lemma update_new_key: "k \<notin> fst ` set xs \<Longrightarrow> AList.update k v xs = xs @ [(k, v)]"
  by (induction xs) auto

lemma add_epoch_handles:
  assumes "handles_wf d" "ep_epoch_id e \<notin> fst ` set (dec_epochs d)"
    "set (dispose_engine_epoch e) \<inter> (set (live_handles d) \<union> set (dec_freed d)) = {}"
  shows "handles_wf (add_epoch e d)"
proof -
  have "live_handles (add_epoch e d) = live_handles d @ dispose_engine_epoch e"
    using assms(2) by (simp add: live_handles_def add_epoch_def update_new_key)
  moreover have "distinct (dispose_engine_epoch e)" by (simp add: dispose_engine_epoch_def split: option.split)
  moreover have "dec_freed (add_epoch e d) = dec_freed d" by (simp add: add_epoch_def)
  ultimately show ?thesis using assms(1,3) by (auto simp: handles_wf_def)
qed

lemma prune_handles_perm:
  "distinct (concat (map f xs)) \<Longrightarrow> distinct (concat (map f (filter P xs)))
     \<and> set (concat (map f (filter P xs))) \<inter> set (concat (map f (filter (\<lambda>x. \<not> P x) xs))) = {}"
  by (induction xs) auto

lemma prune_handles: "handles_wf d \<Longrightarrow> handles_wf (prune_retired parse_iso now_ms g d)"
proof -
  assume wf: "handles_wf d"
  let ?f = "\<lambda>e. dispose_engine_epoch (snd e)"
  let ?gone = "epoch_retired parse_iso now_ms (case g of None \<Rightarrow> dec_overlap_grace_ms d | Some x \<Rightarrow> x) (dec_current_epoch_id d)"
  have live: "live_handles (prune_retired parse_iso now_ms g d) = concat (map ?f (filter (\<lambda>e. \<not> ?gone e) (dec_epochs d)))"
    and freed: "dec_freed (prune_retired parse_iso now_ms g d) = dec_freed d @ concat (map ?f (filter ?gone (dec_epochs d)))"
    by (simp_all add: live_handles_def prune_retired_def Let_def)
  have "distinct (concat (map ?f (dec_epochs d)))" using wf by (simp add: handles_wf_def live_handles_def)
  from prune_handles_perm [OF this, of "\<lambda>e. \<not> ?gone e"] wf show ?thesis
    unfolding handles_wf_def live freed by (auto simp: live_handles_def)
qed

subsection \<open>The decryptor as a state machine\<close>

text \<open>
  Rotations add epochs whose id and native handle are new (ids carry random suffixes, the crypto
  provider numbers its handles); pruning runs at any time with any grace.
\<close>

inductive decryptor_step ::
    "(string \<Rightarrow> u64 option) \<Rightarrow> rotating_epoch_decryptor \<Rightarrow> rotating_epoch_decryptor \<Rightarrow> bool"
  for parse_iso :: "string \<Rightarrow> u64 option" where
  dstep_add: "ep_epoch_id e \<notin> fst ` set (dec_epochs d)
     \<Longrightarrow> set (dispose_engine_epoch e) \<inter> (set (live_handles d) \<union> set (dec_freed d)) = {}
     \<Longrightarrow> decryptor_step parse_iso d (add_epoch e d)"
| dstep_prune: "decryptor_step parse_iso d (prune_retired parse_iso now_ms g d)"

inductive_cases decryptor_stepE: "decryptor_step parse_iso d d'"

definition decryptor_init :: "rotating_epoch_decryptor \<Rightarrow> bool" where
  "decryptor_init d \<longleftrightarrow> (\<exists>e g. d = decryptor_new e g)"

interpretation decryptor_machine:
  state_machine decryptor_init "decryptor_step parse_iso" "\<lambda>d. decryptor_wf d \<and> handles_wf d" for parse_iso
proof
  show "decryptor_wf d \<and> handles_wf d" if "decryptor_init d" for d
    using that by (auto simp: decryptor_init_def decryptor_new_wf decryptor_new_handles)
  show "decryptor_wf t \<and> handles_wf t" if "decryptor_wf s \<and> handles_wf s" "decryptor_step parse_iso s t" for s t
    using that by (auto elim!: decryptor_stepE simp: add_epoch_wf prune_retired_wf add_epoch_handles prune_handles)
qed

text \<open>
  No decryption with a freed key: in every reachable state of the decryptor, the handle that
  any request resolves to has not been freed, and a request without an epoch resolves to the
  current epoch, which is always present.
\<close>

theorem resolved_handle_is_never_freed:
  assumes "reachable decryptor_init (decryptor_step parse_iso) d"
  shows "(case resolve_handle envelope d of Inl e \<Rightarrow> True | Inr h \<Rightarrow> h \<notin> set (dec_freed d))
     \<and> (\<exists>i e. dec_current_epoch_id d = Some i \<and> map_of (dec_epochs d) i = Some e \<and> ep_epoch_id e = i)"
proof -
  have wf: "decryptor_wf d" "handles_wf d" using decryptor_machine.reachable_inv [OF assms] by blast+
  have "h \<notin> set (dec_freed d)" if "resolve_handle envelope d = Inr h" for h
    using resolve_handle_live [OF that] wf(2) by (auto simp: handles_wf_def)
  moreover have "\<exists>i e. dec_current_epoch_id d = Some i \<and> map_of (dec_epochs d) i = Some e \<and> ep_epoch_id e = i"
    using wf(1) by (auto simp: decryptor_wf_def split: option.splits dest: map_of_SomeD)
  ultimately show ?thesis by (auto split: sum.split)
qed

definition names_epoch :: "ope_envelope \<Rightarrow> string \<Rightarrow> bool" where
  "names_epoch envelope i \<longleftrightarrow> i \<noteq> [] \<and> map_option e2e_ephemeral_epoch (oe_e2e envelope) = Some i"

lemma requested_named: "names_epoch envelope i \<Longrightarrow> requested_epoch_id envelope d = Some i"
  by (auto simp: names_epoch_def requested_epoch_id_def)

text \<open>
  Overlap guarantee: a request that names an epoch whose validity plus the overlap grace has not
  passed is, also after pruning at that moment, decrypted with that epoch's own handle and its usage
  is signed with that epoch's own key.
\<close>

theorem overlap_epoch_still_decrypts:
  assumes "decryptor_wf d" "names_epoch envelope i" "map_of (dec_epochs d) i = Some e" "ep_handle e = Some h"
    and "parse_iso (ep_not_after e) = Some fin" "unat now_ms \<le> unat fin + unat (dec_overlap_grace_ms d)"
  shows "resolve_handle envelope (prune_retired parse_iso now_ms None d) = Inr h
     \<and> resolve_usage_signing_key envelope (prune_retired parse_iso now_ms None d) = Some (ep_usage_signing_key e)"
proof -
  let ?d = "prune_retired parse_iso now_ms None d"
  have "unat now_ms < 2 ^ LENGTH(64)" by (rule unat_lt_size)
  then have "\<not> saturating_add fin (dec_overlap_grace_ms d) < now_ms"
    using assms(6) by (simp add: word_less_nat_alt unat_saturating_add)
  then have "\<not> epoch_retired parse_iso now_ms (dec_overlap_grace_ms d) (dec_current_epoch_id d) (i, e)"
    using assms(5) by (simp add: epoch_retired_def)
  then have "map_of (dec_epochs ?d) i = Some e"
    using assms(1,3) by (simp add: prune_retired_def Let_def map_of_filter_keep decryptor_wf_def)
  then show ?thesis
    using assms(4) by (simp add: resolve_handle_def resolve_usage_signing_key_def requested_named [OF assms(2)])
qed

text \<open>
  After retirement the two lookups disagree: once a non-current epoch is past its validity and
  grace, pruning removes it and frees its handle and no usage key is found for it any more, but a
  request that still names it is resolved to the handle of the current epoch instead of an error.
\<close>

theorem retired_epoch_falls_back_to_current:
  assumes "decryptor_wf d" "names_epoch envelope i" "map_of (dec_epochs d) i = Some e"
    and "dec_current_epoch_id d = Some c" "c \<noteq> i" "map_of (dec_epochs d) c = Some cur" "ep_handle cur = Some h"
    and "parse_iso (ep_not_after e) = Some fin" "saturating_add fin (dec_overlap_grace_ms d) < now_ms"
  shows "resolve_usage_signing_key envelope (prune_retired parse_iso now_ms None d) = None
     \<and> set (dispose_engine_epoch e) \<subseteq> set (dec_freed (prune_retired parse_iso now_ms None d))
     \<and> resolve_handle envelope (prune_retired parse_iso now_ms None d) = Inr h"
proof -
  let ?d = "prune_retired parse_iso now_ms None d"
  let ?gone = "epoch_retired parse_iso now_ms (dec_overlap_grace_ms d) (dec_current_epoch_id d)"
  have dist: "distinct (map fst (dec_epochs d))" using assms(1) by (simp add: decryptor_wf_def)
  have gone: "?gone (i, e)" using assms(4,5,8,9) by (simp add: epoch_retired_def)
  have none: "map_of (dec_epochs ?d) i = None"
    using map_of_filter_drop [OF assms(3) _ dist, of "\<lambda>x. \<not> ?gone x"] gone by (simp add: prune_retired_def Let_def)
  have cur: "map_of (dec_epochs ?d) c = Some cur"
    using map_of_filter_keep [OF assms(6) _ dist, of "\<lambda>x. \<not> ?gone x"] assms(4)
    by (simp add: prune_retired_def Let_def epoch_retired_def)
  have "set (dispose_engine_epoch e) \<subseteq> set (dec_freed ?d)"
    using gone map_of_SomeD [OF assms(3)] by (force simp: prune_retired_def Let_def)
  moreover have "dec_current_epoch_id ?d = Some c" using assms(4) by (simp add: prune_retired_def Let_def)
  ultimately show ?thesis
    using none cur assms(7)
    by (simp add: resolve_handle_def resolve_usage_signing_key_def requested_named [OF assms(2)])
qed

subsection \<open>Instances\<close>

definition sample_epoch :: "string \<Rightarrow> u64 \<Rightarrow> u64 \<Rightarrow> engine_epoch" where
  "sample_epoch i fin handle = (er_current (sample_rotator Map.empty))\<lparr>ep_epoch_id := i,
     ep_not_after := bits_of_time fin, ep_handle := Some handle, ep_usage_signing_key := i\<rparr>"

definition sample_decryptor :: rotating_epoch_decryptor where
  "sample_decryptor = add_epoch (sample_epoch ''b'' 900 2) (decryptor_new (sample_epoch ''a'' 100 1) 50)"

definition sample_envelope :: ope_envelope where
  "sample_envelope =
     \<lparr>oe_enc = ''e'', oe_nonce = ''n'', oe_engine_id = None, oe_meta = None, oe_sig = None, oe_ciphertext = None, oe_iv = None,
      oe_e2e = Some \<lparr>e2e_client_share = None, e2e_content_alg = None, e2e_ephemeral_epoch = ''a'', e2e_engine_mlkem_encap = ''m'', e2e_engine_x25519 = ''x''\<rparr>\<rparr>"

lemma sample_decryptor_wf: "decryptor_wf sample_decryptor"
  unfolding sample_decryptor_def by (intro add_epoch_wf decryptor_new_wf)

lemma sample_parse: "time_of_bits (bits_of_time t) = Some t"
  using sample_iso_roundtrip by (simp add: iso_roundtrip_def sample_epoch_host_def)

lemma sample_lookup:
  "map_of (dec_epochs sample_decryptor) ''a'' = Some (sample_epoch ''a'' 100 1)"
  "map_of (dec_epochs sample_decryptor) ''b'' = Some (sample_epoch ''b'' 900 2)"
  "dec_current_epoch_id sample_decryptor = Some ''b''" "dec_overlap_grace_ms sample_decryptor = 50"
  by (simp_all add: sample_decryptor_def add_epoch_def decryptor_new_def sample_epoch_def)

lemma sample_names: "names_epoch sample_envelope ''a''"
  by (simp add: names_epoch_def sample_envelope_def)

theorem overlap_epoch_still_decrypts_witness:
  "resolve_handle sample_envelope (prune_retired time_of_bits 150 None sample_decryptor) = Inr 1"
proof -
  have "ep_handle (sample_epoch ''a'' 100 1) = Some 1"
    "time_of_bits (ep_not_after (sample_epoch ''a'' 100 1)) = Some 100" by (simp_all add: sample_epoch_def sample_parse)
  from overlap_epoch_still_decrypts [where parse_iso = time_of_bits and now_ms = 150,
      OF sample_decryptor_wf sample_names sample_lookup(1) this]
  show ?thesis by (simp add: sample_lookup)
qed

theorem retired_epoch_falls_back_to_current_witness:
  "resolve_handle sample_envelope (prune_retired time_of_bits 151 None sample_decryptor) = Inr 2
   \<and> resolve_usage_signing_key sample_envelope (prune_retired time_of_bits 151 None sample_decryptor) = None"
proof -
  have e: "ep_handle (sample_epoch ''b'' 900 2) = Some 2"
    "time_of_bits (ep_not_after (sample_epoch ''a'' 100 1)) = Some 100" by (simp_all add: sample_epoch_def sample_parse)
  have "saturating_add 100 (dec_overlap_grace_ms sample_decryptor) < (151 :: u64)"
    by (simp add: sample_lookup saturating_add_def)
  from retired_epoch_falls_back_to_current [where parse_iso = time_of_bits,
      OF sample_decryptor_wf sample_names sample_lookup(1,3) _ sample_lookup(2) e this]
  show ?thesis by simp
qed

theorem resolved_handle_is_never_freed_witness:
  "case resolve_handle sample_envelope (prune_retired time_of_bits 151 None sample_decryptor) of
     Inl e \<Rightarrow> True | Inr h \<Rightarrow> h \<notin> set (dec_freed (prune_retired time_of_bits 151 None sample_decryptor))"
proof -
  let ?init = "decryptor_new (sample_epoch ''a'' 100 1) 50"
  have "reachable decryptor_init (decryptor_step time_of_bits) ?init"
    by (rule reachable_init) (auto simp: decryptor_init_def)
  moreover have "decryptor_step time_of_bits ?init (add_epoch (sample_epoch ''b'' 900 2) ?init)"
    by (rule dstep_add) (simp_all add: decryptor_new_def sample_epoch_def live_handles_def dispose_engine_epoch_def)
  ultimately have "reachable decryptor_init (decryptor_step time_of_bits) sample_decryptor"
    unfolding sample_decryptor_def by (rule reachable_step)
  then have "reachable decryptor_init (decryptor_step time_of_bits) (prune_retired time_of_bits 151 None sample_decryptor)"
    by (rule reachable_step) (rule dstep_prune)
  from resolved_handle_is_never_freed [OF this, of sample_envelope] show ?thesis by blast
qed

end
