(* ===== verification/Json_Text.thy ===== *)
theory Json_Text
  imports Wire_Types "HOL-Library.AList"
begin

section \<open>Unicode text and JSON values\<close>

text \<open>
  The text that flows through inference is arbitrary Unicode, so it is kept as a list of scalar
  values, with the functions of \<^verbatim>\<open>str\<close> and \<^verbatim>\<open>String\<close> that the engine applies to it: trimming, byte
  lengths, and the lossy UTF-8 decoder of the standard library with its replacement rule for
  ill-formed input. JSON values are those of \<^verbatim>\<open>serde_json::Value\<close> with the accessors the engine uses;
  parsing and printing JSON stay parameters of the definitions that need them. The lemmas show that
  decoding inverts encoding, also in front of any further bytes.
\<close>

subsection \<open>Text\<close>

type_synonym utext = "int list"

definition lit :: "string \<Rightarrow> utext" where
  "lit s = map of_char s"

definition white_space :: "int \<Rightarrow> bool" where
  "white_space c \<longleftrightarrow> 9 \<le> c \<and> c \<le> 13 \<or> c = 32 \<or> c = 133 \<or> c = 160 \<or> c = 5760 \<or> 8192 \<le> c \<and> c \<le> 8202
     \<or> c = 8232 \<or> c = 8233 \<or> c = 8239 \<or> c = 8287 \<or> c = 12288"

definition text_trim :: "utext \<Rightarrow> utext" where
  "text_trim t = rev (dropWhile white_space (rev (dropWhile white_space t)))"

fun strip_prefix :: "'a list \<Rightarrow> 'a list \<Rightarrow> 'a list option" where
  "strip_prefix [] ys = Some ys"
| "strip_prefix (x # xs) [] = None"
| "strip_prefix (x # xs) (y # ys) = (if x = y then strip_prefix xs ys else None)"

definition text_lower :: "utext \<Rightarrow> utext" where
  "text_lower = map (\<lambda>c. if 65 \<le> c \<and> c \<le> 90 then c + 32 else c)"

definition utf8_width :: "int \<Rightarrow> nat" where
  "utf8_width c = (if c < 128 then 1 else if c < 2048 then 2 else if c < 65536 then 3 else 4)"

definition utf8_len :: "utext \<Rightarrow> nat" where
  "utf8_len t = sum_list (map utf8_width t)"

lemma dropWhile_rev_last: "dropWhile P (rev (dropWhile P (rev (dropWhile P t)))) = rev (dropWhile P (rev (dropWhile P t)))"
proof (cases "rev (dropWhile P (rev (dropWhile P t)))")
  case (Cons c cs)
  then obtain d ds where d: "dropWhile P t = d # ds" by (cases "dropWhile P t") auto
  then have "\<not> P d" by (rule dropWhile_hd)
  moreover have "rev (dropWhile P (rev (d # ds))) = d # rev (dropWhile P (rev ds))"
    using \<open>\<not> P d\<close> by (induction ds rule: rev_induct) auto
  ultimately show ?thesis using d by simp
next
  case Nil
  then show ?thesis by (simp only: Nil dropWhile.simps)
qed

lemma text_trim_idem [simp]: "text_trim (text_trim t) = text_trim t"
proof -
  have "dropWhile P (rev (rev (dropWhile P xs))) = dropWhile P xs" for P and xs :: "int list"
    by (cases "dropWhile P xs") (auto dest: dropWhile_hd)
  then show ?thesis by (simp add: text_trim_def dropWhile_rev_last)
qed

lemma text_trim_fixed: "t \<noteq> [] \<Longrightarrow> \<not> white_space (hd t) \<Longrightarrow> \<not> white_space (last t) \<Longrightarrow> text_trim t = t"
  by (simp add: text_trim_def dropWhile_eq_self_iff [THEN iffD2] hd_rev)

lemma text_trim_ends:
  assumes "text_trim t = t" "t \<noteq> []"
  shows "\<not> white_space (hd t)" "\<not> white_space (last t)"
proof -
  let ?u = "dropWhile white_space t"
  have t: "t = rev (dropWhile white_space (rev ?u))" using assms(1) by (simp add: text_trim_def)
  then obtain c cs where "dropWhile white_space (rev ?u) = c # cs" using assms(2) by (cases "dropWhile white_space (rev ?u)") auto
  then show "\<not> white_space (last t)" using dropWhile_hd [of white_space "rev ?u" c cs] t by simp
  have "length t \<le> length ?u" using t length_dropWhile_le [of white_space "rev ?u"] by (metis length_rev)
  moreover have "length ?u \<le> length t" by (rule length_dropWhile_le)
  moreover have "length (takeWhile white_space t) + length ?u = length t"
    by (metis length_append takeWhile_dropWhile_id)
  ultimately have "?u = t" using takeWhile_dropWhile_id [of white_space t] by simp
  then show "\<not> white_space (hd t)" using assms(2) by (metis dropWhile_eq_self_iff)
qed

lemma utf8_width_pos [simp]: "0 < utf8_width c"
  by (simp add: utf8_width_def)

lemma length_le_utf8_len: "length t \<le> utf8_len t"
  unfolding utf8_len_def
proof (induction t)
  case (Cons c t)
  then show ?case using utf8_width_pos [of c] by (simp del: utf8_width_pos)
qed simp

lemma utf8_len_append: "utf8_len (s @ t) = utf8_len s + utf8_len t"
  by (simp add: utf8_len_def)

lemma utf8_len_empty [simp]: "utf8_len [] = 0"
  by (simp add: utf8_len_def)

lemma strip_prefix_iff: "strip_prefix p s = Some r \<longleftrightarrow> s = p @ r"
  by (induction p s rule: strip_prefix.induct) auto

subsection \<open>UTF-8\<close>

text \<open>
  \<^verbatim>\<open>String::from_utf8_lossy\<close>: a well-formed sequence yields its scalar value; otherwise the longest
  prefix of a sequence that could still have been completed becomes one replacement character.
\<close>

definition is_continuation :: "int \<Rightarrow> bool" where
  "is_continuation b \<longleftrightarrow> 128 \<le> b \<and> b < 192"

definition sequence_width :: "int \<Rightarrow> nat" where
  "sequence_width b = (if 194 \<le> b \<and> b < 224 then 2 else if 224 \<le> b \<and> b < 240 then 3
     else if 240 \<le> b \<and> b < 245 then 4 else 0)"

definition second_ok :: "int \<Rightarrow> int \<Rightarrow> bool" where
  "second_ok b c \<longleftrightarrow>
     (if b = 224 then 160 \<le> c \<and> c < 192 else if b = 237 then 128 \<le> c \<and> c < 160
      else if b = 240 then 144 \<le> c \<and> c < 192 else if b = 244 then 128 \<le> c \<and> c < 144
      else is_continuation c)"

text \<open>How many of the bytes after a lead byte belong to its sequence.\<close>

definition valid_tail :: "int \<Rightarrow> int list \<Rightarrow> nat" where
  "valid_tail b bs =
     (if sequence_width b = 0 then 0
      else case bs of [] \<Rightarrow> 0
        | c # cs \<Rightarrow>
            if \<not> second_ok b c then 0
            else 1 + length (takeWhile is_continuation (take (sequence_width b - 2) cs)))"

fun sequence_value :: "int \<Rightarrow> int list \<Rightarrow> int" where
  "sequence_value v [] = v"
| "sequence_value v (c # cs) = sequence_value (v * 64 + (c - 128)) cs"

definition lead_value :: "int \<Rightarrow> int" where
  "lead_value b = (if b < 224 then b - 192 else if b < 240 then b - 224 else b - 240)"

fun from_utf8_lossy :: "int list \<Rightarrow> utext" where
  "from_utf8_lossy [] = []"
| "from_utf8_lossy (b # bs) =
     (if b < 128 then b # from_utf8_lossy bs
      else let n = valid_tail b bs
           in (if n + 1 = sequence_width b then sequence_value (lead_value b) (take n bs) else 65533)
              # from_utf8_lossy (drop n bs))"

definition utf8_encode :: "int \<Rightarrow> int list" where
  "utf8_encode c =
     (if c < 128 then [c]
      else if c < 2048 then [192 + c div 64, 128 + c mod 64]
      else if c < 65536 then [224 + c div 4096, 128 + c div 64 mod 64, 128 + c mod 64]
      else [240 + c div 262144, 128 + c div 4096 mod 64, 128 + c div 64 mod 64, 128 + c mod 64])"

definition is_scalar :: "int \<Rightarrow> bool" where
  "is_scalar c \<longleftrightarrow> 0 \<le> c \<and> c < 55296 \<or> 57344 \<le> c \<and> c < 1114112"

lemma length_utf8_encode: "length (utf8_encode c) = utf8_width c"
  by (simp add: utf8_encode_def utf8_width_def)

lemma continuation_mod: "is_continuation (128 + c mod 64)"
  by (simp add: is_continuation_def)

lemma rebuild_two: "(c div 64) * 64 + c mod 64 = (c :: int)"
  by simp

lemma rebuild_three: "((c div 4096) * 64 + c div 64 mod 64) * 64 + c mod 64 = (c :: int)"
proof -
  have "c div 4096 = c div 64 div 64" using zdiv_zmult2_eq [of 64 c 64] by simp
  then show ?thesis by simp
qed

lemma rebuild_four:
  "(((c div 262144) * 64 + c div 4096 mod 64) * 64 + c div 64 mod 64) * 64 + c mod 64 = (c :: int)"
proof -
  have "c div 262144 = c div 4096 div 64" using zdiv_zmult2_eq [of 64 c 4096] by simp
  then show ?thesis using rebuild_three [of c] by simp
qed

lemma decode_sequence:
  assumes "128 \<le> b" "valid_tail b (tail @ rest) = length tail" "length tail + 1 = sequence_width b"
  shows "from_utf8_lossy (b # tail @ rest) = sequence_value (lead_value b) tail # from_utf8_lossy rest"
  using assms by simp

lemma three_value: "sequence_value (c div 4096) [128 + c div 64 mod 64, 128 + c mod 64] = c"
  unfolding sequence_value.simps add_diff_cancel_left' by (rule rebuild_three)

lemma four_value:
  "sequence_value (c div 262144) [128 + c div 4096 mod 64, 128 + c div 64 mod 64, 128 + c mod 64] = c"
  unfolding sequence_value.simps add_diff_cancel_left' by (rule rebuild_four)

lemma decode_two:
  assumes "128 \<le> c" "c < 2048"
  shows "from_utf8_lossy (utf8_encode c @ rest) = c # from_utf8_lossy rest"
proof -
  let ?b = "192 + c div 64"
  have b: "194 \<le> ?b" "?b < 224" using assms by auto
  then have "valid_tail ?b ((128 + c mod 64) # rest) = 1"
    by (simp add: valid_tail_def sequence_width_def second_ok_def is_continuation_def)
  with b assms show ?thesis
    by (simp add: utf8_encode_def sequence_width_def lead_value_def rebuild_two)
qed

lemma second_ok_three:
  assumes "x = 64 * q + s" "0 \<le> s" "s < 64" "32 \<le> x" "x < 864 \<or> 896 \<le> x" "x < 1024"
  shows "second_ok (224 + q) (128 + s)"
proof -
  have "0 \<le> q" "q < 16" "q = 0 \<Longrightarrow> 32 \<le> s" "q = 13 \<Longrightarrow> s < 32" using assms by auto
  with assms(2,3) show ?thesis by (simp add: second_ok_def is_continuation_def)
qed

lemma second_ok_four:
  assumes "x = 64 * q + s" "0 \<le> s" "s < 64" "16 \<le> x" "x < 272"
  shows "second_ok (240 + q) (128 + s)"
proof -
  have "0 \<le> q" "q < 5" "q = 0 \<Longrightarrow> 16 \<le> s" "q = 4 \<Longrightarrow> s < 16" using assms by auto
  with assms(2,3) show ?thesis by (simp add: second_ok_def is_continuation_def)
qed

lemma decode_three:
  assumes "2048 \<le> c" "c < 65536" "is_scalar c"
  shows "from_utf8_lossy (utf8_encode c @ rest) = c # from_utf8_lossy rest"
proof -
  let ?b = "224 + c div 4096" and ?s = "128 + c div 64 mod 64"
  have b: "224 \<le> ?b" "?b < 240" using assms by auto
  have "c div 4096 = c div 64 div 64" using zdiv_zmult2_eq [of 64 c 64] by simp
  then have "c div 64 = 64 * (c div 4096) + c div 64 mod 64" by simp
  moreover have "32 \<le> c div 64" "c div 64 < 1024" "c div 64 < 864 \<or> 896 \<le> c div 64"
    using assms by (auto simp: is_scalar_def)
  ultimately have "second_ok ?b ?s" by (intro second_ok_three) simp_all
  then have "valid_tail ?b (?s # (128 + c mod 64) # rest) = 2"
    using b continuation_mod by (simp add: valid_tail_def sequence_width_def)
  then have "from_utf8_lossy (?b # [?s, 128 + c mod 64] @ rest)
      = sequence_value (lead_value ?b) [?s, 128 + c mod 64] # from_utf8_lossy rest"
    using b by (intro decode_sequence) (simp_all add: sequence_width_def)
  moreover have "lead_value ?b = c div 4096" using b by (simp add: lead_value_def)
  moreover have "utf8_encode c = ?b # [?s, 128 + c mod 64]" using assms by (simp add: utf8_encode_def)
  ultimately show ?thesis by (simp only: three_value append_Cons append_Nil)
qed

lemma decode_four:
  assumes "65536 \<le> c" "is_scalar c"
  shows "from_utf8_lossy (utf8_encode c @ rest) = c # from_utf8_lossy rest"
proof -
  let ?b = "240 + c div 262144" and ?s = "128 + c div 4096 mod 64"
  have b: "240 \<le> ?b" "?b < 245" using assms by (auto simp: is_scalar_def)
  have "c div 262144 = c div 4096 div 64" using zdiv_zmult2_eq [of 64 c 4096] by simp
  then have "c div 4096 = 64 * (c div 262144) + c div 4096 mod 64" by simp
  moreover have "16 \<le> c div 4096" "c div 4096 < 272" using assms by (auto simp: is_scalar_def)
  ultimately have "second_ok ?b ?s" by (intro second_ok_four) simp_all
  then have "valid_tail ?b (?s # (128 + c div 64 mod 64) # (128 + c mod 64) # rest) = 3"
    using b continuation_mod by (simp add: valid_tail_def sequence_width_def)
  moreover have "sequence_width ?b = 4" "128 \<le> ?b" using b by (simp_all only: sequence_width_def) simp_all
  ultimately have "from_utf8_lossy (?b # [?s, 128 + c div 64 mod 64, 128 + c mod 64] @ rest)
      = sequence_value (lead_value ?b) [?s, 128 + c div 64 mod 64, 128 + c mod 64] # from_utf8_lossy rest"
    by (intro decode_sequence) (simp_all only: append_Cons append_Nil list.size)
  moreover have "lead_value ?b = c div 262144" using b by (simp add: lead_value_def)
  moreover have "utf8_encode c = ?b # [?s, 128 + c div 64 mod 64, 128 + c mod 64]"
    using assms by (simp add: utf8_encode_def)
  ultimately show ?thesis by (simp only: four_value append_Cons append_Nil)
qed

lemma decode_encode_char: "is_scalar c \<Longrightarrow> from_utf8_lossy (utf8_encode c @ rest) = c # from_utf8_lossy rest"
  using decode_two [of c rest] decode_three [of c rest] decode_four [of c rest]
  by (cases "c < 128"; cases "c < 2048"; cases "c < 65536") (auto simp: utf8_encode_def [of c])

lemma decode_encode_prefix:
  "list_all is_scalar t \<Longrightarrow> from_utf8_lossy (concat (map utf8_encode t) @ rest) = t @ from_utf8_lossy rest"
  by (induction t) (simp_all add: decode_encode_char)

lemma decode_encode: "list_all is_scalar t \<Longrightarrow> from_utf8_lossy (concat (map utf8_encode t)) = t"
  using decode_encode_prefix [of t "[]"] by simp

subsection \<open>JSON values\<close>

datatype json_number = PosInt u64 | NegInt int | JFloat f64

datatype json =
    JNull
  | JBool bool
  | JNum json_number
  | JStr utext
  | JArr "json list"
  | JObj "(string \<times> json) list"

fun json_get :: "string \<Rightarrow> json \<Rightarrow> json option" where
  "json_get k (JObj kvs) = map_of kvs k"
| "json_get k _ = None"

fun as_str :: "json \<Rightarrow> utext option" where
  "as_str (JStr t) = Some t"
| "as_str _ = None"

fun as_array :: "json \<Rightarrow> json list option" where
  "as_array (JArr xs) = Some xs"
| "as_array _ = None"

fun as_object :: "json \<Rightarrow> (string \<times> json) list option" where
  "as_object (JObj kvs) = Some kvs"
| "as_object _ = None"

fun as_bool :: "json \<Rightarrow> bool option" where
  "as_bool (JBool b) = Some b"
| "as_bool _ = None"

fun as_u64 :: "json \<Rightarrow> u64 option" where
  "as_u64 (JNum (PosInt n)) = Some n"
| "as_u64 _ = None"

fun as_f64 :: "json \<Rightarrow> f64 option" where
  "as_f64 (JNum (PosInt n)) = Some (f64_round (uint n) 0)"
| "as_f64 (JNum (NegInt n)) = Some (f64_round n 0)"
| "as_f64 (JNum (JFloat x)) = Some x"
| "as_f64 _ = None"

text \<open>\<^verbatim>\<open>value[key] = v\<close> and \<^verbatim>\<open>Map::insert\<close>: replaces the entry or adds one.\<close>

fun json_set :: "string \<Rightarrow> json \<Rightarrow> json \<Rightarrow> json" where
  "json_set k v (JObj kvs) = JObj (AList.update k v kvs)"
| "json_set k v JNull = JObj [(k, v)]"
| "json_set k v j = j"

definition get_str :: "string \<Rightarrow> json \<Rightarrow> utext option" where
  "get_str k j = Option.bind (json_get k j) as_str"

definition get_u64 :: "string \<Rightarrow> json \<Rightarrow> u64 option" where
  "get_u64 k j = Option.bind (json_get k j) as_u64"

lemma json_get_set [simp]: "json_get k (json_set k' v (JObj kvs)) = (if k = k' then Some v else map_of kvs k)"
  by (simp add: update_conv')

lemma json_set_object [simp]: "\<exists>kvs'. json_set k v (JObj kvs) = JObj kvs'"
  by simp

end
