(* ===== verification/Upstream.thy ===== *)
theory Upstream
  imports Json_Text
begin

section \<open>The vLLM upstream\<close>

text \<open>
  \<^verbatim>\<open>ie-upstream/src/sse.rs\<close>, \<^verbatim>\<open>multimodal.rs\<close> and \<^verbatim>\<open>client.rs\<close>: reading of streaming choices,
  normalisation of chat messages, the request body, upstream selection, and the streaming client
  whose poll function turns byte chunks into text deltas. HTTP (\<^verbatim>\<open>reqwest\<close>) and JSON text
  (\<^verbatim>\<open>serde_json\<close>) are the host: a response is a status and a list of chunks, each bytes or a transport
  error.
\<close>

datatype upstream_error = UHttp u16 utext | UMissingBody | URequest string | UInvalidSse string

fun upstream_error_display :: "upstream_error \<Rightarrow> utext" where
  "upstream_error_display (UHttp status body) = lit (''vLLM HTTP '' @ show_word status @ '': '') @ body"
| "upstream_error_display UMissingBody = lit ''vLLM response missing body''"
| "upstream_error_display (URequest e) = lit (''request failed: '' @ e)"
| "upstream_error_display (UInvalidSse e) = lit (''invalid SSE chunk: '' @ e)"

record http_response =
  hr_status :: u16
  hr_chunks :: "(string + int list) list"

record upstream_host =
  uh_post :: "string \<Rightarrow> string option \<Rightarrow> json \<Rightarrow> string + http_response"
  uh_from_str :: "utext \<Rightarrow> string + json"
  uh_from_slice :: "int list \<Rightarrow> string + json"
  uh_to_string :: "json \<Rightarrow> utext"

subsection \<open>Streaming choices\<close>

definition STREAM_THINKING_SEPARATOR :: utext where
  "STREAM_THINKING_SEPARATOR = [10, 10] @ lit ''<!-- teechat:thinking-end -->'' @ [10, 10]"

datatype vllm_text_kind = Reasoning | Content

record vllm_text_delta =
  vd_kind :: vllm_text_kind
  vd_text :: utext

fun first_nonempty_str :: "string list \<Rightarrow> json \<Rightarrow> utext option" where
  "first_nonempty_str [] j = None"
| "first_nonempty_str (k # ks) j =
     (case get_str k j of Some t \<Rightarrow> if t \<noteq> [] then Some t else first_nonempty_str ks j
      | None \<Rightarrow> first_nonempty_str ks j)"

definition part_deltas :: "json \<Rightarrow> vllm_text_delta list" where
  "part_deltas j =
     (case first_nonempty_str [''reasoning'', ''reasoning_content''] j of None \<Rightarrow> []
      | Some t \<Rightarrow> [\<lparr>vd_kind = Reasoning, vd_text = t\<rparr>]) @
     (case first_nonempty_str [''content''] j of None \<Rightarrow> []
      | Some t \<Rightarrow> [\<lparr>vd_kind = Content, vd_text = t\<rparr>])"

definition stream_deltas_from_vllm_choice :: "json \<Rightarrow> vllm_text_delta list" where
  "stream_deltas_from_vllm_choice choice =
     (case json_get ''delta'' choice of Some delta \<Rightarrow> part_deltas delta
      | None \<Rightarrow> (case json_get ''message'' choice of Some message \<Rightarrow> part_deltas message | None \<Rightarrow> []))"

definition finish_reason_from_vllm_choice :: "json \<Rightarrow> utext option" where
  "finish_reason_from_vllm_choice choice =
     (case get_str ''finish_reason'' choice of None \<Rightarrow> None
      | Some r \<Rightarrow> let raw = text_trim r
          in if raw = [] \<or> text_lower raw = lit ''null'' then None else Some (text_lower raw))"

definition ope_finish_reason_status_detail :: "utext \<Rightarrow> bool \<Rightarrow> utext option" where
  "ope_finish_reason_status_detail finish_reason output_empty =
     (let reason = text_trim finish_reason
      in if reason = [] \<or> text_lower reason = lit ''null'' then None
         else Some (lit (if output_empty then ''empty_completion:'' else ''finish_reason='') @ reason))"

definition openai_delta_frame_from_vllm_choice :: "upstream_host \<Rightarrow> json \<Rightarrow> utext option" where
  "openai_delta_frame_from_vllm_choice U choice =
     (case json_get ''delta'' choice of None \<Rightarrow> None
      | Some delta \<Rightarrow>
         (let delta_empty = (case as_object delta of None \<Rightarrow> True | Some kvs \<Rightarrow> kvs = []);
              finish_set = (finish_reason_from_vllm_choice choice \<noteq> None)
          in if delta_empty \<and> \<not> finish_set then None
             else let index = (case get_u64 ''index'' choice of None \<Rightarrow> 0 | Some n \<Rightarrow> n);
                      finish = (case json_get ''finish_reason'' choice of None \<Rightarrow> JNull | Some v \<Rightarrow> v)
                  in Some (uh_to_string U (JObj
                       [(''type'', JStr (lit ''openai_delta'')),
                        (''choices'', JArr [JObj [(''index'', JNum (PosInt index)), (''delta'', delta),
                           (''finish_reason'', finish)]])]))))"

definition ope_completion_legacy_text_enabled :: "env \<Rightarrow> bool" where
  "ope_completion_legacy_text_enabled env \<longleftrightarrow>
     (case env ''TEECHAT_OPE_COMPLETION_LEGACY_TEXT'' of None \<Rightarrow> False
      | Some v \<Rightarrow> to_ascii_lowercase (trim v) \<in> set [''1'', ''true'', ''yes''])"

definition stream_text_from_vllm_choice :: "json \<Rightarrow> utext option" where
  "stream_text_from_vllm_choice choice =
     (let deltas = stream_deltas_from_vllm_choice choice
      in if deltas = [] then None else Some (concat (map vd_text deltas)))"

definition parse_sse_data_line :: "upstream_host \<Rightarrow> utext \<Rightarrow> upstream_error + json option" where
  "parse_sse_data_line U data =
     (let trimmed = text_trim data
      in if trimmed = [] then Inr None
         else if trimmed = lit ''[DONE]'' then Inr None
         else case uh_from_str U trimmed of Inr v \<Rightarrow> Inr (Some v) | Inl e \<Rightarrow> Inl (UInvalidSse e))"

subsection \<open>Chat messages\<close>

definition text_part :: "json \<Rightarrow> utext option" where
  "text_part part =
     (case as_object part of None \<Rightarrow> None
      | Some _ \<Rightarrow> if get_str ''type'' part = Some (lit ''text'') then get_str ''text'' part else None)"

definition content_to_plain_text :: "upstream_host \<Rightarrow> json \<Rightarrow> utext" where
  "content_to_plain_text U content =
     (case content of
        JStr s \<Rightarrow> s
      | JArr parts \<Rightarrow>
          (case List.map_filter text_part parts of [] \<Rightarrow> [] | t # ts \<Rightarrow> t @ concat (map (\<lambda>u. 10 # u) ts))
      | other \<Rightarrow> uh_to_string U other)"

definition normalize_part :: "json \<Rightarrow> json option" where
  "normalize_part part =
     (case as_object part of None \<Rightarrow> None
      | Some _ \<Rightarrow>
         (let ty = get_str ''type'' part
          in if ty = Some (lit ''text'')
             then map_option (\<lambda>t. JObj [(''type'', JStr (lit ''text'')), (''text'', JStr t)]) (get_str ''text'' part)
             else if ty = Some (lit ''image_url'')
             then map_option (\<lambda>u. JObj [(''type'', JStr (lit ''image_url'')), (''image_url'', JObj [(''url'', JStr u)])])
                    (Option.bind (json_get ''image_url'' part) (get_str ''url''))
             else None))"

definition message_role :: "json \<Rightarrow> utext" where
  "message_role m = (case get_str ''role'' m of Some r \<Rightarrow> r | None \<Rightarrow> lit ''user'')"

definition normalize_content :: "upstream_host \<Rightarrow> json option \<Rightarrow> json" where
  "normalize_content U content =
     (case content of
        Some (JStr s) \<Rightarrow> JStr s
      | Some (JArr parts) \<Rightarrow>
          (let out_parts = List.map_filter normalize_part parts
           in if out_parts = [] then JStr (uh_to_string U (JArr parts)) else JArr out_parts)
      | Some JNull \<Rightarrow> JNull
      | Some other \<Rightarrow> JStr (uh_to_string U other)
      | None \<Rightarrow> JNull)"

definition keep_field :: "json \<Rightarrow> string \<Rightarrow> json \<Rightarrow> json" where
  "keep_field m key out =
     (case json_get key m of None \<Rightarrow> out | Some v \<Rightarrow> if v = JNull then out else json_set key v out)"

definition normalize_message :: "upstream_host \<Rightarrow> json \<Rightarrow> json" where
  "normalize_message U m =
     fold (keep_field m) [''tool_calls'', ''tool_call_id'', ''name'']
       (JObj [(''role'', JStr (message_role m)), (''content'', normalize_content U (json_get ''content'' m))])"

definition system_text :: "upstream_host \<Rightarrow> json \<Rightarrow> utext" where
  "system_text U m =
     text_trim (case json_get ''content'' m of None \<Rightarrow> [] | Some c \<Rightarrow> content_to_plain_text U c)"

definition is_system :: "json \<Rightarrow> bool" where
  "is_system m \<longleftrightarrow> message_role m = lit ''system''"

fun join_text :: "utext \<Rightarrow> utext list \<Rightarrow> utext" where
  "join_text sep [] = []"
| "join_text sep [t] = t"
| "join_text sep (t # ts) = t @ sep @ join_text sep ts"

definition normalize_vllm_messages :: "upstream_host \<Rightarrow> json list \<Rightarrow> json list" where
  "normalize_vllm_messages U messages =
     (let mapped = map (normalize_message U) messages;
          system_texts = filter (\<lambda>t. t \<noteq> []) (map (system_text U) (filter is_system mapped));
          rest = filter (\<lambda>m. \<not> is_system m) mapped
      in if system_texts = [] then mapped
         else JObj [(''role'', JStr (lit ''system'')), (''content'', JStr (join_text [10, 10] system_texts))] # rest)"

text \<open>\<^verbatim>\<open>(n as f64 / 4.0).ceil() as u64\<close>; dividing by four only lowers the exponent.\<close>

definition quarter_ceil :: "u64 \<Rightarrow> u64" where
  "quarter_ceil n = f64_to_u64 (f64_ceil (f64_mul (f64_round (uint n) 0) (F64 1 (- 2))))"

definition part_chars :: "json \<Rightarrow> nat" where
  "part_chars part = (case text_part part of None \<Rightarrow> 0 | Some t \<Rightarrow> utf8_len t)"

definition is_image_part :: "json \<Rightarrow> bool" where
  "is_image_part part \<longleftrightarrow> as_object part \<noteq> None \<and> get_str ''type'' part = Some (lit ''image_url'')"

definition message_chars :: "upstream_host \<Rightarrow> json \<Rightarrow> nat" where
  "message_chars U m =
     (case json_get ''content'' m of
        Some (JStr s) \<Rightarrow> utf8_len s
      | Some (JArr parts) \<Rightarrow> sum_list (map part_chars parts)
      | Some other \<Rightarrow> utf8_len (uh_to_string U other)
      | None \<Rightarrow> 0)"

definition message_images :: "json \<Rightarrow> nat" where
  "message_images m =
     (case json_get ''content'' m of Some (JArr parts) \<Rightarrow> length (filter is_image_part parts) | _ \<Rightarrow> 0)"

definition estimate_prompt_tokens_from_messages :: "upstream_host \<Rightarrow> json list \<Rightarrow> u64" where
  "estimate_prompt_tokens_from_messages U messages =
     (let chars = word_of_nat (sum_list (map (message_chars U) messages)) :: u64;
          images = word_of_nat (sum_list (map message_images messages)) :: u64
      in max (saturating_add (quarter_ceil chars) (saturating_mul images 512)) 1)"

subsection \<open>Configuration and routing\<close>

definition VLLM_MAX_TOKENS_DEFAULT :: u32 where "VLLM_MAX_TOKENS_DEFAULT = 4096"
definition VLLM_MAX_TOKENS_MIN :: u32 where "VLLM_MAX_TOKENS_MIN = 256"
definition VLLM_MAX_TOKENS_MAX :: u32 where "VLLM_MAX_TOKENS_MAX = 32768"

definition clamp_vllm_max_tokens :: "u32 \<Rightarrow> u32" where
  "clamp_vllm_max_tokens n =
     (if n < VLLM_MAX_TOKENS_MIN then VLLM_MAX_TOKENS_MIN
      else if VLLM_MAX_TOKENS_MAX < n then VLLM_MAX_TOKENS_MAX else n)"

text \<open>The value of the first variable that is set, trimmed, unless that is empty.\<close>

fun env_first :: "env \<Rightarrow> string list \<Rightarrow> string option" where
  "env_first env [] = None"
| "env_first env (k # ks) = (case env k of Some v \<Rightarrow> Some v | None \<Rightarrow> env_first env ks)"

definition env_pick :: "env \<Rightarrow> string list \<Rightarrow> string option" where
  "env_pick env ks =
     (case env_first env ks of None \<Rightarrow> None | Some v \<Rightarrow> if trim v = [] then None else Some (trim v))"

definition max_tokens_from_env :: "env \<Rightarrow> u32" where
  "max_tokens_from_env env =
     (case Option.bind (env_pick env [''TEECHAT_OPE_MAX_TOKENS'', ''TEECHAT_VLLM_MAX_TOKENS'']) parse_u32 of
        Some n \<Rightarrow> if 0 < n then clamp_vllm_max_tokens n else VLLM_MAX_TOKENS_DEFAULT
      | None \<Rightarrow> VLLM_MAX_TOKENS_DEFAULT)"

definition clamp_open_ai_penalty :: "f64 \<Rightarrow> f64" where
  "clamp_open_ai_penalty v = (case v of F64 m e \<Rightarrow> f64_clamp v f64_zero (F64 2 0) | _ \<Rightarrow> f64_zero)"

definition ends_with :: "string \<Rightarrow> string \<Rightarrow> bool" where
  "ends_with s suf \<longleftrightarrow> starts_with (rev s) (rev suf)"

definition normalize_base_url :: "string \<Rightarrow> string" where
  "normalize_base_url base_url = rev (dropWhile (\<lambda>c. c = CHR ''/'') (rev (trim base_url)))"

definition open_ai_chat_completions_url :: "string \<Rightarrow> string" where
  "open_ai_chat_completions_url base_url =
     (let base = normalize_base_url base_url
      in base @ (if ends_with base ''/v1'' then ''/chat/completions'' else ''/v1/chat/completions''))"

definition open_ai_embeddings_url :: "string \<Rightarrow> string" where
  "open_ai_embeddings_url base_url =
     (let base = normalize_base_url base_url
      in if ends_with base ''/embeddings'' then base
         else base @ (if ends_with base ''/v1'' then ''/embeddings'' else ''/v1/embeddings''))"

definition upstream_config :: "env \<Rightarrow> string list \<Rightarrow> string list \<Rightarrow> (string \<times> string option) option" where
  "upstream_config env url_keys key_keys =
     map_option (\<lambda>base_url. (base_url, env_pick env key_keys)) (env_pick env url_keys)"

definition embeddings_config_from_env :: "env \<Rightarrow> (string \<times> string option) option" where
  "embeddings_config_from_env env = upstream_config env
     [''TEECHAT_EMBEDDINGS_UPSTREAM_URL'', ''VLLM_EMBED_BASE_URL'', ''TEECHAT_VLLM_EMBED_BASE_URL'']
     [''TEECHAT_EMBEDDINGS_API_KEY'', ''VLLM_EMBED_API_KEY'', ''VLLM_API_KEY'', ''TEECHAT_VLLM_API_KEY'']"

definition embed_model_id_from_env :: "env \<Rightarrow> string option" where
  "embed_model_id_from_env env = env_pick env [''TEECHAT_EMBED_MODEL'', ''VLLM_EMBED_MODEL'', ''TEECHAT_EMBEDDINGS_MODEL'']"

definition vllm_task_config_from_env :: "env \<Rightarrow> (string \<times> string option) option" where
  "vllm_task_config_from_env env = upstream_config env
     [''VLLM_TASK_BASE_URL'', ''TEECHAT_TASK_VLLM_BASE_URL'', ''TEECHAT_VLLM_TASK_BASE_URL'']
     [''VLLM_TASK_API_KEY'', ''TEECHAT_TASK_VLLM_API_KEY'', ''VLLM_API_KEY'', ''TEECHAT_VLLM_API_KEY'']"

definition task_model_id_from_env :: "env \<Rightarrow> string option" where
  "task_model_id_from_env env =
     env_pick env [''TEECHAT_TASK_MODEL'', ''VITE_TASK_MODEL'', ''VLLM_TASK_MODEL'', ''OLLAMA_TASK_MODEL'']"

definition vllm_config_from_env :: "env \<Rightarrow> (string \<times> string option) option" where
  "vllm_config_from_env env = upstream_config env
     [''VLLM_BASE_URL'', ''TEECHAT_VLLM_BASE_URL''] [''VLLM_API_KEY'', ''TEECHAT_VLLM_API_KEY'']"

definition strip_model_provider :: "utext \<Rightarrow> utext" where
  "strip_model_provider model = takeWhile (\<lambda>c. c \<noteq> 64) model"

definition resolve_vllm_base_url_for_model ::
    "utext \<Rightarrow> string \<Rightarrow> string option \<Rightarrow> string option \<Rightarrow> string option \<Rightarrow> string option
     \<Rightarrow> string \<times> utext \<times> string option \<times> bool" where
  "resolve_vllm_base_url_for_model model main_base_url main_api_key task_model_id task_base_url task_api_key =
     (let stripped = strip_model_provider model; main = (main_base_url, stripped, main_api_key, False)
      in case (task_model_id, task_base_url) of
           (Some task_id, Some task_url) \<Rightarrow>
             if strip_model_provider (lit task_id) = stripped
             then (task_url, stripped, (case task_api_key of Some k \<Rightarrow> Some k | None \<Rightarrow> main_api_key), True)
             else main
         | _ \<Rightarrow> main)"

subsection \<open>Requests\<close>

definition merge_vllm_thinking_into_body :: "json \<Rightarrow> bool \<Rightarrow> json" where
  "merge_vllm_thinking_into_body body enable_thinking =
     (let kwargs = (case json_get ''chat_template_kwargs'' body of None \<Rightarrow> JObj [] | Some v \<Rightarrow> v);
          kwargs = (if as_object kwargs = None then kwargs
                    else json_set ''enable_thinking'' (JBool enable_thinking) kwargs)
      in json_set ''chat_template_kwargs'' kwargs body)"

record vllm_usage_state =
  vu_prompt_tokens :: "u64 option"
  vu_completion_tokens :: "u64 option"
  vu_cached_tokens :: "u64 option"
  vu_finish_reason :: "utext option"

definition vllm_usage_default :: vllm_usage_state where
  "vllm_usage_default = \<lparr>vu_prompt_tokens = None, vu_completion_tokens = None, vu_cached_tokens = None,
     vu_finish_reason = None\<rparr>"

definition parse_vllm_usage :: "json \<Rightarrow> vllm_usage_state" where
  "parse_vllm_usage usage =
     (if as_object usage = None then vllm_usage_default
      else vllm_usage_default\<lparr>vu_prompt_tokens := get_u64 ''prompt_tokens'' usage,
        vu_completion_tokens := get_u64 ''completion_tokens'' usage,
        vu_cached_tokens :=
          (case Option.bind (json_get ''prompt_tokens_details'' usage) (get_u64 ''cached_tokens'') of
             Some n \<Rightarrow> Some n | None \<Rightarrow> get_u64 ''cached_tokens'' usage)\<rparr>)"

definition or_else :: "'a option \<Rightarrow> 'a option \<Rightarrow> 'a option" where
  "or_else a b = (case a of Some x \<Rightarrow> Some x | None \<Rightarrow> b)"

definition apply_vllm_usage_state :: "vllm_usage_state \<Rightarrow> json \<Rightarrow> vllm_usage_state" where
  "apply_vllm_usage_state target usage =
     (let parsed = parse_vllm_usage usage
      in target\<lparr>vu_prompt_tokens := or_else (vu_prompt_tokens parsed) (vu_prompt_tokens target),
           vu_completion_tokens := or_else (vu_completion_tokens parsed) (vu_completion_tokens target),
           vu_cached_tokens := or_else (vu_cached_tokens parsed) (vu_cached_tokens target)\<rparr>)"

record vllm_stream_options =
  vo_base_url :: string
  vo_model :: utext
  vo_messages :: "json list"
  vo_api_key :: "string option"
  vo_max_tokens :: "u32 option"
  vo_frequency_penalty :: "f64 option"
  vo_presence_penalty :: "f64 option"
  vo_temperature :: "f64 option"
  vo_top_p :: "f64 option"
  vo_enable_thinking :: "bool option"
  vo_legacy_completion_text :: bool
  vo_tools :: "json option"
  vo_tool_choice :: "json option"

definition json_f64 :: "f64 \<Rightarrow> json" where
  "json_f64 x = (case x of F64 m e \<Rightarrow> JNum (JFloat x) | _ \<Rightarrow> JNull)"

definition json_u32 :: "u32 \<Rightarrow> json" where
  "json_u32 n = JNum (PosInt (ucast n))"

definition set_opt :: "string \<Rightarrow> json option \<Rightarrow> json \<Rightarrow> json" where
  "set_opt k v j = (case v of None \<Rightarrow> j | Some x \<Rightarrow> json_set k x j)"

definition build_vllm_chat_body :: "bool \<Rightarrow> vllm_stream_options \<Rightarrow> json" where
  "build_vllm_chat_body stream opts =
     (let body = JObj [(''model'', JStr (vo_model opts)), (''messages'', JArr (vo_messages opts)),
            (''stream'', JBool stream),
            (''max_tokens'', json_u32 (case vo_max_tokens opts of None \<Rightarrow> VLLM_MAX_TOKENS_DEFAULT | Some n \<Rightarrow> n))];
          body = (if stream then json_set ''stream_options'' (JObj [(''include_usage'', JBool True)]) body else body);
          body = set_opt ''frequency_penalty''
            (map_option (\<lambda>v. json_f64 (clamp_open_ai_penalty v)) (vo_frequency_penalty opts)) body;
          body = set_opt ''presence_penalty''
            (map_option (\<lambda>v. json_f64 (clamp_open_ai_penalty v)) (vo_presence_penalty opts)) body;
          body = set_opt ''temperature'' (map_option json_f64 (vo_temperature opts)) body;
          body = set_opt ''top_p'' (map_option json_f64 (vo_top_p opts)) body;
          body = set_opt ''tools'' (vo_tools opts) body;
          body = set_opt ''tool_choice'' (vo_tool_choice opts) body
      in case vo_enable_thinking opts of None \<Rightarrow> body
         | Some enable \<Rightarrow> merge_vllm_thinking_into_body body enable)"

fun chunks_bytes :: "(string + int list) list \<Rightarrow> string + int list" where
  "chunks_bytes [] = Inr []"
| "chunks_bytes (Inl e # cs) = Inl e"
| "chunks_bytes (Inr bs # cs) = (case chunks_bytes cs of Inl e \<Rightarrow> Inl e | Inr r \<Rightarrow> Inr (bs @ r))"

definition response_text :: "http_response \<Rightarrow> utext" where
  "response_text r = (case chunks_bytes (hr_chunks r) of Inl e \<Rightarrow> [] | Inr bs \<Rightarrow> from_utf8_lossy bs)"

definition is_success :: "u16 \<Rightarrow> bool" where
  "is_success status \<longleftrightarrow> 200 \<le> status \<and> status < 300"

text \<open>\<^verbatim>\<open>send\<close> with the status check; an error body is cut after \<open>limit\<close> characters.\<close>

definition send_checked ::
    "upstream_host \<Rightarrow> nat \<Rightarrow> string \<Rightarrow> string option \<Rightarrow> json \<Rightarrow> upstream_error + http_response" where
  "send_checked U limit url api_key body =
     (case uh_post U url (case api_key of Some k \<Rightarrow> if k = [] then None else Some k | None \<Rightarrow> None) body of
        Inl e \<Rightarrow> Inl (URequest e)
      | Inr r \<Rightarrow> if is_success (hr_status r) then Inr r else Inl (UHttp (hr_status r) (take limit (response_text r))))"

definition response_json :: "upstream_host \<Rightarrow> http_response \<Rightarrow> upstream_error + json" where
  "response_json U r =
     (case chunks_bytes (hr_chunks r) of Inl e \<Rightarrow> Inl (URequest e)
      | Inr bs \<Rightarrow> (case uh_from_slice U bs of Inl e \<Rightarrow> Inl (URequest e) | Inr v \<Rightarrow> Inr v))"

definition first_choice :: "json \<Rightarrow> json option" where
  "first_choice v =
     (case Option.bind (json_get ''choices'' v) as_array of Some (c # cs) \<Rightarrow> Some c | _ \<Rightarrow> None)"

definition complete_chat :: "upstream_host \<Rightarrow> vllm_stream_options \<Rightarrow> upstream_error + utext" where
  "complete_chat U opts =
     (case send_checked U 400 (open_ai_chat_completions_url (vo_base_url opts)) (vo_api_key opts)
        (build_vllm_chat_body False opts) of
        Inl e \<Rightarrow> Inl e
      | Inr r \<Rightarrow>
         (case response_json U r of Inl e \<Rightarrow> Inl e
          | Inr data \<Rightarrow>
              let message = Option.bind (first_choice data) (json_get ''message'')
              in Inr (text_trim (case Option.bind message (get_str ''content'') of None \<Rightarrow> [] | Some c \<Rightarrow> c))))"

record embeddings_complete_options =
  eo_base_url :: string
  eo_api_key :: "string option"
  eo_model :: utext
  eo_input :: json
  eo_extra :: "json option"

record embeddings_complete_result =
  ers_body :: json
  ers_prompt_tokens :: u64

definition positive :: "u64 option \<Rightarrow> u64 option" where
  "positive n = (case n of Some k \<Rightarrow> if 0 < k then Some k else None | None \<Rightarrow> None)"

definition complete_embeddings ::
    "upstream_host \<Rightarrow> embeddings_complete_options \<Rightarrow> upstream_error + embeddings_complete_result" where
  "complete_embeddings U opts =
     (let payload = JObj [(''model'', JStr (eo_model opts)), (''input'', eo_input opts)];
          payload = (case Option.bind (eo_extra opts) as_object of None \<Rightarrow> payload
            | Some kvs \<Rightarrow> fold (\<lambda>(k, v). json_set k v) kvs payload)
      in case send_checked U 500 (open_ai_embeddings_url (eo_base_url opts)) (eo_api_key opts) payload of
           Inl e \<Rightarrow> Inl e
         | Inr r \<Rightarrow>
            (case response_json U r of Inl e \<Rightarrow> Inl e
             | Inr body \<Rightarrow>
                (let usage = (case json_get ''usage'' body of None \<Rightarrow> JNull | Some u \<Rightarrow> u);
                     approx = max (quarter_ceil (word_of_nat (utf8_len (uh_to_string U (eo_input opts))))) 1;
                     n = or_else (positive (get_u64 ''prompt_tokens'' usage)) (positive (get_u64 ''total_tokens'' usage))
                 in Inr \<lparr>ers_body = body, ers_prompt_tokens = (case n of Some k \<Rightarrow> k | None \<Rightarrow> approx)\<rparr>)))"

subsection \<open>Normalisation is stable\<close>

lemma update_fresh: "k \<notin> fst ` set al \<Longrightarrow> AList.update k v al = al @ [(k, v)]"
  by (induction al) auto

definition kept_field :: "json \<Rightarrow> string \<Rightarrow> (string \<times> json) list" where
  "kept_field m k = (case json_get k m of None \<Rightarrow> [] | Some v \<Rightarrow> if v = JNull then [] else [(k, v)])"

lemma keep_field_append: "k \<notin> fst ` set kvs \<Longrightarrow> keep_field m k (JObj kvs) = JObj (kvs @ kept_field m k)"
  by (simp add: keep_field_def kept_field_def update_fresh split: option.split)

lemma kept_field_keys: "fst ` set (kept_field m k) \<subseteq> {k}"
  by (auto simp: kept_field_def split: option.splits if_splits)

lemma normalize_message_form:
  "normalize_message U m = JObj ([(''role'', JStr (message_role m)), (''content'', normalize_content U (json_get ''content'' m))]
     @ kept_field m ''tool_calls'' @ kept_field m ''tool_call_id'' @ kept_field m ''name'')"
proof -
  let ?base = "[(''role'', JStr (message_role m)), (''content'', normalize_content U (json_get ''content'' m))]"
  have "keep_field m ''tool_calls'' (JObj ?base) = JObj (?base @ kept_field m ''tool_calls'')"
    by (rule keep_field_append) simp
  moreover have "keep_field m ''tool_call_id'' (JObj (?base @ kept_field m ''tool_calls''))
      = JObj ((?base @ kept_field m ''tool_calls'') @ kept_field m ''tool_call_id'')"
    using kept_field_keys [of m "''tool_calls''"] by (intro keep_field_append) auto
  moreover have "keep_field m ''name'' (JObj ((?base @ kept_field m ''tool_calls'') @ kept_field m ''tool_call_id''))
      = JObj (((?base @ kept_field m ''tool_calls'') @ kept_field m ''tool_call_id'') @ kept_field m ''name'')"
    using kept_field_keys [of m "''tool_calls''"] kept_field_keys [of m "''tool_call_id''"]
    by (intro keep_field_append) auto
  ultimately show ?thesis by (simp add: normalize_message_def)
qed

lemma kept_field_get: "map_of (kept_field m k) k' = (if k = k' then (case json_get k m of Some JNull \<Rightarrow> None | v \<Rightarrow> v) else None)"
  by (auto simp: kept_field_def split: option.split json.split)

lemma normalize_message_get:
  "json_get ''role'' (normalize_message U m) = Some (JStr (message_role m))"
  "json_get ''content'' (normalize_message U m) = Some (normalize_content U (json_get ''content'' m))"
  "kept_field (normalize_message U m) ''tool_calls'' = kept_field m ''tool_calls''"
  "kept_field (normalize_message U m) ''tool_call_id'' = kept_field m ''tool_call_id''"
  "kept_field (normalize_message U m) ''name'' = kept_field m ''name''"
  by (simp_all add: normalize_message_form kept_field_def [of "JObj _"] kept_field_get map_add_def,
      simp_all add: kept_field_def split: option.split json.split)

lemma message_role_normalized [simp]: "message_role (normalize_message U m) = message_role m"
  by (simp add: message_role_def [of "normalize_message U m"] get_str_def normalize_message_get)

lemma normalize_part_idem: "normalize_part p = Some q \<Longrightarrow> normalize_part q = Some q"
  by (auto simp: normalize_part_def get_str_def Let_def lit_def split: option.splits if_splits)

lemma map_filter_normalize_idem: "List.map_filter normalize_part (List.map_filter normalize_part ps) = List.map_filter normalize_part ps"
  by (induction ps) (auto simp: map_filter_simps dest: normalize_part_idem split: option.split)

lemma normalize_content_idem [simp]: "normalize_content U (Some (normalize_content U c)) = normalize_content U c"
  by (auto simp: normalize_content_def Let_def map_filter_normalize_idem split: option.split json.split)

lemma normalize_message_idem [simp]: "normalize_message U (normalize_message U m) = normalize_message U m"
  unfolding normalize_message_form [of U "normalize_message U m"]
  by (simp add: normalize_message_get) (simp add: normalize_message_form)

lemma normalize_message_comp [simp]: "normalize_message U \<circ> normalize_message U = normalize_message U"
  by (simp add: fun_eq_iff)

lemma join_text_ends:
  "ts \<noteq> [] \<Longrightarrow> \<forall>t\<in>set ts. t \<noteq> [] \<Longrightarrow> join_text sep ts \<noteq> [] \<and> hd (join_text sep ts) = hd (hd ts) \<and> last (join_text sep ts) = last (last ts)"
  by (induction sep ts rule: join_text.induct) (auto simp: last_append)

lemma join_text_trimmed:
  assumes "ts \<noteq> []" "\<forall>t\<in>set ts. t \<noteq> [] \<and> text_trim t = t"
  shows "text_trim (join_text sep ts) = join_text sep ts" "join_text sep ts \<noteq> []"
proof -
  have "join_text sep ts \<noteq> [] \<and> hd (join_text sep ts) = hd (hd ts) \<and> last (join_text sep ts) = last (last ts)"
    using assms by (intro join_text_ends) auto
  moreover have "\<not> white_space (hd (hd ts))" "\<not> white_space (last (last ts))"
    using assms text_trim_ends [of "hd ts"] text_trim_ends [of "last ts"] by auto
  ultimately show "text_trim (join_text sep ts) = join_text sep ts" "join_text sep ts \<noteq> []"
    by (auto intro: text_trim_fixed)
qed

lemma system_text_normalized [simp]: "text_trim (system_text U m) = system_text U m"
  by (simp add: system_text_def)

definition system_texts :: "upstream_host \<Rightarrow> json list \<Rightarrow> utext list" where
  "system_texts U mapped = filter (\<lambda>t. t \<noteq> []) (map (system_text U) (filter is_system mapped))"

definition system_turn :: "utext \<Rightarrow> json" where
  "system_turn t = JObj [(''role'', JStr (lit ''system'')), (''content'', JStr t)]"

lemma normalize_vllm_messages_cases:
  "normalize_vllm_messages U ms =
     (let mapped = map (normalize_message U) ms; texts = system_texts U mapped
      in if texts = [] then mapped else system_turn (join_text [10, 10] texts) # filter (\<lambda>m. \<not> is_system m) mapped)"
  by (simp add: normalize_vllm_messages_def system_texts_def system_turn_def Let_def)

lemma system_turn_simps [simp]:
  "normalize_message U (system_turn t) = system_turn t" "is_system (system_turn t)"
  "system_text U (system_turn t) = text_trim t"
  by (simp_all add: normalize_message_form system_turn_def message_role_def get_str_def normalize_content_def
      kept_field_def is_system_def system_text_def content_to_plain_text_def)

lemma is_system_normalized [simp]: "is_system (normalize_message U m) = is_system m"
  by (simp add: is_system_def)

text \<open>
  Normalising chat messages is stable and orderly: doing it twice changes nothing more, every
  turn that is not a system turn is kept in order, and unless all system turns are blank the result
  has exactly one system turn, at its head.
\<close>

theorem normalized_messages_stable:
  "normalize_vllm_messages U (normalize_vllm_messages U ms) = normalize_vllm_messages U ms
   \<and> filter (\<lambda>m. \<not> is_system m) (normalize_vllm_messages U ms)
      = map (normalize_message U) (filter (\<lambda>m. \<not> is_system m) ms)
   \<and> (system_texts U (map (normalize_message U) ms) = []
      \<or> filter is_system (normalize_vllm_messages U ms) = [hd (normalize_vllm_messages U ms)])"
proof -
  let ?mapped = "map (normalize_message U) ms" let ?texts = "system_texts U ?mapped"
  have rest: "map (normalize_message U) (filter (\<lambda>m. \<not> is_system m) ?mapped) = filter (\<lambda>m. \<not> is_system m) ?mapped"
    by (induction ms) simp_all
  have nonsys: "filter (\<lambda>m. \<not> is_system m) ?mapped = map (normalize_message U) (filter (\<lambda>m. \<not> is_system m) ms)"
    by (induction ms) simp_all
  show ?thesis
  proof (cases "?texts = []")
    case True
    then have "normalize_vllm_messages U ms = ?mapped" by (simp add: normalize_vllm_messages_cases)
    then show ?thesis using True nonsys by (simp add: normalize_vllm_messages_cases [of U ?mapped] Let_def)
  next
    case False
    let ?t = "join_text [10, 10] ?texts"
    have out: "normalize_vllm_messages U ms = system_turn ?t # filter (\<lambda>m. \<not> is_system m) ?mapped"
      using False by (simp add: normalize_vllm_messages_cases Let_def)
    have "\<forall>t\<in>set ?texts. t \<noteq> [] \<and> text_trim t = t" by (auto simp: system_texts_def)
    then have trimmed: "text_trim ?t = ?t" "?t \<noteq> []" using False join_text_trimmed by blast+
    have "system_texts U (system_turn ?t # filter (\<lambda>m. \<not> is_system m) ?mapped) = [?t]"
      using trimmed by (simp add: system_texts_def)
    then have "normalize_vllm_messages U (system_turn ?t # filter (\<lambda>m. \<not> is_system m) ?mapped)
        = system_turn ?t # filter (\<lambda>m. \<not> is_system m) ?mapped"
      using rest by (simp add: normalize_vllm_messages_cases Let_def)
    then show ?thesis using out nonsys by simp
  qed
qed

subsection \<open>Token counts\<close>

lemma f64_round_exact:
  assumes "0 < m" "m < 2 ^ 53" "- 1074 \<le> e" "e \<le> 0"
  shows "f64_round m e = F64 m e"
proof -
  have "bitlen m \<le> 53" using bitlen_less_power [of m 53] assms by simp
  then show ?thesis using assms by (simp add: f64_round_def Let_def round_half_even_zero_shift)
qed

lemma quarter_ceil_exact:
  assumes "uint n < 2 ^ 53"
  shows "uint (quarter_ceil n) = (uint n + 3) div 4"
proof (cases "n = 0")
  case True
  then show ?thesis by (simp add: quarter_ceil_def f64_round_def round_half_even_def f64_to_u64_def)
next
  case False
  have pos: "0 < uint n" using False by (simp add: uint_0_iff order_less_le)
  then have mul: "f64_mul (f64_round (uint n) 0) (F64 1 (- 2)) = F64 (uint n) (- 2)"
    using assms by (simp add: f64_round_exact)
  have ceil: "- ((- uint n) div 4) = (uint n + 3) div 4" by linarith
  have "0 < (uint n + 3) div 4" "(uint n + 3) div 4 < 2 ^ 53" using pos assms by linarith+
  moreover have "f64_ceil (F64 (uint n) (- 2)) = F64 ((uint n + 3) div 4) 0" using ceil by simp
  ultimately show ?thesis
    unfolding quarter_ceil_def mul f64_to_u64_def by (simp add: min_def uint_word_of_int take_bit_int_eq_self)
qed

lemma clamp_vllm_max_tokens_bounds: "256 \<le> clamp_vllm_max_tokens n" "clamp_vllm_max_tokens n \<le> 32768"
  by (auto simp: clamp_vllm_max_tokens_def VLLM_MAX_TOKENS_MIN_def VLLM_MAX_TOKENS_MAX_def not_less)

end
