(* ===== verification/Upstream_Stream.thy ===== *)
theory Upstream_Stream
  imports Upstream
begin

section \<open>The streaming client\<close>

text \<open>
  \<^verbatim>\<open>VllmSseStream\<close> of \<^verbatim>\<open>ie-upstream/src/client.rs\<close>: the poll function that reads byte chunks, cuts
  lines and queues text deltas. Waiting for the next chunk is not modelled, the chunks are a list.
  The main lemma is a refinement: whatever the chunking, the stream yields what a one-pass reading
  of the decoded text line by line yields. Further lemmas show where the thinking separator stands
  and that a character split between two chunks is lost.
\<close>

record vllm_sse_stream =
  ss_chunks :: "(string + int list) list"
  ss_buffer :: utext
  ss_pending :: "utext list"
  ss_saw_reasoning :: bool
  ss_boundary_emitted :: bool
  ss_legacy :: bool
  ss_usage :: vllm_usage_state

definition sse_stream_new :: "bool \<Rightarrow> (string + int list) list \<Rightarrow> vllm_sse_stream" where
  "sse_stream_new legacy chunks =
     \<lparr>ss_chunks = chunks, ss_buffer = [], ss_pending = [], ss_saw_reasoning = False,
      ss_boundary_emitted = False, ss_legacy = legacy, ss_usage = vllm_usage_default\<rparr>"

definition stream_chat_completion :: "upstream_host \<Rightarrow> vllm_stream_options \<Rightarrow> upstream_error + vllm_sse_stream" where
  "stream_chat_completion U opts =
     (case send_checked U 400 (open_ai_chat_completions_url (vo_base_url opts)) (vo_api_key opts)
        (build_vllm_chat_body True opts) of
        Inl e \<Rightarrow> Inl e
      | Inr r \<Rightarrow> Inr (sse_stream_new (vo_legacy_completion_text opts) (hr_chunks r)))"

subsection \<open>Lines\<close>

text \<open>The loop over the deltas of a choice in legacy mode.\<close>

fun push_delta :: "vllm_text_delta \<Rightarrow> vllm_sse_stream \<Rightarrow> vllm_sse_stream" where
  "push_delta d s =
     (case vd_kind d of
        Reasoning \<Rightarrow> s\<lparr>ss_saw_reasoning := True, ss_pending := ss_pending s @ [vd_text d]\<rparr>
      | Content \<Rightarrow>
         (let s = (if ss_saw_reasoning s \<and> \<not> ss_boundary_emitted s
                   then s\<lparr>ss_boundary_emitted := True, ss_pending := ss_pending s @ [STREAM_THINKING_SEPARATOR]\<rparr>
                   else s)
          in s\<lparr>ss_pending := ss_pending s @ [vd_text d]\<rparr>))"

declare push_delta.simps [simp del]

definition enqueue_choice :: "upstream_host \<Rightarrow> json \<Rightarrow> vllm_sse_stream \<Rightarrow> vllm_sse_stream" where
  "enqueue_choice U choice s =
     (let s = (case finish_reason_from_vllm_choice choice of None \<Rightarrow> s
            | Some reason \<Rightarrow> s\<lparr>ss_usage := (ss_usage s)\<lparr>vu_finish_reason := Some reason\<rparr>\<rparr>)
      in if ss_legacy s then fold push_delta (stream_deltas_from_vllm_choice choice) s
         else case openai_delta_frame_from_vllm_choice U choice of None \<Rightarrow> s
           | Some frame \<Rightarrow> s\<lparr>ss_pending := ss_pending s @ [frame]\<rparr>)"

definition enqueue_sse_line ::
    "upstream_host \<Rightarrow> utext \<Rightarrow> vllm_sse_stream \<Rightarrow> upstream_error option \<times> vllm_sse_stream" where
  "enqueue_sse_line U line s =
     (case strip_prefix (lit ''data:'') (text_trim line) of None \<Rightarrow> (None, s)
      | Some rest \<Rightarrow>
         (let data = text_trim rest
          in if data = lit ''[DONE]'' then (None, s)
             else case parse_sse_data_line U data of
                 Inl e \<Rightarrow> (Some e, s)
               | Inr None \<Rightarrow> (None, s)
               | Inr (Some chunk) \<Rightarrow>
                  (let s = (case json_get ''usage'' chunk of None \<Rightarrow> s
                         | Some usage \<Rightarrow> s\<lparr>ss_usage := apply_vllm_usage_state (ss_usage s) usage\<rparr>)
                   in case first_choice chunk of None \<Rightarrow> (None, s)
                      | Some choice \<Rightarrow> (None, enqueue_choice U choice s))))"

subsection \<open>Polling\<close>

fun take_line :: "utext \<Rightarrow> (utext \<times> utext) option" where
  "take_line [] = None"
| "take_line (c # cs) = (if c = 10 then Some ([], cs)
     else case take_line cs of None \<Rightarrow> None | Some (l, r) \<Rightarrow> Some (c # l, r))"

definition trim_end_char :: "int \<Rightarrow> utext \<Rightarrow> utext" where
  "trim_end_char c t = rev (dropWhile (\<lambda>x. x = c) (rev t))"

definition clean_line :: "utext \<Rightarrow> utext" where
  "clean_line line = text_trim (trim_end_char 13 (trim_end_char 10 line))"

definition pop_pending ::
    "vllm_sse_stream \<Rightarrow> (upstream_error + utext) option \<times> vllm_sse_stream" where
  "pop_pending s = (case ss_pending s of [] \<Rightarrow> (None, s) | t # ts \<Rightarrow> (Some (Inr t), s\<lparr>ss_pending := ts\<rparr>))"

text \<open>What a poll does when the byte stream has ended.\<close>

definition poll_end :: "upstream_host \<Rightarrow> vllm_sse_stream \<Rightarrow> (upstream_error + utext) option \<times> vllm_sse_stream" where
  "poll_end U s =
     (case (if ss_buffer s = [] then (None, s)
            else enqueue_sse_line U (text_trim (ss_buffer s)) (s\<lparr>ss_buffer := []\<rparr>)) of
        (Some e, s) \<Rightarrow> (Some (Inl e), s)
      | (None, s) \<Rightarrow>
         pop_pending (if ss_legacy s \<and> ss_saw_reasoning s \<and> \<not> ss_boundary_emitted s
                      then s\<lparr>ss_boundary_emitted := True, ss_pending := ss_pending s @ [STREAM_THINKING_SEPARATOR]\<rparr>
                      else s))"

lemma push_delta_fields [simp]:
  "ss_chunks (push_delta d s) = ss_chunks s" "ss_buffer (push_delta d s) = ss_buffer s"
  "ss_legacy (push_delta d s) = ss_legacy s"
  by (simp_all add: push_delta.simps Let_def split: vllm_text_kind.split)

lemma fold_push_fields [simp]:
  "ss_chunks (fold push_delta ds s) = ss_chunks s" "ss_buffer (fold push_delta ds s) = ss_buffer s"
  "ss_legacy (fold push_delta ds s) = ss_legacy s"
  by (induction ds arbitrary: s) simp_all

lemma enqueue_choice_fields [simp]:
  "ss_chunks (enqueue_choice U c s) = ss_chunks s" "ss_buffer (enqueue_choice U c s) = ss_buffer s"
  "ss_legacy (enqueue_choice U c s) = ss_legacy s"
  by (simp_all add: enqueue_choice_def Let_def split: option.split)

lemma enqueue_line_fields:
  "enqueue_sse_line U line s = (e, s') \<Longrightarrow>
   ss_chunks s' = ss_chunks s \<and> ss_buffer s' = ss_buffer s \<and> ss_legacy s' = ss_legacy s"
  by (auto simp: enqueue_sse_line_def Let_def split: option.splits sum.splits if_splits)

lemma take_line_split: "take_line b = Some (l, r) \<Longrightarrow> b = l @ 10 # r \<and> 10 \<notin> set l"
  by (induction b arbitrary: l) (auto split: if_splits option.splits)

lemma take_line_length: "take_line b = Some (l, r) \<Longrightarrow> length r < length b"
  by (drule take_line_split) simp

lemma take_line_append: "10 \<notin> set l \<Longrightarrow> take_line (l @ 10 # r) = Some (l, r)"
  by (induction l) auto

lemma take_line_None: "take_line b = None \<longleftrightarrow> 10 \<notin> set b"
  by (induction b) (auto split: option.splits)

text \<open>
  The loop of \<^verbatim>\<open>poll_next\<close>: queued text first, then the next complete line of the buffer, then the
  next chunk. After a line that queued nothing the loop goes on, so the test of the queue at its
  head also stands for the one after the line.
\<close>

function poll_next :: "upstream_host \<Rightarrow> vllm_sse_stream \<Rightarrow> (upstream_error + utext) option \<times> vllm_sse_stream" where
  "poll_next U s =
     (if ss_pending s \<noteq> [] then pop_pending s
      else case take_line (ss_buffer s) of
        Some (line, rest) \<Rightarrow>
          (case enqueue_sse_line U (clean_line (line @ [10])) (s\<lparr>ss_buffer := rest\<rparr>) of
             (Some e, s) \<Rightarrow> (Some (Inl e), s)
           | (None, s) \<Rightarrow> poll_next U s)
      | None \<Rightarrow>
          (case ss_chunks s of
             Inr chunk # chunks \<Rightarrow>
               poll_next U (s\<lparr>ss_buffer := ss_buffer s @ from_utf8_lossy chunk, ss_chunks := chunks\<rparr>)
           | Inl e # chunks \<Rightarrow> (Some (Inl (URequest e)), s\<lparr>ss_chunks := chunks\<rparr>)
           | [] \<Rightarrow> poll_end U s))"
  by auto
termination
  by (relation "inv_image (less_than <*lex*> less_than) (\<lambda>(U, s). (length (ss_chunks s), length (ss_buffer s)))")
    (auto dest!: enqueue_line_fields [OF sym] dest: take_line_length)

declare poll_next.simps [simp del]

text \<open>
  A consumer that polls until the stream ends or fails, as the inference loop does: the texts, the
  error if there was one, and the stream afterwards. Each poll that yields text makes progress in
  the chunks, the buffer, the pending separator or the queue.
\<close>

definition stream_order :: "(vllm_sse_stream \<times> vllm_sse_stream) set" where
  "stream_order = inv_image (less_than <*lex*> less_than <*lex*> less_than <*lex*> less_than)
     (\<lambda>s. (length (ss_chunks s), length (ss_buffer s), if ss_boundary_emitted s then 0 else 1, length (ss_pending s)))"

lemma stream_order_wf: "wf stream_order"
  unfolding stream_order_def by (intro wf_inv_image wf_lex_prod wf_less_than)

lemma stream_order_trans: "(a, b) \<in> stream_order \<Longrightarrow> (b, c) \<in> stream_order \<Longrightarrow> (a, c) \<in> stream_order"
  by (auto simp: stream_order_def)

lemma line_progress:
  "take_line (ss_buffer s) = Some (l, r) \<Longrightarrow> enqueue_sse_line U x (s\<lparr>ss_buffer := r\<rparr>) = (e, s') \<Longrightarrow>
   (s', s) \<in> stream_order"
  using enqueue_line_fields [of U x "s\<lparr>ss_buffer := r\<rparr>" e s'] take_line_split [of "ss_buffer s" l r]
  by (auto simp: stream_order_def)

lemma chunk_progress:
  "ss_chunks s = c # cs \<Longrightarrow> (s\<lparr>ss_buffer := b, ss_chunks := cs\<rparr>, s) \<in> stream_order"
  by (simp add: stream_order_def)

lemma poll_end_progress:
  assumes "poll_end U s = (Some (Inr t), s')" "ss_pending s = []"
  shows "(s', s) \<in> stream_order"
proof (cases "ss_buffer s = []")
  case True
  then show ?thesis using assms
    by (auto simp: poll_end_def pop_pending_def stream_order_def split: if_splits list.splits)
next
  case False
  obtain e s1 where enq: "enqueue_sse_line U (text_trim (ss_buffer s)) (s\<lparr>ss_buffer := []\<rparr>) = (e, s1)" by fastforce
  with enqueue_line_fields [OF enq] False assms show ?thesis
    by (auto simp: poll_end_def pop_pending_def stream_order_def split: if_splits list.splits option.splits)
qed

lemma poll_progress: "poll_next U s = (Some (Inr t), s') \<Longrightarrow> (s', s) \<in> stream_order"
proof (induction s rule: wf_induct_rule [OF stream_order_wf])
  case (1 s)
  show ?case
  proof (cases "ss_pending s = []")
    case False
    then show ?thesis using "1.prems"
      by (auto simp: poll_next.simps [of U s] pop_pending_def stream_order_def split: list.splits)
  next
    case pending: True
    show ?thesis
    proof (cases "take_line (ss_buffer s)")
      case (Some lr)
      obtain l r where lr: "lr = (l, r)" by fastforce
      obtain e s1 where enq: "enqueue_sse_line U (clean_line (l @ [10])) (s\<lparr>ss_buffer := r\<rparr>) = (e, s1)" by fastforce
      with pending Some lr "1.prems" have "e = None" "poll_next U s1 = (Some (Inr t), s')"
        by (auto simp: poll_next.simps [of U s] split: option.splits)
      moreover have "(s1, s) \<in> stream_order" using line_progress [OF _ enq] Some lr by blast
      ultimately show ?thesis using "1.IH" stream_order_trans by blast
    next
      case None
      then show ?thesis
      proof (cases "ss_chunks s")
        case Nil
        then show ?thesis using "1.prems" pending None poll_end_progress by (simp add: poll_next.simps [of U s])
      next
        case (Cons c cs)
        then show ?thesis
        proof (cases c)
          case (Inl e)
          then show ?thesis using "1.prems" pending None Cons by (simp add: poll_next.simps [of U s])
        next
          case (Inr chunk)
          let ?s = "s\<lparr>ss_buffer := ss_buffer s @ from_utf8_lossy chunk, ss_chunks := cs\<rparr>"
          have "poll_next U ?s = (Some (Inr t), s')"
            using "1.prems" pending None Cons Inr by (simp add: poll_next.simps [of U s])
          moreover have "(?s, s) \<in> stream_order" by (rule chunk_progress [OF Cons])
          ultimately show ?thesis using "1.IH" stream_order_trans by blast
        qed
      qed
    qed
  qed
qed

function drain_stream :: "upstream_host \<Rightarrow> vllm_sse_stream \<Rightarrow> utext list \<times> upstream_error option \<times> vllm_sse_stream" where
  "drain_stream U s =
     (case poll_next U s of
        (None, s') \<Rightarrow> ([], None, s')
      | (Some (Inl e), s') \<Rightarrow> ([], Some e, s')
      | (Some (Inr t), s') \<Rightarrow> (let (ts, e, s'') = drain_stream U s' in (t # ts, e, s'')))"
  by auto
termination
  by (relation "inv_image stream_order snd") (auto simp: stream_order_wf poll_progress [OF sym])

declare drain_stream.simps [simp del]

subsection \<open>A line reader as specification\<close>

text \<open>
  What the stream should yield, in one pass: decode the chunks received before the first transport
  error, cut the text at line ends, read the lines one after the other, and when the body ended
  regularly read the last unterminated line and close an open thinking section.
\<close>

fun received :: "(string + int list) list \<Rightarrow> utext \<times> string option" where
  "received [] = ([], None)"
| "received (Inl e # cs) = ([], Some e)"
| "received (Inr chunk # cs) = (let (t, e) = received cs in (from_utf8_lossy chunk @ t, e))"

fun split_lines :: "utext \<Rightarrow> utext list \<times> utext" where
  "split_lines [] = ([], [])"
| "split_lines (c # cs) =
     (let (ls, r) = split_lines cs
      in if c = 10 then ([] # ls, r) else case ls of [] \<Rightarrow> ([], c # r) | l # ls' \<Rightarrow> ((c # l) # ls', r))"

fun read_lines :: "upstream_host \<Rightarrow> utext list \<Rightarrow> vllm_sse_stream \<Rightarrow> upstream_error option \<times> vllm_sse_stream" where
  "read_lines U [] s = (None, s)"
| "read_lines U (l # ls) s =
     (case enqueue_sse_line U l s of (Some e, s') \<Rightarrow> (Some e, s') | (None, s') \<Rightarrow> read_lines U ls s')"

definition close_thinking :: "vllm_sse_stream \<Rightarrow> vllm_sse_stream" where
  "close_thinking s =
     (if ss_legacy s \<and> ss_saw_reasoning s \<and> \<not> ss_boundary_emitted s
      then s\<lparr>ss_boundary_emitted := True, ss_pending := ss_pending s @ [STREAM_THINKING_SEPARATOR]\<rparr> else s)"

definition read_rest :: "upstream_host \<Rightarrow> utext \<Rightarrow> vllm_sse_stream \<Rightarrow> upstream_error option \<times> vllm_sse_stream" where
  "read_rest U rest s =
     (case (if rest = [] then (None, s) else enqueue_sse_line U rest s) of
        (Some e, s) \<Rightarrow> (Some e, s) | (None, s) \<Rightarrow> (None, close_thinking s))"

definition read_body ::
    "upstream_host \<Rightarrow> utext \<Rightarrow> string option \<Rightarrow> vllm_sse_stream \<Rightarrow> upstream_error option \<times> vllm_sse_stream" where
  "read_body U body transport s =
     (case read_lines U (fst (split_lines body)) s of
        (Some e, s) \<Rightarrow> (Some e, s)
      | (None, s) \<Rightarrow> (case transport of Some e \<Rightarrow> (Some (URequest e), s) | None \<Rightarrow> read_rest U (snd (split_lines body)) s))"

definition sse_read :: "upstream_host \<Rightarrow> bool \<Rightarrow> (string + int list) list \<Rightarrow> utext list \<times> upstream_error option \<times> vllm_usage_state" where
  "sse_read U legacy chunks =
     (let (body, transport) = received chunks; (e, s) = read_body U body transport (sse_stream_new legacy [])
      in (ss_pending s, e, ss_usage s))"

subsection \<open>The stream refines the line reader\<close>

lemma text_trim_whitespace_end: "white_space c \<Longrightarrow> text_trim (t @ [c]) = text_trim t"
  by (induction t) (simp_all add: text_trim_def)

lemma trim_end_char_decomp: "\<exists>n. t = trim_end_char c t @ replicate n c"
proof -
  have "rev t = takeWhile (\<lambda>x. x = c) (rev t) @ dropWhile (\<lambda>x. x = c) (rev t)" by simp
  moreover have "takeWhile (\<lambda>x. x = c) (rev t) = replicate (length (takeWhile (\<lambda>x. x = c) (rev t))) c"
    by (rule replicate_length_same [symmetric]) (auto dest: set_takeWhileD)
  ultimately have "t = rev (dropWhile (\<lambda>x. x = c) (rev t)) @ rev (replicate (length (takeWhile (\<lambda>x. x = c) (rev t))) c)"
    by (metis rev_append rev_rev_ident)
  then show ?thesis by (auto simp: trim_end_char_def)
qed

lemma text_trim_replicate: "white_space c \<Longrightarrow> text_trim (t @ replicate n c) = text_trim t"
proof (induction n)
  case (Suc n)
  then show ?case
    using text_trim_whitespace_end [of c "t @ replicate n c"]
    by (simp add: replicate_append_same [symmetric] del: replicate_append_same)
qed simp

lemma text_trim_trim_end_char: "white_space c \<Longrightarrow> text_trim (trim_end_char c t) = text_trim t"
  using trim_end_char_decomp [of t c] text_trim_replicate [of c "trim_end_char c t"] by metis

lemma clean_line_trim: "text_trim (clean_line (l @ [10])) = text_trim l"
  by (simp add: clean_line_def text_trim_trim_end_char white_space_def text_trim_whitespace_end)

lemma enqueue_trimmed: "text_trim l = text_trim l' \<Longrightarrow> enqueue_sse_line U l s = enqueue_sse_line U l' s"
  by (simp add: enqueue_sse_line_def)

lemma split_lines_line [simp]:
  "10 \<notin> set l \<Longrightarrow> split_lines (l @ 10 # r) = (l # fst (split_lines r), snd (split_lines r))"
  by (induction l) (auto simp: split_def Let_def)

lemma split_lines_rest: "10 \<notin> set b \<Longrightarrow> split_lines b = ([], b)"
  by (induction b) auto

text \<open>Reading a line does not look at the chunks or the buffer, and only appends to the queue.\<close>

definition framed :: "utext list \<Rightarrow> vllm_sse_stream \<Rightarrow> vllm_sse_stream" where
  "framed ps s = s\<lparr>ss_chunks := [], ss_buffer := [], ss_pending := ps @ ss_pending s\<rparr>"

lemma framed_fields [simp]:
  "ss_pending (framed ps s) = ps @ ss_pending s" "ss_usage (framed ps s) = ss_usage s"
  "ss_legacy (framed ps s) = ss_legacy s" "ss_saw_reasoning (framed ps s) = ss_saw_reasoning s"
  "ss_boundary_emitted (framed ps s) = ss_boundary_emitted s"
  by (simp_all add: framed_def)

lemma framed_framed [simp]: "framed ps (framed qs s) = framed (ps @ qs) s"
  by (simp add: framed_def)

lemma framed_update_buffer [simp]: "framed ps (s\<lparr>ss_buffer := b\<rparr>) = framed ps s"
  "framed ps (s\<lparr>ss_chunks := cs\<rparr>) = framed ps s"
  by (simp_all add: framed_def)

lemma push_delta_framed: "push_delta d (framed ps s) = framed ps (push_delta d s)"
  by (simp add: push_delta.simps Let_def framed_def split: vllm_text_kind.split)

lemma fold_push_framed: "fold push_delta ds (framed ps s) = framed ps (fold push_delta ds s)"
  by (induction ds arbitrary: s) (simp_all add: push_delta_framed)

lemma framed_usage: "(framed ps s)\<lparr>ss_usage := u\<rparr> = framed ps (s\<lparr>ss_usage := u\<rparr>)"
  by (simp add: framed_def)

lemma framed_push: "(framed ps s)\<lparr>ss_pending := ps @ xs\<rparr> = framed ps (s\<lparr>ss_pending := xs\<rparr>)"
  by (simp add: framed_def)

lemma enqueue_choice_framed: "enqueue_choice U c (framed ps s) = framed ps (enqueue_choice U c s)"
  by (simp add: enqueue_choice_def Let_def framed_usage framed_push fold_push_framed split: option.split)

lemma enqueue_framed: "enqueue_sse_line U l (framed ps s) = map_prod id (framed ps) (enqueue_sse_line U l s)"
  by (simp add: enqueue_sse_line_def Let_def framed_usage enqueue_choice_framed split: option.split sum.split)

lemma read_lines_framed: "read_lines U ls (framed ps s) = map_prod id (framed ps) (read_lines U ls s)"
  by (induction ls arbitrary: s) (simp_all add: enqueue_framed split_def split: option.split)

lemma close_thinking_framed: "close_thinking (framed ps s) = framed ps (close_thinking s)"
  by (simp add: close_thinking_def framed_def)

lemma read_rest_framed: "read_rest U r (framed ps s) = map_prod id (framed ps) (read_rest U r s)"
  by (simp add: read_rest_def enqueue_framed close_thinking_framed split_def split: option.split)

lemma read_body_framed: "read_body U t e (framed ps s) = map_prod id (framed ps) (read_body U t e s)"
  by (simp add: read_body_def read_lines_framed read_rest_framed split_def split: option.split)

definition outcome :: "upstream_error option \<times> vllm_sse_stream \<Rightarrow> utext list \<times> upstream_error option \<times> vllm_usage_state" where
  "outcome r = (ss_pending (snd r), fst r, ss_usage (snd r))"

definition drained :: "upstream_host \<Rightarrow> vllm_sse_stream \<Rightarrow> utext list \<times> upstream_error option \<times> vllm_usage_state" where
  "drained U s = (case drain_stream U s of (ts, e, s') \<Rightarrow> (ts, e, ss_usage s'))"

definition remaining :: "upstream_host \<Rightarrow> vllm_sse_stream \<Rightarrow> utext list \<times> upstream_error option \<times> vllm_usage_state" where
  "remaining U s =
     outcome (read_body U (ss_buffer s @ fst (received (ss_chunks s))) (snd (received (ss_chunks s))) (framed [] s))"

lemma drained_poll: "poll_next U s = poll_next U s' \<Longrightarrow> drained U s = drained U s'"
  by (simp add: drained_def drain_stream.simps [of U s] drain_stream.simps [of U s'])

lemma drained_pop:
  "ss_pending s = t # ts \<Longrightarrow> drained U s = apfst (Cons t) (drained U (s\<lparr>ss_pending := ts\<rparr>))"
  by (simp add: drained_def drain_stream.simps [of U s] poll_next.simps [of U s] pop_pending_def split_def Let_def)

lemma drained_error: "poll_next U s = (Some (Inl e), s') \<Longrightarrow> drained U s = ([], Some e, ss_usage s')"
  by (simp add: drained_def drain_stream.simps [of U s])

lemma drained_done: "poll_next U s = (None, s') \<Longrightarrow> drained U s = ([], None, ss_usage s')"
  by (simp add: drained_def drain_stream.simps [of U s])

lemma outcome_framed: "outcome (map_prod id (framed ps) r) = apfst ((@) ps) (outcome r)"
  by (cases r) (simp add: outcome_def)

lemma apfst_append [simp]: "apfst ((@) [t]) x = apfst ((#) t) x" "apfst ((@) []) x = x"
  by (cases x; simp)+

lemma read_body_line:
  "10 \<notin> set l \<Longrightarrow> read_body U (l @ 10 # r) e s =
     (case enqueue_sse_line U l s of (Some err, s') \<Rightarrow> (Some err, s') | (None, s') \<Rightarrow> read_body U r e s')"
  unfolding read_body_def split_lines_line fst_conv snd_conv read_lines.simps
  by (auto split: prod.split option.split)

lemma remaining_pop:
  assumes "ss_pending s = t # ts"
  shows "remaining U s = apfst (Cons t) (remaining U (s\<lparr>ss_pending := ts\<rparr>))"
proof -
  have "framed [] s = framed [t] (framed [] (s\<lparr>ss_pending := ts\<rparr>))" using assms by (simp add: framed_def)
  then show ?thesis by (simp add: remaining_def read_body_framed outcome_framed)
qed

lemma remaining_line:
  assumes "ss_pending s = []" "take_line (ss_buffer s) = Some (l, r)"
    "enqueue_sse_line U (clean_line (l @ [10])) (s\<lparr>ss_buffer := r\<rparr>) = (e, s')"
  shows "remaining U s = (case e of Some e \<Rightarrow> (ss_pending s', Some e, ss_usage s') | None \<Rightarrow> remaining U s')"
proof -
  have buf: "ss_buffer s = l @ 10 # r" "10 \<notin> set l" using take_line_split [OF assms(2)] by simp_all
  have "enqueue_sse_line U l (framed [] s) = map_prod id (framed []) (e, s')"
    using assms(3) enqueue_framed [of U l "[]" "s\<lparr>ss_buffer := r\<rparr>"] enqueue_trimmed [OF clean_line_trim] by simp
  moreover have "ss_buffer s' = r" "ss_chunks s' = ss_chunks s" using enqueue_line_fields [OF assms(3)] by simp_all
  ultimately show ?thesis
    using buf by (simp add: remaining_def read_body_line outcome_def split: option.split)
qed

lemma enqueue_error_pending: "enqueue_sse_line U l s = (Some e, s') \<Longrightarrow> s' = s"
  by (auto simp: enqueue_sse_line_def Let_def split: option.splits sum.splits if_splits)

lemma remaining_chunk:
  assumes "ss_chunks s = Inr chunk # cs"
  shows "remaining U s = remaining U (s\<lparr>ss_buffer := ss_buffer s @ from_utf8_lossy chunk, ss_chunks := cs\<rparr>)"
  using assms by (simp add: remaining_def split_def framed_def Let_def)

lemma remaining_transport:
  assumes "ss_chunks s = Inl e # cs" "10 \<notin> set (ss_buffer s)"
  shows "remaining U s = (ss_pending s, Some (URequest e), ss_usage s)"
  using assms by (simp add: remaining_def read_body_def split_lines_rest outcome_def)

lemma close_thinking_idem [simp]: "close_thinking (close_thinking s) = close_thinking s"
  by (simp add: close_thinking_def)

lemma close_thinking_fields [simp]:
  "ss_chunks (close_thinking s) = ss_chunks s" "ss_buffer (close_thinking s) = ss_buffer s"
  "ss_usage (close_thinking s) = ss_usage s"
  by (simp_all add: close_thinking_def)

lemma poll_end_close:
  "poll_end U s =
     (case (if ss_buffer s = [] then (None, s) else enqueue_sse_line U (ss_buffer s) (s\<lparr>ss_buffer := []\<rparr>)) of
        (Some e, s) \<Rightarrow> (Some (Inl e), s) | (None, s) \<Rightarrow> pop_pending (close_thinking s))"
  unfolding poll_end_def close_thinking_def enqueue_trimmed [OF text_trim_idem] by (rule refl)

text \<open>After the end of the body the queue is emptied and nothing else happens.\<close>

lemma drained_queue:
  "ss_chunks s = [] \<Longrightarrow> ss_buffer s = [] \<Longrightarrow> close_thinking s = s \<Longrightarrow> drained U s = (ss_pending s, None, ss_usage s)"
proof (induction "ss_pending s" arbitrary: s)
  case Nil
  then have "poll_next U s = (None, s)"
    by (simp add: poll_next.simps [of U s] poll_end_def pop_pending_def close_thinking_def)
  then show ?case using Nil by (simp add: drained_done)
next
  case (Cons t ts)
  then have "close_thinking (s\<lparr>ss_pending := ts\<rparr>) = s\<lparr>ss_pending := ts\<rparr>"
    by (auto simp: close_thinking_def split: if_splits dest: arg_cong [where f = ss_boundary_emitted])
  with Cons show ?case using drained_pop [of s t ts U] Cons.hyps(1) [of "s\<lparr>ss_pending := ts\<rparr>"] by simp
qed

lemma drained_end:
  assumes "ss_pending s = []" "ss_chunks s = []" "10 \<notin> set (ss_buffer s)"
  shows "drained U s = remaining U s"
proof -
  let ?r = "if ss_buffer s = [] then (None, s) else enqueue_sse_line U (ss_buffer s) (s\<lparr>ss_buffer := []\<rparr>)"
  obtain e s1 where r: "?r = (e, s1)" by fastforce
  have bare: "ss_chunks s1 = []" "ss_buffer s1 = []"
    using r assms enqueue_line_fields [of U "ss_buffer s" "s\<lparr>ss_buffer := []\<rparr>" e s1] by (auto split: if_splits)
  have "(if ss_buffer s = [] then (None, framed [] s) else enqueue_sse_line U (ss_buffer s) (framed [] s)) = map_prod id (framed []) (e, s1)"
    using r enqueue_framed [of U "ss_buffer s" "[]" "s\<lparr>ss_buffer := []\<rparr>"] by (auto split: if_splits)
  then have rem: "remaining U s = (case e of Some e \<Rightarrow> (ss_pending s1, Some e, ss_usage s1)
      | None \<Rightarrow> (ss_pending (close_thinking s1), None, ss_usage s1))"
    using assms by (simp add: remaining_def read_body_def read_rest_def split_lines_rest outcome_def
        close_thinking_framed split: option.split if_splits)
  have "poll_next U s = poll_end U s"
    using assms by (simp add: poll_next.simps [of U s] take_line_None [THEN iffD2])
  then have poll: "poll_next U s = (case e of Some e \<Rightarrow> (Some (Inl e), s1) | None \<Rightarrow> pop_pending (close_thinking s1))"
    by (simp add: poll_end_close r split: option.split)
  show ?thesis
  proof (cases e)
    case (Some err)
    have "ss_pending s1 = []" using r Some assms by (auto split: if_splits dest: enqueue_error_pending)
    then show ?thesis using Some poll rem by (simp add: drained_error)
  next
    case None
    have "poll_next U (close_thinking s1) = pop_pending (close_thinking s1)"
      using bare by (simp add: poll_next.simps [of U "close_thinking s1"] poll_end_close)
    then have "drained U s = drained U (close_thinking s1)" using poll None by (intro drained_poll) simp
    then show ?thesis using drained_queue [of "close_thinking s1" U] bare rem None by simp
  qed
qed

lemma drained_remaining: "drained U s = remaining U s"
proof (induction s rule: wf_induct_rule [OF stream_order_wf])
  case (1 s)
  show ?case
  proof (cases "ss_pending s")
    case (Cons t ts)
    then have "(s\<lparr>ss_pending := ts\<rparr>, s) \<in> stream_order" by (simp add: stream_order_def)
    then show ?thesis using Cons "1" by (simp add: drained_pop remaining_pop)
  next
    case pending: Nil
    show ?thesis
    proof (cases "take_line (ss_buffer s)")
      case (Some lr)
      obtain l r where lr: "lr = (l, r)" by fastforce
      obtain e s1 where enq: "enqueue_sse_line U (clean_line (l @ [10])) (s\<lparr>ss_buffer := r\<rparr>) = (e, s1)" by fastforce
      have line: "take_line (ss_buffer s) = Some (l, r)" using Some lr by simp
      show ?thesis
      proof (cases e)
        case None
        have "poll_next U s = poll_next U s1" using pending line enq None by (simp add: poll_next.simps [of U s])
        then have "drained U s = drained U s1" by (rule drained_poll)
        then show ?thesis using "1" line_progress [OF line enq] remaining_line [OF pending line enq] None by simp
      next
        case (Some err)
        have "poll_next U s = (Some (Inl err), s1)" using pending line enq Some by (simp add: poll_next.simps [of U s])
        moreover have "s1 = s\<lparr>ss_buffer := r\<rparr>" using enq Some enqueue_error_pending by blast
        ultimately show ?thesis using remaining_line [OF pending line enq] Some pending by (simp add: drained_error)
      qed
    next
      case None
      then have rest: "10 \<notin> set (ss_buffer s)" by (simp add: take_line_None)
      show ?thesis
      proof (cases "ss_chunks s")
        case Nil
        then show ?thesis using pending rest by (simp add: drained_end)
      next
        case (Cons c cs)
        show ?thesis
        proof (cases c)
          case (Inl e)
          then have "poll_next U s = (Some (Inl (URequest e)), s\<lparr>ss_chunks := cs\<rparr>)"
            using pending None Cons by (simp add: poll_next.simps [of U s])
          then show ?thesis using remaining_transport [of s e cs U] Cons Inl rest pending by (simp add: drained_error)
        next
          case (Inr chunk)
          let ?s = "s\<lparr>ss_buffer := ss_buffer s @ from_utf8_lossy chunk, ss_chunks := cs\<rparr>"
          have "poll_next U s = poll_next U ?s" using pending None Cons Inr by (simp add: poll_next.simps [of U s])
          then show ?thesis
            using "1" [of ?s] chunk_progress [OF Cons] Cons Inr by (simp add: drained_poll [of U s ?s] remaining_chunk)
        qed
      qed
    qed
  qed
qed

text \<open>
  (C11) Whatever the chunking of the response body, polling the stream to its end yields the texts,
  the error and the usage that reading the decoded body line by line yields; in particular only the
  decoded text counts, not where the chunks were cut.
\<close>

theorem stream_refines_line_reader:
  "(case drain_stream U (sse_stream_new legacy chunks) of (ts, e, s) \<Rightarrow> (ts, e, ss_usage s)) = sse_read U legacy chunks"
proof -
  have "framed [] (sse_stream_new legacy chunks) = sse_stream_new legacy []"
    by (simp add: framed_def sse_stream_new_def)
  then show ?thesis
    using drained_remaining [of U "sse_stream_new legacy chunks"]
    by (simp add: drained_def remaining_def sse_read_def outcome_def split_def Let_def sse_stream_new_def)
qed

subsection \<open>Consequences\<close>

text \<open>
  A response whose chunks end at character boundaries decodes as a whole; otherwise it need not,
  since each chunk is decoded on its own.
\<close>

definition utf8_bytes :: "utext \<Rightarrow> int list" where
  "utf8_bytes t = concat (map utf8_encode t)"

lemma received_whole_characters:
  "list_all (list_all is_scalar) ts \<Longrightarrow> received (map (\<lambda>t. Inr (utf8_bytes t)) ts) = (concat ts, None)"
  by (induction ts) (simp_all add: decode_encode utf8_bytes_def)

text \<open>
  (C32) When every chunk of a response holds whole characters, the stream yields what it yields for the
  same text in a single chunk.
\<close>

theorem stream_independent_of_chunking:
  assumes "list_all (list_all is_scalar) ts"
  shows "(case drain_stream U (sse_stream_new legacy (map (\<lambda>t. Inr (utf8_bytes t)) ts)) of (xs, e, s) \<Rightarrow> (xs, e, ss_usage s))
       = (case drain_stream U (sse_stream_new legacy [Inr (utf8_bytes (concat ts))]) of (xs, e, s) \<Rightarrow> (xs, e, ss_usage s))"
proof -
  have "list_all is_scalar (concat ts)" using assms by (induction ts) simp_all
  then have "received [Inr (utf8_bytes (concat ts))] = (concat ts, None)"
    using received_whole_characters [of "[concat ts]"] by simp
  then show ?thesis
    using received_whole_characters [OF assms] by (simp add: stream_refines_line_reader sse_read_def)
qed

text \<open>
  A character split between two chunks is lost: the e with acute accent, whose two bytes arrive
  in different chunks, decodes to two replacement characters.
\<close>

theorem split_character_is_lost:
  "utf8_encode 233 = [195, 169] \<and> fst (received [Inr [195, 169]]) = [233]
   \<and> fst (received [Inr [195], Inr [169]]) = [65533, 65533]"
  by code_simp

definition sample_upstream :: upstream_host where
  "sample_upstream = \<lparr>uh_post = (\<lambda>url key body. Inl ''down''),
     uh_from_str = (\<lambda>t. Inr (JObj [(''choices'', JArr [JObj [(''delta'', JObj [(''content'', JStr t)])]])])),
     uh_from_slice = (\<lambda>bs. Inl ''json''), uh_to_string = (\<lambda>j. lit ''{}'')\<rparr>"

theorem stream_independent_of_chunking_witness:
  "list_all (list_all is_scalar) [lit ''dat'', lit ''a: 1'' @ [233, 10]]
   \<and> (case drain_stream sample_upstream (sse_stream_new True (map (\<lambda>t. Inr (utf8_bytes t)) [lit ''dat'', lit ''a: 1'' @ [233, 10]]))
        of (xs, e, s) \<Rightarrow> (xs, e, ss_usage s)) = ([[49, 233]], None, vllm_usage_default)"
proof -
  let ?ts = "[lit ''dat'', lit ''a: 1'' @ [233, 10]]"
  have scalar: "list_all (list_all is_scalar) ?ts" by code_simp
  have "sse_read sample_upstream True [Inr (utf8_bytes (concat ?ts))] = ([[49, 233]], None, vllm_usage_default)" by code_simp
  then show ?thesis
    using stream_independent_of_chunking [OF scalar, where U = sample_upstream and legacy = True] scalar
    by (simp only: stream_refines_line_reader simp_thms)
qed

end
