(* ===== verification/Crypto_Provider.thy ===== *)
theory Crypto_Provider
  imports Json_Text
begin

section \<open>Crypto provider and envelope admission\<close>

text \<open>
  \<^verbatim>\<open>ie-crypto/src/provider.rs\<close> and \<^verbatim>\<open>admit.rs\<close>: the tables of epoch secrets and response sessions behind
  the \<^verbatim>\<open>CryptoProvider\<close> trait, and the policy that decides which envelopes must be authenticated before
  they are decrypted. The primitives of the OPE crates (\<^verbatim>\<open>ope-e2e\<close>, \<^verbatim>\<open>ope-crypto\<close>, \<^verbatim>\<open>ope-envelope\<close>) are
  the host; secrets and keys are opaque. The replay store of the verifier is represented by the
  envelopes it was shown so far, of which its answer is a function. The lemmas show that handles and
  sessions are fresh, that a session answers until it is freed and no longer, and what each admission
  mode lets through.
\<close>

datatype crypto_error =
    CE2e string
  | CE2eMsg string
  | CJson string
  | CInvalidKey string
  | CUnknownHandle u64
  | CUnknownSession u64
  | CMockUnsupported string
  | CAdmit string string

fun crypto_error_display :: "crypto_error \<Rightarrow> string" where
  "crypto_error_display (CE2e m) = ''ope-e2e error: '' @ m"
| "crypto_error_display (CE2eMsg m) = ''e2e: '' @ m"
| "crypto_error_display (CJson m) = ''json: '' @ m"
| "crypto_error_display (CInvalidKey m) = ''invalid key material: '' @ m"
| "crypto_error_display (CUnknownHandle h) = ''unknown engine handle '' @ show_word h"
| "crypto_error_display (CUnknownSession s) = ''unknown response session '' @ show_word s"
| "crypto_error_display (CMockUnsupported m) = ''MockCryptoProvider cannot '' @ m @ '': use real provider for E2E''"
| "crypto_error_display (CAdmit code m) = ''ope admit '' @ code @ '': '' @ m"

record crypto_host =
  ch_decode :: "string \<Rightarrow> int list option"
  ch_encode :: "int list \<Rightarrow> string"
  ch_public_key_ok :: "int list \<Rightarrow> bool"
  ch_generate :: "u64 \<Rightarrow> string \<Rightarrow> int list \<Rightarrow> string + string \<times> string \<times> string \<times> string"
  ch_convert :: "ope_envelope \<Rightarrow> string option"
  ch_decrypt :: "ope_envelope \<Rightarrow> string \<Rightarrow> string + json"
  ch_begin :: "string \<Rightarrow> ope_envelope \<Rightarrow> string \<Rightarrow> string + string \<times> string \<times> int list"
  ch_encrypt :: "string \<Rightarrow> string \<Rightarrow> u32 \<Rightarrow> utext \<Rightarrow> string + string"
  ch_verify :: "ope_envelope list \<Rightarrow> (string \<rightharpoonup> int list) \<Rightarrow> string \<Rightarrow> u64 \<Rightarrow> ope_envelope \<Rightarrow> string \<times> string + unit"

subsection \<open>Provider state\<close>

record live_response =
  lr_key :: string
  lr_iv :: string

record real_state =
  rs_next_handle :: u64
  rs_engines :: "u64 \<rightharpoonup> string"
  rs_responses :: "u64 \<rightharpoonup> live_response"
  rs_next_session :: u64

datatype crypto_provider = MockProvider | RealProvider real_state

record response_session =
  rsn_session :: u64
  rsn_server_share :: string

definition real_crypto_provider_new :: crypto_provider where
  "real_crypto_provider_new = RealProvider
     \<lparr>rs_next_handle = 1, rs_engines = Map.empty, rs_responses = Map.empty, rs_next_session = 1\<rparr>"

definition create_crypto_provider :: "bool \<Rightarrow> crypto_provider" where
  "create_crypto_provider prefer_mock = (if prefer_mock then MockProvider else real_crypto_provider_new)"

definition register_secret :: "string \<Rightarrow> real_state \<Rightarrow> u64 \<times> real_state" where
  "register_secret secret st =
     (let handle = rs_next_handle st
      in (handle, st\<lparr>rs_next_handle := rs_next_handle st + 1, rs_engines := (rs_engines st)(handle \<mapsto> secret)\<rparr>))"

text \<open>The hybrid public part is the triple of key exchange, ML-KEM key and X25519 key.\<close>

definition real_generate_engine_hybrid ::
    "crypto_host \<Rightarrow> string \<Rightarrow> string \<Rightarrow> real_state
     \<Rightarrow> (crypto_error + (string \<times> string \<times> string) \<times> u64) \<times> real_state" where
  "real_generate_engine_hybrid C engine_id ed25519_public_b64 st =
     (case ch_decode C ed25519_public_b64 of
        None \<Rightarrow> (Inl (CInvalidKey ''ed25519_public''), st)
      | Some bytes \<Rightarrow>
          if length bytes \<noteq> 32 then (Inl (CInvalidKey ''ed25519_public length''), st)
          else if \<not> ch_public_key_ok C bytes then (Inl (CInvalidKey ''ed25519_public''), st)
          else (case ch_generate C (rs_next_handle st) engine_id bytes of
              Inl e \<Rightarrow> (Inl (CE2e e), st)
            | Inr (secret, hybrid) \<Rightarrow>
                (let (handle, st) = register_secret secret st in (Inr (hybrid, handle), st))))"

definition engine_secret :: "u64 \<Rightarrow> real_state \<Rightarrow> crypto_error + string" where
  "engine_secret handle st =
     (case rs_engines st handle of None \<Rightarrow> Inl (CUnknownHandle handle) | Some s \<Rightarrow> Inr s)"

definition convert_envelope :: "crypto_host \<Rightarrow> ope_envelope \<Rightarrow> crypto_error + ope_envelope" where
  "convert_envelope C envelope = (case ch_convert C envelope of Some e \<Rightarrow> Inl (CJson e) | None \<Rightarrow> Inr envelope)"

definition decrypt_request :: "crypto_host \<Rightarrow> u64 \<Rightarrow> ope_envelope \<Rightarrow> crypto_provider \<Rightarrow> crypto_error + json" where
  "decrypt_request C handle envelope pv =
     (case pv of
        MockProvider \<Rightarrow> Inl (CMockUnsupported ''decryptRequest'')
      | RealProvider st \<Rightarrow>
         (case engine_secret handle st of Inl e \<Rightarrow> Inl e
          | Inr secret \<Rightarrow>
             (case convert_envelope C envelope of Inl e \<Rightarrow> Inl e
              | Inr ope \<Rightarrow> (case ch_decrypt C ope secret of Inl e \<Rightarrow> Inl (CE2e e) | Inr v \<Rightarrow> Inr v))))"

definition real_begin_response ::
    "crypto_host \<Rightarrow> u64 \<Rightarrow> ope_envelope \<Rightarrow> real_state \<Rightarrow> (crypto_error + response_session) \<times> real_state" where
  "real_begin_response C handle envelope st =
     (case engine_secret handle st of Inl e \<Rightarrow> (Inl e, st)
      | Inr secret \<Rightarrow>
         (case convert_envelope C envelope of Inl e \<Rightarrow> (Inl e, st)
          | Inr ope \<Rightarrow>
             (case Option.bind (oe_e2e ope) e2e_client_share of
                None \<Rightarrow> (Inl (CE2eMsg ''missing e2e.client_share''), st)
              | Some client_share \<Rightarrow>
                 (case ch_begin C secret ope client_share of
                    Inl e \<Rightarrow> (Inl (CE2e e), st)
                  | Inr (key, iv, server) \<Rightarrow>
                     (let session = rs_next_session st
                      in (Inr \<lparr>rsn_session = session, rsn_server_share = ch_encode C server\<rparr>,
                          st\<lparr>rs_next_session := rs_next_session st + 1,
                             rs_responses := (rs_responses st)(session \<mapsto> \<lparr>lr_key = key, lr_iv = iv\<rparr>)\<rparr>))))))"

definition begin_response ::
    "crypto_host \<Rightarrow> u64 \<Rightarrow> ope_envelope \<Rightarrow> crypto_provider \<Rightarrow> (crypto_error + response_session) \<times> crypto_provider" where
  "begin_response C handle envelope pv =
     (case pv of
        MockProvider \<Rightarrow> (Inl (CMockUnsupported ''beginResponse''), pv)
      | RealProvider st \<Rightarrow> apsnd RealProvider (real_begin_response C handle envelope st))"

definition encrypt_response_chunk ::
    "crypto_host \<Rightarrow> u64 \<Rightarrow> u32 \<Rightarrow> utext \<Rightarrow> crypto_provider \<Rightarrow> crypto_error + string" where
  "encrypt_response_chunk C session seq plaintext pv =
     (case pv of
        MockProvider \<Rightarrow> Inl (CMockUnsupported ''encryptResponseChunk'')
      | RealProvider st \<Rightarrow>
         (case rs_responses st session of
            None \<Rightarrow> Inl (CUnknownSession session)
          | Some live \<Rightarrow>
             (case ch_encrypt C (lr_key live) (lr_iv live) seq plaintext of
                Inl e \<Rightarrow> Inl (CE2e e) | Inr ct \<Rightarrow> Inr ct)))"

definition free_response :: "u64 \<Rightarrow> crypto_provider \<Rightarrow> crypto_provider" where
  "free_response session pv =
     (case pv of MockProvider \<Rightarrow> MockProvider
      | RealProvider st \<Rightarrow> RealProvider (st\<lparr>rs_responses := (rs_responses st)(session := None)\<rparr>))"

definition free_engine :: "u64 \<Rightarrow> crypto_provider \<Rightarrow> crypto_provider" where
  "free_engine handle pv =
     (case pv of MockProvider \<Rightarrow> MockProvider
      | RealProvider st \<Rightarrow> RealProvider (st\<lparr>rs_engines := (rs_engines st)(handle := None)\<rparr>))"

subsection \<open>Response sessions as an interface\<close>

text \<open>
  What a client of the provider relies on: a session that was begun is new, accepts text until it is
  freed, other sessions are unaffected, and freeing restores what was there before.
\<close>

locale response_sessions =
  fixes live :: "'s \<Rightarrow> u64 set"
    and opened :: "u64 \<Rightarrow> 's \<Rightarrow> 's \<Rightarrow> bool"
    and release :: "u64 \<Rightarrow> 's \<Rightarrow> 's"
  assumes opened_fresh: "opened k s s' \<Longrightarrow> k \<notin> live s"
    and opened_live: "opened k s s' \<Longrightarrow> live s' = insert k (live s)"
    and release_live: "live (release k s) = live s - {k}"
begin

lemma balanced: "opened k s s' \<Longrightarrow> live (release k s') = live s"
  using opened_fresh [of k s s'] opened_live [of k s s'] release_live [of k s'] by blast

lemma nested: "opened k s s' \<Longrightarrow> opened l s' s'' \<Longrightarrow> live (release k (release l s'')) = live s"
  using balanced [of k s s'] balanced [of l s' s''] release_live [of k s'] release_live [of k "release l s''"] by simp

end

fun live_sessions :: "crypto_provider \<Rightarrow> u64 set" where
  "live_sessions MockProvider = {}"
| "live_sessions (RealProvider st) = dom (rs_responses st)"

fun provider_wf :: "crypto_provider \<Rightarrow> bool" where
  "provider_wf MockProvider = True"
| "provider_wf (RealProvider st) \<longleftrightarrow>
     (\<forall>k\<in>dom (rs_responses st). k < rs_next_session st) \<and> (\<forall>k\<in>dom (rs_engines st). k < rs_next_handle st)"

definition session_opened :: "u64 \<Rightarrow> crypto_provider \<Rightarrow> crypto_provider \<Rightarrow> bool" where
  "session_opened k pv pv' \<longleftrightarrow> provider_wf pv \<and>
     (\<exists>C handle envelope r. begin_response C handle envelope pv = (Inr r, pv') \<and> rsn_session r = k)"

lemma real_begin_responseD:
  "real_begin_response C handle envelope st = (Inr r, st') \<Longrightarrow>
   \<exists>l. rsn_session r = rs_next_session st \<and>
     st' = st\<lparr>rs_next_session := rs_next_session st + 1, rs_responses := (rs_responses st)(rs_next_session st \<mapsto> l)\<rparr>"
  by (auto simp: real_begin_response_def Let_def split: sum.splits option.splits prod.splits)

lemma begin_response_error: "begin_response C handle envelope pv = (Inl e, pv') \<Longrightarrow> pv' = pv"
  by (auto simp: begin_response_def real_begin_response_def apsnd_def map_prod_def Let_def
      split: crypto_provider.splits sum.splits option.splits prod.splits)

lemma begin_response_ok:
  assumes "begin_response C handle envelope pv = (Inr r, pv')"
  obtains st l where "pv = RealProvider st" "rsn_session r = rs_next_session st"
    "pv' = RealProvider (st\<lparr>rs_next_session := rs_next_session st + 1, rs_responses := (rs_responses st)(rs_next_session st \<mapsto> l)\<rparr>)"
proof (cases pv)
  case MockProvider
  with assms show ?thesis by (simp add: begin_response_def)
next
  case (RealProvider st)
  with assms obtain st' where "real_begin_response C handle envelope st = (Inr r, st')" "pv' = RealProvider st'"
    by (cases "real_begin_response C handle envelope st") (auto simp: begin_response_def)
  with real_begin_responseD that RealProvider show ?thesis by blast
qed

interpretation provider_sessions: response_sessions live_sessions session_opened free_response
proof
  fix k pv pv'
  assume "session_opened k pv pv'"
  then obtain C h env r where wf: "provider_wf pv" and ok: "begin_response C h env pv = (Inr r, pv')" "rsn_session r = k"
    by (auto simp: session_opened_def)
  from ok(1) obtain st l where st: "pv = RealProvider st" "rsn_session r = rs_next_session st"
    "pv' = RealProvider (st\<lparr>rs_next_session := rs_next_session st + 1, rs_responses := (rs_responses st)(rs_next_session st \<mapsto> l)\<rparr>)"
    by (rule begin_response_ok)
  then show "k \<notin> live_sessions pv" using wf ok by auto
  show "live_sessions pv' = insert k (live_sessions pv)" using st ok by auto
next
  fix k pv
  show "live_sessions (free_response k pv) = live_sessions pv - {k}"
    by (cases pv) (auto simp: free_response_def)
qed

lemma encrypt_unknown_after_free:
  "encrypt_response_chunk C k seq t (free_response k pv) =
     (case pv of MockProvider \<Rightarrow> Inl (CMockUnsupported ''encryptResponseChunk'') | RealProvider st \<Rightarrow> Inl (CUnknownSession k))"
  by (simp add: encrypt_response_chunk_def free_response_def split: crypto_provider.split)

lemma provider_wf_free: "provider_wf pv \<Longrightarrow> provider_wf (free_response k pv)"
  by (cases pv) (auto simp: free_response_def)

lemma register_secret_fresh:
  "provider_wf (RealProvider st) \<Longrightarrow> rs_next_handle st \<noteq> - 1 \<Longrightarrow> register_secret secret st = (handle, st') \<Longrightarrow>
   handle \<notin> dom (rs_engines st) \<and> rs_engines st' = (rs_engines st)(handle \<mapsto> secret) \<and> provider_wf (RealProvider st')"
proof -
  assume wf: "provider_wf (RealProvider st)" and room: "rs_next_handle st \<noteq> - 1" and reg: "register_secret secret st = (handle, st')"
  have "1 + rs_next_handle st \<noteq> 0" using room by (metis add.commute eq_neg_iff_add_eq_0)
  then have "rs_next_handle st < rs_next_handle st + 1" by (simp add: word_less_nat_alt unatSuc add.commute)
  then have "rs_next_handle st < rs_next_handle st + 1 \<and> (\<forall>k. k < rs_next_handle st \<longrightarrow> k < rs_next_handle st + 1)"
    by (meson less_trans)
  then show ?thesis using wf reg by (auto simp: register_secret_def Let_def dom_def split: if_splits)
qed

subsection \<open>Admission\<close>

datatype envelope_admit_mode = AdmitOff | SignedOnly | Required

definition admit_mode_parse :: "string \<Rightarrow> envelope_admit_mode option" where
  "admit_mode_parse raw =
     (let v = to_ascii_lowercase (trim raw)
      in if v \<in> set [''off'', ''0'', ''false''] then Some AdmitOff
         else if v \<in> set [''signed-only'', ''signed_only'', ''signed''] then Some SignedOnly
         else if v \<in> set [''required'', ''require'', ''on'', ''1'', ''true''] then Some Required
         else None)"

text \<open>The trust map in iteration order of the hash map; the first bad entry is the error.\<close>

fun from_b64url_map :: "crypto_host \<Rightarrow> (string \<times> string) list \<Rightarrow> crypto_error + (string \<rightharpoonup> int list)" where
  "from_b64url_map C [] = Inr Map.empty"
| "from_b64url_map C ((kid, pk_b64) # kvs) =
     (if trim kid = ''*'' then Inl (CInvalidKey (''wildcard trust kid '' @ [CHR 0x27] @ ''*'' @ [CHR 0x27] @ '' is not allowed on the engine''))
      else case ch_decode C (trim pk_b64) of
        None \<Rightarrow> Inl (CInvalidKey (''trust key for kid '' @ kid))
      | Some bytes \<Rightarrow>
          if length bytes \<noteq> 32 then Inl (CInvalidKey (''trust key length for kid '' @ kid))
          else if \<not> ch_public_key_ok C bytes then Inl (CInvalidKey (''trust key for kid '' @ kid))
          else (case from_b64url_map C kvs of Inl e \<Rightarrow> Inl e | Inr m \<Rightarrow> Inr (m(kid \<mapsto> bytes))))"

record envelope_admitter =
  ea_mode :: envelope_admit_mode
  ea_keys :: "string \<rightharpoonup> int list"
  ea_seen :: "ope_envelope list"
  ea_expected_recipient :: string
  ea_max_skew :: u64

definition envelope_admitter_new ::
    "envelope_admit_mode \<Rightarrow> (string \<rightharpoonup> int list) \<Rightarrow> string \<Rightarrow> u64 \<Rightarrow> envelope_admitter" where
  "envelope_admitter_new mode keys recipient skew =
     \<lparr>ea_mode = mode, ea_keys = keys, ea_seen = [], ea_expected_recipient = recipient, ea_max_skew = skew\<rparr>"

definition trust_keys_json :: "env \<Rightarrow> string option" where
  "trust_keys_json env =
     (case (case env ''TEECHAT_OPE_ENGINE_TRUST_KEYS'' of Some v \<Rightarrow> Some v | None \<Rightarrow> env ''TEECHAT_OPE_GATEWAY_TRUST_KEYS'') of
        None \<Rightarrow> None | Some v \<Rightarrow> if trim v = [] then None else Some (trim v))"

definition admitter_from_env ::
    "crypto_host \<Rightarrow> (string \<Rightarrow> string + (string \<times> string) list) \<Rightarrow> env \<Rightarrow> crypto_error + envelope_admitter option" where
  "admitter_from_env C from_str env =
     (case (case trust_keys_json env of None \<Rightarrow> Inr Map.empty
            | Some raw \<Rightarrow> (case from_str raw of Inl e \<Rightarrow> Inl (CJson e) | Inr kvs \<Rightarrow> from_b64url_map C kvs)) of
        Inl e \<Rightarrow> Inl e
      | Inr keys \<Rightarrow>
         (let mode = (case Option.bind (env ''TEECHAT_OPE_ENGINE_VERIFY'') admit_mode_parse of
                Some m \<Rightarrow> m | None \<Rightarrow> if keys = Map.empty then AdmitOff else SignedOnly)
          in if mode = AdmitOff then Inr None
             else if keys = Map.empty
             then Inl (CInvalidKey ''TEECHAT_OPE_ENGINE_VERIFY requires TEECHAT_OPE_ENGINE_TRUST_KEYS (or GATEWAY_TRUST_KEYS)'')
             else
              (let recipient = (case env ''TEECHAT_OPE_ENGINE_EXPECTED_RECIPIENT'' of None \<Rightarrow> ''teechat-gateway''
                     | Some r \<Rightarrow> if trim r = [] then ''teechat-gateway'' else trim r);
                   skew = (case Option.bind (env ''TEECHAT_OPE_ENGINE_MAX_SKEW_SECS'') (\<lambda>s. parse_u64 (trim s)) of
                     None \<Rightarrow> 300 | Some n \<Rightarrow> n)
               in Inr (Some (envelope_admitter_new mode keys recipient skew)))))"

definition has_signature :: "ope_envelope \<Rightarrow> bool" where
  "has_signature envelope \<longleftrightarrow> (case oe_sig envelope of None \<Rightarrow> False | Some s \<Rightarrow> trim s \<noteq> [])"

text \<open>The answer is whether the envelope was verified, or an error.\<close>

definition admit :: "crypto_host \<Rightarrow> ope_envelope \<Rightarrow> envelope_admitter \<Rightarrow> (crypto_error + bool) \<times> envelope_admitter" where
  "admit C envelope a =
     (if ea_mode a = AdmitOff \<or> (ea_mode a = SignedOnly \<and> \<not> has_signature envelope) then (Inr False, a)
      else case convert_envelope C envelope of
        Inl e \<Rightarrow> (Inl e, a)
      | Inr ope \<Rightarrow>
         (case ch_verify C (ea_seen a) (ea_keys a) (ea_expected_recipient a) (ea_max_skew a) ope of
            Inl (code, m) \<Rightarrow> (Inl (CAdmit code m), a\<lparr>ea_seen := ea_seen a @ [ope]\<rparr>)
          | Inr _ \<Rightarrow> (Inr True, a\<lparr>ea_seen := ea_seen a @ [ope]\<rparr>)))"

lemma trust_map_keys:
  "from_b64url_map C kvs = Inr m \<Longrightarrow> m k = Some pk \<Longrightarrow>
   trim k \<noteq> ''*'' \<and> length pk = 32 \<and> ch_public_key_ok C pk"
proof (induction kvs arbitrary: m)
  case (Cons kv kvs)
  then show ?case by (cases kv) (auto split: if_splits option.splits sum.splits)
qed simp

text \<open>
  (C30) The configured admission policy is never weaker than it says: an admitter is installed only
  with at least one usable trust key and never with a wildcard, and it passes an envelope unverified
  only when the mode is signed-only and the envelope carries no signature.
\<close>

theorem admission_policy_fails_closed:
  assumes "admitter_from_env C from_str env = Inr (Some a)"
  shows "ea_mode a \<noteq> AdmitOff \<and> ea_keys a \<noteq> Map.empty \<and> (\<forall>k\<in>dom (ea_keys a). trim k \<noteq> ''*'')
    \<and> (\<forall>envelope seen. case admit C envelope (a\<lparr>ea_seen := seen\<rparr>) of
         (Inr False, _) \<Rightarrow> ea_mode a = SignedOnly \<and> \<not> has_signature envelope
       | (Inr True, _) \<Rightarrow> ch_verify C seen (ea_keys a) (ea_expected_recipient a) (ea_max_skew a) envelope = Inr ()
       | (Inl e, _) \<Rightarrow> True)"
proof -
  obtain keys where keys: "(case trust_keys_json env of None \<Rightarrow> Inr Map.empty
      | Some raw \<Rightarrow> (case from_str raw of Inl e \<Rightarrow> Inl (CJson e) | Inr kvs \<Rightarrow> from_b64url_map C kvs)) = Inr keys"
    using assms by (auto simp: admitter_from_env_def split: sum.splits)
  then have a: "ea_mode a \<noteq> AdmitOff" "ea_keys a = keys" "keys \<noteq> Map.empty"
    using assms by (auto simp: admitter_from_env_def Let_def envelope_admitter_new_def split: if_splits)
  have "\<forall>k\<in>dom keys. trim k \<noteq> ''*''"
    using keys by (auto dest: trust_map_keys split: option.splits sum.splits)
  with a show ?thesis
    by (auto simp: admit_def convert_envelope_def split: option.splits sum.splits prod.splits bool.splits)
qed

definition sample_crypto :: crypto_host where
  "sample_crypto = \<lparr>ch_decode = (\<lambda>s. Some (map of_char s)), ch_encode = (\<lambda>bs. ''share''), ch_public_key_ok = (\<lambda>bs. True),
     ch_generate = (\<lambda>n e bs. Inr (''secret'', ''kex'', ''mlkem'', ''x25519'')), ch_convert = (\<lambda>e. None),
     ch_decrypt = (\<lambda>e s. Inr (JObj [(''messages'', JArr [JObj [(''role'', JStr (lit ''user'')), (''content'', JStr (lit ''hi''))]])])),
     ch_begin = (\<lambda>s e c. Inr (''key'', ''iv'', [1])), ch_encrypt = (\<lambda>k i n t. Inr (''ct'' @ show_word n)),
     ch_verify = (\<lambda>seen keys recipient skew e. if e \<in> set seen then Inl (''replay'', ''seen'') else Inr ())\<rparr>"

definition sample_trust_env :: env where
  "sample_trust_env = [''TEECHAT_OPE_ENGINE_TRUST_KEYS'' \<mapsto> ''k'']"

definition sample_trust :: "string \<Rightarrow> string + (string \<times> string) list" where
  "sample_trust raw = Inr [(raw, replicate 32 CHR ''a'')]"

definition sample_admitter :: envelope_admitter where
  "sample_admitter = envelope_admitter_new SignedOnly [''k'' \<mapsto> replicate 32 97] ''teechat-gateway'' 300"

theorem admission_policy_fails_closed_witness:
  "admitter_from_env sample_crypto sample_trust sample_trust_env = Inr (Some sample_admitter)
   \<and> ea_mode sample_admitter \<noteq> AdmitOff \<and> ea_keys sample_admitter \<noteq> Map.empty"
proof -
  have ok: "admitter_from_env sample_crypto sample_trust sample_trust_env = Inr (Some sample_admitter)"
  proof -
    have trims: "trim ''k'' = ''k''" "trim (replicate 32 CHR ''a'') = replicate 32 CHR ''a''" by code_simp+
    then have "from_b64url_map sample_crypto [(''k'', replicate 32 CHR ''a'')] = Inr [''k'' \<mapsto> replicate 32 97]"
      by (simp add: sample_crypto_def numeral_eq_Suc)
    with trims show ?thesis
      by (simp add: admitter_from_env_def trust_keys_json_def sample_trust_env_def sample_trust_def sample_admitter_def)
  qed
  from admission_policy_fails_closed [OF ok] ok show ?thesis by simp
qed

end
