(* ===== verification/Inference.thy ===== *)
theory Inference
  imports Epoch_Decryptor Upstream_Stream Crypto_Provider
begin

section \<open>Encrypted inference\<close>

text \<open>
  \<^verbatim>\<open>ie-engine/src/infer/\<close> with the planning and metering helpers of \<^verbatim>\<open>ie-engine/src/ops/\<close>: the gate in
  front of decryption, background tasks of the gateway, embeddings, and the chat path that turns
  upstream deltas into encrypted frames. Printing of frames, signatures, hashes, the clock and the
  transcript writer are the host. A run returns the result, the frames written to the NDJSON sink
  and the state shared with other runs: the provider's tables, the admitter's replay store and the
  prefill cache.
\<close>

subsection \<open>Gate\<close>

datatype ope_inference_gate_error =
    ContentTypeMustBeOpeJson
  | E2eEnvelopeRequired
  | E2eEphemeralEpochRequired
  | PlaintextPayloadForbidden
  | CiphertextRequired

fun gate_error_str :: "ope_inference_gate_error \<Rightarrow> string" where
  "gate_error_str ContentTypeMustBeOpeJson = ''content_type_must_be_ope_json''"
| "gate_error_str E2eEnvelopeRequired = ''e2e_envelope_required''"
| "gate_error_str E2eEphemeralEpochRequired = ''e2e_ephemeral_epoch_required''"
| "gate_error_str PlaintextPayloadForbidden = ''plaintext_payload_forbidden''"
| "gate_error_str CiphertextRequired = ''ciphertext_required''"

datatype gate_result = GateOk | GateReject u16 ope_inference_gate_error "string option"

definition validate_ope_inference_content_type :: "string \<Rightarrow> string option \<Rightarrow> gate_result" where
  "validate_ope_inference_content_type ope_json content_type =
     (let ct = (case content_type of None \<Rightarrow> [] | Some c \<Rightarrow> c)
      in if \<not> str_contains ct ope_json then GateReject 415 ContentTypeMustBeOpeJson None else GateOk)"

definition nonempty :: "string option \<Rightarrow> bool" where
  "nonempty v \<longleftrightarrow> (case v of None \<Rightarrow> False | Some s \<Rightarrow> s \<noteq> [])"

definition validate_ope_inference_envelope :: "ope_envelope \<Rightarrow> gate_result" where
  "validate_ope_inference_envelope envelope =
     (if oe_enc envelope = ''none'' then GateReject 400 PlaintextPayloadForbidden None
      else if oe_enc envelope \<noteq> ''e2e-hybrid-pq'' \<or> oe_engine_id envelope = None then GateReject 400 E2eEnvelopeRequired None
      else if \<not> nonempty (oe_ciphertext envelope) \<or> \<not> nonempty (oe_iv envelope) then GateReject 400 CiphertextRequired None
      else case oe_e2e envelope of
        None \<Rightarrow> GateReject 400 E2eEphemeralEpochRequired None
      | Some e2e \<Rightarrow>
          if e2e_ephemeral_epoch e2e = [] \<or> e2e_engine_mlkem_encap e2e = [] \<or> e2e_engine_x25519 e2e = []
          then GateReject 400 E2eEphemeralEpochRequired None else GateOk)"

subsection \<open>Prefill planning and usage reports\<close>

record conversation_kv_state =
  kv_prefix_hash :: string
  kv_prefilled_tokens :: u64

record prefill_plan =
  pp_warm :: u64
  pp_cold :: u64

definition plan_vllm_prefill :: "conversation_kv_state option \<Rightarrow> u64 \<Rightarrow> string \<Rightarrow> prefill_plan \<times> conversation_kv_state" where
  "plan_vllm_prefill state tokens prefix_hash =
     (let next = \<lparr>kv_prefix_hash = prefix_hash, kv_prefilled_tokens = tokens\<rparr>
      in case state of
           None \<Rightarrow> (\<lparr>pp_warm = 0, pp_cold = tokens\<rparr>, next)
         | Some s \<Rightarrow>
             if kv_prefix_hash s \<noteq> prefix_hash then (\<lparr>pp_warm = 0, pp_cold = tokens\<rparr>, next)
             else let warm = min (kv_prefilled_tokens s) tokens
                  in (\<lparr>pp_warm = warm, pp_cold = tokens - warm\<rparr>, next))"

definition conversation_kv_key :: "string \<Rightarrow> utext \<Rightarrow> utext" where
  "conversation_kv_key conversation_id model = lit conversation_id @ 0 # model"

record usage_report =
  ur_request_id :: string
  ur_conversation_id :: string
  ur_engine_id :: string
  ur_prompt_tokens :: u64
  ur_completion_tokens :: u64
  ur_cached_tokens :: u64
  ur_ts :: string

definition usage_report_json :: "usage_report \<Rightarrow> json" where
  "usage_report_json r = JObj
     [(''cached_tokens'', JNum (PosInt (ur_cached_tokens r))),
      (''completion_tokens'', JNum (PosInt (ur_completion_tokens r))),
      (''conversation_id'', JStr (lit (ur_conversation_id r))),
      (''engine_id'', JStr (lit (ur_engine_id r))),
      (''prompt_tokens'', JNum (PosInt (ur_prompt_tokens r))),
      (''request_id'', JStr (lit (ur_request_id r))),
      (''ts'', JStr (lit (ur_ts r)))]"

definition usage_report_signing_bytes :: "upstream_host \<Rightarrow> usage_report \<Rightarrow> utext" where
  "usage_report_signing_bytes U r = uh_to_string U (usage_report_json r)"

subsection \<open>Frames, options and state\<close>

datatype ope_stream_frame =
    FServerShare string
  | FTranscriptHeader utext
  | FCiphertext u32 string bool "string option"
  | FStatus utext
  | FTrailer "string option"

record infer_host =
  ih_crypto :: crypto_host
  ih_upstream :: upstream_host
  ih_env :: env
  ih_ope_json :: string
  ih_ope_json_stream :: string
  ih_sha256_hex :: "string \<Rightarrow> string"
  ih_uuid :: string
  ih_now :: string
  ih_sign :: "string \<Rightarrow> utext \<Rightarrow> string"
  ih_signed_report :: "usage_report \<Rightarrow> string \<Rightarrow> string"
  ih_transcript_begin :: "string \<Rightarrow> string \<Rightarrow> string \<Rightarrow> string \<Rightarrow> string \<Rightarrow> utext option"
  ih_transcript_push :: "(string \<times> bool) list \<Rightarrow> string \<Rightarrow> bool \<Rightarrow> string option"
  ih_frame_ok :: "ope_stream_frame \<Rightarrow> bool"

record ope_inference_options =
  oo_request_id :: "string option"
  oo_decrypt_handle :: u64
  oo_rotating :: "rotating_epoch_decryptor option"
  oo_vllm_base_url :: string
  oo_vllm_api_key :: "string option"
  oo_task_vllm_base_url :: "string option"
  oo_task_vllm_api_key :: "string option"
  oo_task_model_id :: "string option"
  oo_embeddings_base_url :: "string option"
  oo_embeddings_api_key :: "string option"
  oo_embeddings_default_model :: "string option"
  oo_chunk_chars :: nat
  oo_usage_signing_key :: "string option"

record infer_state =
  is_provider :: crypto_provider
  is_admitter :: "envelope_admitter option"
  is_kv :: "(utext \<rightharpoonup> conversation_kv_state) option"

record ope_inference_result =
  oir_status :: u16
  oir_content_type :: string
  oir_body :: utext
  oir_usage_header :: "string option"

definition json_result :: "infer_host \<Rightarrow> u16 \<Rightarrow> (string \<times> json) list \<Rightarrow> ope_inference_result" where
  "json_result H status kvs =
     \<lparr>oir_status = status, oir_content_type = ''application/json'',
      oir_body = uh_to_string (ih_upstream H) (JObj kvs), oir_usage_header = None\<rparr>"

definition error_result :: "infer_host \<Rightarrow> u16 \<Rightarrow> string \<Rightarrow> utext option \<Rightarrow> ope_inference_result" where
  "error_result H status error detail =
     json_result H status ((''error'', JStr (lit error)) # (case detail of None \<Rightarrow> [] | Some d \<Rightarrow> [(''detail'', JStr d)]))"

subsection \<open>Resolution\<close>

definition resolve_decrypt_handle :: "ope_inference_options \<Rightarrow> ope_envelope \<Rightarrow> string + u64" where
  "resolve_decrypt_handle options envelope =
     (case oo_rotating options of
        Some rotating \<Rightarrow> (case resolve_handle envelope rotating of Inl e \<Rightarrow> Inl (engine_error_display e) | Inr h \<Rightarrow> Inr h)
      | None \<Rightarrow> Inr (oo_decrypt_handle options))"

definition infer_usage_signing_key :: "ope_inference_options \<Rightarrow> ope_envelope \<Rightarrow> string option" where
  "infer_usage_signing_key options envelope =
     (case Option.bind (oo_rotating options) (resolve_usage_signing_key envelope) of
        Some key \<Rightarrow> Some key | None \<Rightarrow> oo_usage_signing_key options)"

definition resolve_epoch_id :: "ope_inference_options \<Rightarrow> ope_envelope \<Rightarrow> string" where
  "resolve_epoch_id options envelope =
     (case Option.bind (oe_e2e envelope) (\<lambda>e. if e2e_ephemeral_epoch e = [] then None else Some (e2e_ephemeral_epoch e)) of
        Some i \<Rightarrow> i
      | None \<Rightarrow> (case Option.bind (oo_rotating options) dec_current_epoch_id of Some i \<Rightarrow> i | None \<Rightarrow> ''unknown''))"

definition resolve_content_alg :: "ope_envelope \<Rightarrow> string" where
  "resolve_content_alg envelope =
     (case Option.bind (oe_e2e envelope) e2e_content_alg of
        Some a \<Rightarrow> if trim a = [] then ''A256GCM'' else a | None \<Rightarrow> ''A256GCM'')"

definition response_transcript_enabled :: "env \<Rightarrow> bool" where
  "response_transcript_enabled env \<longleftrightarrow>
     trim (case env ''TEECHAT_OPE_RESPONSE_TRANSCRIPT'' of None \<Rightarrow> [] | Some v \<Rightarrow> v) \<in> set [''1'', ''true'', ''on'', ''required'']"

definition envelope_engine_id :: "ope_envelope \<Rightarrow> string" where
  "envelope_engine_id envelope = (case oe_engine_id envelope of None \<Rightarrow> ''engine'' | Some e \<Rightarrow> e)"

definition maybe_begin_response_transcript :: "infer_host \<Rightarrow> ope_inference_options \<Rightarrow> ope_envelope \<Rightarrow> utext option" where
  "maybe_begin_response_transcript H options envelope =
     (if \<not> response_transcript_enabled (ih_env H) then None
      else case infer_usage_signing_key options envelope of None \<Rightarrow> None
        | Some key \<Rightarrow> map_option (\<lambda>line. line @ [10]) (ih_transcript_begin H key (oe_nonce envelope)
            (envelope_engine_id envelope) (resolve_epoch_id options envelope) (resolve_content_alg envelope)))"

definition tokens_from_text :: "utext \<Rightarrow> u64" where
  "tokens_from_text t = max (quarter_ceil (word_of_nat (utf8_len t))) 1"

definition envelope_bound_to_openapi :: "ope_envelope \<Rightarrow> bool" where
  "envelope_bound_to_openapi envelope \<longleftrightarrow> Option.bind (oe_meta envelope) om_conversation_id = None"

definition resolve_enable_thinking :: "ope_envelope \<Rightarrow> json \<Rightarrow> bool \<Rightarrow> bool" where
  "resolve_enable_thinking envelope payload is_task_model =
     (if is_task_model then False
      else case Option.bind (json_get ''enable_thinking'' payload) as_bool of
        Some explicit \<Rightarrow> explicit
      | None \<Rightarrow> \<not> envelope_bound_to_openapi envelope)"

definition completion_text_from_openai_delta :: "json \<Rightarrow> utext option" where
  "completion_text_from_openai_delta frame =
     (if get_str ''type'' frame \<noteq> Some (lit ''openai_delta'') then None
      else case Option.bind (first_choice frame) (json_get ''delta'') of None \<Rightarrow> None
        | Some delta \<Rightarrow>
           (let out = concat (map (\<lambda>k. case get_str k delta of None \<Rightarrow> [] | Some t \<Rightarrow> t)
                  [''content'', ''reasoning'', ''reasoning_content''])
            in if out = [] then None else Some out))"

definition is_embeddings_request :: "json \<Rightarrow> bool" where
  "is_embeddings_request payload \<longleftrightarrow> json_get ''input'' payload \<noteq> None \<and>
     (case json_get ''messages'' payload of None \<Rightarrow> True | Some (JArr a) \<Rightarrow> a = [] | Some JNull \<Rightarrow> True | _ \<Rightarrow> False)"

subsection \<open>Background tasks of the gateway\<close>

definition is_gateway_plane_task_envelope :: "ope_envelope \<Rightarrow> bool" where
  "is_gateway_plane_task_envelope envelope \<longleftrightarrow> oe_enc envelope = ''gateway-plane-task''"

definition envelope_model :: "ope_envelope \<Rightarrow> string option" where
  "envelope_model envelope = Option.bind (oe_meta envelope) om_model"

definition validate_gateway_plane_task_envelope :: "ope_envelope \<Rightarrow> (u16 \<times> string) + gateway_plane_task_payload" where
  "validate_gateway_plane_task_envelope envelope =
     (if \<not> is_gateway_plane_task_envelope envelope then Inl (400, ''not_gateway_plane_task'')
      else if (case oe_engine_id envelope of None \<Rightarrow> True | Some s \<Rightarrow> trim s = []) then Inl (400, ''engine_id_required'')
      else if (case envelope_model envelope of None \<Rightarrow> True | Some m \<Rightarrow> trim m = []) then Inl (400, ''model_required'')
      else case Option.bind (oe_meta envelope) om_gateway_task of
        None \<Rightarrow> Inl (400, ''gateway_task_messages_required'')
      | Some task \<Rightarrow>
          if gtp_messages task = [] then Inl (400, ''gateway_task_messages_required'')
          else if list_ex (\<lambda>m. trim (gtm_role m) = []) (gtp_messages task) then Inl (400, ''invalid_gateway_task_message'')
          else Inr task)"

definition messages_to_json :: "upstream_host \<Rightarrow> gateway_plane_task_payload \<Rightarrow> json list" where
  "messages_to_json U task = normalize_vllm_messages U
     (map (\<lambda>m. JObj [(''role'', JStr (lit (gtm_role m))), (''content'', JStr (lit (gtm_content m)))]) (gtp_messages task))"

definition run_gateway_plane_task_inference ::
    "infer_host \<Rightarrow> ope_envelope \<Rightarrow> string \<Rightarrow> string option \<Rightarrow> string option \<Rightarrow> ope_inference_result" where
  "run_gateway_plane_task_inference H envelope base_url api_key request_id =
     (case validate_gateway_plane_task_envelope envelope of
        Inl (status, error) \<Rightarrow> error_result H status error None
      | Inr task \<Rightarrow>
         if trim base_url = [] then error_result H 503 ''vllm_not_configured'' None
         else
          (let U = ih_upstream H;
               model = strip_model_provider (lit (case envelope_model envelope of None \<Rightarrow> ''unknown'' | Some m \<Rightarrow> m));
               messages = messages_to_json U task;
               prompt_tokens = estimate_prompt_tokens_from_messages U messages
           in case complete_chat U \<lparr>vo_base_url = base_url, vo_model = model, vo_messages = messages, vo_api_key = api_key,
                  vo_max_tokens = map_option clamp_vllm_max_tokens (gtp_max_tokens task), vo_frequency_penalty = None,
                  vo_presence_penalty = None, vo_temperature = gtp_temperature task, vo_top_p = None,
                  vo_enable_thinking = Some False, vo_legacy_completion_text = False, vo_tools = None, vo_tool_choice = None\<rparr> of
                Inl e \<Rightarrow> error_result H 502 ''vllm_upstream_failed'' (Some (upstream_error_display e))
              | Inr content \<Rightarrow>
                 (let completion_tokens = tokens_from_text (if content = [] then lit ''x'' else content);
                      signed = JObj [(''report'', JObj
                          [(''request_id'', JStr (lit (case request_id of None \<Rightarrow> ''gateway-task'' | Some r \<Rightarrow> r))),
                           (''conversation_id'', JStr (lit (case Option.bind (oe_meta envelope) om_conversation_id of
                              None \<Rightarrow> ''gateway-task'' | Some c \<Rightarrow> c))),
                           (''engine_id'', JStr (lit (envelope_engine_id envelope))),
                           (''prompt_tokens'', JNum (PosInt prompt_tokens)),
                           (''completion_tokens'', JNum (PosInt completion_tokens)),
                           (''ts'', JStr (lit (ih_now H)))]), (''sig'', JStr (lit ''gateway-plane-task''))]
                  in (json_result H 200
                        [(''object'', JStr (lit ''chat.completion'')), (''model'', JStr model),
                         (''choices'', JArr [JObj [(''message'', JObj [(''role'', JStr (lit ''assistant'')), (''content'', JStr content)])]])])
                     \<lparr>oir_usage_header := Some (ch_encode (ih_crypto H) (utf8_bytes (uh_to_string U signed)))\<rparr>)))"

subsection \<open>Replies\<close>

record reply =
  rp_seq :: u32
  rp_chunks :: "string list"
  rp_transcript :: "(string \<times> bool) list option"
  rp_out :: "ope_stream_frame list"

definition write_frame :: "infer_host \<Rightarrow> ope_stream_frame \<Rightarrow> reply \<Rightarrow> reply" where
  "write_frame H f rp = (if ih_frame_ok H f then rp\<lparr>rp_out := rp_out rp @ [f]\<rparr> else rp)"

text \<open>The server share and, when enabled, the signed transcript header open a reply.\<close>

definition start_reply :: "infer_host \<Rightarrow> bool \<Rightarrow> ope_inference_options \<Rightarrow> ope_envelope \<Rightarrow> string \<Rightarrow> reply" where
  "start_reply H streaming options envelope server_share =
     (let rp = \<lparr>rp_seq = 0, rp_chunks = [], rp_transcript = None, rp_out = []\<rparr>;
          rp = (if streaming then write_frame H (FServerShare server_share) rp else rp)
      in case maybe_begin_response_transcript H options envelope of
           None \<Rightarrow> rp
         | Some line \<Rightarrow> rp\<lparr>rp_transcript := Some [],
             rp_out := rp_out rp @ (if streaming then [FTranscriptHeader line] else [])\<rparr>)"

definition encrypt_piece :: "infer_host \<Rightarrow> crypto_provider \<Rightarrow> u64 \<Rightarrow> bool \<Rightarrow> utext \<Rightarrow> bool \<Rightarrow> reply \<Rightarrow> reply" where
  "encrypt_piece H pv session streaming piece final rp =
     (case encrypt_response_chunk (ih_crypto H) session (rp_seq rp) piece pv of
        Inl e \<Rightarrow> rp
      | Inr ct \<Rightarrow>
         (let rp' = (if streaming
              then (case rp_transcript rp of
                  None \<Rightarrow> write_frame H (FCiphertext (rp_seq rp) ct final None) rp
                | Some pushed \<Rightarrow>
                    write_frame H (FCiphertext (rp_seq rp) ct final (ih_transcript_push H pushed ct final))
                      (rp\<lparr>rp_transcript := Some (pushed @ [(ct, final)])\<rparr>))
              else rp\<lparr>rp_chunks := rp_chunks rp @ [ct]\<rparr>)
          in rp'\<lparr>rp_seq := rp_seq rp + 1\<rparr>))"

text \<open>
  The inner loop of the legacy path: pieces of \<open>k\<close> characters while the pending text has at least
  \<open>k\<close> bytes. The chunk size is positive, see \<open>chunk_size\<close>.
\<close>

function cut_pieces :: "nat \<Rightarrow> utext \<Rightarrow> utext list \<times> utext" where
  "cut_pieces k pending =
     (if k = 0 \<or> utf8_len pending < k then ([], pending)
      else let (ps, rest) = cut_pieces k (drop k pending) in (take k pending # ps, rest))"
  by auto
termination
proof (relation "measure (\<lambda>(k, pending). length pending)")
  fix k and pending :: utext
  assume "\<not> (k = 0 \<or> utf8_len pending < k)"
  then show "((k, drop k pending), k, pending) \<in> measure (\<lambda>(k, pending). length pending)"
    by (cases pending) auto
qed simp

declare cut_pieces.simps [simp del]

definition chunk_size :: "nat \<Rightarrow> nat" where
  "chunk_size chunk_chars = (if chunk_chars = 0 then 8 else chunk_chars)"

record chat_loop =
  cl_reply :: reply
  cl_pending :: utext
  cl_full_text :: utext

definition process_delta ::
    "infer_host \<Rightarrow> crypto_provider \<Rightarrow> u64 \<Rightarrow> bool \<Rightarrow> bool \<Rightarrow> nat \<Rightarrow> utext \<Rightarrow> chat_loop \<Rightarrow> chat_loop" where
  "process_delta H pv session streaming legacy k delta l =
     (if legacy
      then (let (ps, rest) = cut_pieces k (cl_pending l @ delta)
            in \<lparr>cl_reply = fold (\<lambda>p. encrypt_piece H pv session streaming p False) ps (cl_reply l),
                cl_pending = rest, cl_full_text = cl_full_text l @ delta\<rparr>)
      else l\<lparr>cl_full_text := cl_full_text l @
               (case uh_from_str (ih_upstream H) delta of Inl e \<Rightarrow> []
                | Inr v \<Rightarrow> (case completion_text_from_openai_delta v of None \<Rightarrow> [] | Some t \<Rightarrow> t)),
             cl_reply := encrypt_piece H pv session streaming delta False (cl_reply l)\<rparr>)"

definition vllm_upstream_failed_result :: "infer_host \<Rightarrow> upstream_error \<Rightarrow> ope_inference_result" where
  "vllm_upstream_failed_result H e =
     error_result H (case e of UHttp status body \<Rightarrow> if 400 \<le> status \<and> status < 500 then status else 502 | _ \<Rightarrow> 502)
       ''vllm_upstream_failed'' (Some (upstream_error_display e))"

definition embeddings_upstream_failed_result :: "infer_host \<Rightarrow> upstream_error \<Rightarrow> ope_inference_result" where
  "embeddings_upstream_failed_result H e =
     error_result H (case e of UHttp status body \<Rightarrow> if 400 \<le> status \<and> status < 500 then status else 502 | _ \<Rightarrow> 502)
       ''embeddings_upstream_failed'' (Some (upstream_error_display e))"

definition write_vllm_finish_status :: "infer_host \<Rightarrow> utext option \<Rightarrow> bool \<Rightarrow> reply \<Rightarrow> reply" where
  "write_vllm_finish_status H finish_reason output_empty rp =
     (case Option.bind finish_reason (\<lambda>r. ope_finish_reason_status_detail r output_empty) of
        None \<Rightarrow> rp | Some detail \<Rightarrow> write_frame H (FStatus detail) rp)"

definition usage_header_for :: "infer_host \<Rightarrow> ope_inference_options \<Rightarrow> ope_envelope \<Rightarrow> usage_report \<Rightarrow> string option" where
  "usage_header_for H options envelope report =
     map_option (\<lambda>key. ih_signed_report H report (ih_sign H key (usage_report_signing_bytes (ih_upstream H) report)))
       (infer_usage_signing_key options envelope)"

text \<open>The end of a successful run: the trailer of a streamed reply, or the JSON body with the chunks.\<close>

definition finish_reply ::
    "infer_host \<Rightarrow> bool \<Rightarrow> string \<Rightarrow> u64 \<Rightarrow> string option \<Rightarrow> reply \<Rightarrow> ope_inference_result \<times> reply" where
  "finish_reply H streaming server_share prefill usage_header rp =
     (if streaming
      then (\<lparr>oir_status = 200, oir_content_type = ih_ope_json_stream H, oir_body = [], oir_usage_header = usage_header\<rparr>,
            write_frame H (FTrailer usage_header) rp)
      else (\<lparr>oir_status = 200, oir_content_type = ih_ope_json H,
             oir_body = uh_to_string (ih_upstream H) (JObj [(''server_share'', JStr (lit server_share)),
               (''chunks'', JArr (map (\<lambda>c. JStr (lit c)) (rp_chunks rp))), (''engine_prefill_tokens'', JNum (PosInt prefill))]),
             oir_usage_header = usage_header\<rparr>, rp))"

subsection \<open>Embeddings\<close>

definition conversation_id_or :: "string \<Rightarrow> ope_envelope \<Rightarrow> string" where
  "conversation_id_or d envelope = (case Option.bind (oe_meta envelope) om_conversation_id of None \<Rightarrow> d | Some c \<Rightarrow> c)"

definition request_id_for :: "infer_host \<Rightarrow> ope_inference_options \<Rightarrow> string" where
  "request_id_for H options = (case oo_request_id options of None \<Rightarrow> ih_uuid H | Some r \<Rightarrow> r)"

definition embeddings_extra :: "json \<Rightarrow> json option" where
  "embeddings_extra payload =
     (let kvs = (case get_u64 ''dimensions'' payload of None \<Rightarrow> [] | Some d \<Rightarrow> [(''dimensions'', JNum (PosInt d))]) @
          (case get_str ''encoding_format'' payload of None \<Rightarrow> [] | Some f \<Rightarrow> [(''encoding_format'', JStr f)])
      in if kvs = [] then None else Some (JObj kvs))"

definition run_embeddings_inference ::
    "infer_host \<Rightarrow> bool \<Rightarrow> ope_envelope \<Rightarrow> json \<Rightarrow> ope_inference_options \<Rightarrow> string \<Rightarrow> infer_state
     \<Rightarrow> ope_inference_result \<times> ope_stream_frame list \<times> infer_state" where
  "run_embeddings_inference H streaming envelope payload options base_url st =
     (case resolve_decrypt_handle options envelope of
        Inl e \<Rightarrow> (error_result H 400 ''decrypt_failed'' (Some (lit e)), [], st)
      | Inr handle \<Rightarrow>
         (let model_raw = (case get_str ''model'' payload of Some m \<Rightarrow> m
                | None \<Rightarrow> lit (case or_else (envelope_model envelope) (oo_embeddings_default_model options) of
                    Some m \<Rightarrow> m | None \<Rightarrow> ''unknown''));
              input = (case json_get ''input'' payload of None \<Rightarrow> JStr [] | Some v \<Rightarrow> v)
          in case complete_embeddings (ih_upstream H) \<lparr>eo_base_url = base_url, eo_api_key = oo_embeddings_api_key options,
                 eo_model = strip_model_provider model_raw, eo_input = input, eo_extra = embeddings_extra payload\<rparr> of
               Inl e \<Rightarrow> (embeddings_upstream_failed_result H e, [], st)
             | Inr completed \<Rightarrow>
                (case begin_response (ih_crypto H) handle envelope (is_provider st) of
                   (Inl e, pv) \<Rightarrow> (error_result H 400 ''begin_response_failed'' (Some (lit (crypto_error_display e))), [], st\<lparr>is_provider := pv\<rparr>)
                 | (Inr resp, pv) \<Rightarrow>
                    (let rp = start_reply H streaming options envelope (rsn_server_share resp);
                         rp = encrypt_piece H pv (rsn_session resp) streaming (uh_to_string (ih_upstream H) (ers_body completed)) True rp;
                         pv = free_response (rsn_session resp) pv;
                         report = \<lparr>ur_request_id = request_id_for H options, ur_conversation_id = conversation_id_or ''conv'' envelope,
                           ur_engine_id = envelope_engine_id envelope, ur_prompt_tokens = ers_prompt_tokens completed,
                           ur_completion_tokens = 0, ur_cached_tokens = 0, ur_ts = ih_now H\<rparr>;
                         (result, rp) = finish_reply H streaming (rsn_server_share resp) 0 (usage_header_for H options envelope report) rp
                     in (result, rp_out rp, st\<lparr>is_provider := pv\<rparr>)))))"

subsection \<open>Chat\<close>

definition plan_prefill :: "infer_host \<Rightarrow> string \<Rightarrow> utext \<Rightarrow> u64 \<Rightarrow> infer_state \<Rightarrow> prefill_plan \<times> infer_state" where
  "plan_prefill H conv_id model tokens st =
     (case is_kv st of
        None \<Rightarrow> (\<lparr>pp_warm = 0, pp_cold = tokens\<rparr>, st)
      | Some m \<Rightarrow>
         (let key = conversation_kv_key conv_id model;
              (plan, next) = plan_vllm_prefill (m key) tokens (ih_sha256_hex H conv_id)
          in (plan, st\<lparr>is_kv := Some (m(key \<mapsto> next))\<rparr>)))"

definition payload_not_null :: "string \<Rightarrow> json \<Rightarrow> json option" where
  "payload_not_null k payload = (case json_get k payload of Some v \<Rightarrow> if v = JNull then None else Some v | None \<Rightarrow> None)"

definition chat_legacy_text :: "infer_host \<Rightarrow> ope_envelope \<Rightarrow> json \<Rightarrow> bool" where
  "chat_legacy_text H envelope payload \<longleftrightarrow> ope_completion_legacy_text_enabled (ih_env H)
     \<and> payload_not_null ''tools'' payload = None \<and> \<not> envelope_bound_to_openapi envelope"

text \<open>The model is chosen first: base URL, model name, key and whether it is the task model.\<close>

definition chat_route :: "ope_envelope \<Rightarrow> json \<Rightarrow> ope_inference_options \<Rightarrow> string \<times> utext \<times> string option \<times> bool" where
  "chat_route envelope payload options =
     resolve_vllm_base_url_for_model
       (case get_str ''model'' payload of Some m \<Rightarrow> m
        | None \<Rightarrow> lit (case envelope_model envelope of Some m \<Rightarrow> m | None \<Rightarrow> ''unknown''))
       (oo_vllm_base_url options) (oo_vllm_api_key options) (oo_task_model_id options)
       (oo_task_vllm_base_url options) (oo_task_vllm_api_key options)"

definition chat_request :: "infer_host \<Rightarrow> ope_envelope \<Rightarrow> json \<Rightarrow> ope_inference_options \<Rightarrow> json list \<Rightarrow> vllm_stream_options" where
  "chat_request H envelope payload options messages =
     (let (base_url, model, api_key, is_task) = chat_route envelope payload options;
          num = (\<lambda>k. Option.bind (json_get k payload) as_f64)
      in \<lparr>vo_base_url = base_url, vo_model = model, vo_messages = messages, vo_api_key = api_key,
          vo_max_tokens = or_else (map_option (\<lambda>n. clamp_vllm_max_tokens (ucast n)) (get_u64 ''max_tokens'' payload))
            (Some VLLM_MAX_TOKENS_DEFAULT),
          vo_frequency_penalty = num ''frequency_penalty'', vo_presence_penalty = num ''presence_penalty'',
          vo_temperature = num ''temperature'', vo_top_p = num ''top_p'',
          vo_enable_thinking = Some (resolve_enable_thinking envelope payload is_task),
          vo_legacy_completion_text = chat_legacy_text H envelope payload,
          vo_tools = payload_not_null ''tools'' payload, vo_tool_choice = payload_not_null ''tool_choice'' payload\<rparr>)"

text \<open>
  The loop over the upstream stream and what follows it. The items of the stream do not depend on
  what is encrypted meanwhile, so the loop runs over the texts that \<^const>\<open>drain_stream\<close> yields and
  then meets the error that ended the stream, if any. On an error after the first frame the pending
  text, possibly empty, is sent as the final frame.
\<close>

definition chat_report ::
    "infer_host \<Rightarrow> ope_inference_options \<Rightarrow> ope_envelope \<Rightarrow> prefill_plan \<Rightarrow> vllm_usage_state \<Rightarrow> utext \<Rightarrow> usage_report" where
  "chat_report H options envelope plan usage full_text =
     \<lparr>ur_request_id = request_id_for H options, ur_conversation_id = conversation_id_or ''conv'' envelope,
      ur_engine_id = envelope_engine_id envelope,
      ur_prompt_tokens = (case positive (vu_prompt_tokens usage) of Some n \<Rightarrow> n | None \<Rightarrow> max (pp_warm plan + pp_cold plan) 1),
      ur_completion_tokens = (case vu_completion_tokens usage of Some n \<Rightarrow> n
        | None \<Rightarrow> tokens_from_text (if full_text = [] then lit ''x'' else full_text)),
      ur_cached_tokens = (case vu_cached_tokens usage of Some n \<Rightarrow> n | None \<Rightarrow> pp_warm plan),
      ur_ts = ih_now H\<rparr>"

definition chat_stream ::
    "infer_host \<Rightarrow> bool \<Rightarrow> ope_inference_options \<Rightarrow> ope_envelope \<Rightarrow> prefill_plan \<Rightarrow> bool \<Rightarrow> crypto_provider
     \<Rightarrow> response_session \<Rightarrow> utext list \<times> upstream_error option \<times> vllm_sse_stream \<Rightarrow> ope_inference_result \<times> reply" where
  "chat_stream H streaming options envelope plan legacy pv resp = (\<lambda>(deltas, err, stream).
     let session = rsn_session resp;
         l = fold (process_delta H pv session streaming legacy (chunk_size (oo_chunk_chars options))) deltas
           \<lparr>cl_reply = start_reply H streaming options envelope (rsn_server_share resp), cl_pending = [], cl_full_text = []\<rparr>;
         rp = cl_reply l
     in case err of
          Some e \<Rightarrow>
            if streaming \<and> 0 < rp_seq rp
            then (\<lparr>oir_status = 502, oir_content_type = ih_ope_json_stream H, oir_body = [], oir_usage_header = None\<rparr>,
                  encrypt_piece H pv session streaming (cl_pending l) True rp)
            else (vllm_upstream_failed_result H e, rp)
        | None \<Rightarrow>
           (let rp = (if cl_pending l \<noteq> [] then encrypt_piece H pv session streaming (cl_pending l) True rp
                 else if 0 < rp_seq rp then encrypt_piece H pv session streaming [] True rp else rp);
                usage = ss_usage stream;
                rp = (if streaming then write_vllm_finish_status H (vu_finish_reason usage) (text_trim (cl_full_text l) = []) rp else rp);
                report = chat_report H options envelope plan usage (cl_full_text l)
            in finish_reply H streaming (rsn_server_share resp) (pp_cold plan) (usage_header_for H options envelope report) rp))"

definition run_chat_inference ::
    "infer_host \<Rightarrow> bool \<Rightarrow> ope_envelope \<Rightarrow> json \<Rightarrow> ope_inference_options \<Rightarrow> u64 \<Rightarrow> infer_state
     \<Rightarrow> ope_inference_result \<times> ope_stream_frame list \<times> infer_state" where
  "run_chat_inference H streaming envelope payload options handle st =
     (let U = ih_upstream H;
          (base_url, model, api_key, is_task) = chat_route envelope payload options;
          messages = normalize_vllm_messages U
            (case Option.bind (json_get ''messages'' payload) as_array of None \<Rightarrow> [] | Some ms \<Rightarrow> ms);
          (plan, st) = plan_prefill H (conversation_id_or ''conv'' envelope) model (estimate_prompt_tokens_from_messages U messages) st
      in case begin_response (ih_crypto H) handle envelope (is_provider st) of
           (Inl e, pv) \<Rightarrow> (error_result H 400 ''begin_response_failed'' (Some (lit (crypto_error_display e))), [], st\<lparr>is_provider := pv\<rparr>)
         | (Inr resp, pv) \<Rightarrow>
            (let freed = st\<lparr>is_provider := free_response (rsn_session resp) pv\<rparr>
             in case stream_chat_completion U (chat_request H envelope payload options messages) of
                  Inl e \<Rightarrow> (vllm_upstream_failed_result H e, [], freed)
                | Inr stream \<Rightarrow>
                   (let (result, rp) = chat_stream H streaming options envelope plan (chat_legacy_text H envelope payload) pv resp
                          (drain_stream U stream)
                    in (result, rp_out rp, freed))))"

subsection \<open>The whole path\<close>

definition admit_envelope :: "infer_host \<Rightarrow> ope_envelope \<Rightarrow> infer_state \<Rightarrow> ope_inference_result option \<times> infer_state" where
  "admit_envelope H envelope st =
     (case is_admitter st of
        None \<Rightarrow> (None, st)
      | Some a \<Rightarrow>
         (case admit (ih_crypto H) envelope a of
            (Inr _, a) \<Rightarrow> (None, st\<lparr>is_admitter := Some a\<rparr>)
          | (Inl (CAdmit code detail), a) \<Rightarrow> (Some (error_result H 401 code (Some (lit detail))), st\<lparr>is_admitter := Some a\<rparr>)
          | (Inl e, a) \<Rightarrow> (Some (error_result H 400 ''ope_admit_failed'' (Some (lit (crypto_error_display e)))), st\<lparr>is_admitter := Some a\<rparr>)))"

definition run_decrypted ::
    "infer_host \<Rightarrow> bool \<Rightarrow> ope_envelope \<Rightarrow> ope_inference_options \<Rightarrow> u64 \<Rightarrow> json \<Rightarrow> infer_state
     \<Rightarrow> ope_inference_result \<times> ope_stream_frame list \<times> infer_state" where
  "run_decrypted H streaming envelope options handle payload st =
     (if is_embeddings_request payload
      then (case oo_embeddings_base_url options of
          Some u \<Rightarrow> if trim u = [] then (error_result H 503 ''embeddings_not_configured'' None, [], st)
            else run_embeddings_inference H streaming envelope payload options (trim u) st
        | None \<Rightarrow> (error_result H 503 ''embeddings_not_configured'' None, [], st))
      else if trim (oo_vllm_base_url options) = [] then (error_result H 503 ''vllm_not_configured'' None, [], st)
      else run_chat_inference H streaming envelope payload options handle st)"

definition run_ope_inference_on_envelope ::
    "infer_host \<Rightarrow> bool \<Rightarrow> ope_envelope \<Rightarrow> ope_inference_options \<Rightarrow> infer_state
     \<Rightarrow> ope_inference_result \<times> ope_stream_frame list \<times> infer_state" where
  "run_ope_inference_on_envelope H streaming envelope options st =
     (if is_gateway_plane_task_envelope envelope
      then (let (base_url, model, api_key, is_task) = resolve_vllm_base_url_for_model
                  (lit (case envelope_model envelope of None \<Rightarrow> ''unknown'' | Some m \<Rightarrow> m))
                  (oo_vllm_base_url options) (oo_vllm_api_key options) (oo_task_model_id options)
                  (oo_task_vllm_base_url options) (oo_task_vllm_api_key options)
            in (run_gateway_plane_task_inference H envelope base_url api_key (oo_request_id options), [], st))
      else case validate_ope_inference_envelope envelope of
        GateReject status error detail \<Rightarrow> (error_result H status (gate_error_str error) (map_option lit detail), [], st)
      | GateOk \<Rightarrow>
         (case admit_envelope H envelope st of
            (Some result, st) \<Rightarrow> (result, [], st)
          | (None, st) \<Rightarrow>
             (case resolve_decrypt_handle options envelope of
                Inl e \<Rightarrow> (error_result H 400 ''decrypt_failed'' (Some (lit e)), [], st)
              | Inr handle \<Rightarrow>
                 (case decrypt_request (ih_crypto H) handle envelope (is_provider st) of
                    Inl e \<Rightarrow> (error_result H 400 ''decrypt_failed'' (Some (lit (crypto_error_display e))), [], st)
                  | Inr payload \<Rightarrow> run_decrypted H streaming envelope options handle payload st))))"

end
