(* ===== verification/Inference_Properties.thy ===== *)
theory Inference_Properties
  imports Inference
begin

section \<open>Properties of encrypted inference\<close>

text \<open>
  What the inference path guarantees on top of its definitions: response sessions are balanced, only
  gated and admitted requests are decrypted, a completed chat reply carries exactly the text of the
  upstream in consecutively numbered frames of which the last is marked final, and usage reports add
  up.
\<close>

subsection \<open>Sessions are balanced\<close>

lemma begin_free_balanced:
  "provider_wf pv \<Longrightarrow> begin_response C h env pv = (Inr r, pv') \<Longrightarrow>
   live_sessions (free_response (rsn_session r) pv') = live_sessions pv"
  by (rule provider_sessions.balanced) (auto simp: session_opened_def)

lemma plan_prefill_provider [simp]: "is_provider (snd (plan_prefill H c m t st)) = is_provider st"
  by (simp add: plan_prefill_def Let_def split: option.split prod.split)

lemma chat_sessions:
  "provider_wf (is_provider st) \<Longrightarrow>
   live_sessions (is_provider (snd (snd (run_chat_inference H streaming envelope payload options handle st)))) = live_sessions (is_provider st)"
proof -
  assume wf: "provider_wf (is_provider st)"
  obtain b m k t where route: "chat_route envelope payload options = (b, m, k, t)" by (metis prod_cases4)
  let ?ms = "normalize_vllm_messages (ih_upstream H) (case Option.bind (json_get ''messages'' payload) as_array of None \<Rightarrow> [] | Some ms \<Rightarrow> ms)"
  obtain plan st1 where plan: "plan_prefill H (conversation_id_or ''conv'' envelope) m (estimate_prompt_tokens_from_messages (ih_upstream H) ?ms) st = (plan, st1)"
    by fastforce
  have st1: "is_provider st1 = is_provider st" using plan_prefill_provider [of H "conversation_id_or ''conv'' envelope" m _ st] plan by (metis snd_conv)
  obtain r pv where bgn: "begin_response (ih_crypto H) handle envelope (is_provider st) = (r, pv)" by fastforce
  show ?thesis
    using wf bgn st1 route plan begin_response_error [of "ih_crypto H" handle envelope "is_provider st"]
      begin_free_balanced [OF wf, of "ih_crypto H" handle envelope]
    by (cases r) (auto simp: run_chat_inference_def Let_def split: sum.split prod.split)
qed

lemma embeddings_sessions:
  "provider_wf (is_provider st) \<Longrightarrow>
   live_sessions (is_provider (snd (snd (run_embeddings_inference H streaming envelope payload options u st)))) = live_sessions (is_provider st)"
  using begin_response_error [of "ih_crypto H" _ envelope "is_provider st"]
    begin_free_balanced [of "is_provider st" "ih_crypto H" _ envelope]
  by (auto simp: run_embeddings_inference_def Let_def split: sum.split prod.split)

lemma admit_envelope_provider: "is_provider (snd (admit_envelope H envelope st)) = is_provider st"
  by (auto simp: admit_envelope_def split: option.split prod.split sum.split crypto_error.split)

lemma run_balances_sessions:
  assumes "provider_wf (is_provider st)"
  shows "case run_ope_inference_on_envelope H streaming envelope options st of
           (result, frames, st') \<Rightarrow> live_sessions (is_provider st') = live_sessions (is_provider st)"
proof -
  have decrypted: "live_sessions (is_provider (snd (snd (run_decrypted H streaming envelope options handle payload st1)))) = live_sessions (is_provider st)"
    if "is_provider st1 = is_provider st" for handle payload st1
    using chat_sessions [of st1] embeddings_sessions [of st1] assms that
    by (auto simp: run_decrypted_def split: option.split)
  obtain r st1 where admit: "admit_envelope H envelope st = (r, st1)" by fastforce
  then have "is_provider st1 = is_provider st" using admit_envelope_provider [of H envelope st] by simp
  then have "live_sessions (is_provider (snd (snd (run_ope_inference_on_envelope H streaming envelope options st))))
      = live_sessions (is_provider st)"
    using decrypted [of st1] admit
    by (simp add: run_ope_inference_on_envelope_def split_def Let_def split: gate_result.split option.split sum.split)
  then show ?thesis by (simp add: split_def)
qed

text \<open>
  (C5) No inference leaks a response session: on every path, errors included, the provider holds the
  same response sessions afterwards as before.
\<close>

theorem inference_balances_sessions:
  assumes "provider_wf (is_provider st)"
  shows "case run_ope_inference_on_envelope H streaming envelope options st of
           (result, frames, st') \<Rightarrow> live_sessions (is_provider st') = live_sessions (is_provider st)"
  using assms by (rule run_balances_sessions)

subsection \<open>What is served\<close>

lemma error_result_status [simp]: "oir_status (error_result H status e d) = status"
  by (simp add: error_result_def json_result_def)

text \<open>
  (C6) Only gated and admitted requests are served: an envelope that is not a background task and
  answers 200 has passed the gate, was not refused by the admitter, and was decrypted with the handle
  its epoch resolves to.
\<close>

theorem only_admitted_requests_are_served:
  assumes "run_ope_inference_on_envelope H streaming envelope options st = (result, frames, st')"
    and "oir_status result = 200" and "\<not> is_gateway_plane_task_envelope envelope"
  shows "validate_ope_inference_envelope envelope = GateOk
    \<and> fst (admit_envelope H envelope st) = None
    \<and> (\<exists>handle payload. resolve_decrypt_handle options envelope = Inr handle
         \<and> decrypt_request (ih_crypto H) handle envelope (is_provider st) = Inr payload)"
proof -
  have gate: "status = 400" if "validate_ope_inference_envelope envelope = GateReject status e d" for status e d
    using that by (auto simp: validate_ope_inference_envelope_def split: if_splits option.splits)
  have refused: "oir_status r = 401 \<or> oir_status r = 400" if "admit_envelope H envelope st = (Some r, st1)" for r st1
    using that by (auto simp: admit_envelope_def split: option.splits prod.splits sum.splits crypto_error.splits)
  obtain r st1 where admit: "admit_envelope H envelope st = (r, st1)" by fastforce
  then have pv: "is_provider st1 = is_provider st" using admit_envelope_provider [of H envelope st] by simp
  show ?thesis
    using assms gate refused [of _ st1] admit pv
    by (auto simp: run_ope_inference_on_envelope_def split: gate_result.splits option.splits sum.splits)
qed

subsection \<open>Completeness of a streamed reply\<close>

text \<open>
  The named assumptions on the host: encryption under a live session succeeds, and frames print.
  \<open>sealed\<close> numbers and encrypts pieces of text; \<open>ciphers\<close> reads the ciphertext frames of an output.
\<close>

definition cipher_total :: "infer_host \<Rightarrow> bool" where
  "cipher_total H \<longleftrightarrow> (\<forall>key iv seq t. \<exists>ct. ch_encrypt (ih_crypto H) key iv seq t = Inr ct)"

definition frames_print :: "infer_host \<Rightarrow> bool" where
  "frames_print H \<longleftrightarrow> (\<forall>f. ih_frame_ok H f)"

fun cipher_view :: "ope_stream_frame \<Rightarrow> (u32 \<times> string \<times> bool) list" where
  "cipher_view (FCiphertext n ct final chain) = [(n, ct, final)]"
| "cipher_view f = []"

definition ciphers :: "ope_stream_frame list \<Rightarrow> (u32 \<times> string \<times> bool) list" where
  "ciphers out = concat (map cipher_view out)"

definition seal :: "infer_host \<Rightarrow> live_response \<Rightarrow> u32 \<Rightarrow> utext \<Rightarrow> string" where
  "seal H live n t = projr (ch_encrypt (ih_crypto H) (lr_key live) (lr_iv live) n t)"

fun sealed :: "infer_host \<Rightarrow> live_response \<Rightarrow> u32 \<Rightarrow> (utext \<times> bool) list \<Rightarrow> (u32 \<times> string \<times> bool) list" where
  "sealed H live n [] = []"
| "sealed H live n ((p, final) # ps) = (n, seal H live n p, final) # sealed H live (n + 1) ps"

definition mark_last :: "utext list \<Rightarrow> (utext \<times> bool) list" where
  "mark_last ps = (if ps = [] then [] else map (\<lambda>p. (p, False)) (butlast ps) @ [(last ps, True)])"

lemma sealed_append: "sealed H live n (xs @ ys) = sealed H live n xs @ sealed H live (n + of_nat (length xs)) ys"
  by (induction H live n xs rule: sealed.induct) (simp_all add: add.assoc)

lemma ciphers_simps [simp]: "ciphers [] = []" "ciphers (xs @ ys) = ciphers xs @ ciphers ys" "ciphers [f] = cipher_view f"
  by (simp_all add: ciphers_def)

lemma encrypt_piece_total:
  assumes "cipher_total H" "frames_print H" "rs_responses st k = Some live"
  shows "ciphers (rp_out (encrypt_piece H (RealProvider st) k True p final rp))
       = ciphers (rp_out rp) @ [(rp_seq rp, seal H live (rp_seq rp) p, final)]"
    "rp_seq (encrypt_piece H (RealProvider st) k True p final rp) = rp_seq rp + 1"
proof -
  obtain ct where "ch_encrypt (ih_crypto H) (lr_key live) (lr_iv live) (rp_seq rp) p = Inr ct"
    using assms(1) unfolding cipher_total_def by blast
  then have "encrypt_response_chunk (ih_crypto H) k (rp_seq rp) p (RealProvider st) = Inr ct" "seal H live (rp_seq rp) p = ct"
    using assms(3) by (simp_all add: encrypt_response_chunk_def seal_def)
  then show "ciphers (rp_out (encrypt_piece H (RealProvider st) k True p final rp))
       = ciphers (rp_out rp) @ [(rp_seq rp, seal H live (rp_seq rp) p, final)]"
    "rp_seq (encrypt_piece H (RealProvider st) k True p final rp) = rp_seq rp + 1"
    using assms(2) by (simp_all add: encrypt_piece_def write_frame_def frames_print_def split: option.split)
qed

lemma start_reply_empty: "rp_seq (start_reply H streaming options envelope share) = 0"
  "ciphers (rp_out (start_reply H streaming options envelope share)) = []"
  by (simp_all add: start_reply_def Let_def write_frame_def split: option.split)

text \<open>A reply that has sealed the pieces \<open>ps\<close>, none of them final.\<close>

definition reply_holds :: "infer_host \<Rightarrow> live_response \<Rightarrow> utext list \<Rightarrow> reply \<Rightarrow> bool" where
  "reply_holds H live ps rp \<longleftrightarrow>
     ciphers (rp_out rp) = sealed H live 0 (map (\<lambda>p. (p, False)) ps) \<and> rp_seq rp = of_nat (length ps)"

lemma reply_holds_fold:
  assumes "cipher_total H" "frames_print H" "rs_responses st k = Some live"
  shows "reply_holds H live ps rp \<Longrightarrow>
    reply_holds H live (ps @ qs) (fold (\<lambda>p. encrypt_piece H (RealProvider st) k True p False) qs rp)"
proof (induction qs arbitrary: ps rp)
  case (Cons q qs)
  then have "reply_holds H live (ps @ [q]) (encrypt_piece H (RealProvider st) k True q False rp)"
    using encrypt_piece_total [OF assms, of q False rp]
    by (simp add: reply_holds_def sealed_append)
  from Cons.IH [OF this] show ?case by simp
qed simp

lemma cut_pieces_concat: "cut_pieces k t = (ps, rest) \<Longrightarrow> concat ps @ rest = t"
proof (induction k t arbitrary: ps rule: cut_pieces.induct)
  case (1 k t)
  show ?case
  proof (cases "k = 0 \<or> utf8_len t < k")
    case True
    then show ?thesis using "1.prems" by (simp add: cut_pieces.simps [of k t])
  next
    case False
    then obtain qs where "cut_pieces k (drop k t) = (qs, rest)" "ps = take k t # qs"
      using "1.prems" by (auto simp: cut_pieces.simps [of k t] split: prod.splits)
    then show ?thesis using "1.IH" [OF False] by simp
  qed
qed

lemma cut_pieces_nonempty: "cut_pieces k t = (ps, rest) \<Longrightarrow> \<forall>p\<in>set ps. p \<noteq> [] \<and> length p \<le> k"
proof (induction k t arbitrary: ps rule: cut_pieces.induct)
  case (1 k t)
  show ?case
  proof (cases "k = 0 \<or> utf8_len t < k")
    case True
    then show ?thesis using "1.prems" by (simp add: cut_pieces.simps [of k t])
  next
    case False
    then obtain qs where qs: "cut_pieces k (drop k t) = (qs, rest)" "ps = take k t # qs"
      using "1.prems" by (auto simp: cut_pieces.simps [of k t] split: prod.splits)
    moreover have "t \<noteq> []" using False by auto
    ultimately show ?thesis using "1.IH" [OF False] False by auto
  qed
qed

text \<open>The invariant of the loop over the deltas.\<close>

definition loop_holds :: "infer_host \<Rightarrow> live_response \<Rightarrow> bool \<Rightarrow> utext list \<Rightarrow> chat_loop \<Rightarrow> bool" where
  "loop_holds H live legacy deltas l \<longleftrightarrow>
     (\<exists>ps. concat ps @ cl_pending l = concat deltas \<and> reply_holds H live ps (cl_reply l)
        \<and> (if legacy then \<forall>p\<in>set ps. p \<noteq> [] else ps = deltas \<and> cl_pending l = []))"

lemma loop_step:
  assumes "cipher_total H" "frames_print H" "rs_responses st k = Some live" "loop_holds H live legacy deltas l"
  shows "loop_holds H live legacy (deltas @ [d]) (process_delta H (RealProvider st) k True legacy n d l)"
proof -
  obtain ps where ps: "concat ps @ cl_pending l = concat deltas" "reply_holds H live ps (cl_reply l)"
    "if legacy then \<forall>p\<in>set ps. p \<noteq> [] else ps = deltas \<and> cl_pending l = []"
    using assms(4) by (auto simp: loop_holds_def)
  show ?thesis
  proof (cases legacy)
    case True
    obtain qs rest where cut: "cut_pieces n (cl_pending l @ d) = (qs, rest)" by fastforce
    have "concat (ps @ qs) @ rest = (concat ps @ cl_pending l) @ d" using cut_pieces_concat [OF cut] by simp
    also have "\<dots> = concat (deltas @ [d])" unfolding ps(1) by simp
    finally show ?thesis
      using True ps cut cut_pieces_nonempty [OF cut] reply_holds_fold [OF assms(1-3) ps(2), of qs]
      by (auto simp: loop_holds_def process_delta_def intro!: exI [of _ "ps @ qs"])
  next
    case False
    then show ?thesis
      using ps reply_holds_fold [OF assms(1-3) ps(2), of "[d]"]
      by (auto simp: loop_holds_def process_delta_def)
  qed
qed

lemma loop_all:
  assumes "cipher_total H" "frames_print H" "rs_responses st k = Some live"
  shows "loop_holds H live legacy deltas
    (fold (process_delta H (RealProvider st) k True legacy n) deltas
      \<lparr>cl_reply = start_reply H True options envelope share, cl_pending = [], cl_full_text = []\<rparr>)"
proof (induction deltas rule: rev_induct)
  case Nil
  have "reply_holds H live [] (start_reply H True options envelope share)" by (simp add: reply_holds_def start_reply_empty)
  then show ?case by (auto simp: loop_holds_def intro!: exI [of _ "[]"])
next
  case (snoc d deltas)
  then show ?case using loop_step [OF assms] by simp
qed

lemma length_le_concat: "\<forall>p\<in>set ps. p \<noteq> [] \<Longrightarrow> length ps \<le> length (concat ps)"
proof (induction ps)
  case (Cons p ps)
  then show ?case by (cases p) simp_all
qed simp

lemma finish_ciphers [simp]:
  "ciphers (rp_out (write_vllm_finish_status H r b rp)) = ciphers (rp_out rp)"
  "ciphers (rp_out (snd (finish_reply H True share n u rp))) = ciphers (rp_out rp)"
  "oir_status (fst (finish_reply H streaming share n u rp)) = 200"
  by (simp_all add: write_vllm_finish_status_def finish_reply_def write_frame_def split: option.split)

lemma reply_finish:
  assumes "cipher_total H" "frames_print H" "rs_responses st k = Some live" "reply_holds H live ps rp"
  shows "ciphers (rp_out (encrypt_piece H (RealProvider st) k True p True rp)) = sealed H live 0 (mark_last (ps @ [p]))"
  using assms(4) encrypt_piece_total(1) [OF assms(1-3), of p True rp]
  by (simp add: reply_holds_def mark_last_def sealed_append)

text \<open>
  (C12) A streamed chat reply is complete: when the upstream ends regularly, the ciphertext frames are
  the encryptions, numbered from zero without gaps, of pieces whose concatenation is exactly the text
  the upstream produced, and the last frame and no other is marked final. Without the legacy text
  mode the pieces are the upstream's deltas one by one, closed by an empty final frame.
\<close>

theorem chat_reply_is_complete:
  assumes "cipher_total H" "frames_print H" "rs_responses st (rsn_session resp) = Some live"
    and "length deltas + length (concat deltas) < 2 ^ 32"
    and "chat_stream H True options envelope plan legacy (RealProvider st) resp (deltas, None, stream) = (result, rp)"
  shows "oir_status result = 200 \<and> (\<exists>pieces. concat pieces = concat deltas
     \<and> ciphers (rp_out rp) = sealed H live 0 (mark_last pieces)
     \<and> (legacy \<or> pieces = (if deltas = [] then [] else deltas @ [[]])))"
proof -
  let ?k = "rsn_session resp"
  define l where "l = fold (process_delta H (RealProvider st) ?k True legacy (chunk_size (oo_chunk_chars options))) deltas
     \<lparr>cl_reply = start_reply H True options envelope (rsn_server_share resp), cl_pending = [], cl_full_text = []\<rparr>"
  let ?last = "if cl_pending l \<noteq> [] then encrypt_piece H (RealProvider st) ?k True (cl_pending l) True (cl_reply l)
     else if 0 < rp_seq (cl_reply l) then encrypt_piece H (RealProvider st) ?k True [] True (cl_reply l) else cl_reply l"
  have "ciphers (rp_out (snd (chat_stream H True options envelope plan legacy (RealProvider st) resp (deltas, None, stream))))
      = ciphers (rp_out ?last)"
    "oir_status (fst (chat_stream H True options envelope plan legacy (RealProvider st) resp (deltas, None, stream))) = 200"
    by (simp_all add: chat_stream_def Let_def flip: l_def)
  then have out: "ciphers (rp_out rp) = ciphers (rp_out ?last)" "oir_status result = 200"
    unfolding assms(5) by simp_all
  obtain ps where ps: "concat ps @ cl_pending l = concat deltas" "reply_holds H live ps (cl_reply l)"
    "if legacy then \<forall>p\<in>set ps. p \<noteq> [] else ps = deltas \<and> cl_pending l = []"
    using loop_all [OF assms(1-3), of legacy deltas] unfolding loop_holds_def l_def by blast
  have "length (concat ps) \<le> length (concat deltas)" using arg_cong [OF ps(1), of length] by simp
  then have "length ps \<le> length deltas + length (concat deltas)"
    using ps(3) length_le_concat [of ps] by (cases legacy) simp_all
  then have "unat (of_nat (length ps) :: u32) = length ps"
    using assms(4) by (intro unat_of_nat_small) simp
  then have seq: "0 < rp_seq (cl_reply l) \<longleftrightarrow> ps \<noteq> []"
    using ps(2) by (simp add: reply_holds_def word_less_nat_alt)
  show ?thesis
  proof (cases "cl_pending l = []")
    case False
    then have "ciphers (rp_out ?last) = sealed H live 0 (mark_last (ps @ [cl_pending l]))"
      using reply_finish [OF assms(1-3) ps(2)] by simp
    moreover have "concat (ps @ [cl_pending l]) = concat deltas" using ps(1) by simp
    ultimately show ?thesis using out False ps(3) by (metis (full_types))
  next
    case True
    show ?thesis
    proof (cases "ps = []")
      case empty: True
      then have "ciphers (rp_out ?last) = sealed H live 0 (mark_last [])"
        using True seq ps(2) by (simp add: reply_holds_def mark_last_def)
      then show ?thesis using out empty True ps(1,3) by (intro conjI exI [of _ "[]"]) (auto split: if_splits)
    next
      case False
      then have "ciphers (rp_out ?last) = sealed H live 0 (mark_last (ps @ [[]]))"
        using True seq reply_finish [OF assms(1-3) ps(2)] by simp
      then show ?thesis using out False True ps(1,3) by (intro conjI exI [of _ "ps @ [[]]"]) (auto split: if_splits)
    qed
  qed
qed

subsection \<open>Instances\<close>

definition sample_chat_upstream :: upstream_host where
  "sample_chat_upstream = sample_upstream\<lparr>uh_post := (\<lambda>url key body. Inr \<lparr>hr_status = 200, hr_chunks = [Inr (map of_char ''data:hi''), Inr [10]]\<rparr>)\<rparr>"

definition sample_infer_host :: infer_host where
  "sample_infer_host = \<lparr>ih_crypto = sample_crypto, ih_upstream = sample_chat_upstream, ih_env = Map.empty,
     ih_ope_json = ''application/ope+json'', ih_ope_json_stream = ''application/ope+json-stream'',
     ih_sha256_hex = (\<lambda>s. s), ih_uuid = ''uuid'', ih_now = ''now'', ih_sign = (\<lambda>k t. k), ih_signed_report = (\<lambda>r s. s),
     ih_transcript_begin = (\<lambda>k n e i a. None), ih_transcript_push = (\<lambda>ps ct final. None), ih_frame_ok = (\<lambda>f. True)\<rparr>"

definition sample_e2e_envelope :: ope_envelope where
  "sample_e2e_envelope =
     \<lparr>oe_enc = ''e2e-hybrid-pq'', oe_nonce = ''n'', oe_engine_id = Some ''e'', oe_meta = None, oe_sig = None,
      oe_ciphertext = Some ''ct'', oe_iv = Some ''iv'',
      oe_e2e = Some \<lparr>e2e_client_share = Some ''cs'', e2e_content_alg = None, e2e_ephemeral_epoch = ''a'',
        e2e_engine_mlkem_encap = ''m'', e2e_engine_x25519 = ''x''\<rparr>\<rparr>"

definition sample_options :: ope_inference_options where
  "sample_options = \<lparr>oo_request_id = Some ''r'', oo_decrypt_handle = 1, oo_rotating = None, oo_vllm_base_url = ''u'',
     oo_vllm_api_key = None, oo_task_vllm_base_url = None, oo_task_vllm_api_key = None, oo_task_model_id = None,
     oo_embeddings_base_url = None, oo_embeddings_api_key = None, oo_embeddings_default_model = None,
     oo_chunk_chars = 8, oo_usage_signing_key = Some ''k''\<rparr>"

definition sample_real_state :: real_state where
  "sample_real_state = \<lparr>rs_next_handle = 2, rs_engines = [1 \<mapsto> ''secret''], rs_responses = Map.empty, rs_next_session = 1\<rparr>"

definition sample_infer_state :: infer_state where
  "sample_infer_state = \<lparr>is_provider = RealProvider sample_real_state, is_admitter = None, is_kv = None\<rparr>"

lemma sample_run_ok:
  "oir_status (fst (run_ope_inference_on_envelope sample_infer_host True sample_e2e_envelope sample_options sample_infer_state)) = 200"
  by code_simp

theorem inference_balances_sessions_witness:
  "case run_ope_inference_on_envelope sample_infer_host True sample_e2e_envelope sample_options sample_infer_state of
     (result, frames, st') \<Rightarrow> live_sessions (is_provider st') = live_sessions (is_provider sample_infer_state)"
proof (rule inference_balances_sessions)
  show "provider_wf (is_provider sample_infer_state)"
    by (simp add: sample_infer_state_def sample_real_state_def)
qed

theorem only_admitted_requests_are_served_witness:
  "validate_ope_inference_envelope sample_e2e_envelope = GateOk
    \<and> fst (admit_envelope sample_infer_host sample_e2e_envelope sample_infer_state) = None
    \<and> (\<exists>handle payload. resolve_decrypt_handle sample_options sample_e2e_envelope = Inr handle
         \<and> decrypt_request (ih_crypto sample_infer_host) handle sample_e2e_envelope (is_provider sample_infer_state) = Inr payload)"
proof (rule only_admitted_requests_are_served)
  show "run_ope_inference_on_envelope sample_infer_host True sample_e2e_envelope sample_options sample_infer_state =
     (fst (run_ope_inference_on_envelope sample_infer_host True sample_e2e_envelope sample_options sample_infer_state),
      fst (snd (run_ope_inference_on_envelope sample_infer_host True sample_e2e_envelope sample_options sample_infer_state)),
      snd (snd (run_ope_inference_on_envelope sample_infer_host True sample_e2e_envelope sample_options sample_infer_state)))"
    by simp
  show "oir_status (fst (run_ope_inference_on_envelope sample_infer_host True sample_e2e_envelope sample_options sample_infer_state)) = 200"
    by (rule sample_run_ok)
  show "\<not> is_gateway_plane_task_envelope sample_e2e_envelope"
    by (simp add: is_gateway_plane_task_envelope_def sample_e2e_envelope_def)
qed

definition sample_live :: live_response where
  "sample_live = \<lparr>lr_key = ''k'', lr_iv = ''i''\<rparr>"

definition sample_stream :: vllm_sse_stream where
  "sample_stream = projr (stream_chat_completion (ih_upstream sample_infer_host)
     (chat_request sample_infer_host sample_e2e_envelope JNull sample_options []))"

definition sample_chat :: "ope_inference_result \<times> reply" where
  "sample_chat = chat_stream sample_infer_host True sample_options sample_e2e_envelope \<lparr>pp_warm = 0, pp_cold = 3\<rparr> True
     (RealProvider (sample_real_state\<lparr>rs_responses := [7 \<mapsto> sample_live]\<rparr>)) \<lparr>rsn_session = 7, rsn_server_share = ''s''\<rparr>
     ([lit ''Hello, w'', lit ''orld''], None, sample_stream)"

theorem chat_reply_is_complete_witness:
  "oir_status (fst sample_chat) = 200 \<and> (\<exists>pieces. concat pieces = concat [lit ''Hello, w'', lit ''orld'']
     \<and> ciphers (rp_out (snd sample_chat)) = sealed sample_infer_host sample_live 0 (mark_last pieces)
     \<and> (True \<or> pieces = (if [lit ''Hello, w'', lit ''orld''] = [] then [] else [lit ''Hello, w'', lit ''orld''] @ [[]])))"
proof (rule chat_reply_is_complete)
  show "cipher_total sample_infer_host"
    by (simp add: cipher_total_def sample_infer_host_def sample_crypto_def)
  show "frames_print sample_infer_host" by (simp add: frames_print_def sample_infer_host_def)
  show "rs_responses (sample_real_state\<lparr>rs_responses := [7 \<mapsto> sample_live]\<rparr>)
      (rsn_session \<lparr>rsn_session = 7, rsn_server_share = ''s''\<rparr>) = Some sample_live" by simp
  show "chat_stream sample_infer_host True sample_options sample_e2e_envelope \<lparr>pp_warm = 0, pp_cold = 3\<rparr> True
     (RealProvider (sample_real_state\<lparr>rs_responses := [7 \<mapsto> sample_live]\<rparr>)) \<lparr>rsn_session = 7, rsn_server_share = ''s''\<rparr>
     ([lit ''Hello, w'', lit ''orld''], None, sample_stream) = (fst sample_chat, snd sample_chat)"
    by (simp add: sample_chat_def)
qed (simp add: lit_def)

end
