(* ===== verification/Attestation.thy ===== *)
theory Attestation
  imports Epoch Json_Text
begin

section \<open>Attestation evidence\<close>

text \<open>
  \<^verbatim>\<open>ie-attestation/src\<close>: the measurements an engine reports, the claims and quotes it mints from
  them, the evidence that binds an epoch's own keys, and the policy checks of a received bundle.
  Hashes, base64, JSON, the clock, files and the guest tools (\<^verbatim>\<open>snpguest\<close>, \<^verbatim>\<open>nvattest\<close>) are the host.
  Collecting GPU evidence with the NVIDIA tools is a function of the host too.
\<close>

subsection \<open>Errors, claims and host\<close>

datatype attestation_error =
    AMissingEngineSha
  | AMissingVllmSha
  | AIo string
  | AJson string
  | AInvalidTcbPins string
  | ASevGuestUnavailable
  | AToolInvoke string
  | AToolFailed string
  | AToolTimedOut string u64
  | AInvalidSnpGuestBin string
  | AInvalidNvattestBin string
  | AGpuCcModeOff

record quote_claims =
  qt_v :: u8
  qt_kind :: string
  qt_ed25519_public :: string
  qt_tls_client_cert_sha256 :: string
  qt_engine :: workload_measurements
  qt_vllm :: workload_measurements
  qt_ope :: "workload_identity option"
  qt_attested_mtls :: "workload_identity option"
  qt_launch_digest :: "string option"
  qt_epoch :: "quote_epoch_claims option"
  qt_issued_at :: string

record sev_snp_quote_wrapper =
  sw_v :: u8
  sw_kind :: string
  sw_report_b64 :: string
  sw_report_data_b64 :: string
  sw_claims :: quote_claims

record version_pin =
  vp_version :: "string option"
  vp_git_sha :: "string option"
  vp_sha256 :: "string option"

record release_manifest =
  rm_ie_runtime_sha256 :: "string option"
  rm_ope_ffi_sha256 :: "string option"
  rm_attested_mtls_sha256 :: "string option"
  rm_version :: "string option"
  rm_ope_git_sha :: "string option"
  rm_ope_version :: "string option"
  rm_attested_mtls_version :: "string option"

record tcb_pins_partial =
  tp_ope :: "version_pin option"
  tp_attested_mtls :: "version_pin option"

text \<open>
  \<open>at_manifest\<close>, \<open>at_ope_pin\<close>, \<open>at_amt_pin\<close> and \<open>at_tcb\<close> stand for \<^verbatim>\<open>read_json_file\<close> at the types it is
  used with; \<open>at_exists\<close>, \<open>at_read\<close> and \<open>at_read_text\<close> are the file system.
\<close>

record attest_host =
  at_sha256 :: "bytes \<Rightarrow> bytes"
  at_sha512 :: "string \<Rightarrow> bytes"
  at_hmac :: "bytes \<Rightarrow> bytes"
  at_b64 :: "bytes \<Rightarrow> string"
  at_unb64 :: "string \<Rightarrow> bytes option"
  at_encode :: "bytes \<Rightarrow> string"
  at_decode :: "string \<Rightarrow> bytes option"
  at_wrapper_vec :: "sev_snp_quote_wrapper \<Rightarrow> bytes"
  at_wrapper_slice :: "bytes \<Rightarrow> sev_snp_quote_wrapper option"
  at_claims_vec :: "quote_claims \<Rightarrow> bytes"
  at_claims_slice :: "bytes \<Rightarrow> quote_claims option"
  at_parse_rfc3339 :: "string \<Rightarrow> int option"
  at_now_iso :: string
  at_exists :: "string \<Rightarrow> bool"
  at_read :: "string \<Rightarrow> attestation_error + bytes"
  at_read_text :: "string \<Rightarrow> string option"
  at_manifest :: "string \<Rightarrow> release_manifest option"
  at_ope_pin :: "string \<Rightarrow> version_pin option"
  at_amt_pin :: "string \<Rightarrow> (version_pin option \<times> version_pin option) option"
  at_tcb :: "string \<Rightarrow> tcb_pins_partial option"
  at_guest_device :: bool
  at_guest_tool :: "string \<Rightarrow> bool"
  at_guest_report :: "string \<Rightarrow> u64 \<Rightarrow> bytes \<Rightarrow> attestation_error + bytes"
  at_collect_gpu :: "env \<Rightarrow> string option \<Rightarrow> attestation_error + string"
  at_gpu_not_applicable :: string

definition env_flag_true :: "env \<Rightarrow> string \<Rightarrow> bool" where
  "env_flag_true env key = (case env key of None \<Rightarrow> False | Some v \<Rightarrow> v = ''1'' \<or> eq_ignore_ascii_case v ''true'')"

subsection \<open>Hexadecimal\<close>

definition hex_digit :: "nat \<Rightarrow> char" where
  "hex_digit n = (if n < 10 then char_of (48 + n) else char_of (87 + n))"

definition hex_byte :: "u8 \<Rightarrow> string" where
  "hex_byte b = [hex_digit (unat b div 16), hex_digit (unat b mod 16)]"

definition hex_encode :: "bytes \<Rightarrow> string" where
  "hex_encode bs = concat (map hex_byte bs)"

definition hex_value :: "char \<Rightarrow> nat" where
  "hex_value c = (let n = of_char c in if n \<le> 57 then n - 48 else if n \<le> 70 then n - 55 else n - 87)"

fun hex_pairs :: "string \<Rightarrow> bytes option" where
  "hex_pairs [] = Some []"
| "hex_pairs [c] = None"
| "hex_pairs (c # d # s) =
     (if is_ascii_hexdigit c \<and> is_ascii_hexdigit d
      then map_option (\<lambda>bs. word_of_nat (16 * hex_value c + hex_value d) # bs) (hex_pairs s) else None)"

definition is_hex64 :: "string \<Rightarrow> bool" where
  "is_hex64 s \<longleftrightarrow> length s = 64 \<and> list_all is_ascii_hexdigit s"

subsection \<open>Measurements\<close>

record binary_measurements =
  bm_engine_version :: string
  bm_engine_binary_sha256 :: string
  bm_vllm_version :: string
  bm_vllm_binary_sha256 :: string
  bm_ope :: "workload_identity option"
  bm_attested_mtls :: "workload_identity option"

definition path_join :: "string \<Rightarrow> string \<Rightarrow> string" where
  "path_join root_dir rel = (if root_dir = [] \<or> last root_dir = CHR ''/'' then root_dir @ rel else root_dir @ ''/'' @ rel)"

definition read_release_manifest :: "attest_host \<Rightarrow> string \<Rightarrow> release_manifest option" where
  "read_release_manifest A root_dir = at_manifest A (path_join root_dir ''RELEASE_MANIFEST.json'')"

fun first_some :: "('a \<Rightarrow> 'b option) \<Rightarrow> 'a list \<Rightarrow> 'b option" where
  "first_some f [] = None"
| "first_some f (x # xs) = (case f x of Some y \<Rightarrow> Some y | None \<Rightarrow> first_some f xs)"

definition read_ope_version_pin :: "attest_host \<Rightarrow> string \<Rightarrow> version_pin option" where
  "read_ope_version_pin A root_dir =
     first_some (\<lambda>rel. let path = path_join root_dir rel in if at_exists A path then at_ope_pin A path else None)
       [''config/ope-version.json'', ''ope-version.json'']"

text \<open>
  The value of the file is read once; an \<^verbatim>\<open>attestedMtls\<close> object in it is preferred to the whole
  value. \<open>at_amt_pin\<close> gives both readings of a file that parses.
\<close>

definition read_attested_mtls_pin :: "attest_host \<Rightarrow> string \<Rightarrow> version_pin option" where
  "read_attested_mtls_pin A root_dir =
     first_some (\<lambda>rel. let path = path_join root_dir rel in
         if \<not> at_exists A path then None
         else case at_amt_pin A path of None \<Rightarrow> None
           | Some (Some nested, _) \<Rightarrow> Some nested
           | Some (None, whole) \<Rightarrow> whole)
       [''config/attested-mtls-version.json'', ''attested-mtls-version.json'', ''tcb-pins.json'']"

definition read_tcb_pins_partial :: "attest_host \<Rightarrow> string \<Rightarrow> tcb_pins_partial option" where
  "read_tcb_pins_partial A root_dir =
     (let path = path_join root_dir ''config/tcb-pins.json'' in if at_exists A path then at_tcb A path else None)"

definition or_default :: "string \<Rightarrow> string option list \<Rightarrow> string" where
  "or_default d vs = (case first_some id vs of None \<Rightarrow> d | Some v \<Rightarrow> v)"

definition identity_of :: "string \<Rightarrow> string \<Rightarrow> string \<Rightarrow> workload_identity option" where
  "identity_of version git_sha sha =
     (if version \<noteq> [] \<and> sha \<noteq> []
      then Some \<lparr>wi_version = version, wi_git_sha = (if git_sha = [] then ''unknown'' else git_sha), wi_sha256 = sha\<rparr>
      else None)"

definition resolve_binary_measurements_from_env :: "attest_host \<Rightarrow> env \<Rightarrow> string \<Rightarrow> attestation_error + binary_measurements" where
  "resolve_binary_measurements_from_env A env root_dir =
     (let manifest = read_release_manifest A root_dir;
          ope_pin = read_ope_version_pin A root_dir;
          amt_pin = read_attested_mtls_pin A root_dir;
          tcb = read_tcb_pins_partial A root_dir;
          man = (\<lambda>f. Option.bind manifest f);
          tcb_ope = (\<lambda>f. Option.bind (Option.bind tcb tp_ope) f);
          tcb_amt = (\<lambda>f. Option.bind (Option.bind tcb tp_attested_mtls) f);
          engine_sha = to_ascii_lowercase (or_default [] [env_trim env ''TEECHAT_ENGINE_BINARY_SHA256'',
             env_trim env ''TEECHAT_IE_RUNTIME_SHA256'', man rm_ie_runtime_sha256]);
          vllm_env = to_ascii_lowercase (or_default [] [env_trim env ''TEECHAT_VLLM_BINARY_SHA256'']);
          vllm = (if vllm_env \<noteq> [] then Inr vllm_env
             else case env_trim env ''TEECHAT_VLLM_BINARY_PATH'' of None \<Rightarrow> Inr []
               | Some path \<Rightarrow> (case at_read A path of Inl e \<Rightarrow> Inl e | Inr data \<Rightarrow> Inr (hex_encode (at_sha256 A data))))
      in case vllm of Inl e \<Rightarrow> Inl e
        | Inr vllm_sha \<Rightarrow>
           if engine_sha = [] then Inl AMissingEngineSha
           else if vllm_sha = [] then Inl AMissingVllmSha
           else Inr
            \<lparr>bm_engine_version = or_default ''prod'' [env_trim env ''TEECHAT_ENGINE_BUILD_VERSION'', man rm_version],
             bm_engine_binary_sha256 = engine_sha,
             bm_vllm_version = or_default ''upstream'' [env_trim env ''TEECHAT_VLLM_BUILD_VERSION''],
             bm_vllm_binary_sha256 = vllm_sha,
             bm_ope = identity_of
               (or_default [] [env_trim env ''TEECHAT_OPE_VERSION'', man rm_ope_version, Option.bind ope_pin vp_version, tcb_ope vp_version])
               (or_default [] [env_trim env ''TEECHAT_OPE_GIT_SHA'', man rm_ope_git_sha, Option.bind ope_pin vp_git_sha, tcb_ope vp_git_sha])
               (to_ascii_lowercase (or_default [] [env_trim env ''TEECHAT_OPE_FFI_SHA256'', man rm_ope_ffi_sha256,
                  Option.bind ope_pin vp_sha256, tcb_ope vp_sha256])),
             bm_attested_mtls = identity_of
               (or_default [] [env_trim env ''TEECHAT_ATTESTED_MTLS_VERSION'', man rm_attested_mtls_version,
                  Option.bind amt_pin vp_version, tcb_amt vp_version])
               (or_default [] [env_trim env ''TEECHAT_ATTESTED_MTLS_GIT_SHA'', Option.bind amt_pin vp_git_sha, tcb_amt vp_git_sha])
               (to_ascii_lowercase (or_default [] [env_trim env ''TEECHAT_ATTESTED_MTLS_SHA256'', man rm_attested_mtls_sha256,
                  Option.bind amt_pin vp_sha256, tcb_amt vp_sha256]))\<rparr>)"

definition from_measurements :: "string \<Rightarrow> string \<Rightarrow> binary_measurements \<Rightarrow> string \<Rightarrow> quote_claims" where
  "from_measurements ed25519_public tls m issued_at =
     \<lparr>qt_v = 1, qt_kind = ''sev-snp'', qt_ed25519_public = ed25519_public,
      qt_tls_client_cert_sha256 = to_ascii_lowercase tls,
      qt_engine = \<lparr>wm_version = bm_engine_version m, wm_binary_sha256 = bm_engine_binary_sha256 m\<rparr>,
      qt_vllm = \<lparr>wm_version = bm_vllm_version m, wm_binary_sha256 = bm_vllm_binary_sha256 m\<rparr>,
      qt_ope = bm_ope m, qt_attested_mtls = bm_attested_mtls m, qt_launch_digest = None, qt_epoch = None,
      qt_issued_at = issued_at\<rparr>"

definition into_attestation_bundle :: "quote_claims \<Rightarrow> string \<Rightarrow> string \<Rightarrow> string \<Rightarrow> attestation_bundle" where
  "into_attestation_bundle claims quote evidence policy_id =
     \<lparr>ab_cpu_tee = \<lparr>cpu_kind = qt_kind claims, cpu_quote = quote, cpu_verdict = Verdict_Pass,
        cpu_policy_id = policy_id, cpu_endorsement = None\<rparr>,
      ab_gpu_tee = \<lparr>gpu_kind = ''nv-cc'', gpu_evidence = evidence, gpu_verdict = Verdict_Pass\<rparr>,
      ab_vllm = qt_vllm claims, ab_engine = qt_engine claims, ab_ope = qt_ope claims, ab_attested_mtls = qt_attested_mtls claims\<rparr>"

subsection \<open>Quotes\<close>

definition report_preimage :: "string \<Rightarrow> string \<Rightarrow> string \<Rightarrow> string \<Rightarrow> string \<Rightarrow> string option \<Rightarrow> string" where
  "report_preimage ed25519_public tls engine vllm issued_at nonce =
     join [CHR 0x00] [''teechat-sev-snp-bind-v1'', ed25519_public, to_ascii_lowercase tls, to_ascii_lowercase engine,
       to_ascii_lowercase vllm, issued_at, case nonce of None \<Rightarrow> [] | Some n \<Rightarrow> n]"

definition epoch_report_preimage ::
    "quote_epoch_claims \<Rightarrow> string \<Rightarrow> string \<Rightarrow> string \<Rightarrow> string \<Rightarrow> string option \<Rightarrow> string" where
  "epoch_report_preimage epoch tls engine vllm issued_at nonce =
     join [CHR 0x00] [''teechat-sev-snp-bind-v2'', qc_engine_id epoch, qc_epoch_id epoch, qc_not_before epoch, qc_not_after epoch,
       qc_mlkem_encapsulation_key epoch, qc_x25519_public epoch, qc_usage_signing_public epoch,
       to_ascii_lowercase tls, to_ascii_lowercase engine, to_ascii_lowercase vllm, issued_at,
       case nonce of None \<Rightarrow> [] | Some n \<Rightarrow> n]"

definition bind_report_data_64 ::
    "attest_host \<Rightarrow> string \<Rightarrow> string \<Rightarrow> string \<Rightarrow> string \<Rightarrow> string \<Rightarrow> string option \<Rightarrow> bytes" where
  "bind_report_data_64 A ed25519_public tls engine vllm issued_at nonce =
     take 64 (at_sha512 A (report_preimage ed25519_public tls engine vllm issued_at nonce))"

definition bind_epoch_report_data_64 ::
    "attest_host \<Rightarrow> quote_epoch_claims \<Rightarrow> string \<Rightarrow> string \<Rightarrow> string \<Rightarrow> string \<Rightarrow> string option \<Rightarrow> bytes" where
  "bind_epoch_report_data_64 A epoch tls engine vllm issued_at nonce =
     take 64 (at_sha512 A (epoch_report_preimage epoch tls engine vllm issued_at nonce))"

definition encode_sev_snp_quote_wrapper :: "attest_host \<Rightarrow> sev_snp_quote_wrapper \<Rightarrow> string" where
  "encode_sev_snp_quote_wrapper A w = at_encode A (at_wrapper_vec A w)"

definition parse_sev_snp_quote_wrapper :: "attest_host \<Rightarrow> string \<Rightarrow> sev_snp_quote_wrapper option" where
  "parse_sev_snp_quote_wrapper A quote =
     (case Option.bind (at_decode A quote) (at_wrapper_slice A) of
        None \<Rightarrow> None
      | Some w \<Rightarrow>
          if sw_v w \<noteq> 2 \<or> sw_kind w \<noteq> ''sev-snp'' then None
          else if sw_report_b64 w = [] \<or> sw_report_data_b64 w = [] \<or> qt_kind (sw_claims w) \<noteq> ''sev-snp'' then None
          else Some w)"

definition expected_report_data :: "attest_host \<Rightarrow> quote_claims \<Rightarrow> string option \<Rightarrow> bytes" where
  "expected_report_data A c nonce =
     (case qt_epoch c of
        Some epoch \<Rightarrow> bind_epoch_report_data_64 A epoch (qt_tls_client_cert_sha256 c) (wm_binary_sha256 (qt_engine c))
          (wm_binary_sha256 (qt_vllm c)) (qt_issued_at c) nonce
      | None \<Rightarrow> bind_report_data_64 A (qt_ed25519_public c) (qt_tls_client_cert_sha256 c) (wm_binary_sha256 (qt_engine c))
          (wm_binary_sha256 (qt_vllm c)) (qt_issued_at c) nonce)"

definition verify_wrapper_report_data :: "attest_host \<Rightarrow> sev_snp_quote_wrapper \<Rightarrow> string option \<Rightarrow> bool" where
  "verify_wrapper_report_data A w nonce \<longleftrightarrow>
     (case at_unb64 A (sw_report_data_b64 w) of
        None \<Rightarrow> False
      | Some data \<Rightarrow> length data = 64 \<and> data = expected_report_data A (sw_claims w) nonce)"

definition build_mock_cpu_quote :: "attest_host \<Rightarrow> quote_claims \<Rightarrow> string" where
  "build_mock_cpu_quote A c = (let body = at_claims_vec A c in at_encode A (body @ at_hmac A body))"

definition parse_mock_cpu_quote :: "attest_host \<Rightarrow> string \<Rightarrow> quote_claims option" where
  "parse_mock_cpu_quote A quote =
     (case at_decode A quote of
        None \<Rightarrow> None
      | Some raw \<Rightarrow>
          if length raw < 33 then None
          else let body = take (length raw - 32) raw; mac = drop (length raw - 32) raw
               in if mac \<noteq> at_hmac A body then None else at_claims_slice A body)"

text \<open>Fields of a guest report, by their offsets in the firmware ABI.\<close>

definition extract_report_data_from_report :: "bytes \<Rightarrow> bytes option" where
  "extract_report_data_from_report report =
     (if length report < 0x50 + 64 then None else Some (take 64 (drop 0x50 report)))"

definition extract_measurement_from_report :: "bytes \<Rightarrow> bytes option" where
  "extract_measurement_from_report report =
     (if length report < 0x90 + 48 then None else Some (take 48 (drop 0x90 report)))"

definition challenge_canonical_launch_digest :: "attest_host \<Rightarrow> string \<Rightarrow> string" where
  "challenge_canonical_launch_digest A raw_hex =
     hex_encode (at_sha256 A (map of_char (to_ascii_lowercase (trim raw_hex))))"

definition launch_digest_from_report :: "attest_host \<Rightarrow> bytes \<Rightarrow> string option" where
  "launch_digest_from_report A report =
     map_option (\<lambda>m. challenge_canonical_launch_digest A (hex_encode m)) (extract_measurement_from_report report)"

subsection \<open>Guest reports and endorsement\<close>

definition path_file_name :: "string \<Rightarrow> string option" where
  "path_file_name p = (case rev (path_components p) of [] \<Rightarrow> None | c # _ \<Rightarrow> Some c)"

definition resolve_snpguest_bin :: "string \<Rightarrow> attestation_error + string" where
  "resolve_snpguest_bin raw =
     (let trimmed = trim raw
      in if trimmed = [] \<or> str_contains trimmed ''..'' then Inl (AInvalidSnpGuestBin trimmed)
         else if starts_with trimmed ''/''
         then (if list_ex (starts_with trimmed) [''/usr/bin/'', ''/usr/local/bin/''] \<and> path_file_name trimmed = Some ''snpguest''
               then Inr trimmed else Inl (AInvalidSnpGuestBin trimmed))
         else if trimmed = ''snpguest'' then Inr ''snpguest'' else Inl (AInvalidSnpGuestBin trimmed))"

definition sev_snp_guest_bin_from_env :: "env \<Rightarrow> attestation_error + string" where
  "sev_snp_guest_bin_from_env env =
     resolve_snpguest_bin (case env_trim env ''TEECHAT_SNP_GUEST_BIN'' of None \<Rightarrow> ''snpguest'' | Some b \<Rightarrow> b)"

definition is_sev_snp_guest_tool_available :: "attest_host \<Rightarrow> env \<Rightarrow> bool" where
  "is_sev_snp_guest_tool_available A env = (case sev_snp_guest_bin_from_env env of Inl _ \<Rightarrow> False | Inr bin \<Rightarrow> at_guest_tool A bin)"

definition should_use_sev_snp_attestation :: "attest_host \<Rightarrow> env \<Rightarrow> bool" where
  "should_use_sev_snp_attestation A env =
     (let kind = (case env ''TEECHAT_CPU_TEE_KIND'' of None \<Rightarrow> [] | Some k \<Rightarrow> to_ascii_lowercase (trim k))
      in if kind \<in> set [''sev-snp'', ''snp''] then True
         else if kind \<in> set [''fixture'', ''mock'', ''tdx''] then False
         else at_guest_device A \<and> is_sev_snp_guest_tool_available A env)"

definition snpguest_timeout :: "env \<Rightarrow> u64" where
  "snpguest_timeout env =
     (case Option.bind (env ''TEECHAT_SNPGUEST_TIMEOUT_SECS'') (\<lambda>s. parse_u64 (trim s)) of
        Some n \<Rightarrow> if 0 < n then n else 60 | None \<Rightarrow> 60)"

definition request_sev_snp_attestation_report :: "attest_host \<Rightarrow> bytes \<Rightarrow> env \<Rightarrow> attestation_error + bytes" where
  "request_sev_snp_attestation_report A report_data env =
     (if \<not> at_guest_device A then Inl ASevGuestUnavailable
      else case sev_snp_guest_bin_from_env env of Inl e \<Rightarrow> Inl e
        | Inr bin \<Rightarrow> at_guest_report A bin (snpguest_timeout env) report_data)"

fun text_lines :: "string \<Rightarrow> string list" where
  "text_lines s = map trim (split_on (CHR 10) s)"

definition pem_to_der_b64 :: "attest_host \<Rightarrow> string \<Rightarrow> string option" where
  "pem_to_der_b64 A pem =
     (let body = concat (filter (\<lambda>l. l \<noteq> [] \<and> \<not> starts_with l ''-----BEGIN '' \<and> \<not> starts_with l ''-----END '') (text_lines pem))
      in if body = [] then None
         else case at_unb64 A body of None \<Rightarrow> None | Some der \<Rightarrow> if der = [] then None else Some (at_b64 A der))"

text \<open>\<open>None\<close> is an unreadable or malformed file, \<open>Some None\<close> a missing one.\<close>

definition read_pem_der_b64 :: "attest_host \<Rightarrow> string \<Rightarrow> string option option" where
  "read_pem_der_b64 A path =
     (if \<not> at_exists A path then Some None
      else case at_read_text A path of None \<Rightarrow> None | Some pem \<Rightarrow> map_option Some (pem_to_der_b64 A pem))"

definition load_cpu_tee_endorsement_from_env :: "attest_host \<Rightarrow> env \<Rightarrow> cpu_tee_endorsement option" where
  "load_cpu_tee_endorsement_from_env A env =
     (case env_trim env ''TEECHAT_SNP_VCEK_DER_B64'' of
        Some vcek \<Rightarrow> Some \<lparr>ce_vcek_der_b64 = vcek, ce_ask_der_b64 = env_trim env ''TEECHAT_SNP_ASK_DER_B64'',
          ce_ark_der_b64 = env_trim env ''TEECHAT_SNP_ARK_DER_B64'', ce_crl_der_b64 = env_trim env ''TEECHAT_SNP_CRL_DER_B64''\<rparr>
      | None \<Rightarrow>
         (case env_trim env ''TEECHAT_SNP_CERT_CACHE_DIR'' of None \<Rightarrow> None
          | Some dir \<Rightarrow>
             (let pem = (\<lambda>name. read_pem_der_b64 A (path_join dir name))
              in case pem ''vcek.pem'' of
                   None \<Rightarrow> None
                 | Some None \<Rightarrow> None
                 | Some (Some vcek) \<Rightarrow>
                    (case (pem ''ask.pem'', pem ''ark.pem'', pem ''crl.pem'') of
                       (Some ask, Some ark, Some crl) \<Rightarrow>
                         Some \<lparr>ce_vcek_der_b64 = vcek, ce_ask_der_b64 = ask, ce_ark_der_b64 = ark, ce_crl_der_b64 = crl\<rparr>
                     | _ \<Rightarrow> None))))"

subsection \<open>Minting a bundle\<close>

datatype gpu_evidence_source = CollectLive "string option" | Reuse string

definition resolve_gpu_evidence :: "attest_host \<Rightarrow> env \<Rightarrow> gpu_evidence_source \<Rightarrow> string option \<Rightarrow> attestation_error + string" where
  "resolve_gpu_evidence A env source gpu_nonce =
     (case source of
        Reuse evidence \<Rightarrow> Inr evidence
      | CollectLive nonce \<Rightarrow>
          if env_flag_true env ''TEECHAT_ENGINE_STUB'' then Inr (at_gpu_not_applicable A)
          else at_collect_gpu A env
            (case Option.bind nonce (\<lambda>n. if trim n = [] then None else Some (trim n)) of Some n \<Rightarrow> Some n | None \<Rightarrow> gpu_nonce))"

definition with_cpu_endorsement :: "attest_host \<Rightarrow> env \<Rightarrow> attestation_bundle \<Rightarrow> attestation_bundle" where
  "with_cpu_endorsement A env b = b\<lparr>ab_cpu_tee := (ab_cpu_tee b)\<lparr>cpu_endorsement := load_cpu_tee_endorsement_from_env A env\<rparr>\<rparr>"

definition attestation_policy_id :: "env \<Rightarrow> string" where
  "attestation_policy_id env =
     (case env_trim env ''TEECHAT_ATTESTATION_POLICY_ID'' of None \<Rightarrow> ''teechat-cpu-tee-prod-v1'' | Some p \<Rightarrow> p)"

definition base_claims ::
    "env \<Rightarrow> string \<Rightarrow> string \<Rightarrow> binary_measurements \<Rightarrow> string \<Rightarrow> quote_epoch_claims option \<Rightarrow> quote_claims" where
  "base_claims env ed25519_public tls m issued_at epoch =
     (let claims = (from_measurements ed25519_public tls m issued_at)\<lparr>qt_epoch := epoch\<rparr>
      in case env ''TEECHAT_LAUNCH_DIGEST'' of None \<Rightarrow> claims
        | Some ld \<Rightarrow> let t = to_ascii_lowercase (trim ld) in if is_hex64 t then claims\<lparr>qt_launch_digest := Some t\<rparr> else claims)"

definition build_bundle ::
    "attest_host \<Rightarrow> env \<Rightarrow> string \<Rightarrow> string \<Rightarrow> string \<Rightarrow> string option \<Rightarrow> quote_epoch_claims option \<Rightarrow> gpu_evidence_source
     \<Rightarrow> attestation_error + attestation_bundle" where
  "build_bundle A env root_dir ed25519_public tls nonce epoch gpu =
     (case resolve_binary_measurements_from_env A env root_dir of
        Inl e \<Rightarrow> Inl e
      | Inr m \<Rightarrow>
         (let issued_at = at_now_iso A;
              tls_hash = to_ascii_lowercase tls;
              claims = base_claims env ed25519_public tls_hash m issued_at epoch;
              finish = (\<lambda>claims quote evidence.
                with_cpu_endorsement A env (into_attestation_bundle claims quote evidence (attestation_policy_id env)))
          in if \<not> should_use_sev_snp_attestation A env \<or> env_flag_true env ''TEECHAT_ENGINE_ALLOW_MOCK_ATTEST_ON_SNP''
             then (case resolve_gpu_evidence A env gpu None of Inl e \<Rightarrow> Inl e
               | Inr evidence \<Rightarrow> Inr (finish claims (build_mock_cpu_quote A claims) evidence))
             else
              (let report_data = (case epoch of
                    Some ep \<Rightarrow> bind_epoch_report_data_64 A ep tls_hash (bm_engine_binary_sha256 m) (bm_vllm_binary_sha256 m) issued_at nonce
                  | None \<Rightarrow> bind_report_data_64 A ed25519_public tls_hash (bm_engine_binary_sha256 m) (bm_vllm_binary_sha256 m) issued_at nonce)
               in case request_sev_snp_attestation_report A report_data env of
                    Inl e \<Rightarrow> Inl e
                  | Inr report \<Rightarrow>
                     (let claims = (case launch_digest_from_report A report of
                              Some ld \<Rightarrow> claims\<lparr>qt_launch_digest := Some ld\<rparr> | None \<Rightarrow> claims)
                      in case resolve_gpu_evidence A env gpu (Some (hex_encode (take 32 report_data))) of
                           Inl e \<Rightarrow> Inl e
                         | Inr evidence \<Rightarrow>
                             Inr (finish claims (encode_sev_snp_quote_wrapper A
                               \<lparr>sw_v = 2, sw_kind = ''sev-snp'', sw_report_b64 = at_b64 A report,
                                sw_report_data_b64 = at_b64 A report_data, sw_claims = claims\<rparr>) evidence)))))"

definition build_engine_attestation_bundle ::
    "attest_host \<Rightarrow> env \<Rightarrow> string \<Rightarrow> string \<Rightarrow> string \<Rightarrow> string option \<Rightarrow> attestation_error + attestation_bundle" where
  "build_engine_attestation_bundle A env root_dir ed25519_public tls nonce =
     build_bundle A env root_dir ed25519_public tls nonce None (CollectLive None)"

definition build_engine_epoch_attestation_bundle ::
    "attest_host \<Rightarrow> env \<Rightarrow> string \<Rightarrow> string \<Rightarrow> string \<Rightarrow> quote_epoch_claims \<Rightarrow> string option \<Rightarrow> gpu_evidence_source
     \<Rightarrow> attestation_error + attestation_bundle" where
  "build_engine_epoch_attestation_bundle A env root_dir ed25519_public tls epoch nonce gpu =
     build_bundle A env root_dir ed25519_public tls nonce (Some epoch) gpu"

definition build_engine_attestation_bundle_with_gpu ::
    "attest_host \<Rightarrow> env \<Rightarrow> string \<Rightarrow> string \<Rightarrow> string \<Rightarrow> string option \<Rightarrow> gpu_evidence_source \<Rightarrow> attestation_error + attestation_bundle" where
  "build_engine_attestation_bundle_with_gpu A env root_dir ed25519_public tls nonce gpu =
     build_bundle A env root_dir ed25519_public tls nonce None gpu"

definition attestation_refresher :: "attest_host \<Rightarrow> env \<Rightarrow> string \<Rightarrow> string \<Rightarrow> string \<Rightarrow> attestation_error + attestation_bundle" where
  "attestation_refresher A env root_dir ed25519_public tls =
     build_engine_attestation_bundle A env root_dir ed25519_public (to_ascii_lowercase tls) None"

subsection \<open>Epoch evidence\<close>

record epoch_evidence_subject =
  es_engine_id :: string
  es_epoch_id :: string
  es_not_before :: string
  es_not_after :: string
  es_hybrid :: engine_hybrid_public

datatype epoch_evidence_error =
    EvAbsent
  | EvEngineMismatch
  | EvEpochMismatch
  | EvWindowMismatch
  | EvMlkemMismatch
  | EvX25519Mismatch
  | EvUsageKeyMissing

fun epoch_evidence_error_str :: "epoch_evidence_error \<Rightarrow> string" where
  "epoch_evidence_error_str EvAbsent = ''epoch_evidence_absent''"
| "epoch_evidence_error_str EvEngineMismatch = ''epoch_evidence_engine_mismatch''"
| "epoch_evidence_error_str EvEpochMismatch = ''epoch_evidence_epoch_mismatch''"
| "epoch_evidence_error_str EvWindowMismatch = ''epoch_evidence_window_mismatch''"
| "epoch_evidence_error_str EvMlkemMismatch = ''epoch_evidence_mlkem_mismatch''"
| "epoch_evidence_error_str EvX25519Mismatch = ''epoch_evidence_x25519_mismatch''"
| "epoch_evidence_error_str EvUsageKeyMissing = ''epoch_evidence_usage_key_missing''"

definition same_key :: "string \<Rightarrow> string \<Rightarrow> bool" where
  "same_key a b \<longleftrightarrow> a \<noteq> [] \<and> a = b"

definition match_epoch_evidence :: "quote_claims \<Rightarrow> epoch_evidence_subject \<Rightarrow> epoch_evidence_error + quote_epoch_claims" where
  "match_epoch_evidence claims subject =
     (case qt_epoch claims of
        None \<Rightarrow> Inl EvAbsent
      | Some epoch \<Rightarrow>
          if qc_engine_id epoch \<noteq> es_engine_id subject then Inl EvEngineMismatch
          else if qc_epoch_id epoch \<noteq> es_epoch_id subject then Inl EvEpochMismatch
          else if qc_not_before epoch \<noteq> es_not_before subject \<or> qc_not_after epoch \<noteq> es_not_after subject then Inl EvWindowMismatch
          else if \<not> same_key (qc_mlkem_encapsulation_key epoch) (hy_mlkem_encapsulation_key (es_hybrid subject)) then Inl EvMlkemMismatch
          else if \<not> same_key (qc_x25519_public epoch) (hy_x25519_public (es_hybrid subject)) then Inl EvX25519Mismatch
          else if trim (qc_usage_signing_public epoch) = [] then Inl EvUsageKeyMissing
          else Inr epoch)"

definition has_epoch_evidence :: "quote_claims \<Rightarrow> bool" where
  "has_epoch_evidence claims \<longleftrightarrow> qt_epoch claims \<noteq> None"

subsection \<open>Policies\<close>

record attestation_policy =
  ap_policy_id :: string
  ap_allowed_engine_binary_sha256 :: "string set"
  ap_allowed_vllm_binary_sha256 :: "string set"
  ap_max_quote_age_ms :: u64

record attestation_verify_result =
  av_ok :: bool
  av_policy_id :: string
  av_reason :: "string option"

definition attest_fail :: "string \<Rightarrow> string \<Rightarrow> attestation_verify_result" where
  "attest_fail policy_id reason = \<lparr>av_ok = False, av_policy_id = policy_id, av_reason = Some reason\<rparr>"

definition attest_ok :: "string \<Rightarrow> attestation_verify_result" where
  "attest_ok policy_id = \<lparr>av_ok = True, av_policy_id = policy_id, av_reason = None\<rparr>"

definition default_test_attestation_policy :: attestation_policy where
  "default_test_attestation_policy =
     \<lparr>ap_policy_id = ''teechat-cpu-tee-v1'',
      ap_allowed_engine_binary_sha256 = {''a1b2c3d4e5f6789012345678abcdef9012345678abcdef9012345678abcdef90''},
      ap_allowed_vllm_binary_sha256 = {''b2c3d4e5f6789012345678abcdef9012345678abcdef9012345678abcdef9012''},
      ap_max_quote_age_ms = 24 * 60 * 60 * 1000\<rparr>"

text \<open>A time stamp that does not parse leaves the age unchecked.\<close>

definition quote_age :: "attest_host \<Rightarrow> quote_claims \<Rightarrow> u64 \<Rightarrow> u64 option" where
  "quote_age A claims now_ms =
     map_option (\<lambda>issued. saturating_sub now_ms (word_of_int issued)) (at_parse_rfc3339 A (qt_issued_at claims))"

definition verify_claims_against_policy ::
    "attest_host \<Rightarrow> quote_claims \<Rightarrow> attestation_policy \<Rightarrow> u64 \<Rightarrow> attestation_verify_result" where
  "verify_claims_against_policy A claims policy now_ms =
     (if wm_binary_sha256 (qt_engine claims) \<notin> ap_allowed_engine_binary_sha256 policy
      then attest_fail (ap_policy_id policy) ''engine_binary_not_allowed''
      else if wm_binary_sha256 (qt_vllm claims) \<notin> ap_allowed_vllm_binary_sha256 policy
      then attest_fail (ap_policy_id policy) ''vllm_binary_not_allowed''
      else case quote_age A claims now_ms of
        Some age \<Rightarrow> if ap_max_quote_age_ms policy < age then attest_fail (ap_policy_id policy) ''quote_too_old''
          else attest_ok (ap_policy_id policy)
      | None \<Rightarrow> attest_ok (ap_policy_id policy))"

datatype verify_error = InvalidQuote | NoProductionBackend

type_synonym quote_verifier = "string \<Rightarrow> string \<Rightarrow> verify_error + quote_claims"

definition mock_cpu_quote_verifier :: "attest_host \<Rightarrow> quote_verifier" where
  "mock_cpu_quote_verifier A quote kind = (case parse_mock_cpu_quote A quote of None \<Rightarrow> Inl InvalidQuote | Some c \<Rightarrow> Inr c)"

text \<open>The backend registered in the process, if any, answers for production quotes.\<close>

definition production_cpu_quote_verifier :: "(string \<Rightarrow> string \<Rightarrow> quote_claims option) option \<Rightarrow> quote_verifier" where
  "production_cpu_quote_verifier backend quote kind =
     (case backend of None \<Rightarrow> Inl NoProductionBackend
      | Some f \<Rightarrow> (case f quote kind of None \<Rightarrow> Inl InvalidQuote | Some c \<Rightarrow> Inr c))"

definition verify_bundle_with_verifier ::
    "attest_host \<Rightarrow> attestation_bundle \<Rightarrow> quote_verifier \<Rightarrow> attestation_policy \<Rightarrow> u64 \<Rightarrow> verify_error + attestation_verify_result" where
  "verify_bundle_with_verifier A bundle verifier policy now_ms =
     (case verifier (cpu_quote (ab_cpu_tee bundle)) (cpu_kind (ab_cpu_tee bundle)) of
        Inl e \<Rightarrow> Inl e
      | Inr claims \<Rightarrow>
         (let cpu = verify_claims_against_policy A claims policy now_ms
          in if \<not> av_ok cpu then Inr cpu else Inr (attest_ok (ap_policy_id policy))))"

record platform_attestation_policy =
  pl_policy_id :: string
  pl_allowed_gateway_binary_sha256 :: "string set"
  pl_allowed_skill_hub_binary_sha256 :: "string set"
  pl_max_quote_age_ms :: u64

record platform_attestation_bind =
  pb_gateway_binary_sha256 :: string
  pb_skill_hub_binary_sha256 :: string
  pb_ed25519_public :: string

definition platform_quote_policy :: "attestation_policy \<Rightarrow> platform_attestation_policy \<Rightarrow> string \<Rightarrow> string \<Rightarrow> attestation_policy" where
  "platform_quote_policy engine_policy platform_policy gw sh =
     engine_policy\<lparr>ap_allowed_engine_binary_sha256 := insert gw (ap_allowed_engine_binary_sha256 engine_policy),
       ap_allowed_vllm_binary_sha256 := insert sh (ap_allowed_vllm_binary_sha256 engine_policy),
       ap_max_quote_age_ms := (if ap_max_quote_age_ms engine_policy = 0 then pl_max_quote_age_ms platform_policy
         else ap_max_quote_age_ms engine_policy)\<rparr>"

definition verify_platform_attestation_bundle ::
    "attest_host \<Rightarrow> attestation_bundle \<Rightarrow> attestation_policy \<Rightarrow> platform_attestation_policy \<Rightarrow> platform_attestation_bind
     \<Rightarrow> u64 \<Rightarrow> quote_verifier \<Rightarrow> attestation_verify_result" where
  "verify_platform_attestation_bundle A bundle engine_policy platform_policy bind now_ms verifier =
     (let gw = to_ascii_lowercase (trim (pb_gateway_binary_sha256 bind));
          sh = to_ascii_lowercase (trim (pb_skill_hub_binary_sha256 bind));
          fail = attest_fail (pl_policy_id platform_policy)
      in if pl_allowed_gateway_binary_sha256 platform_policy \<noteq> {} \<and> gw \<notin> pl_allowed_gateway_binary_sha256 platform_policy
         then fail ''gateway_hash_not_allowed''
         else if pl_allowed_skill_hub_binary_sha256 platform_policy \<noteq> {} \<and> sh \<notin> pl_allowed_skill_hub_binary_sha256 platform_policy
         then fail ''skill_hub_hash_not_allowed''
         else case verify_bundle_with_verifier A bundle verifier (platform_quote_policy engine_policy platform_policy gw sh) now_ms of
           Inl e \<Rightarrow> fail ''quote_unverifiable''
         | Inr verdict \<Rightarrow>
             if \<not> av_ok verdict then verdict
             else if to_ascii_lowercase (wm_binary_sha256 (ab_engine bundle)) \<noteq> gw then fail ''gateway_hash_bundle_mismatch''
             else if to_ascii_lowercase (wm_binary_sha256 (ab_vllm bundle)) \<noteq> sh then fail ''skill_hub_hash_bundle_mismatch''
             else if (case verifier (cpu_quote (ab_cpu_tee bundle)) (cpu_kind (ab_cpu_tee bundle)) of
                 Inl _ \<Rightarrow> False
               | Inr claims \<Rightarrow> trim (pb_ed25519_public bind) \<noteq> [] \<and> trim (qt_ed25519_public claims) \<noteq> trim (pb_ed25519_public bind))
             then fail ''ed25519_mismatch''
             else attest_ok (pl_policy_id platform_policy))"

subsection \<open>Pins\<close>

record tcb_pin =
  pin_version :: string
  pin_sha256 :: string

record tcb_pins =
  tcb_schema :: string
  tcb_ope :: tcb_pin
  tcb_attested_mtls :: tcb_pin

definition is_lower_hex_sha256 :: "string \<Rightarrow> bool" where
  "is_lower_hex_sha256 s \<longleftrightarrow> length s = 64 \<and> list_all is_ascii_hexdigit s \<and> s = to_ascii_lowercase s"

definition validate_tcb_pins :: "tcb_pins \<Rightarrow> attestation_error + tcb_pins" where
  "validate_tcb_pins pins =
     (if \<not> starts_with (tcb_schema pins) ''teechat-inference-engine-tcb-pins/''
      then Inl (AInvalidTcbPins (''unexpected schema '' @ tcb_schema pins))
      else if pin_version (tcb_ope pins) = [] then Inl (AInvalidTcbPins ''ope.version is required'')
      else if \<not> is_lower_hex_sha256 (pin_sha256 (tcb_ope pins))
      then Inl (AInvalidTcbPins ''ope.libopeFfiSha256 must be 64-char lowercase hex'')
      else if pin_version (tcb_attested_mtls pins) = [] then Inl (AInvalidTcbPins ''attestedMtls.version is required'')
      else if \<not> is_lower_hex_sha256 (pin_sha256 (tcb_attested_mtls pins))
      then Inl (AInvalidTcbPins ''attestedMtls.libAttestedMtlsSha256 must be 64-char lowercase hex'')
      else Inr pins)"

end
