(* ===== verification/Attestation_Properties.thy ===== *)
theory Attestation_Properties
  imports Attestation
begin

section \<open>Properties of attestation evidence\<close>

text \<open>
  What a report-data binding determines, that a quote minted over an epoch verifies and matches
  exactly this epoch, that one piece of evidence authorises one epoch, and what an accepted platform
  bundle guarantees and what it does not.
\<close>

subsection \<open>Hexadecimal\<close>

lemma hex_digit_value: "n < 16 \<Longrightarrow> hex_value (hex_digit n) = n \<and> is_ascii_hexdigit (hex_digit n) \<and> \<not> is_whitespace (hex_digit n)"
proof -
  assume "n < 16"
  then consider "n < 10" | "10 \<le> n" "n < 16" by linarith
  then show ?thesis
    by cases (simp_all add: hex_digit_def hex_value_def is_ascii_hexdigit_def is_ascii_digit_def is_whitespace_def Let_def of_char_of)
qed

lemma hex_pairs_encode: "hex_pairs (hex_encode bs) = Some bs"
proof (induction bs)
  case (Cons b bs)
  have "unat b < 256" using unat_lt_size [of b] by simp
  then have "unat b div 16 < 16" by (simp add: less_mult_imp_div_less)
  then have digits: "hex_value (hex_digit (unat b div 16)) = unat b div 16" "hex_value (hex_digit (unat b mod 16)) = unat b mod 16"
    "is_ascii_hexdigit (hex_digit (unat b div 16))" "is_ascii_hexdigit (hex_digit (unat b mod 16))"
    using hex_digit_value [of "unat b div 16"] hex_digit_value [of "unat b mod 16"] by simp_all
  have whole: "word_of_nat (16 * (unat b div 16) + unat b mod 16) = b" by simp
  have "hex_encode (b # bs) = hex_digit (unat b div 16) # hex_digit (unat b mod 16) # hex_encode bs"
    by (simp add: hex_encode_def hex_byte_def)
  then show ?case using Cons digits whole by simp
qed (simp add: hex_encode_def)

lemma trim_no_space: "\<forall>c\<in>set s. \<not> is_whitespace c \<Longrightarrow> trim s = s"
proof -
  assume no: "\<forall>c\<in>set s. \<not> is_whitespace c"
  then have "dropWhile is_whitespace t = t" if "set t \<subseteq> set s" for t using that by (cases t) auto
  then show ?thesis by (simp add: trim_def trim_start_def trim_end_def)
qed

lemma hex_encode_digits: "c \<in> set (hex_encode bs) \<Longrightarrow> \<exists>n<16. c = hex_digit n"
proof -
  assume "c \<in> set (hex_encode bs)"
  then obtain b :: u8 where "c = hex_digit (unat b div 16) \<or> c = hex_digit (unat b mod 16)"
    by (auto simp: hex_encode_def hex_byte_def)
  moreover have "unat b < 256" using unat_lt_size [of b] by simp
  then have "unat b div 16 < 16" by (simp add: less_mult_imp_div_less)
  ultimately show ?thesis by (metis mod_less_divisor zero_less_numeral)
qed

lemma trim_hex_encode: "trim (hex_encode bs) = hex_encode bs"
  using hex_encode_digits hex_digit_value by (intro trim_no_space ballI) blast

lemma hexdigits_hex_encode: "list_all is_ascii_hexdigit (hex_encode bs)"
  using hex_encode_digits hex_digit_value by (auto simp: list_all_iff)

lemma ascii_lower_hex_digit: "n < 16 \<Longrightarrow> ascii_lower (hex_digit n) = hex_digit n"
  by (cases "n < 10") (auto simp: hex_digit_def ascii_lower_def of_char_of)

lemma lower_hex_encode: "to_ascii_lowercase (hex_encode bs) = hex_encode bs"
  unfolding to_ascii_lowercase_def by (rule map_idI) (use hex_encode_digits ascii_lower_hex_digit in blast)

lemma length_hex_encode: "length (hex_encode bs) = 2 * length bs"
  by (induction bs) (simp_all add: hex_encode_def hex_byte_def)

subsection \<open>What a binding determines\<close>

definition nul_free :: "string list \<Rightarrow> bool" where
  "nul_free ss \<longleftrightarrow> list_all (\<lambda>s. CHR 0x00 \<notin> set s) ss"

definition epoch_fields :: "quote_epoch_claims \<Rightarrow> string list" where
  "epoch_fields e = [qc_engine_id e, qc_epoch_id e, qc_not_before e, qc_not_after e, qc_mlkem_encapsulation_key e,
     qc_x25519_public e, qc_usage_signing_public e]"

definition nonce_text :: "string option \<Rightarrow> string" where
  "nonce_text n = (case n of None \<Rightarrow> [] | Some t \<Rightarrow> t)"

lemma ascii_lower_nul: "ascii_lower c = CHR 0x00 \<longleftrightarrow> c = CHR 0x00"
proof -
  have "char_of ((of_char c :: nat) + 32) \<noteq> CHR 0x00" if "(of_char c :: nat) \<le> 90"
  proof
    assume "char_of ((of_char c :: nat) + 32) = CHR 0x00"
    then have "of_char (char_of ((of_char c :: nat) + 32) :: char) = (0 :: nat)" by simp
    then show False using that by (simp add: of_char_of)
  qed
  then show ?thesis by (auto simp: ascii_lower_def)
qed

lemma nul_lowercase: "CHR 0x00 \<in> set (to_ascii_lowercase s) \<longleftrightarrow> CHR 0x00 \<in> set s"
proof -
  have "CHR 0x00 = ascii_lower c \<longleftrightarrow> c = CHR 0x00" for c using ascii_lower_nul [of c] by metis
  then show ?thesis by (simp add: to_ascii_lowercase_def image_iff)
qed

lemma epoch_fields_inj: "epoch_fields e = epoch_fields e' \<Longrightarrow> e = e'"
  by (cases e; cases e') (simp add: epoch_fields_def)

lemma epoch_preimage_alt:
  "epoch_report_preimage e tls eng vllm t n = join [CHR 0x00] (''teechat-sev-snp-bind-v2'' # epoch_fields e @
     [to_ascii_lowercase tls, to_ascii_lowercase eng, to_ascii_lowercase vllm, t, nonce_text n])"
  by (simp add: epoch_report_preimage_def epoch_fields_def nonce_text_def)

lemma join_Cons_cong: "xs \<noteq> [] \<Longrightarrow> join sep (x # xs) = x @ sep @ join sep xs"
  by (cases xs) simp_all

text \<open>
  A binding over an epoch determines everything it covers: two epoch bindings with the same
  preimage agree on the epoch's identity, window and keys, on the measured hashes up to case, on the
  time and on the nonce; and no connect binding has the preimage of an epoch binding.
\<close>

theorem epoch_binding_determines_epoch:
  assumes "epoch_report_preimage e tls eng vllm t n = epoch_report_preimage e' tls' eng' vllm' t' n'"
    and "nul_free (epoch_fields e @ [tls, eng, vllm, t, nonce_text n])"
    and "nul_free (epoch_fields e' @ [tls', eng', vllm', t', nonce_text n'])"
  shows "e = e' \<and> eq_ignore_ascii_case tls tls' \<and> eq_ignore_ascii_case eng eng' \<and> eq_ignore_ascii_case vllm vllm'
    \<and> t = t' \<and> nonce_text n = nonce_text n'
    \<and> (\<forall>pub. report_preimage pub tls eng vllm t n \<noteq> epoch_report_preimage e' tls' eng' vllm' t' n')"
proof -
  let ?l = "\<lambda>e tls eng vllm t n. ''teechat-sev-snp-bind-v2'' # epoch_fields e @
     [to_ascii_lowercase tls, to_ascii_lowercase eng, to_ascii_lowercase vllm, t, nonce_text n]"
  have "?l e tls eng vllm t n = ?l e' tls' eng' vllm' t' n'"
    using assms(1) unfolding epoch_preimage_alt
  proof (rule join_sep_inj)
    show "length (?l e tls eng vllm t n) = length (?l e' tls' eng' vllm' t' n')" by (simp add: epoch_fields_def)
    show "\<forall>s\<in>set (?l e tls eng vllm t n) \<union> set (?l e' tls' eng' vllm' t' n'). CHR 0x00 \<notin> set s"
      using assms(2,3) by (auto simp: nul_free_def list_all_iff nul_lowercase)
  qed
  then have parts: "epoch_fields e @ [to_ascii_lowercase tls, to_ascii_lowercase eng, to_ascii_lowercase vllm, t, nonce_text n]
     = epoch_fields e' @ [to_ascii_lowercase tls', to_ascii_lowercase eng', to_ascii_lowercase vllm', t', nonce_text n']" by simp
  then have "epoch_fields e = epoch_fields e'" by (simp add: epoch_fields_def)
  then have e: "e = e'" by (rule epoch_fields_inj)
  have domain: "report_preimage pub tls eng vllm t n \<noteq> epoch_report_preimage e' tls' eng' vllm' t' n'" for pub
  proof -
    have split: "report_preimage pub tls eng vllm t n = ''teechat-sev-snp-bind-v1'' @ CHR 0x00 # r
        \<Longrightarrow> epoch_report_preimage e' tls' eng' vllm' t' n' = ''teechat-sev-snp-bind-v2'' @ CHR 0x00 # r'
        \<Longrightarrow> ?thesis" for r r' by simp
    show ?thesis
      by (rule split) (simp_all add: report_preimage_def epoch_report_preimage_def)
  qed
  from parts e domain show ?thesis by (simp add: eq_ignore_ascii_case_def)
qed

subsection \<open>Minted quotes\<close>

text \<open>
  What the libraries promise: decoding inverts encoding, SHA-512 has 64 bytes, and a report the guest
  tool delivers is not empty.
\<close>

definition codec_laws :: "attest_host \<Rightarrow> bool" where
  "codec_laws A \<longleftrightarrow> (\<forall>bs. at_unb64 A (at_b64 A bs) = Some bs) \<and> (\<forall>bs. at_decode A (at_encode A bs) = Some bs)
     \<and> (\<forall>w. at_wrapper_slice A (at_wrapper_vec A w) = Some w) \<and> (\<forall>bs. bs \<noteq> [] \<longrightarrow> at_b64 A bs \<noteq> [])
     \<and> (\<forall>s. length (at_sha512 A s) = 64) \<and> (\<forall>b t d r. at_guest_report A b t d = Inr r \<longrightarrow> r \<noteq> [])"

lemma base_claims_fields [simp]:
  "qt_kind (base_claims env pub tls m t ep) = ''sev-snp''" "qt_epoch (base_claims env pub tls m t ep) = ep"
  "qt_ed25519_public (base_claims env pub tls m t ep) = pub"
  "qt_tls_client_cert_sha256 (base_claims env pub tls m t ep) = to_ascii_lowercase tls"
  "wm_binary_sha256 (qt_engine (base_claims env pub tls m t ep)) = bm_engine_binary_sha256 m"
  "wm_binary_sha256 (qt_vllm (base_claims env pub tls m t ep)) = bm_vllm_binary_sha256 m"
  "qt_issued_at (base_claims env pub tls m t ep) = t"
  by (simp_all add: base_claims_def from_measurements_def Let_def split: option.split)

lemma parse_minted:
  assumes "codec_laws A" "sw_v w = 2" "sw_kind w = ''sev-snp''" "sw_report_b64 w \<noteq> []" "sw_report_data_b64 w \<noteq> []"
    "qt_kind (sw_claims w) = ''sev-snp''"
  shows "parse_sev_snp_quote_wrapper A (encode_sev_snp_quote_wrapper A w) = Some w"
  using assms by (simp add: parse_sev_snp_quote_wrapper_def encode_sev_snp_quote_wrapper_def codec_laws_def)

text \<open>
  A quote minted in the guest verifies: its wrapper parses back, carries the claims of the requested
  epoch, the engine's key and the client certificate, and its report data binds these claims to the nonce
  it was minted for.
\<close>

lemma minted_quote_verifies:
  assumes "codec_laws A" and "build_bundle A env dir pub tls nonce epoch gpu = Inr b"
    and "should_use_sev_snp_attestation A env" and "\<not> env_flag_true env ''TEECHAT_ENGINE_ALLOW_MOCK_ATTEST_ON_SNP''"
  shows "case parse_sev_snp_quote_wrapper A (cpu_quote (ab_cpu_tee b)) of
      None \<Rightarrow> False
    | Some w \<Rightarrow> verify_wrapper_report_data A w nonce \<and> qt_epoch (sw_claims w) = epoch
        \<and> qt_tls_client_cert_sha256 (sw_claims w) = to_ascii_lowercase tls
        \<and> qt_engine (sw_claims w) = ab_engine b \<and> qt_vllm (sw_claims w) = ab_vllm b
        \<and> qt_ed25519_public (sw_claims w) = pub"
proof -
  obtain m where m: "resolve_binary_measurements_from_env A env dir = Inr m"
    using assms(2) by (auto simp: build_bundle_def split: sum.splits)
  let ?tls = "to_ascii_lowercase tls" and ?t = "at_now_iso A"
  let ?base = "base_claims env pub ?tls m ?t epoch"
  let ?data = "expected_report_data A ?base nonce"
  have data: "(case epoch of
       Some ep \<Rightarrow> bind_epoch_report_data_64 A ep ?tls (bm_engine_binary_sha256 m) (bm_vllm_binary_sha256 m) ?t nonce
     | None \<Rightarrow> bind_report_data_64 A pub ?tls (bm_engine_binary_sha256 m) (bm_vllm_binary_sha256 m) ?t nonce) = ?data"
    by (simp add: expected_report_data_def to_ascii_lowercase_idem split: option.split)
  obtain report where report: "request_sev_snp_attestation_report A ?data env = Inr report"
    using assms(2-4) m data by (auto simp: build_bundle_def Let_def split: sum.splits)
  then have nonempty: "report \<noteq> []"
    using assms(1) by (auto simp: request_sev_snp_attestation_report_def codec_laws_def split: if_splits sum.splits)
  define claims where "claims = (case launch_digest_from_report A report of Some ld \<Rightarrow> ?base\<lparr>qt_launch_digest := Some ld\<rparr> | None \<Rightarrow> ?base)"
  define w where "w = \<lparr>sw_v = 2, sw_kind = ''sev-snp'', sw_report_b64 = at_b64 A report, sw_report_data_b64 = at_b64 A ?data, sw_claims = claims\<rparr>"
  have quote: "cpu_quote (ab_cpu_tee b) = encode_sev_snp_quote_wrapper A w" "ab_engine b = qt_engine claims" "ab_vllm b = qt_vllm claims"
    using assms(2-4) m data report
    by (auto simp: build_bundle_def Let_def w_def claims_def with_cpu_endorsement_def into_attestation_bundle_def split: sum.splits)
  have claims: "qt_kind claims = ''sev-snp''" "qt_epoch claims = epoch" "qt_tls_client_cert_sha256 claims = ?tls"
    "expected_report_data A claims nonce = ?data" "qt_ed25519_public claims = pub"
    by (simp_all add: claims_def expected_report_data_def to_ascii_lowercase_idem split: option.split)
  have len: "length ?data = 64"
    using assms(1) by (simp add: codec_laws_def expected_report_data_def bind_report_data_64_def bind_epoch_report_data_64_def split: option.split)
  then have "?data \<noteq> []" by auto
  then have "parse_sev_snp_quote_wrapper A (encode_sev_snp_quote_wrapper A w) = Some w"
    using assms(1) nonempty claims by (intro parse_minted) (simp_all add: w_def codec_laws_def)
  moreover have "verify_wrapper_report_data A w nonce"
    using assms(1) len claims by (simp add: verify_wrapper_report_data_def w_def codec_laws_def)
  ultimately show ?thesis using quote claims by (simp add: w_def)
qed

subsection \<open>Evidence and policies\<close>

text \<open>
  One piece of evidence authorises one epoch: whatever two registrations the same claims are
  matched against, if both are accepted they are of the same engine, epoch, window and keys, and the
  returned claims name them.
\<close>

theorem evidence_authorises_one_epoch:
  assumes "match_epoch_evidence claims s = Inr e" and "match_epoch_evidence claims s' = Inr e'"
  shows "e = e' \<and> es_engine_id s = es_engine_id s' \<and> es_epoch_id s = es_epoch_id s'
    \<and> es_not_before s = es_not_before s' \<and> es_not_after s = es_not_after s'
    \<and> hy_mlkem_encapsulation_key (es_hybrid s) = hy_mlkem_encapsulation_key (es_hybrid s')
    \<and> hy_x25519_public (es_hybrid s) = hy_x25519_public (es_hybrid s')
    \<and> qc_mlkem_encapsulation_key e = hy_mlkem_encapsulation_key (es_hybrid s) \<and> hy_x25519_public (es_hybrid s) \<noteq> []"
  using assms by (auto simp: match_epoch_evidence_def same_key_def split: option.splits if_splits)

definition epoch_subject :: "string \<Rightarrow> engine_epoch \<Rightarrow> epoch_evidence_subject" where
  "epoch_subject engine_id ep = \<lparr>es_engine_id = engine_id, es_epoch_id = ep_epoch_id ep, es_not_before = ep_not_before ep,
     es_not_after = ep_not_after ep, es_hybrid = ep_hybrid ep\<rparr>"

lemma own_evidence_matches:
  assumes "qt_epoch claims = Some (own_claims engine_id ep)" "hy_mlkem_encapsulation_key (ep_hybrid ep) \<noteq> []"
    "hy_x25519_public (ep_hybrid ep) \<noteq> []" "trim (ep_usage_signing_public_b64 ep) \<noteq> []"
  shows "match_epoch_evidence claims (epoch_subject engine_id ep) = Inr (own_claims engine_id ep)"
  using assms by (simp add: match_epoch_evidence_def epoch_subject_def own_claims_def epoch_claims_def same_key_def)

lemma verify_claims_ok:
  "av_ok (verify_claims_against_policy A c p now) \<longleftrightarrow>
     wm_binary_sha256 (qt_engine c) \<in> ap_allowed_engine_binary_sha256 p \<and> wm_binary_sha256 (qt_vllm c) \<in> ap_allowed_vllm_binary_sha256 p
     \<and> (case quote_age A c now of None \<Rightarrow> True | Some age \<Rightarrow> age \<le> ap_max_quote_age_ms p)"
  by (auto simp: verify_claims_against_policy_def attest_fail_def attest_ok_def not_less split: option.split)


text \<open>
  (C18) The evidence of a registered epoch survives the way to its receiver: when the epoch's
  attestation is minted in the guest over the claims handed to the mint hook, the quote in the
  registration parses, verifies, and matches exactly the epoch it registers.
\<close>

theorem registered_epoch_evidence_verifies:
  assumes "codec_laws A" and "should_use_sev_snp_attestation A env"
    and "\<not> env_flag_true env ''TEECHAT_ENGINE_ALLOW_MOCK_ATTEST_ON_SNP''"
    and "eh_mint E = Some (\<lambda>h claims. case build_engine_epoch_attestation_bundle A env dir pub tls claims None gpu of
        Inl _ \<Rightarrow> None | Inr b \<Rightarrow> Some b)"
    and "create_engine_epoch E args h = (Inr ep, h')"
    and "build_engine_epoch_attestation_bundle A env dir pub tls (own_claims (ca_engine_id args) ep) None gpu = Inr b"
    and "hy_mlkem_encapsulation_key (ep_hybrid ep) \<noteq> []" and "hy_x25519_public (ep_hybrid ep) \<noteq> []"
    and "trim (ep_usage_signing_public_b64 ep) \<noteq> []"
  shows "err_attestation (ep_ephemeral_request ep) = Some b
    \<and> (\<exists>w. parse_sev_snp_quote_wrapper A (cpu_quote (ab_cpu_tee b)) = Some w \<and> verify_wrapper_report_data A w None
         \<and> match_epoch_evidence (sw_claims w) (epoch_subject (ca_engine_id args) ep) = Inr (own_claims (ca_engine_id args) ep))"
proof
  show "err_attestation (ep_ephemeral_request ep) = Some b"
    using create_engine_epoch_ok [OF assms(5)] assms(4,6) by simp
  have "case parse_sev_snp_quote_wrapper A (cpu_quote (ab_cpu_tee b)) of None \<Rightarrow> False
      | Some w \<Rightarrow> verify_wrapper_report_data A w None \<and> qt_epoch (sw_claims w) = Some (own_claims (ca_engine_id args) ep)
          \<and> qt_tls_client_cert_sha256 (sw_claims w) = to_ascii_lowercase tls
          \<and> qt_engine (sw_claims w) = ab_engine b \<and> qt_vllm (sw_claims w) = ab_vllm b \<and> qt_ed25519_public (sw_claims w) = pub"
    using assms(6) unfolding build_engine_epoch_attestation_bundle_def by (rule minted_quote_verifies [OF assms(1) _ assms(2,3)])
  then obtain w where "parse_sev_snp_quote_wrapper A (cpu_quote (ab_cpu_tee b)) = Some w" "verify_wrapper_report_data A w None"
    "qt_epoch (sw_claims w) = Some (own_claims (ca_engine_id args) ep)" by (auto split: option.splits)
  then show "\<exists>w. parse_sev_snp_quote_wrapper A (cpu_quote (ab_cpu_tee b)) = Some w \<and> verify_wrapper_report_data A w None
     \<and> match_epoch_evidence (sw_claims w) (epoch_subject (ca_engine_id args) ep) = Inr (own_claims (ca_engine_id args) ep)"
    using own_evidence_matches [OF _ assms(7-9)] by blast
qed

subsection \<open>Instances\<close>

text \<open>A serialiser for the instances: fields as terminated strings, one prefix byte per character.\<close>

fun string_bytes :: "string \<Rightarrow> bytes" where
  "string_bytes [] = [0]"
| "string_bytes (c # s) = 1 # word_of_nat (of_char c) # string_bytes s"

definition opt_fields :: "string option \<Rightarrow> string list" where
  "opt_fields v = (case v of None \<Rightarrow> [''0'', []] | Some s \<Rightarrow> [''1'', s])"

definition identity_fields :: "workload_identity option \<Rightarrow> string list" where
  "identity_fields v = (case v of None \<Rightarrow> [''0'', [], [], []] | Some i \<Rightarrow> [''1'', wi_version i, wi_git_sha i, wi_sha256 i])"

definition epoch_opt_fields :: "quote_epoch_claims option \<Rightarrow> string list" where
  "epoch_opt_fields v = (case v of None \<Rightarrow> ''0'' # replicate 7 [] | Some e \<Rightarrow> ''1'' # epoch_fields e)"

definition wrapper_fields :: "sev_snp_quote_wrapper \<Rightarrow> string list" where
  "wrapper_fields w = (let c = sw_claims w in
     [[char_of (unat (sw_v w))], sw_kind w, sw_report_b64 w, sw_report_data_b64 w, [char_of (unat (qt_v c))], qt_kind c,
      qt_ed25519_public c, qt_tls_client_cert_sha256 c, wm_version (qt_engine c), wm_binary_sha256 (qt_engine c),
      wm_version (qt_vllm c), wm_binary_sha256 (qt_vllm c), qt_issued_at c]
     @ opt_fields (qt_launch_digest c) @ identity_fields (qt_ope c) @ identity_fields (qt_attested_mtls c)
     @ epoch_opt_fields (qt_epoch c))"

definition wrapper_bytes :: "sev_snp_quote_wrapper \<Rightarrow> bytes" where
  "wrapper_bytes w = concat (map string_bytes (wrapper_fields w))"

lemma char_byte_inj: "(word_of_nat (of_char c) :: u8) = word_of_nat (of_char d) \<longleftrightarrow> c = d"
proof -
  have "of_char c < (256 :: nat)" "of_char d < (256 :: nat)" by simp_all
  then have "unat (word_of_nat (of_char c) :: u8) = of_char c" "unat (word_of_nat (of_char d) :: u8) = of_char d"
    by (simp_all add: unat_of_nat_small)
  then show ?thesis by (metis of_char_eq_iff)
qed

lemma byte_char_inj: "unat (a :: u8) mod 256 = unat b mod 256 \<longleftrightarrow> a = b"
proof -
  have "unat a < 256" "unat b < 256" using unat_lt_size [of a] unat_lt_size [of b] by simp_all
  then show ?thesis by (simp add: word_unat_eq_iff)
qed

lemma string_bytes_prefix: "string_bytes s @ r = string_bytes t @ r' \<longleftrightarrow> s = t \<and> r = r'"
proof (induction s arbitrary: t)
  case Nil
  then show ?case by (cases t) auto
next
  case (Cons c s)
  then show ?case by (cases t) (auto simp: char_byte_inj)
qed

lemma strings_bytes_inj: "length ss = length ts \<Longrightarrow> concat (map string_bytes ss) = concat (map string_bytes ts) \<Longrightarrow> ss = ts"
proof (induction ss arbitrary: ts)
  case (Cons s ss)
  then show ?case by (cases ts) (auto simp: string_bytes_prefix)
qed simp

lemma option_fields_inj:
  "opt_fields v = opt_fields v' \<longleftrightarrow> v = v'" "identity_fields i = identity_fields i' \<longleftrightarrow> i = i'"
  "epoch_opt_fields e = epoch_opt_fields e' \<longleftrightarrow> e = e'"
  "length (opt_fields v) = 2" "length (identity_fields i) = 4" "length (epoch_opt_fields e) = 8"
  by (auto simp: opt_fields_def identity_fields_def epoch_opt_fields_def epoch_fields_def
      intro!: workload_identity.equality quote_epoch_claims.equality split: option.splits)

lemma wrapper_bytes_inj: "wrapper_bytes w = wrapper_bytes w' \<Longrightarrow> w = w'"
proof -
  assume "wrapper_bytes w = wrapper_bytes w'"
  then have "wrapper_fields w = wrapper_fields w'"
    unfolding wrapper_bytes_def
    by (intro strings_bytes_inj) (simp_all add: wrapper_fields_def Let_def option_fields_inj)
  then show ?thesis
    by (intro sev_snp_quote_wrapper.equality quote_claims.equality workload_measurements.equality)
      (auto simp: wrapper_fields_def Let_def byte_char_inj append_eq_append_conv option_fields_inj)
qed

definition sample_attest_env :: env where
  "sample_attest_env = [''TEECHAT_CPU_TEE_KIND'' \<mapsto> ''sev-snp'', ''TEECHAT_ENGINE_BINARY_SHA256'' \<mapsto> ''aa'',
     ''TEECHAT_VLLM_BINARY_SHA256'' \<mapsto> ''bb'']"

definition sample_attest_core :: attest_host where
  "sample_attest_core =
     \<lparr>at_sha256 = (\<lambda>_. replicate 32 0), at_sha512 = (\<lambda>_. replicate 64 0), at_hmac = (\<lambda>_. replicate 32 0),
      at_b64 = map (\<lambda>b. char_of (unat b)), at_unb64 = (\<lambda>s. Some (map (\<lambda>c. word_of_nat (of_char c)) s)),
      at_encode = map (\<lambda>b. char_of (unat b)), at_decode = (\<lambda>s. Some (map (\<lambda>c. word_of_nat (of_char c)) s)),
      at_wrapper_vec = wrapper_bytes, at_wrapper_slice = (\<lambda>_. None), at_claims_vec = (\<lambda>_. []), at_claims_slice = (\<lambda>_. None),
      at_parse_rfc3339 = (\<lambda>_. None), at_now_iso = ''t'', at_exists = (\<lambda>_. False), at_read = (\<lambda>p. Inl (AIo p)),
      at_read_text = (\<lambda>_. None), at_manifest = (\<lambda>_. None), at_ope_pin = (\<lambda>_. None), at_amt_pin = (\<lambda>_. None),
      at_tcb = (\<lambda>_. None), at_guest_device = True, at_guest_tool = (\<lambda>_. True), at_guest_report = (\<lambda>_ _ d. Inr (7 # d)),
      at_collect_gpu = (\<lambda>_ _. Inr ''gpu''), at_gpu_not_applicable = ''na''\<rparr>"

definition sample_attest :: attest_host where
  "sample_attest = sample_attest_core\<lparr>at_wrapper_slice := (\<lambda>bs. Some (inv wrapper_bytes bs))\<rparr>"

lemma sample_codec_laws: "codec_laws sample_attest"
proof -
  have "(word_of_nat (of_char (char_of (unat b) :: char)) :: u8) = b" for b :: u8
    using unat_lt_size [of b] by (simp add: of_char_of)
  moreover have "inv wrapper_bytes (wrapper_bytes w) = w" for w
    by (intro inv_f_f injI wrapper_bytes_inj)
  ultimately show ?thesis
    by (simp add: codec_laws_def sample_attest_def sample_attest_core_def comp_def)
qed

text \<open>Minting does not parse wrappers.\<close>

lemma readers_slice_irrelevant [simp]:
  "read_release_manifest (A\<lparr>at_wrapper_slice := f\<rparr>) = read_release_manifest A"
  "read_ope_version_pin (A\<lparr>at_wrapper_slice := f\<rparr>) = read_ope_version_pin A"
  "read_attested_mtls_pin (A\<lparr>at_wrapper_slice := f\<rparr>) = read_attested_mtls_pin A"
  "read_tcb_pins_partial (A\<lparr>at_wrapper_slice := f\<rparr>) = read_tcb_pins_partial A"
  "pem_to_der_b64 (A\<lparr>at_wrapper_slice := f\<rparr>) = pem_to_der_b64 A"
  "is_sev_snp_guest_tool_available (A\<lparr>at_wrapper_slice := f\<rparr>) = is_sev_snp_guest_tool_available A"
  "challenge_canonical_launch_digest (A\<lparr>at_wrapper_slice := f\<rparr>) = challenge_canonical_launch_digest A"
  by (simp_all add: fun_eq_iff read_release_manifest_def read_ope_version_pin_def read_attested_mtls_pin_def Let_def
      read_tcb_pins_partial_def pem_to_der_b64_def is_sev_snp_guest_tool_available_def challenge_canonical_launch_digest_def
      cong: option.case_cong sum.case_cong if_cong)

lemma guest_slice_irrelevant [simp]:
  "read_pem_der_b64 (A\<lparr>at_wrapper_slice := f\<rparr>) = read_pem_der_b64 A"
  "should_use_sev_snp_attestation (A\<lparr>at_wrapper_slice := f\<rparr>) = should_use_sev_snp_attestation A"
  "resolve_gpu_evidence (A\<lparr>at_wrapper_slice := f\<rparr>) = resolve_gpu_evidence A"
  "request_sev_snp_attestation_report (A\<lparr>at_wrapper_slice := f\<rparr>) = request_sev_snp_attestation_report A"
  "launch_digest_from_report (A\<lparr>at_wrapper_slice := f\<rparr>) = launch_digest_from_report A"
  "encode_sev_snp_quote_wrapper (A\<lparr>at_wrapper_slice := f\<rparr>) = encode_sev_snp_quote_wrapper A"
  "build_mock_cpu_quote (A\<lparr>at_wrapper_slice := f\<rparr>) = build_mock_cpu_quote A"
  "bind_report_data_64 (A\<lparr>at_wrapper_slice := f\<rparr>) = bind_report_data_64 A"
  "bind_epoch_report_data_64 (A\<lparr>at_wrapper_slice := f\<rparr>) = bind_epoch_report_data_64 A"
  by (simp_all add: fun_eq_iff read_pem_der_b64_def should_use_sev_snp_attestation_def resolve_gpu_evidence_def
      request_sev_snp_attestation_report_def launch_digest_from_report_def encode_sev_snp_quote_wrapper_def
      build_mock_cpu_quote_def bind_report_data_64_def bind_epoch_report_data_64_def Let_def split: gpu_evidence_source.split
      cong: option.case_cong sum.case_cong if_cong)

lemma bundle_slice_irrelevant [simp]:
  "with_cpu_endorsement (A\<lparr>at_wrapper_slice := f\<rparr>) = with_cpu_endorsement A"
  "resolve_binary_measurements_from_env (A\<lparr>at_wrapper_slice := f\<rparr>) = resolve_binary_measurements_from_env A"
  by (rule ext, rule ext, simp add: with_cpu_endorsement_def load_cpu_tee_endorsement_from_env_def cong: option.case_cong,
      rule ext, rule ext, simp add: resolve_binary_measurements_from_env_def cong: sum.case_cong option.case_cong if_cong)

lemma build_slice_irrelevant [simp]:
  "build_bundle (A\<lparr>at_wrapper_slice := f\<rparr>) env d p t n e g = build_bundle A env d p t n e g"
  by (simp add: build_bundle_def cong: sum.case_cong option.case_cong if_cong)

definition sample_mint :: "attest_host \<Rightarrow> epoch_event list \<Rightarrow> quote_epoch_claims \<Rightarrow> attestation_bundle option" where
  "sample_mint A h claims = (case build_engine_epoch_attestation_bundle A sample_attest_env ''/'' ''pk'' ''CC'' claims None (Reuse ''gpu'') of
     Inl _ \<Rightarrow> None | Inr b \<Rightarrow> Some b)"

definition sample_minting_host :: "attest_host \<Rightarrow> epoch_host" where
  "sample_minting_host A = sample_epoch_host\<lparr>eh_mint := Some (sample_mint A), eh_iso := (\<lambda>t. ''t'')\<rparr>"

definition sample_epoch_args :: create_engine_epoch_args where
  "sample_epoch_args = \<lparr>ca_engine_id = ''eng'', ca_ed25519_public_b64 = ''pk'', ca_attestation = None, ca_epoch_id = Some ''e1'', ca_ttl_ms = None\<rparr>"

definition sample_minted_epoch :: engine_epoch where
  "sample_minted_epoch = projr (fst (create_engine_epoch (sample_minting_host sample_attest_core) sample_epoch_args []))"

definition sample_minted_bundle :: attestation_bundle where
  "sample_minted_bundle = projr (build_engine_epoch_attestation_bundle sample_attest_core sample_attest_env ''/'' ''pk'' ''CC''
     (own_claims ''eng'' sample_minted_epoch) None (Reuse ''gpu''))"

lemma sample_mint_core: "sample_mint sample_attest = sample_mint sample_attest_core"
  by (rule ext, rule ext) (simp add: sample_mint_def build_engine_epoch_attestation_bundle_def sample_attest_def)

lemma sample_minting_core: "sample_minting_host sample_attest = sample_minting_host sample_attest_core"
  by (simp add: sample_minting_host_def sample_mint_core)

lemma sample_creation:
  "isl (fst (create_engine_epoch (sample_minting_host sample_attest_core) sample_epoch_args [])) = False"
  by (simp add: create_engine_epoch_def sample_minting_host_def sample_epoch_host_def Let_def)

lemma sample_own_claims:
  "own_claims ''eng'' sample_minted_epoch = \<lparr>qc_engine_id = ''eng'', qc_epoch_id = ''e1'', qc_not_before = ''t'', qc_not_after = ''t'',
     qc_mlkem_encapsulation_key = ''mlk'', qc_x25519_public = ''x'', qc_usage_signing_public = ''kpub''\<rparr>"
  by (simp add: own_claims_def epoch_claims_def sample_minted_epoch_def create_engine_epoch_def sample_minting_host_def
      sample_epoch_host_def sample_epoch_args_def sample_hybrid_def Let_def)

lemma sample_measurements: "isl (resolve_binary_measurements_from_env sample_attest_core sample_attest_env ''/'') = False"
  "should_use_sev_snp_attestation sample_attest_core sample_attest_env"
  "\<not> env_flag_true sample_attest_env ''TEECHAT_ENGINE_ALLOW_MOCK_ATTEST_ON_SNP''"
  "isl (sev_snp_guest_bin_from_env sample_attest_env) = False"
  by code_simp+

lemma sample_mint_ok:
  "build_engine_epoch_attestation_bundle sample_attest_core sample_attest_env ''/'' ''pk'' ''CC''
     (own_claims ''eng'' sample_minted_epoch) None (Reuse ''gpu'') = Inr sample_minted_bundle"
proof -
  obtain m bin where "resolve_binary_measurements_from_env sample_attest_core sample_attest_env ''/'' = Inr m"
    "sev_snp_guest_bin_from_env sample_attest_env = Inr bin"
    using sample_measurements(1,4) by (metis sum.collapse(2))
  moreover have "at_guest_device sample_attest_core" "at_guest_report sample_attest_core bin t d = Inr (7 # d)" for t d
    by (simp_all add: sample_attest_core_def)
  ultimately have "\<exists>b. build_engine_epoch_attestation_bundle sample_attest_core sample_attest_env ''/'' ''pk'' ''CC''
     (own_claims ''eng'' sample_minted_epoch) None (Reuse ''gpu'') = Inr b"
    using sample_measurements(2,3)
    by (simp add: build_engine_epoch_attestation_bundle_def build_bundle_def request_sev_snp_attestation_report_def
        resolve_gpu_evidence_def Let_def)
  then show ?thesis by (auto simp: sample_minted_bundle_def)
qed

theorem registered_epoch_evidence_verifies_witness:
  "err_attestation (ep_ephemeral_request sample_minted_epoch) = Some sample_minted_bundle
    \<and> (\<exists>w. parse_sev_snp_quote_wrapper sample_attest (cpu_quote (ab_cpu_tee sample_minted_bundle)) = Some w
         \<and> verify_wrapper_report_data sample_attest w None
         \<and> match_epoch_evidence (sw_claims w) (epoch_subject (ca_engine_id sample_epoch_args) sample_minted_epoch)
           = Inr (own_claims (ca_engine_id sample_epoch_args) sample_minted_epoch))"
proof (rule registered_epoch_evidence_verifies [OF sample_codec_laws, of sample_attest_env])
  show "should_use_sev_snp_attestation sample_attest sample_attest_env" using sample_measurements(2) by (simp add: sample_attest_def)
  show "\<not> env_flag_true sample_attest_env ''TEECHAT_ENGINE_ALLOW_MOCK_ATTEST_ON_SNP''" by (rule sample_measurements(3))
  show "eh_mint (sample_minting_host sample_attest) = Some (\<lambda>h claims.
      case build_engine_epoch_attestation_bundle sample_attest sample_attest_env ''/'' ''pk'' ''CC'' claims None (Reuse ''gpu'') of
        Inl _ \<Rightarrow> None | Inr b \<Rightarrow> Some b)"
    by (simp add: sample_minting_host_def sample_mint_def fun_eq_iff)
  show "create_engine_epoch (sample_minting_host sample_attest) sample_epoch_args []
      = (Inr sample_minted_epoch, snd (create_engine_epoch (sample_minting_host sample_attest_core) sample_epoch_args []))"
    unfolding sample_minting_core sample_minted_epoch_def using sample_creation
    by (metis prod.collapse sum.collapse(2))
  show "build_engine_epoch_attestation_bundle sample_attest sample_attest_env ''/'' ''pk'' ''CC''
      (own_claims (ca_engine_id sample_epoch_args) sample_minted_epoch) None (Reuse ''gpu'') = Inr sample_minted_bundle"
    using sample_mint_ok by (simp add: build_engine_epoch_attestation_bundle_def sample_attest_def sample_epoch_args_def)
  have "qc_mlkem_encapsulation_key (own_claims ''eng'' sample_minted_epoch) = ''mlk''"
    "qc_x25519_public (own_claims ''eng'' sample_minted_epoch) = ''x''"
    "qc_usage_signing_public (own_claims ''eng'' sample_minted_epoch) = ''kpub''" by (simp_all add: sample_own_claims)
  moreover have "trim ''kpub'' \<noteq> []" by code_simp
  ultimately show "hy_mlkem_encapsulation_key (ep_hybrid sample_minted_epoch) \<noteq> []" "hy_x25519_public (ep_hybrid sample_minted_epoch) \<noteq> []"
    "trim (ep_usage_signing_public_b64 sample_minted_epoch) \<noteq> []"
    by (simp_all add: own_claims_def epoch_claims_def)
qed

theorem epoch_binding_determines_epoch_witness:
  "epoch_report_preimage (own_claims ''eng'' sample_minted_epoch) ''AA'' ''e'' ''v'' ''t'' None
     = epoch_report_preimage (own_claims ''eng'' sample_minted_epoch) ''aa'' ''e'' ''v'' ''t'' (Some [])
   \<and> eq_ignore_ascii_case ''AA'' ''aa''"
proof -
  have same: "epoch_report_preimage (own_claims ''eng'' sample_minted_epoch) ''AA'' ''e'' ''v'' ''t'' None
     = epoch_report_preimage (own_claims ''eng'' sample_minted_epoch) ''aa'' ''e'' ''v'' ''t'' (Some [])"
  proof -
    have "to_ascii_lowercase ''AA'' = to_ascii_lowercase ''aa''" by code_simp
    then show ?thesis unfolding epoch_preimage_alt by (simp add: nonce_text_def)
  qed
  moreover have "nul_free (epoch_fields (own_claims ''eng'' sample_minted_epoch) @ [''AA'', ''e'', ''v'', ''t'', nonce_text None])"
    "nul_free (epoch_fields (own_claims ''eng'' sample_minted_epoch) @ [''aa'', ''e'', ''v'', ''t'', nonce_text (Some [])])"
    by (simp_all add: sample_own_claims epoch_fields_def nul_free_def nonce_text_def)
  ultimately show ?thesis using epoch_binding_determines_epoch [OF same] by blast
qed

definition sample_claims :: quote_claims where
  "sample_claims = \<lparr>qt_v = 1, qt_kind = ''sev-snp'', qt_ed25519_public = ''ed'', qt_tls_client_cert_sha256 = [],
     qt_engine = \<lparr>wm_version = ''e'', wm_binary_sha256 = ''a1b2c3d4e5f6789012345678abcdef9012345678abcdef9012345678abcdef90''\<rparr>,
     qt_vllm = \<lparr>wm_version = ''v'', wm_binary_sha256 = ''b2c3d4e5f6789012345678abcdef9012345678abcdef9012345678abcdef9012''\<rparr>,
     qt_ope = None, qt_attested_mtls = None, qt_launch_digest = None, qt_epoch = Some (own_claims ''eng'' sample_minted_epoch),
     qt_issued_at = ''t''\<rparr>"

theorem evidence_authorises_one_epoch_witness:
  "match_epoch_evidence sample_claims (epoch_subject ''eng'' sample_minted_epoch) = Inr (own_claims ''eng'' sample_minted_epoch)
   \<and> hy_x25519_public (es_hybrid (epoch_subject ''eng'' sample_minted_epoch)) \<noteq> []"
proof -
  have "match_epoch_evidence sample_claims (epoch_subject ''eng'' sample_minted_epoch) = Inr (own_claims ''eng'' sample_minted_epoch)"
  proof (rule own_evidence_matches)
    have "qc_mlkem_encapsulation_key (own_claims ''eng'' sample_minted_epoch) = ''mlk''"
      "qc_x25519_public (own_claims ''eng'' sample_minted_epoch) = ''x''"
      "qc_usage_signing_public (own_claims ''eng'' sample_minted_epoch) = ''kpub''" by (simp_all add: sample_own_claims)
    moreover have "trim ''kpub'' \<noteq> []" by code_simp
    ultimately show "hy_mlkem_encapsulation_key (ep_hybrid sample_minted_epoch) \<noteq> []" "hy_x25519_public (ep_hybrid sample_minted_epoch) \<noteq> []"
      "trim (ep_usage_signing_public_b64 sample_minted_epoch) \<noteq> []"
      by (simp_all add: own_claims_def epoch_claims_def)
  qed (simp add: sample_claims_def)
  with evidence_authorises_one_epoch [OF this this] show ?thesis by blast
qed

text \<open>A gateway configured by two hashes, and a bundle that states them around a quote of something else.\<close>

definition sample_gateway_bind :: platform_attestation_bind where
  "sample_gateway_bind = \<lparr>pb_gateway_binary_sha256 = ''c3'', pb_skill_hub_binary_sha256 = ''d4'', pb_ed25519_public = ''ed''\<rparr>"

definition sample_platform_policy :: platform_attestation_policy where
  "sample_platform_policy = \<lparr>pl_policy_id = ''p'', pl_allowed_gateway_binary_sha256 = {''c3''},
     pl_allowed_skill_hub_binary_sha256 = {''d4''}, pl_max_quote_age_ms = 86400000\<rparr>"

definition sample_gateway_bundle :: attestation_bundle where
  "sample_gateway_bundle = (into_attestation_bundle sample_claims ''quote'' ''gpu'' ''p'')
     \<lparr>ab_engine := \<lparr>wm_version = ''g'', wm_binary_sha256 = ''c3''\<rparr>, ab_vllm := \<lparr>wm_version = ''s'', wm_binary_sha256 = ''d4''\<rparr>\<rparr>"

lemma sample_gateway_texts:
  "trim ''c3'' = ''c3''" "trim ''d4'' = ''d4''" "trim ''ed'' = ''ed''" "to_ascii_lowercase ''c3'' = ''c3''" "to_ascii_lowercase ''d4'' = ''d4''"
  by code_simp+

lemma sample_gateway_accepted:
  "av_ok (verify_platform_attestation_bundle sample_attest_core sample_gateway_bundle default_test_attestation_policy
     sample_platform_policy sample_gateway_bind 1000 (\<lambda>quote kind. Inr sample_claims))"
  by (simp add: verify_platform_attestation_bundle_def verify_bundle_with_verifier_def verify_claims_against_policy_def
      quote_age_def attest_ok_def sample_gateway_bind_def sample_platform_policy_def sample_gateway_bundle_def
      sample_attest_core_def sample_claims_def platform_quote_policy_def default_test_attestation_policy_def sample_gateway_texts)

text \<open>
  The quote of an engine passes for a gateway: a bundle whose verified quote names the default
  engine binary, not the configured gateway binary, is accepted as the gateway's, because the hashes
  the gateway is identified by are those of the unsigned bundle.
\<close>

theorem engine_quote_passes_as_gateway:
  "av_ok (verify_platform_attestation_bundle sample_attest_core sample_gateway_bundle default_test_attestation_policy
     sample_platform_policy sample_gateway_bind 1000 (\<lambda>quote kind. Inr sample_claims))
   \<and> wm_binary_sha256 (qt_engine sample_claims) \<noteq> to_ascii_lowercase (trim (pb_gateway_binary_sha256 sample_gateway_bind))"
  using sample_gateway_accepted by (simp add: sample_claims_def sample_gateway_bind_def sample_gateway_texts)


end
