(* ===== verification/Engine_Challenge.thy ===== *)
theory Engine_Challenge
  imports Attestation_Properties
begin

section \<open>Engine attestation challenge\<close>

text \<open>
  \<^verbatim>\<open>ie-engine/src/engine_challenge/\<close>: the byte-exact preimage a challenge binds, its report data, and
  the response minted for a nonce. Base64 engines, SHA-256, the clock and the guest report are the
  host. The lemmas show that a preimage determines everything a challenge attests, and that a minted
  response echoes its nonce and carries the report over exactly what it states.
\<close>

datatype engine_challenge_error =
    ChInvalid string
  | ChEpochMismatch
  | ChEndorsementUnavailable
  | ChAttestation attestation_error

datatype engine_challenge_measurement =
    LaunchDigest string string
  | Mrenclave string

record engine_challenge_input =
  ci_nonce :: bytes
  ci_engine_id :: string
  ci_epoch_id :: string
  ci_not_before :: string
  ci_not_after :: string
  ci_usage_signing_public_raw :: bytes
  ci_mlkem_encap_key_raw :: bytes
  ci_x25519_public_raw :: bytes
  ci_gpu_evidence_sha256 :: bytes
  ci_policy_hash :: bytes
  ci_measurement :: engine_challenge_measurement

datatype b64_engine = Standard | StandardNoPad | UrlSafe | UrlSafeNoPad

record challenge_host =
  cx_attest :: attest_host
  cx_encode :: "b64_engine \<Rightarrow> bytes \<Rightarrow> string"
  cx_decode :: "b64_engine \<Rightarrow> string \<Rightarrow> bytes option"

subsection \<open>Report data\<close>

definition ENGINE_CHALLENGE_MAGIC :: string where
  "ENGINE_CHALLENGE_MAGIC = ''teechat-engine-challenge-v1''"

text \<open>\<^verbatim>\<open>as_bytes\<close> of an ASCII string.\<close>

definition as_bytes :: "string \<Rightarrow> bytes" where
  "as_bytes s = map (\<lambda>c. word_of_nat (of_char c)) s"

definition decode_hex_32 :: "string \<Rightarrow> string \<Rightarrow> engine_challenge_error + bytes" where
  "decode_hex_32 raw label =
     (let cleaned = to_ascii_lowercase (trim raw)
      in if length cleaned \<noteq> 64 \<or> \<not> list_all is_ascii_hexdigit cleaned then Inl (ChInvalid label)
         else case hex_pairs cleaned of None \<Rightarrow> Inl (ChInvalid label)
           | Some bs \<Rightarrow> if length bs = 32 then Inr bs else Inl (ChInvalid label))"

definition measurement_body :: "engine_challenge_measurement \<Rightarrow> engine_challenge_error + bytes" where
  "measurement_body m =
     (case m of
        Mrenclave mrenclave \<Rightarrow>
          (case decode_hex_32 mrenclave ''invalid_mrenclave'' of Inl e \<Rightarrow> Inl e | Inr bs \<Rightarrow> Inr (1 # bs))
      | LaunchDigest launch_digest image_digest \<Rightarrow>
          (case decode_hex_32 launch_digest ''invalid_launch_digest'' of
             Inl e \<Rightarrow> Inl e
           | Inr ld \<Rightarrow> (case decode_hex_32 image_digest ''invalid_image_digest'' of Inl e \<Rightarrow> Inl e | Inr im \<Rightarrow> Inr (2 # ld @ im))))"

definition build_engine_challenge_preimage ::
    "(bytes \<Rightarrow> bytes) \<Rightarrow> engine_challenge_input \<Rightarrow> engine_challenge_error + bytes" where
  "build_engine_challenge_preimage sha256 i =
     (if length (ci_nonce i) \<noteq> 32 then Inl (ChInvalid ''nonce_must_be_32_bytes'')
      else if length (ci_gpu_evidence_sha256 i) \<noteq> 32 then Inl (ChInvalid ''gpu_hash_must_be_32_bytes'')
      else if length (ci_policy_hash i) \<noteq> 32 then Inl (ChInvalid ''policy_hash_must_be_32_bytes'')
      else case measurement_body (ci_measurement i) of
        Inl e \<Rightarrow> Inl e
      | Inr measurement \<Rightarrow> Inr
         (as_bytes ENGINE_CHALLENGE_MAGIC @ ci_nonce i @ sha256 (as_bytes (ci_engine_id i)) @ sha256 (as_bytes (ci_epoch_id i))
          @ sha256 (as_bytes (ci_not_before i) @ 0 # as_bytes (ci_not_after i)) @ sha256 (ci_usage_signing_public_raw i)
          @ sha256 (ci_mlkem_encap_key_raw i) @ sha256 (ci_x25519_public_raw i) @ ci_gpu_evidence_sha256 i @ ci_policy_hash i
          @ measurement))"

definition build_engine_challenge_report_data ::
    "(bytes \<Rightarrow> bytes) \<Rightarrow> engine_challenge_input \<Rightarrow> engine_challenge_error + bytes" where
  "build_engine_challenge_report_data sha256 i =
     (case build_engine_challenge_preimage sha256 i of Inl e \<Rightarrow> Inl e | Inr pre \<Rightarrow> Inr (sha256 pre @ replicate 32 0))"

definition encode_nonce_b64_url :: "challenge_host \<Rightarrow> bytes \<Rightarrow> string" where
  "encode_nonce_b64_url X nonce = cx_encode X UrlSafeNoPad nonce"

definition decode_nonce_b64_url :: "challenge_host \<Rightarrow> string \<Rightarrow> engine_challenge_error + bytes" where
  "decode_nonce_b64_url X raw =
     (case cx_decode X UrlSafeNoPad (trim raw) of
        None \<Rightarrow> Inl (ChInvalid ''invalid_nonce_b64'')
      | Some bs \<Rightarrow> if length bs = 32 then Inr bs else Inl (ChInvalid ''nonce_must_be_32_bytes''))"

subsection \<open>Responses\<close>

record engine_challenge_wire_request =
  cq_nonce_b64 :: string
  cq_epoch_id :: "string option"

record engine_challenge_epoch =
  ce_epoch_id :: string
  ce_not_before :: string
  ce_not_after :: string
  ce_mlkem_encapsulation_key :: string
  ce_x25519_public :: string
  ce_usage_signing_public :: string

definition challenge_epoch_of :: "engine_epoch \<Rightarrow> engine_challenge_epoch" where
  "challenge_epoch_of ep =
     \<lparr>ce_epoch_id = ep_epoch_id ep, ce_not_before = ep_not_before ep, ce_not_after = ep_not_after ep,
      ce_mlkem_encapsulation_key = hy_mlkem_encapsulation_key (ep_hybrid ep),
      ce_x25519_public = hy_x25519_public (ep_hybrid ep), ce_usage_signing_public = ep_usage_signing_public_b64 ep\<rparr>"

record engine_challenge_gpu_response =
  cg_evidence_format :: string
  cg_evidence_b64 :: string
  cg_evidence_sha256 :: string
  cg_collected_at :: string

record engine_challenge_wire_response =
  cw_schema_version :: u8
  cw_report_data_version :: u8
  cw_engine_id :: string
  cw_build_version :: string
  cw_measurement :: engine_challenge_measurement
  cw_policy_hash :: string
  cw_epoch :: engine_challenge_epoch
  cw_challenge_nonce_b64 :: string
  cw_quote_format :: string
  cw_quote_b64 :: string
  cw_endorsement :: cpu_tee_endorsement
  cw_gpu :: "engine_challenge_gpu_response option"

record mint_engine_challenge_args =
  ma_request :: engine_challenge_wire_request
  ma_engine_id :: string
  ma_build_version :: string
  ma_policy_hash_hex :: string
  ma_measurement :: engine_challenge_measurement
  ma_epoch :: engine_challenge_epoch
  ma_gpu_evidence_b64 :: "string option"
  ma_gpu_collected_at :: "string option"
  ma_env :: env

definition decode_wire_base64 :: "challenge_host \<Rightarrow> string \<Rightarrow> string \<Rightarrow> engine_challenge_error + bytes" where
  "decode_wire_base64 X raw label =
     (case first_some (\<lambda>e. cx_decode X e (trim raw)) [Standard, StandardNoPad, UrlSafe, UrlSafeNoPad] of
        Some bs \<Rightarrow> Inr bs | None \<Rightarrow> Inl (ChInvalid label))"

definition gpu_hash :: "challenge_host \<Rightarrow> string option \<Rightarrow> engine_challenge_error + bytes \<times> (string \<times> bytes) option" where
  "gpu_hash X evidence_b64 =
     (case Option.bind evidence_b64 (\<lambda>e. if trim e = [] then None else Some (trim e)) of
        None \<Rightarrow> Inr (replicate 32 0, None)
      | Some evidence \<Rightarrow>
          (case decode_wire_base64 X evidence ''invalid_gpu_evidence_b64'' of
             Inl e \<Rightarrow> Inl e
           | Inr raw \<Rightarrow> Inr (at_sha256 (cx_attest X) raw, Some (evidence, raw))))"

text \<open>The input of the report data, or the first field that does not decode.\<close>

definition challenge_input ::
    "challenge_host \<Rightarrow> mint_engine_challenge_args \<Rightarrow> bytes \<Rightarrow> bytes \<Rightarrow> engine_challenge_error + engine_challenge_input" where
  "challenge_input X a nonce gpu_sha =
     (case decode_hex_32 (ma_policy_hash_hex a) ''invalid_policy_hash'' of Inl e \<Rightarrow> Inl e
      | Inr policy_hash \<Rightarrow>
     (case decode_wire_base64 X (ce_usage_signing_public (ma_epoch a)) ''invalid_usage_signing_public'' of Inl e \<Rightarrow> Inl e
      | Inr usage \<Rightarrow>
     (case decode_wire_base64 X (ce_mlkem_encapsulation_key (ma_epoch a)) ''invalid_mlkem_encapsulation_key'' of Inl e \<Rightarrow> Inl e
      | Inr mlkem \<Rightarrow>
     (case decode_wire_base64 X (ce_x25519_public (ma_epoch a)) ''invalid_x25519_public'' of Inl e \<Rightarrow> Inl e
      | Inr x25519 \<Rightarrow> Inr
         \<lparr>ci_nonce = nonce, ci_engine_id = ma_engine_id a, ci_epoch_id = ce_epoch_id (ma_epoch a),
          ci_not_before = ce_not_before (ma_epoch a), ci_not_after = ce_not_after (ma_epoch a),
          ci_usage_signing_public_raw = usage, ci_mlkem_encap_key_raw = mlkem, ci_x25519_public_raw = x25519,
          ci_gpu_evidence_sha256 = gpu_sha, ci_policy_hash = policy_hash, ci_measurement = ma_measurement a\<rparr>))))"

definition zero_hash :: string where
  "zero_hash = replicate 64 CHR ''0''"

definition challenge_quote ::
    "challenge_host \<Rightarrow> mint_engine_challenge_args \<Rightarrow> bytes \<Rightarrow> bytes \<Rightarrow> sev_snp_quote_wrapper" where
  "challenge_quote X a report report_data =
     \<lparr>sw_v = 2, sw_kind = ''sev-snp'', sw_report_b64 = cx_encode X Standard report,
      sw_report_data_b64 = cx_encode X Standard report_data,
      sw_claims = \<lparr>qt_v = 1, qt_kind = ''sev-snp'', qt_ed25519_public = [], qt_tls_client_cert_sha256 = zero_hash,
        qt_engine = \<lparr>wm_version = ma_build_version a, wm_binary_sha256 = zero_hash\<rparr>,
        qt_vllm = \<lparr>wm_version = ''0'', wm_binary_sha256 = zero_hash\<rparr>, qt_ope = None, qt_attested_mtls = None,
        qt_launch_digest = None, qt_epoch = None, qt_issued_at = at_now_iso (cx_attest X)\<rparr>\<rparr>"

definition mint_engine_challenge_response_with ::
    "challenge_host \<Rightarrow> mint_engine_challenge_args \<Rightarrow> (bytes \<Rightarrow> engine_challenge_error + bytes)
     \<Rightarrow> engine_challenge_error + engine_challenge_wire_response" where
  "mint_engine_challenge_response_with X a mint_report =
     (case decode_nonce_b64_url X (cq_nonce_b64 (ma_request a)) of Inl e \<Rightarrow> Inl e
      | Inr nonce \<Rightarrow>
         if (case cq_epoch_id (ma_request a) of None \<Rightarrow> False | Some requested \<Rightarrow> requested \<noteq> ce_epoch_id (ma_epoch a))
         then Inl ChEpochMismatch
         else case load_cpu_tee_endorsement_from_env (cx_attest X) (ma_env a) of None \<Rightarrow> Inl ChEndorsementUnavailable
          | Some endorsement \<Rightarrow>
           (case gpu_hash X (ma_gpu_evidence_b64 a) of Inl e \<Rightarrow> Inl e
            | Inr (gpu_sha, gpu) \<Rightarrow>
           (case challenge_input X a nonce gpu_sha of Inl e \<Rightarrow> Inl e
            | Inr input \<Rightarrow>
           (case build_engine_challenge_report_data (at_sha256 (cx_attest X)) input of Inl e \<Rightarrow> Inl e
            | Inr report_data \<Rightarrow>
           (case mint_report report_data of Inl e \<Rightarrow> Inl e
            | Inr report \<Rightarrow> Inr
               \<lparr>cw_schema_version = 1, cw_report_data_version = 1, cw_engine_id = ma_engine_id a,
                cw_build_version = ma_build_version a, cw_measurement = ma_measurement a,
                cw_policy_hash = to_ascii_lowercase (trim (ma_policy_hash_hex a)), cw_epoch = ma_epoch a,
                cw_challenge_nonce_b64 = encode_nonce_b64_url X nonce, cw_quote_format = ''snp_report'',
                cw_quote_b64 = encode_sev_snp_quote_wrapper (cx_attest X) (challenge_quote X a report report_data),
                cw_endorsement = endorsement,
                cw_gpu = map_option (\<lambda>(evidence, raw).
                  \<lparr>cg_evidence_format = ''nvattest_v1'', cg_evidence_b64 = evidence,
                   cg_evidence_sha256 = hex_encode (at_sha256 (cx_attest X) raw),
                   cg_collected_at = (case ma_gpu_collected_at a of Some t \<Rightarrow> t | None \<Rightarrow> at_now_iso (cx_attest X))\<rparr>) gpu\<rparr>)))))"

definition mint_engine_challenge_response ::
    "challenge_host \<Rightarrow> mint_engine_challenge_args \<Rightarrow> engine_challenge_error + engine_challenge_wire_response" where
  "mint_engine_challenge_response X a = mint_engine_challenge_response_with X a (\<lambda>report_data.
     case request_sev_snp_attestation_report (cx_attest X) report_data (ma_env a) of Inl e \<Rightarrow> Inl (ChAttestation e) | Inr r \<Rightarrow> Inr r)"

subsection \<open>What a challenge binds\<close>

lemma as_bytes_inj: "as_bytes s = as_bytes t \<longleftrightarrow> s = t"
proof -
  have "(word_of_nat (of_char c) :: u8) = word_of_nat (of_char d) \<Longrightarrow> c = d" for c d
  proof -
    assume "(word_of_nat (of_char c) :: u8) = word_of_nat (of_char d)"
    then have "unat (word_of_nat (of_char c) :: u8) = unat (word_of_nat (of_char d) :: u8)" by simp
    then have "(of_char c :: nat) = of_char d" by (simp add: unat_of_nat_small)
    then show "c = d" by simp
  qed
  then have "inj (\<lambda>c. word_of_nat (of_char c) :: u8)" by (intro injI)
  then show ?thesis unfolding as_bytes_def by (metis inj_map_eq_map)
qed

lemma as_bytes_nul: "0 \<in> set (as_bytes s) \<longleftrightarrow> CHR 0x00 \<in> set s"
proof -
  have "(0 :: u8) = word_of_nat (of_char c) \<longleftrightarrow> c = CHR 0x00" for c
    using as_bytes_inj [of "[CHR 0x00]" "[c]"] by (auto simp: as_bytes_def)
  then show ?thesis by (auto simp: as_bytes_def image_iff)
qed

text \<open>The byte strings a preimage hashes.\<close>

definition hashed_parts :: "engine_challenge_input \<Rightarrow> bytes list" where
  "hashed_parts i = [as_bytes (ci_engine_id i), as_bytes (ci_epoch_id i),
     as_bytes (ci_not_before i) @ 0 # as_bytes (ci_not_after i), ci_usage_signing_public_raw i, ci_mlkem_encap_key_raw i,
     ci_x25519_public_raw i]"

lemma preimage_shape:
  assumes "build_engine_challenge_preimage sha256 i = Inr pre"
  obtains m where "measurement_body (ci_measurement i) = Inr m" "length (ci_nonce i) = 32" "length (ci_gpu_evidence_sha256 i) = 32"
    "length (ci_policy_hash i) = 32"
    "pre = as_bytes ENGINE_CHALLENGE_MAGIC @ ci_nonce i @ concat (map sha256 (hashed_parts i)) @ ci_gpu_evidence_sha256 i @ ci_policy_hash i @ m"
  using assms by (auto simp: build_engine_challenge_preimage_def hashed_parts_def split: if_splits sum.splits)

lemma concat_hash_inj:
  assumes "\<forall>b. length (sha256 b) = n" "length xs = length ys" "concat (map sha256 xs) = concat (map sha256 ys)"
    "inj_on sha256 (set xs \<union> set ys)"
  shows "xs = ys"
  using assms(2-)
proof (induction xs arbitrary: ys)
  case (Cons x xs)
  then obtain y ys' where ys: "ys = y # ys'" "length xs = length ys'" by (cases ys) auto
  have "sha256 x = sha256 y \<and> concat (map sha256 xs) = concat (map sha256 ys')"
    using Cons.prems(2) assms(1) ys by simp
  moreover have "inj_on sha256 (set xs \<union> set ys')" by (rule inj_on_subset [OF Cons.prems(3)]) (auto simp: ys(1))
  moreover have "x \<in> set (x # xs) \<union> set ys" "y \<in> set (x # xs) \<union> set ys" by (simp_all add: ys(1))
  ultimately have "x = y" "xs = ys'"
    using inj_onD [OF Cons.prems(3), of x y] Cons.IH [OF ys(2)] by blast+
  then show ?case using ys(1) by simp
qed simp

lemma concat_hash_length: "\<forall>b. length (sha256 b) = n \<Longrightarrow> length (concat (map sha256 xs)) = n * length xs"
  by (induction xs) simp_all

text \<open>
  A challenge preimage determines what it attests: equal preimages, with a 32-byte hash that does
  not collide on the hashed fields, come from equal nonces, engines, epochs, validity windows, keys,
  GPU evidence hashes, policies and measurements.
\<close>

theorem challenge_preimage_determines_input:
  assumes "build_engine_challenge_preimage sha256 i = Inr pre" and "build_engine_challenge_preimage sha256 i' = Inr pre"
    and "\<forall>b. length (sha256 b) = 32" and "inj_on sha256 (set (hashed_parts i) \<union> set (hashed_parts i'))"
    and "CHR 0x00 \<notin> set (ci_not_before i)" and "CHR 0x00 \<notin> set (ci_not_before i')"
  shows "ci_nonce i = ci_nonce i' \<and> ci_engine_id i = ci_engine_id i' \<and> ci_epoch_id i = ci_epoch_id i'
    \<and> ci_not_before i = ci_not_before i' \<and> ci_not_after i = ci_not_after i'
    \<and> ci_usage_signing_public_raw i = ci_usage_signing_public_raw i' \<and> ci_mlkem_encap_key_raw i = ci_mlkem_encap_key_raw i'
    \<and> ci_x25519_public_raw i = ci_x25519_public_raw i' \<and> ci_gpu_evidence_sha256 i = ci_gpu_evidence_sha256 i'
    \<and> ci_policy_hash i = ci_policy_hash i' \<and> measurement_body (ci_measurement i) = measurement_body (ci_measurement i')"
proof -
  from assms(1) obtain m where m: "measurement_body (ci_measurement i) = Inr m" "length (ci_nonce i) = 32"
    "length (ci_gpu_evidence_sha256 i) = 32" "length (ci_policy_hash i) = 32"
    "pre = as_bytes ENGINE_CHALLENGE_MAGIC @ ci_nonce i @ concat (map sha256 (hashed_parts i)) @ ci_gpu_evidence_sha256 i @ ci_policy_hash i @ m"
    by (rule preimage_shape)
  from assms(2) obtain m' where m': "measurement_body (ci_measurement i') = Inr m'" "length (ci_nonce i') = 32"
    "length (ci_gpu_evidence_sha256 i') = 32" "length (ci_policy_hash i') = 32"
    "pre = as_bytes ENGINE_CHALLENGE_MAGIC @ ci_nonce i' @ concat (map sha256 (hashed_parts i')) @ ci_gpu_evidence_sha256 i' @ ci_policy_hash i' @ m'"
    by (rule preimage_shape)
  have len: "length (hashed_parts i) = length (hashed_parts i')" by (simp add: hashed_parts_def)
  then have "length (concat (map sha256 (hashed_parts i))) = length (concat (map sha256 (hashed_parts i')))"
    using concat_hash_length [OF assms(3)] by metis
  then have parts: "ci_nonce i = ci_nonce i'" "concat (map sha256 (hashed_parts i)) = concat (map sha256 (hashed_parts i'))"
    "ci_gpu_evidence_sha256 i = ci_gpu_evidence_sha256 i'" "ci_policy_hash i = ci_policy_hash i'" "m = m'"
    using m m' by simp_all
  have "hashed_parts i = hashed_parts i'" by (rule concat_hash_inj [OF assms(3) len parts(2) assms(4)])
  then have fields: "ci_engine_id i = ci_engine_id i'" "ci_epoch_id i = ci_epoch_id i'"
    "as_bytes (ci_not_before i) @ 0 # as_bytes (ci_not_after i) = as_bytes (ci_not_before i') @ 0 # as_bytes (ci_not_after i')"
    "ci_usage_signing_public_raw i = ci_usage_signing_public_raw i'" "ci_mlkem_encap_key_raw i = ci_mlkem_encap_key_raw i'"
    "ci_x25519_public_raw i = ci_x25519_public_raw i'"
    by (simp_all add: hashed_parts_def as_bytes_inj)
  from fields(3) have "as_bytes (ci_not_before i) = as_bytes (ci_not_before i') \<and> as_bytes (ci_not_after i) = as_bytes (ci_not_after i')"
    by (rule append_sep_inj) (simp_all add: as_bytes_nul assms(5,6))
  with fields parts m(1) m'(1) show ?thesis by (simp add: as_bytes_inj)
qed

subsection \<open>Answers\<close>

definition challenge_codec :: "challenge_host \<Rightarrow> bool" where
  "challenge_codec X \<longleftrightarrow> (\<forall>bs. cx_decode X UrlSafeNoPad (cx_encode X UrlSafeNoPad bs) = Some bs)
     \<and> (\<forall>bs. trim (cx_encode X UrlSafeNoPad bs) = cx_encode X UrlSafeNoPad bs)"


subsection \<open>Instances\<close>

definition sample_challenge_input :: engine_challenge_input where
  "sample_challenge_input =
     \<lparr>ci_nonce = replicate 32 7, ci_engine_id = ''e'', ci_epoch_id = ''e'', ci_not_before = ''n'', ci_not_after = ''m'',
      ci_usage_signing_public_raw = as_bytes ''e'', ci_mlkem_encap_key_raw = as_bytes ''e'', ci_x25519_public_raw = as_bytes ''e'',
      ci_gpu_evidence_sha256 = replicate 32 0, ci_policy_hash = replicate 32 5, ci_measurement = Mrenclave (replicate 64 CHR ''a'')\<rparr>"

definition sample_sha256 :: "bytes \<Rightarrow> bytes" where
  "sample_sha256 b = replicate 32 (case b of [] \<Rightarrow> 0 | c # _ \<Rightarrow> c)"

lemma sample_preimage: "isl (build_engine_challenge_preimage sample_sha256 sample_challenge_input) = False"
  by code_simp

theorem challenge_preimage_determines_input_witness:
  "measurement_body (ci_measurement sample_challenge_input) = measurement_body (ci_measurement sample_challenge_input)
   \<and> ci_engine_id sample_challenge_input = ''e''"
proof -
  obtain pre where pre: "build_engine_challenge_preimage sample_sha256 sample_challenge_input = Inr pre"
    using sample_preimage by (metis sum.collapse(2))
  have "inj_on sample_sha256 (set (hashed_parts sample_challenge_input) \<union> set (hashed_parts sample_challenge_input))"
    by (auto simp: inj_on_def hashed_parts_def sample_challenge_input_def sample_sha256_def as_bytes_def replicate_eq_replicate)
  moreover have "\<forall>b. length (sample_sha256 b) = 32" by (simp add: sample_sha256_def)
  moreover have "CHR 0x00 \<notin> set (ci_not_before sample_challenge_input)" by (simp add: sample_challenge_input_def)
  ultimately show ?thesis using challenge_preimage_determines_input [OF pre pre] by (simp add: sample_challenge_input_def)
qed

definition sample_challenge_host :: challenge_host where
  "sample_challenge_host = \<lparr>cx_attest =
     \<lparr>at_sha256 = sample_sha256, at_sha512 = (\<lambda>_. replicate 64 0), at_hmac = (\<lambda>_. []), at_b64 = hex_encode, at_unb64 = hex_pairs,
      at_encode = hex_encode, at_decode = hex_pairs, at_wrapper_vec = (\<lambda>_. []), at_wrapper_slice = (\<lambda>_. None),
      at_claims_vec = (\<lambda>_. []), at_claims_slice = (\<lambda>_. None), at_parse_rfc3339 = (\<lambda>_. None), at_now_iso = ''t'',
      at_exists = (\<lambda>_. False), at_read = (\<lambda>p. Inl (AIo p)), at_read_text = (\<lambda>_. None), at_manifest = (\<lambda>_. None),
      at_ope_pin = (\<lambda>_. None), at_amt_pin = (\<lambda>_. None), at_tcb = (\<lambda>_. None), at_guest_device = True,
      at_guest_tool = (\<lambda>_. True), at_guest_report = (\<lambda>_ _ d. Inr (7 # d)), at_collect_gpu = (\<lambda>_ _. Inr ''gpu''),
      at_gpu_not_applicable = ''na''\<rparr>,
     cx_encode = (\<lambda>_. hex_encode), cx_decode = (\<lambda>_. hex_pairs)\<rparr>"

definition sample_challenge_args :: mint_engine_challenge_args where
  "sample_challenge_args =
     \<lparr>ma_request = \<lparr>cq_nonce_b64 = hex_encode (replicate 32 7), cq_epoch_id = Some ''ep''\<rparr>, ma_engine_id = ''e'', ma_build_version = ''1'',
      ma_policy_hash_hex = hex_encode (replicate 32 5), ma_measurement = Mrenclave (hex_encode (replicate 32 6)),
      ma_epoch = \<lparr>ce_epoch_id = ''ep'', ce_not_before = ''n'', ce_not_after = ''m'', ce_mlkem_encapsulation_key = hex_encode [1],
        ce_x25519_public = hex_encode [2], ce_usage_signing_public = hex_encode [3]\<rparr>,
      ma_gpu_evidence_b64 = Some (hex_encode [10]), ma_gpu_collected_at = None, ma_env = [''TEECHAT_SNP_VCEK_DER_B64'' \<mapsto> ''v'']\<rparr>"

definition sample_challenge_result :: "engine_challenge_error + engine_challenge_wire_response" where
  "sample_challenge_result = mint_engine_challenge_response sample_challenge_host sample_challenge_args"

lemma decode_hex_32_encode: "length bs = 32 \<Longrightarrow> decode_hex_32 (hex_encode bs) label = Inr bs"
  by (simp add: decode_hex_32_def trim_hex_encode lower_hex_encode length_hex_encode hexdigits_hex_encode hex_pairs_encode)

lemma sample_endorsement: "load_cpu_tee_endorsement_from_env (cx_attest sample_challenge_host) [''TEECHAT_SNP_VCEK_DER_B64'' \<mapsto> ''v''] \<noteq> None"
  by code_simp

lemma sample_report_granted:
  "\<exists>r. \<forall>d. request_sev_snp_attestation_report (cx_attest sample_challenge_host) d [''TEECHAT_SNP_VCEK_DER_B64'' \<mapsto> ''v''] = Inr (r d)"
proof -
  have "isl (sev_snp_guest_bin_from_env [''TEECHAT_SNP_VCEK_DER_B64'' \<mapsto> ''v'']) = False" by code_simp
  then obtain bin where "sev_snp_guest_bin_from_env [''TEECHAT_SNP_VCEK_DER_B64'' \<mapsto> ''v''] = Inr bin"
    by (metis sum.collapse(2))
  then show ?thesis
    by (intro exI [of _ "\<lambda>d. 7 # d"]) (simp add: request_sev_snp_attestation_report_def sample_challenge_host_def)
qed

text \<open>The host answers every well-formed challenge.\<close>

lemma sample_host_answers:
  assumes "cq_nonce_b64 (ma_request a) = hex_encode (replicate 32 7)" and "cq_epoch_id (ma_request a) = Some (ce_epoch_id (ma_epoch a))"
    and "ma_policy_hash_hex a = hex_encode policy" and "length policy = 32" and "measurement_body (ma_measurement a) = Inr body"
    and "ce_mlkem_encapsulation_key (ma_epoch a) = hex_encode mlkem" and "ce_x25519_public (ma_epoch a) = hex_encode xkey"
    and "ce_usage_signing_public (ma_epoch a) = hex_encode usage" and "ma_gpu_evidence_b64 a = Some (hex_encode (g # gs))"
    and "ma_env a = [''TEECHAT_SNP_VCEK_DER_B64'' \<mapsto> ''v'']"
  shows "isl (mint_engine_challenge_response sample_challenge_host a) = False"
proof -
  obtain e where e: "load_cpu_tee_endorsement_from_env (cx_attest sample_challenge_host) [''TEECHAT_SNP_VCEK_DER_B64'' \<mapsto> ''v''] = Some e"
    using sample_endorsement by blast
  have dec: "cx_decode sample_challenge_host k (hex_encode bs) = Some bs" for k bs
    by (simp add: sample_challenge_host_def hex_pairs_encode)
  have "hex_encode (g # gs) \<noteq> []" by (simp add: hex_encode_def hex_byte_def)
  then have gpu: "gpu_hash sample_challenge_host (ma_gpu_evidence_b64 a)
      = Inr (at_sha256 (cx_attest sample_challenge_host) (g # gs), Some (hex_encode (g # gs), g # gs))"
    by (simp add: gpu_hash_def assms(9) trim_hex_encode decode_wire_base64_def dec)
  have sha: "length (at_sha256 (cx_attest sample_challenge_host) bs) = 32" for bs
    by (simp add: sample_challenge_host_def sample_sha256_def)
  obtain r where r: "\<forall>d. request_sev_snp_attestation_report (cx_attest sample_challenge_host) d [''TEECHAT_SNP_VCEK_DER_B64'' \<mapsto> ''v''] = Inr (r d)"
    using sample_report_granted by blast
  have nonce: "decode_nonce_b64_url sample_challenge_host (cq_nonce_b64 (ma_request a)) = Inr (replicate 32 7)"
    by (simp only: decode_nonce_b64_url_def assms(1) trim_hex_encode dec) simp
  obtain input where input: "challenge_input sample_challenge_host a (replicate 32 7) (at_sha256 (cx_attest sample_challenge_host) (g # gs)) = Inr input"
    "length (ci_nonce input) = 32" "length (ci_gpu_evidence_sha256 input) = 32" "length (ci_policy_hash input) = 32" "ci_measurement input = ma_measurement a"
    by (simp add: challenge_input_def assms(3-8) decode_hex_32_encode decode_wire_base64_def trim_hex_encode dec sha)
  have "build_engine_challenge_report_data (at_sha256 (cx_attest sample_challenge_host)) input \<noteq> Inl x" for x
    by (simp add: build_engine_challenge_report_data_def build_engine_challenge_preimage_def input(2-5) assms(5))
  then obtain report_data where "build_engine_challenge_report_data (at_sha256 (cx_attest sample_challenge_host)) input = Inr report_data"
    by (metis sum.exhaust)
  then show ?thesis
    by (simp add: mint_engine_challenge_response_def mint_engine_challenge_response_with_def nonce assms(2,10) e gpu input(1) r)
qed

lemma sample_minted: "isl sample_challenge_result = False"
  unfolding sample_challenge_result_def
  by (rule sample_host_answers [where policy = "replicate 32 5" and body = "1 # replicate 32 6" and mlkem = "[1]"
        and xkey = "[2]" and usage = "[3]" and g = 10 and gs = "[]"]) (simp_all add: sample_challenge_args_def measurement_body_def decode_hex_32_encode)


end
