(* ===== verification/Gateway_Connect.thy ===== *)
theory Gateway_Connect
  imports Attestation
begin

section \<open>Attested connections to the gateway\<close>

text \<open>
  The dialling side of \<^verbatim>\<open>ie-engine/src/plane/\<close>: \<^verbatim>\<open>challenge.rs\<close> (nonces), \<^verbatim>\<open>verify.rs\<close> and
  \<^verbatim>\<open>gateway_platform_verify.rs\<close> (what the engine checks of a gateway), \<^verbatim>\<open>connect.rs\<close>,
  \<^verbatim>\<open>disconnect.rs\<close>, \<^verbatim>\<open>ephemeral.rs\<close> and \<^verbatim>\<open>connector.rs\<close> with its table of live sessions. The transport
  is the host: its answers may depend on everything that happened before, which a connector records
  in order. A transport is named by the number under which it was opened.
\<close>

subsection \<open>Errors\<close>

datatype plane_error =
    PTls string
  | PH2 string
  | PConnectHttp u16 string
  | PGatewayAttestationMissing
  | PGatewayChallengeNonceRequired
  | PGatewayChallengeNonceMismatch
  | PGatewayChallengeNonceNotBound
  | PGatewayPlatformAttestationFailed string
  | PGatewayTlsCertUnbound
  | PGatewayTlsCertMismatch
  | PJson string
  | PIo string
  | PDisconnectTimeout
  | PUnknownSession string
  | PInvalidUrl string

fun plane_error_display :: "plane_error \<Rightarrow> string" where
  "plane_error_display (PTls m) = ''tls: '' @ m"
| "plane_error_display (PH2 m) = ''h2: '' @ m"
| "plane_error_display (PConnectHttp status body) = ''attested connect failed: '' @ show_word status @ '' '' @ body"
| "plane_error_display PGatewayAttestationMissing = ''gateway_attestation_missing''"
| "plane_error_display PGatewayChallengeNonceRequired = ''gateway_challenge_nonce_required''"
| "plane_error_display PGatewayChallengeNonceMismatch = ''gateway_challenge_nonce_mismatch''"
| "plane_error_display PGatewayChallengeNonceNotBound = ''gateway_challenge_nonce_not_bound''"
| "plane_error_display (PGatewayPlatformAttestationFailed reason) = ''gateway_platform_attestation_failed: '' @ reason"
| "plane_error_display PGatewayTlsCertUnbound = ''gateway_tls_cert_unbound''"
| "plane_error_display PGatewayTlsCertMismatch = ''gateway_tls_cert_mismatch''"
| "plane_error_display (PJson m) = ''json: '' @ m"
| "plane_error_display (PIo m) = ''io: '' @ m"
| "plane_error_display PDisconnectTimeout = ''timeout waiting for ready_to_close''"
| "plane_error_display (PUnknownSession s) = ''unknown session_id: '' @ s"
| "plane_error_display (PInvalidUrl m) = ''invalid gateway url: '' @ m"

subsection \<open>Nonces\<close>

definition generate_gateway_connect_challenge_nonce :: "bytes \<Rightarrow> string" where
  "generate_gateway_connect_challenge_nonce random = hex_encode random"

definition normalize_gateway_connect_challenge_nonce :: "string \<Rightarrow> string option" where
  "normalize_gateway_connect_challenge_nonce value =
     (let trimmed = to_ascii_lowercase (trim value)
      in if length trimmed \<noteq> 32 then None else if \<not> list_all is_ascii_hexdigit trimmed then None else Some trimmed)"

definition is_valid_gateway_connect_challenge_nonce :: "string \<Rightarrow> bool" where
  "is_valid_gateway_connect_challenge_nonce value \<longleftrightarrow> normalize_gateway_connect_challenge_nonce value \<noteq> None"

subsection \<open>Verification of the gateway\<close>

record gateway_checks =
  gc_attest :: attest_host
  gc_backend :: "(string \<Rightarrow> string \<Rightarrow> quote_claims option) option"
  gc_now_ms :: u64

datatype gateway_verifier =
    NullVerifier
  | NonceEcho
  | PlatformPolicy attestation_policy platform_attestation_policy platform_attestation_bind

definition normalize_tls_leaf :: "string \<Rightarrow> string option" where
  "normalize_tls_leaf value = (let hex = to_ascii_lowercase (trim value) in if is_hex64 hex then Some hex else None)"

definition gateway_quote_tls_leaf :: "attest_host \<Rightarrow> attestation_bundle \<Rightarrow> plane_error + string" where
  "gateway_quote_tls_leaf A bundle =
     (case parse_sev_snp_quote_wrapper A (cpu_quote (ab_cpu_tee bundle)) of
        Some w \<Rightarrow> Inr (to_ascii_lowercase (trim (qt_tls_client_cert_sha256 (sw_claims w))))
      | None \<Rightarrow>
         (case parse_mock_cpu_quote A (cpu_quote (ab_cpu_tee bundle)) of
            Some c \<Rightarrow> Inr (to_ascii_lowercase (trim (qt_tls_client_cert_sha256 c)))
          | None \<Rightarrow> Inl (PGatewayPlatformAttestationFailed ''tls_cert_claims_unreadable'')))"

definition assert_gateway_tls_leaf :: "attest_host \<Rightarrow> attestation_bundle \<Rightarrow> string \<Rightarrow> plane_error + unit" where
  "assert_gateway_tls_leaf A bundle peer =
     (case normalize_tls_leaf peer of
        None \<Rightarrow> Inl PGatewayTlsCertMismatch
      | Some expected \<Rightarrow>
         (case gateway_quote_tls_leaf A bundle of
            Inl e \<Rightarrow> Inl e
          | Inr quoted \<Rightarrow>
              if quoted = [] then Inl PGatewayTlsCertUnbound
              else if quoted \<noteq> expected then Inl PGatewayTlsCertMismatch else Inr ()))"

definition verify_nonce_echo :: "attest_host \<Rightarrow> attested_connect_response \<Rightarrow> string \<Rightarrow> plane_error + unit" where
  "verify_nonce_echo A response expected_nonce =
     (case acp_gateway_attestation response of
        None \<Rightarrow> Inl PGatewayAttestationMissing
      | Some bundle \<Rightarrow>
         (case acp_gateway_challenge_nonce response of
            None \<Rightarrow> Inl PGatewayChallengeNonceNotBound
          | Some echo \<Rightarrow>
             (case normalize_gateway_connect_challenge_nonce echo of
                None \<Rightarrow> Inl PGatewayChallengeNonceMismatch
              | Some normal \<Rightarrow>
                  if normal \<noteq> expected_nonce then Inl PGatewayChallengeNonceMismatch
                  else case parse_sev_snp_quote_wrapper A (cpu_quote (ab_cpu_tee bundle)) of
                    Some w \<Rightarrow> if verify_wrapper_report_data A w (Some expected_nonce) then Inr ()
                      else Inl PGatewayChallengeNonceNotBound
                  | None \<Rightarrow> Inr ())))"

definition verify_platform_policy ::
    "gateway_checks \<Rightarrow> attestation_policy \<Rightarrow> platform_attestation_policy \<Rightarrow> platform_attestation_bind
     \<Rightarrow> attested_connect_response \<Rightarrow> string \<Rightarrow> string \<Rightarrow> plane_error + unit" where
  "verify_platform_policy G engine_policy platform_policy bind response expected_nonce peer =
     (case verify_nonce_echo (gc_attest G) response expected_nonce of
        Inl e \<Rightarrow> Inl e
      | Inr _ \<Rightarrow>
         (case acp_gateway_attestation response of
            None \<Rightarrow> Inl PGatewayAttestationMissing
          | Some bundle \<Rightarrow>
             (case assert_gateway_tls_leaf (gc_attest G) bundle peer of
                Inl e \<Rightarrow> Inl e
              | Inr _ \<Rightarrow>
                 (let verdict = verify_platform_attestation_bundle (gc_attest G) bundle engine_policy platform_policy bind
                        (gc_now_ms G) (production_cpu_quote_verifier (gc_backend G))
                  in if \<not> av_ok verdict
                     then Inl (PGatewayPlatformAttestationFailed (case av_reason verdict of None \<Rightarrow> ''unknown'' | Some r \<Rightarrow> r))
                     else Inr ()))))"

fun verify_connect_response ::
    "gateway_checks \<Rightarrow> gateway_verifier \<Rightarrow> attested_connect_response \<Rightarrow> string \<Rightarrow> string \<Rightarrow> plane_error + unit" where
  "verify_connect_response G NullVerifier response nonce peer = Inr ()"
| "verify_connect_response G NonceEcho response nonce peer = verify_nonce_echo (gc_attest G) response nonce"
| "verify_connect_response G (PlatformPolicy ep pp b) response nonce peer = verify_platform_policy G ep pp b response nonce peer"

text \<open>The verifier configured from the environment.\<close>

definition split_hashes :: "string \<Rightarrow> string set" where
  "split_hashes raw =
     set (filter (\<lambda>s. s \<noteq> []) (map to_ascii_lowercase (split_on (CHR '','') (map (\<lambda>c. if is_whitespace c then CHR '','' else c) raw))))"

definition resolve_engine_policy :: "env \<Rightarrow> attestation_policy" where
  "resolve_engine_policy env =
     (let policy = default_test_attestation_policy;
          policy = (case env_trim env ''TEECHAT_ATTESTATION_POLICY_ID'' of None \<Rightarrow> policy | Some i \<Rightarrow> policy\<lparr>ap_policy_id := i\<rparr>)
      in case Option.bind (env_trim env ''TEECHAT_ATTESTATION_MAX_QUOTE_AGE_MS'') parse_u64 of
           None \<Rightarrow> policy | Some ms \<Rightarrow> policy\<lparr>ap_max_quote_age_ms := ms\<rparr>)"

definition env_or :: "env \<Rightarrow> string \<Rightarrow> string \<Rightarrow> string" where
  "env_or env key d = (case env_trim env key of None \<Rightarrow> d | Some v \<Rightarrow> v)"

definition platform_policy_verifier_from_env :: "env \<Rightarrow> gateway_verifier" where
  "platform_policy_verifier_from_env env =
     (let engine_policy = resolve_engine_policy env;
          gw = to_ascii_lowercase (env_or env ''TEECHAT_GATEWAY_BINARY_SHA256''
            ''c3d4e5f6789012345678abcdef9012345678abcdef9012345678abcdef901234'');
          sh = to_ascii_lowercase (env_or env ''TEECHAT_SKILL_HUB_BINARY_SHA256'' gw);
          allowed = (\<lambda>key d. case env_trim env key of None \<Rightarrow> {d} | Some raw \<Rightarrow> split_hashes raw)
      in PlatformPolicy engine_policy
           \<lparr>pl_policy_id = ap_policy_id engine_policy,
            pl_allowed_gateway_binary_sha256 = allowed ''TEECHAT_ALLOWED_GATEWAY_BINARY_SHA256'' gw,
            pl_allowed_skill_hub_binary_sha256 = allowed ''TEECHAT_ALLOWED_SKILL_HUB_BINARY_SHA256'' sh,
            pl_max_quote_age_ms = ap_max_quote_age_ms engine_policy\<rparr>
           \<lparr>pb_gateway_binary_sha256 = gw, pb_skill_hub_binary_sha256 = sh,
            pb_ed25519_public = env_or env ''TEECHAT_GATEWAY_ED25519_PUBLIC'' ''AAAAAAAAAAAAAAAAAAAAAAAAAAAAAAAAAAAAAAAAAAA''\<rparr>)"

subsection \<open>Transports\<close>

datatype disconnect_reason = ReasonUpgrade | ReasonShutdown | ReasonAdmin

record attested_disconnect_request =
  dq_engine_id :: string
  dq_session_id :: string
  dq_reason :: disconnect_reason

record attested_disconnect_response =
  dr_ok :: bool
  dr_draining :: bool
  dr_in_flight :: u32
  dr_ready_to_close :: bool

datatype plane_body =
    BConnect attested_connect_request
  | BDisconnect attested_disconnect_request
  | BEphemeral engine_ephemeral_register_request

datatype plane_event =
    PvDial string
  | PvRequest nat plane_body
  | PvClose nat
  | PvNonce
  | PvUuid
  | PvSleep

record plane_host =
  ph_checks :: "plane_event list \<Rightarrow> gateway_checks"
  ph_dial :: "plane_event list \<Rightarrow> string \<Rightarrow> plane_error + string"
  ph_request :: "plane_event list \<Rightarrow> nat \<Rightarrow> plane_body \<Rightarrow> plane_error + u16 \<times> json"
  ph_is_closed :: "plane_event list \<Rightarrow> nat \<Rightarrow> bool"
  ph_connect_response :: "json \<Rightarrow> string + attested_connect_response"
  ph_disconnect_response :: "json \<Rightarrow> string + attested_disconnect_response"
  ph_json_text :: "json \<Rightarrow> string"
  ph_random :: "plane_event list \<Rightarrow> bytes"
  ph_uuid :: "plane_event list \<Rightarrow> string"
  ph_clock :: "plane_event list \<Rightarrow> nat"

record engine_plane_dial_options =
  do_gateway_base_url :: string
  do_connect_template :: attested_connect_request
  do_pool_target_size :: u32
  do_gateway_challenge_nonce :: "string option"
  do_gateway_verifier :: "gateway_verifier option"

subsection \<open>Connecting\<close>

definition build_connect_request ::
    "attested_connect_request \<Rightarrow> string \<Rightarrow> u32 \<Rightarrow> string option \<Rightarrow> plane_error + attested_connect_request" where
  "build_connect_request template session_id pool_target_size nonce =
     (let body = template\<lparr>acr_session_id := session_id, acr_pool_target_size := Some pool_target_size\<rparr>
      in case nonce of None \<Rightarrow> Inr body
        | Some raw \<Rightarrow> (case normalize_gateway_connect_challenge_nonce raw of
             None \<Rightarrow> Inl PGatewayChallengeNonceRequired
           | Some normal \<Rightarrow> Inr (body\<lparr>acr_gateway_challenge_nonce := Some normal\<rparr>)))"

text \<open>
  The transport is already open. An error before the request is sent, or in the request or its
  decoding, drops it; a refused or unverified connection is closed explicitly.
\<close>

definition verify_response ::
    "plane_host \<Rightarrow> engine_plane_dial_options \<Rightarrow> attested_connect_request \<Rightarrow> attested_connect_response \<Rightarrow> string option
     \<Rightarrow> nat \<Rightarrow> plane_event list \<Rightarrow> (plane_error + unit) \<times> plane_event list" where
  "verify_response P opts body parsed peer t h =
     (case do_gateway_verifier opts of
        None \<Rightarrow> (Inr (), h)
      | Some verifier \<Rightarrow>
         (case acr_gateway_challenge_nonce body of
            None \<Rightarrow> (Inl PGatewayChallengeNonceRequired, h)
          | Some expected \<Rightarrow>
             (case peer of
                None \<Rightarrow> (Inl PGatewayTlsCertUnbound, h)
              | Some cert \<Rightarrow>
                 (case verify_connect_response (ph_checks P h) verifier parsed expected cert of
                    Inl e \<Rightarrow> (Inl e, h @ [PvClose t])
                  | Inr _ \<Rightarrow> (Inr (), h)))))"

definition open_pooled_connection_on_transport ::
    "plane_host \<Rightarrow> engine_plane_dial_options \<Rightarrow> string \<Rightarrow> string option \<Rightarrow> nat \<Rightarrow> plane_event list
     \<Rightarrow> (plane_error + attested_connect_response) \<times> plane_event list" where
  "open_pooled_connection_on_transport P opts session_id peer t h =
     (case build_connect_request (do_connect_template opts) session_id (do_pool_target_size opts) (do_gateway_challenge_nonce opts) of
        Inl e \<Rightarrow> (Inl e, h)
      | Inr body \<Rightarrow>
         (let h1 = h @ [PvRequest t (BConnect body)]
          in case ph_request P h t (BConnect body) of
               Inl e \<Rightarrow> (Inl e, h1)
             | Inr (status, json) \<Rightarrow>
                 if status \<noteq> 200 then (Inl (PConnectHttp status (ph_json_text P json)), h1 @ [PvClose t])
                 else case ph_connect_response P json of
                   Inl m \<Rightarrow> (Inl (PJson m), h1)
                 | Inr parsed \<Rightarrow>
                    (case verify_response P opts body parsed peer t h1 of
                       (Inl e, h2) \<Rightarrow> (Inl e, h2) | (Inr _, h2) \<Rightarrow> (Inr parsed, h2))))"

text \<open>A transport is named by the length of the history when it was dialled.\<close>

definition open_pooled_connection ::
    "plane_host \<Rightarrow> engine_plane_dial_options \<Rightarrow> string \<Rightarrow> plane_event list
     \<Rightarrow> (plane_error + nat \<times> attested_connect_response) \<times> plane_event list" where
  "open_pooled_connection P opts session_id h =
     (let h1 = h @ [PvDial (do_gateway_base_url opts)]; t = length h
      in case ph_dial P h (do_gateway_base_url opts) of
           Inl e \<Rightarrow> (Inl e, h1)
         | Inr cert \<Rightarrow>
            (case open_pooled_connection_on_transport P opts session_id (Some cert) t h1 of
               (Inl e, h2) \<Rightarrow> (Inl e, h2) | (Inr parsed, h2) \<Rightarrow> (Inr (t, parsed), h2)))"

subsection \<open>Disconnecting and registering epochs\<close>

definition not_ready :: attested_disconnect_response where
  "not_ready = \<lparr>dr_ok = False, dr_draining = True, dr_in_flight = 0, dr_ready_to_close = False\<rparr>"

definition post_disconnect_on_attested_session ::
    "plane_host \<Rightarrow> nat \<Rightarrow> string \<Rightarrow> string \<Rightarrow> disconnect_reason \<Rightarrow> plane_event list
     \<Rightarrow> (plane_error + attested_disconnect_response) \<times> plane_event list" where
  "post_disconnect_on_attested_session P t session_id engine_id reason h =
     (let body = BDisconnect \<lparr>dq_engine_id = engine_id, dq_session_id = session_id, dq_reason = reason\<rparr>;
          h1 = h @ [PvRequest t body]
      in case ph_request P h t body of
           Inl e \<Rightarrow> (Inl e, h1)
         | Inr (status, json) \<Rightarrow>
             if status = 0 then (Inr not_ready, h1)
             else if status \<noteq> 200 then (Inr not_ready, h1)
             else (case ph_disconnect_response P json of Inl m \<Rightarrow> (Inl (PJson m), h1) | Inr r \<Rightarrow> (Inr r, h1)))"

text \<open>The loop of \<^verbatim>\<open>graceful_disconnect_attested_session\<close>; \<open>None\<close> is an exhausted step bound.\<close>

fun disconnect_loop ::
    "plane_host \<Rightarrow> nat \<Rightarrow> string \<Rightarrow> string \<Rightarrow> disconnect_reason \<Rightarrow> nat \<Rightarrow> nat \<Rightarrow> plane_event list
     \<Rightarrow> ((plane_error + unit) \<times> plane_event list) option" where
  "disconnect_loop P t session_id engine_id reason deadline fuel h =
     (case fuel of 0 \<Rightarrow> None
      | Suc fuel \<Rightarrow>
         (case post_disconnect_on_attested_session P t session_id engine_id reason h of
            (Inl e, h1) \<Rightarrow> Some (Inl e, h1)
          | (Inr resp, h1) \<Rightarrow>
              if dr_ready_to_close resp then Some (Inr (), h1)
              else if deadline \<le> ph_clock P h1 then Some (Inl PDisconnectTimeout, h1)
              else disconnect_loop P t session_id engine_id reason deadline fuel (h1 @ [PvSleep])))"

declare disconnect_loop.simps [simp del]

definition graceful_disconnect_attested_session ::
    "plane_host \<Rightarrow> nat \<Rightarrow> nat \<Rightarrow> string \<Rightarrow> string \<Rightarrow> disconnect_reason \<Rightarrow> nat \<Rightarrow> plane_event list
     \<Rightarrow> ((plane_error + unit) \<times> plane_event list) option" where
  "graceful_disconnect_attested_session P fuel t session_id engine_id reason timeout h =
     disconnect_loop P t session_id engine_id reason (ph_clock P h + timeout) fuel h"

definition post_ephemeral_on_attested_session ::
    "plane_host \<Rightarrow> nat \<Rightarrow> engine_ephemeral_register_request \<Rightarrow> plane_event list \<Rightarrow> (plane_error + u16 \<times> json) \<times> plane_event list" where
  "post_ephemeral_on_attested_session P t body h = (ph_request P h t (BEphemeral body), h @ [PvRequest t (BEphemeral body)])"

subsection \<open>The connector\<close>

record http2_connector =
  hc_dial :: engine_plane_dial_options
  hc_sessions :: "string \<rightharpoonup> nat"
  hc_disconnect_timeout :: nat
  hc_history :: "plane_event list"

definition http2_connector_new :: "engine_plane_dial_options \<Rightarrow> http2_connector" where
  "http2_connector_new dial = \<lparr>hc_dial = dial, hc_sessions = Map.empty, hc_disconnect_timeout = 120000, hc_history = []\<rparr>"

definition set_gateway_base_url :: "string \<Rightarrow> http2_connector \<Rightarrow> http2_connector" where
  "set_gateway_base_url url c = c\<lparr>hc_dial := (hc_dial c)\<lparr>do_gateway_base_url := url\<rparr>\<rparr>"

definition post_ephemeral ::
    "plane_host \<Rightarrow> string \<Rightarrow> engine_ephemeral_register_request \<Rightarrow> http2_connector \<Rightarrow> (string + u16) \<times> http2_connector" where
  "post_ephemeral P session_id body c =
     (case hc_sessions c session_id of
        None \<Rightarrow> (Inl (''unknown session '' @ session_id), c)
      | Some t \<Rightarrow>
         (case post_ephemeral_on_attested_session P t body (hc_history c) of
            (Inl e, h) \<Rightarrow> (Inl (plane_error_display e), c\<lparr>hc_history := h\<rparr>)
          | (Inr (status, _), h) \<Rightarrow> (Inr status, c\<lparr>hc_history := h\<rparr>)))"

definition connect_options ::
    "http2_connector \<Rightarrow> string option \<Rightarrow> attested_connect_request \<Rightarrow> string \<Rightarrow> string \<Rightarrow> engine_plane_dial_options" where
  "connect_options c url request session_id nonce =
     (let dial = (hc_dial c)\<lparr>do_connect_template :=
              request\<lparr>acr_session_id := session_id, acr_gateway_challenge_nonce := Some nonce\<rparr>,
            do_gateway_challenge_nonce := Some nonce\<rparr>;
          dial = (case url of None \<Rightarrow> dial | Some u \<Rightarrow> dial\<lparr>do_gateway_base_url := trim u\<rparr>)
      in if do_pool_target_size dial = 0
         then dial\<lparr>do_pool_target_size := (case acr_pool_target_size request of None \<Rightarrow> 1 | Some n \<Rightarrow> n)\<rparr> else dial)"

definition connect_inner ::
    "plane_host \<Rightarrow> string option \<Rightarrow> attested_connect_request \<Rightarrow> string option \<Rightarrow> http2_connector
     \<Rightarrow> (plane_error + connect_result) \<times> http2_connector" where
  "connect_inner P url request preserve c =
     (let (session_id, h) = (case preserve of Some s \<Rightarrow> (s, hc_history c)
             | None \<Rightarrow> (ph_uuid P (hc_history c), hc_history c @ [PvUuid]));
          nonce = generate_gateway_connect_challenge_nonce (ph_random P h);
          h = h @ [PvNonce]
      in case open_pooled_connection P (connect_options c url request session_id nonce) session_id h of
           (Inl e, h) \<Rightarrow> (Inl e, c\<lparr>hc_history := h\<rparr>)
         | (Inr (t, response), h) \<Rightarrow>
             (Inr \<lparr>cr_session_id = session_id, cr_response = response\<rparr>,
              c\<lparr>hc_history := h, hc_sessions := (hc_sessions c)(session_id \<mapsto> t)\<rparr>))"

definition connector_connect ::
    "plane_host \<Rightarrow> attested_connect_request \<Rightarrow> http2_connector \<Rightarrow> (plane_error + connect_result) \<times> http2_connector" where
  "connector_connect P request c = connect_inner P None request None c"

definition connector_connect_to ::
    "plane_host \<Rightarrow> string \<Rightarrow> attested_connect_request \<Rightarrow> http2_connector \<Rightarrow> (plane_error + connect_result) \<times> http2_connector" where
  "connector_connect_to P url request c = connect_inner P (Some url) request None c"

text \<open>The table entry goes first, the transport is closed whatever the gateway answered.\<close>

definition disconnect_with_reason ::
    "plane_host \<Rightarrow> nat \<Rightarrow> string \<Rightarrow> disconnect_reason \<Rightarrow> http2_connector
     \<Rightarrow> ((plane_error + unit) \<times> http2_connector) option" where
  "disconnect_with_reason P fuel session_id reason c =
     (case hc_sessions c session_id of
        None \<Rightarrow> Some (Inl (PUnknownSession session_id), c)
      | Some t \<Rightarrow>
         (let c = c\<lparr>hc_sessions := (hc_sessions c)(session_id := None)\<rparr>
          in map_option (\<lambda>(result, h). (result, c\<lparr>hc_history := h @ [PvClose t]\<rparr>))
               (graceful_disconnect_attested_session P fuel t session_id (acr_engine_id (do_connect_template (hc_dial c))) reason
                  (hc_disconnect_timeout c) (hc_history c))))"

definition connector_disconnect ::
    "plane_host \<Rightarrow> nat \<Rightarrow> string \<Rightarrow> http2_connector \<Rightarrow> ((plane_error + unit) \<times> http2_connector) option" where
  "connector_disconnect P fuel session_id c = disconnect_with_reason P fuel session_id ReasonUpgrade c"

definition disconnect_for_shutdown ::
    "plane_host \<Rightarrow> nat \<Rightarrow> string \<Rightarrow> http2_connector \<Rightarrow> ((plane_error + unit) \<times> http2_connector) option" where
  "disconnect_for_shutdown P fuel session_id c = disconnect_with_reason P fuel session_id ReasonShutdown c"

text \<open>The drained table is closed in any order; \<open>order\<close> lists its transports.\<close>

definition force_close_all :: "nat list \<Rightarrow> http2_connector \<Rightarrow> http2_connector" where
  "force_close_all order c = c\<lparr>hc_sessions := Map.empty, hc_history := hc_history c @ map PvClose order\<rparr>"

definition is_session_closed :: "plane_host \<Rightarrow> string \<Rightarrow> http2_connector \<Rightarrow> bool" where
  "is_session_closed P session_id c =
     (case hc_sessions c session_id of None \<Rightarrow> True | Some t \<Rightarrow> ph_is_closed P (hc_history c) t)"

definition drop_session :: "string \<Rightarrow> http2_connector \<Rightarrow> http2_connector" where
  "drop_session session_id c =
     (case hc_sessions c session_id of None \<Rightarrow> c
      | Some t \<Rightarrow> c\<lparr>hc_sessions := (hc_sessions c)(session_id := None), hc_history := hc_history c @ [PvClose t]\<rparr>)"

definition teardown_for_reconnect ::
    "plane_host \<Rightarrow> nat \<Rightarrow> string \<Rightarrow> http2_connector \<Rightarrow> http2_connector option" where
  "teardown_for_reconnect P fuel session_id c =
     (case disconnect_with_reason P fuel session_id ReasonAdmin c of
        None \<Rightarrow> None
      | Some (Inr _, c) \<Rightarrow> Some c
      | Some (Inl _, c) \<Rightarrow> Some (drop_session session_id c))"

definition connector_reconnect ::
    "plane_host \<Rightarrow> string \<Rightarrow> string \<Rightarrow> attested_connect_request \<Rightarrow> http2_connector
     \<Rightarrow> (plane_error + connect_result) \<times> http2_connector" where
  "connector_reconnect P session_id url request c = connect_inner P (Some url) request (Some session_id) (drop_session session_id c)"

end
