(* ===== verification/Pull_Worker.thy ===== *)
theory Pull_Worker
  imports Inference_Properties Ops_Control Engine_Challenge Gateway_Connect
begin

section \<open>Pull workers\<close>

text \<open>
  \<^verbatim>\<open>ie-engine/src/plane/pull.rs\<close> with the transport interface of \<^verbatim>\<open>plane/session.rs\<close>: a worker asks
  the gateway for work on one session, answers challenges, control requests and inferences, and tells
  the pool when its transport is gone. The worker records what it does on the transport, each entry
  with the value of its busy flag at that moment; the answers of the host may depend on all of it. The
  state that the handlers of the binary keep is a type parameter. Header names and paths belong to the
  wire protocol library and are fields of the host, like its comparison of traffic classes.
\<close>

subsection \<open>Transport\<close>

record bytes_response =
  br_status :: u16
  br_headers :: "(string \<times> string) list"
  br_body :: bytes

definition header_value :: "bytes_response \<Rightarrow> string \<Rightarrow> string option" where
  "header_value r name =
     (let want = to_ascii_lowercase name in map_option snd (find (\<lambda>(k, v). eq_ignore_ascii_case k want) (br_headers r)))"

datatype payload =
    PayChallenge engine_challenge_wire_response
  | PayError string
  | PayOps engine_ops_control_result
  | PayText utext
  | PayFrames "ope_stream_frame list"

datatype worker_event =
    WvPull
  | WvDesired u32
  | WvHandleChallenge engine_challenge_wire_request
  | WvHandleOps engine_ops_control_request
  | WvInfer ope_envelope
  | WvPost string payload string "(string \<times> string) list"
  | WvOpen "(string \<times> string) list"
  | WvFrames "ope_stream_frame list"
  | WvFinish
  | WvAbort
  | WvSleep nat
  | WvLost

type_synonym worker_trace = "(bool \<times> worker_event) list"

datatype traffic_class_consistency = TrafficOk | TrafficMismatch string string | TrafficMissing

record worker_names =
  wn_session :: string
  wn_request :: string
  wn_traffic_class :: string
  wn_work_kind :: string
  wn_usage_report :: string
  wn_challenge :: string
  wn_ops_control :: string
  wn_challenge_result :: string
  wn_ops_control_result :: string
  wn_inference_result :: string

record worker_host =
  wh_names :: worker_names
  wh_infer :: "worker_trace \<Rightarrow> infer_host"
  wh_answer :: "worker_trace \<Rightarrow> plane_error + bytes_response"
  wh_open :: "worker_trace \<Rightarrow> plane_error + unit"
  wh_closed :: "worker_trace \<Rightarrow> bool"
  wh_stopped :: "worker_trace \<Rightarrow> bool"
  wh_challenge_request :: "bytes \<Rightarrow> string + engine_challenge_wire_request"
  wh_ops_request :: "bytes \<Rightarrow> string + engine_ops_control_request"
  wh_envelope :: "bytes \<Rightarrow> string + ope_envelope"
  wh_traffic_class :: "string option \<Rightarrow> string option \<Rightarrow> traffic_class_consistency"

record 'p worker_config =
  wc_session_id :: string
  wc_inference :: ope_inference_options
  wc_on_desired :: "(u32 \<Rightarrow> 'p \<Rightarrow> 'p) option"
  wc_answer_challenge :: "(engine_challenge_wire_request \<Rightarrow> 'p \<Rightarrow> (string + engine_challenge_wire_response) \<times> 'p) option"
  wc_answer_ops_control :: "(engine_ops_control_request \<Rightarrow> 'p \<Rightarrow> engine_ops_control_result \<times> 'p) option"
  wc_on_lost :: "('p \<Rightarrow> 'p) option"

record 'p worker =
  w_busy :: bool
  w_running :: bool
  w_infer :: infer_state
  w_app :: 'p
  w_trace :: worker_trace

definition record_event :: "worker_event \<Rightarrow> 'p worker \<Rightarrow> 'p worker" where
  "record_event e w = w\<lparr>w_trace := w_trace w @ [(w_busy w, e)]\<rparr>"

text \<open>A request is answered by the host on the history that ends with it.\<close>

definition worker_request :: "worker_host \<Rightarrow> worker_event \<Rightarrow> 'p worker \<Rightarrow> (plane_error + bytes_response) \<times> 'p worker" where
  "worker_request W e w = (let w = record_event e w in (wh_answer W (w_trace w), w))"

datatype work_pull_outcome = Idle | Processed

definition result_headers :: "worker_host \<Rightarrow> 'p worker_config \<Rightarrow> string \<Rightarrow> u16 \<Rightarrow> (string \<times> string) list" where
  "result_headers W cfg request_id status =
     [(wn_session (wh_names W), wc_session_id cfg), (wn_request (wh_names W), request_id), (''x-ope-status'', show_word status)]"

text \<open>A refused result is only logged.\<close>

definition post_result ::
    "worker_host \<Rightarrow> string \<Rightarrow> payload \<Rightarrow> string \<Rightarrow> (string \<times> string) list \<Rightarrow> 'p worker
     \<Rightarrow> (plane_error + work_pull_outcome) \<times> 'p worker" where
  "post_result W path body content_type headers w =
     (case worker_request W (WvPost path body content_type headers) w of
        (Inl e, w) \<Rightarrow> (Inl e, w) | (Inr _, w) \<Rightarrow> (Inr Processed, w))"

subsection \<open>Challenges and control requests\<close>

definition challenge_work_result ::
    "worker_host \<Rightarrow> 'p worker_config \<Rightarrow> bytes \<Rightarrow> 'p worker \<Rightarrow> (string + engine_challenge_wire_response) \<times> 'p worker" where
  "challenge_work_result W cfg body w =
     (case wh_challenge_request W body of
        Inl err \<Rightarrow> (Inl (''challenge_request_json: '' @ err), w)
      | Inr request \<Rightarrow>
          if trim (cq_nonce_b64 request) = [] then (Inl ''nonce_b64_required'', w)
          else let request = request\<lparr>cq_nonce_b64 := trim (cq_nonce_b64 request), cq_epoch_id := map_option trim (cq_epoch_id request)\<rparr>
               in case wc_answer_challenge cfg of
                    None \<Rightarrow> (Inl ''challenge_handler_unavailable'', w)
                  | Some handler \<Rightarrow>
                     (let w = record_event (WvHandleChallenge request) w; (result, app) = handler request (w_app w)
                      in (result, w\<lparr>w_app := app\<rparr>)))"

definition answer_challenge_work ::
    "worker_host \<Rightarrow> 'p worker_config \<Rightarrow> string \<Rightarrow> bytes \<Rightarrow> 'p worker \<Rightarrow> (plane_error + work_pull_outcome) \<times> 'p worker" where
  "answer_challenge_work W cfg request_id body w =
     (let (result, w) = challenge_work_result W cfg body w;
          (status, payload) = (case result of Inr response \<Rightarrow> (200, PayChallenge response) | Inl error \<Rightarrow> (500, PayError error))
      in post_result W (wn_challenge_result (wh_names W)) payload ''application/json'' (result_headers W cfg request_id status) w)"

definition ops_refusal :: "engine_ops_control_op \<Rightarrow> string \<Rightarrow> engine_ops_control_result" where
  "ops_refusal op error =
     \<lparr>ors_ok = False, ors_op = op, ors_engine_id = [], ors_pool_target = None, ors_live_sessions = None,
      ors_draining = None, ors_detail = None, ors_error = Some error\<rparr>"

definition ops_work_result ::
    "worker_host \<Rightarrow> 'p worker_config \<Rightarrow> bytes \<Rightarrow> 'p worker \<Rightarrow> engine_ops_control_result \<times> 'p worker" where
  "ops_work_result W cfg body w =
     (case wh_ops_request W body of
        Inl err \<Rightarrow> (ops_refusal Status (''ops_control_request_json: '' @ err), w)
      | Inr request \<Rightarrow>
         (case wc_answer_ops_control cfg of
            None \<Rightarrow> (ops_refusal (orq_op request) ''ops_control_handler_unavailable'', w)
          | Some handler \<Rightarrow>
             (let w = record_event (WvHandleOps request) w; (result, app) = handler request (w_app w)
              in (result, w\<lparr>w_app := app\<rparr>))))"

definition answer_ops_control_work ::
    "worker_host \<Rightarrow> 'p worker_config \<Rightarrow> string \<Rightarrow> bytes \<Rightarrow> 'p worker \<Rightarrow> (plane_error + work_pull_outcome) \<times> 'p worker" where
  "answer_ops_control_work W cfg request_id body w =
     (let (result, w) = ops_work_result W cfg body w; status = (if ors_ok result then 200 else 500)
      in post_result W (wn_ops_control_result (wh_names W)) (PayOps result) ''application/json'' (result_headers W cfg request_id status) w)"

subsection \<open>Inference\<close>

text \<open>The inference with the frames it writes, under the request id of the work.\<close>

definition run_inference ::
    "worker_host \<Rightarrow> 'p worker_config \<Rightarrow> string \<Rightarrow> ope_envelope \<Rightarrow> 'p worker
     \<Rightarrow> (ope_inference_result \<times> ope_stream_frame list) \<times> 'p worker" where
  "run_inference W cfg request_id envelope w =
     (let w = record_event (WvInfer envelope) w;
          (result, frames, st) = run_ope_inference_on_envelope (wh_infer W (w_trace w)) True envelope
             ((wc_inference cfg)\<lparr>oo_request_id := Some request_id\<rparr>) (w_infer w)
      in ((result, frames), w\<lparr>w_infer := st\<rparr>))"

definition usage_headers :: "worker_host \<Rightarrow> ope_inference_result \<Rightarrow> (string \<times> string) list" where
  "usage_headers W result = (case oir_usage_header result of None \<Rightarrow> [] | Some u \<Rightarrow> [(wn_usage_report (wh_names W), u)])"

definition non_streaming_work ::
    "worker_host \<Rightarrow> 'p worker_config \<Rightarrow> string \<Rightarrow> ope_envelope \<Rightarrow> 'p worker \<Rightarrow> (plane_error + work_pull_outcome) \<times> 'p worker" where
  "non_streaming_work W cfg request_id envelope w =
     (let ((result, frames), w) = run_inference W cfg request_id envelope w;
          H = wh_infer W (w_trace w);
          streams = str_contains (oir_content_type result) ''ope+json-stream'';
          content_type = (if streams then ih_ope_json_stream H
            else if str_contains (oir_content_type result) ''ope+json'' then ih_ope_json H else ''application/json'');
          body = (if content_type = ih_ope_json_stream H then PayFrames frames else PayText (oir_body result))
      in post_result W (wn_inference_result (wh_names W)) body content_type
           (result_headers W cfg request_id (oir_status result) @ usage_headers W result) w)"

definition streaming_work ::
    "worker_host \<Rightarrow> 'p worker_config \<Rightarrow> string \<Rightarrow> ope_envelope \<Rightarrow> 'p worker \<Rightarrow> (plane_error + work_pull_outcome) \<times> 'p worker" where
  "streaming_work W cfg request_id envelope w =
     (let w = record_event (WvOpen (result_headers W cfg request_id 200)) w
      in case wh_open W (w_trace w) of
           Inl e \<Rightarrow> (Inl e, w)
         | Inr _ \<Rightarrow>
            (let ((result, frames), w) = run_inference W cfg request_id envelope w;
                 w = record_event (WvFrames frames) w
             in if oir_status result < 400 \<and> str_contains (oir_content_type result) ''ope+json-stream''
                then (case worker_request W WvFinish w of (Inl e, w) \<Rightarrow> (Inl e, w) | (Inr _, w) \<Rightarrow> (Inr Processed, w))
                else post_result W (wn_inference_result (wh_names W)) (PayText (oir_body result)) ''application/json''
                       (result_headers W cfg request_id (oir_status result) @ usage_headers W result) (record_event WvAbort w)))"

definition answer_inference_work ::
    "worker_host \<Rightarrow> 'p worker_config \<Rightarrow> string \<Rightarrow> ope_envelope \<Rightarrow> 'p worker \<Rightarrow> (plane_error + work_pull_outcome) \<times> 'p worker" where
  "answer_inference_work W cfg request_id envelope w =
     (let w = w\<lparr>w_busy := True\<rparr>
      in case (if is_gateway_plane_task_envelope envelope \<or> validate_ope_inference_envelope envelope \<noteq> GateOk
               then non_streaming_work else streaming_work) W cfg request_id envelope w of
           (Inl e, w) \<Rightarrow> (Inl e, w)
         | (Inr finished, w) \<Rightarrow> (Inr finished, w\<lparr>w_busy := False\<rparr>))"

subsection \<open>One pull\<close>

definition while_busy ::
    "('p worker \<Rightarrow> (plane_error + work_pull_outcome) \<times> 'p worker) \<Rightarrow> 'p worker \<Rightarrow> (plane_error + work_pull_outcome) \<times> 'p worker" where
  "while_busy f w = (let (result, w) = f (w\<lparr>w_busy := True\<rparr>) in (result, w\<lparr>w_busy := False\<rparr>))"

definition note_desired :: "'p worker_config \<Rightarrow> bytes_response \<Rightarrow> 'p worker \<Rightarrow> 'p worker" where
  "note_desired cfg r w =
     (case parse_desired_pool_target_header (header_value r ''x-ope-desired-pool-target'') of
        None \<Rightarrow> w
      | Some desired \<Rightarrow> (case wc_on_desired cfg of None \<Rightarrow> w
          | Some cb \<Rightarrow> (let w = record_event (WvDesired desired) w in w\<lparr>w_app := cb desired (w_app w)\<rparr>)))"

definition envelope_traffic_class :: "ope_envelope \<Rightarrow> string option" where
  "envelope_traffic_class envelope = Option.bind (oe_meta envelope) om_traffic_class"

definition pull_once :: "worker_host \<Rightarrow> 'p worker_config \<Rightarrow> 'p worker \<Rightarrow> (plane_error + work_pull_outcome) \<times> 'p worker" where
  "pull_once W cfg w =
     (case worker_request W WvPull w of
        (Inl e, w) \<Rightarrow> (Inl e, w)
      | (Inr r, w) \<Rightarrow>
         (let w = note_desired cfg r w
          in if br_status r \<noteq> 200 \<or> br_body r = [] then (Inr Idle, w)
             else let request_id = (case header_value r (wn_request (wh_names W)) of None \<Rightarrow> [] | Some i \<Rightarrow> i)
               in if request_id = [] then (Inr Idle, w)
                  else if header_value r (wn_work_kind (wh_names W)) = Some (wn_challenge (wh_names W))
                  then while_busy (answer_challenge_work W cfg request_id (br_body r)) w
                  else if header_value r (wn_work_kind (wh_names W)) = Some (wn_ops_control (wh_names W))
                  then while_busy (answer_ops_control_work W cfg request_id (br_body r)) w
                  else case wh_envelope W (br_body r) of
                    Inl e \<Rightarrow> (Inl (PH2 (''work envelope json: '' @ e)), w)
                  | Inr envelope \<Rightarrow>
                     (case wh_traffic_class W (header_value r (wn_traffic_class (wh_names W))) (envelope_traffic_class envelope) of
                        TrafficMismatch header meta \<Rightarrow> (Inl (PH2
                          (''ope_traffic_class_invalid: traffic_class mismatch: header='' @ header @ '' meta='' @ meta)), w)
                      | TrafficMissing \<Rightarrow> (Inl (PH2 ''ope_traffic_class_invalid: traffic_class missing''), w)
                      | TrafficOk \<Rightarrow> answer_inference_work W cfg request_id envelope w)))"

subsection \<open>The worker\<close>

definition worker_new :: "infer_state \<Rightarrow> 'p \<Rightarrow> 'p worker" where
  "worker_new st app = \<lparr>w_busy = False, w_running = True, w_infer = st, w_app = app, w_trace = []\<rparr>"

definition transport_lost :: "'p worker_config \<Rightarrow> 'p worker \<Rightarrow> 'p worker" where
  "transport_lost cfg w =
     (case wc_on_lost cfg of None \<Rightarrow> w\<lparr>w_running := False\<rparr>
      | Some cb \<Rightarrow> (let w = record_event WvLost w in w\<lparr>w_app := cb (w_app w), w_running := False\<rparr>))"

text \<open>One turn of the loop of \<^verbatim>\<open>start_pull_worker\<close>; an ended worker stays as it is.\<close>

definition worker_turn :: "worker_host \<Rightarrow> 'p worker_config \<Rightarrow> 'p worker \<Rightarrow> 'p worker" where
  "worker_turn W cfg w =
     (if \<not> w_running w then w
      else if wh_stopped W (w_trace w) then w\<lparr>w_running := False\<rparr>
      else if wh_closed W (w_trace w) then transport_lost cfg w
      else case pull_once W cfg w of
        (Inr Idle, w) \<Rightarrow> record_event (WvSleep 1) w
      | (Inr Processed, w) \<Rightarrow> w
      | (Inl _, w) \<Rightarrow> if wh_closed W (w_trace w) then transport_lost cfg w else record_event (WvSleep 200) w)"

definition start_pull_worker :: "worker_host \<Rightarrow> 'p worker_config \<Rightarrow> infer_state \<Rightarrow> 'p \<Rightarrow> nat \<Rightarrow> 'p worker" where
  "start_pull_worker W cfg st app n = (worker_turn W cfg ^^ n) (worker_new st app)"

end
