(* ===== verification/Engine_Main.thy ===== *)
theory Engine_Main
  imports Pull_Worker
begin

section \<open>The engine process\<close>

text \<open>
  \<^verbatim>\<open>ie-bin/src/main.rs\<close> with what it configures the engine from: the environment files of
  \<^verbatim>\<open>ie-runtime/src/env.rs\<close>, the instance id of \<^verbatim>\<open>ie-engine/src/ops/instance_id.rs\<close>, the settings of
  \<^verbatim>\<open>run_engine\<close>, the handlers it gives to the pull workers, the order in which it boots the pool,
  registers the epoch and starts the workers, and the idle recollection of GPU evidence
  (\<^verbatim>\<open>ie-engine/src/epoch/gpu_idle_recollect.rs\<close>). Generating keys and TLS material, logging and waiting for a
  signal are left out.
\<close>

subsection \<open>Environment files\<close>

definition ends_with :: "string \<Rightarrow> char \<Rightarrow> bool" where
  "ends_with s c \<longleftrightarrow> s \<noteq> [] \<and> last s = c"

definition quoted_by :: "char \<Rightarrow> string \<Rightarrow> bool" where
  "quoted_by q s \<longleftrightarrow> starts_with s [q] \<and> ends_with s q"

text \<open>\<open>None\<close> is a panic: the slice \<^verbatim>\<open>value[1..value.len() - 1]\<close> of a single quote character.\<close>

definition unquote :: "string \<Rightarrow> string option" where
  "unquote s =
     (if quoted_by (CHR 0x22) s \<or> quoted_by (CHR 0x27) s
      then if length s = 1 then None else Some (butlast (tl s))
      else Some s)"

definition split_once :: "char \<Rightarrow> string \<Rightarrow> (string \<times> string) option" where
  "split_once c s = (if c \<in> set s then Some (takeWhile (\<lambda>x. x \<noteq> c) s, tl (dropWhile (\<lambda>x. x \<noteq> c) s)) else None)"

definition load_env_line :: "string \<Rightarrow> env \<Rightarrow> env option" where
  "load_env_line line env =
     (let t = trim line
      in if t = [] \<or> starts_with t ''#'' then Some env
         else case split_once (CHR ''='') t of
           None \<Rightarrow> Some env
         | Some (key, value) \<Rightarrow>
             (let key = trim key
              in if key = [] \<or> env key \<noteq> None then Some env
                 else map_option (\<lambda>v. env(key \<mapsto> v)) (unquote (trim value))))"

fun load_env_lines :: "string list \<Rightarrow> env \<Rightarrow> env option" where
  "load_env_lines [] env = Some env"
| "load_env_lines (l # ls) env = (case load_env_line l env of None \<Rightarrow> None | Some env \<Rightarrow> load_env_lines ls env)"

text \<open>\<open>files\<close> is the file system; a file that cannot be read is skipped.\<close>

definition load_env_file :: "(string \<Rightarrow> string option) \<Rightarrow> string \<Rightarrow> env \<Rightarrow> env option" where
  "load_env_file files path env =
     (case files path of None \<Rightarrow> Some env | Some content \<Rightarrow> load_env_lines (split_on (CHR 10) content) env)"

fun load_env_files :: "(string \<Rightarrow> string option) \<Rightarrow> string list \<Rightarrow> env \<Rightarrow> env option" where
  "load_env_files files [] env = Some env"
| "load_env_files files (p # ps) env = (case load_env_file files p env of None \<Rightarrow> None | Some env \<Rightarrow> load_env_files files ps env)"

definition load_engine_env_files :: "(string \<Rightarrow> string option) \<Rightarrow> (string \<Rightarrow> bool) \<Rightarrow> string \<Rightarrow> env \<Rightarrow> env option" where
  "load_engine_env_files files exists_path cwd seed =
     (let staging = (case seed ''TEECHAT_ENV'' of None \<Rightarrow> False | Some v \<Rightarrow> eq_ignore_ascii_case (trim v) ''staging'')
            \<or> exists_path (path_join cwd ''.env.staging'');
          names = (if staging then [''.env'', ''.env.staging'', ''.env.local''] else [''.env'', ''.env.local''])
      in load_env_files files (map (path_join cwd) names) seed)"

subsection \<open>Settings\<close>

definition is_ascii_alphanumeric :: "char \<Rightarrow> bool" where
  "is_ascii_alphanumeric c = (let n = (of_char c :: nat) in (48 \<le> n \<and> n \<le> 57) \<or> (65 \<le> n \<and> n \<le> 90) \<or> (97 \<le> n \<and> n \<le> 122))"

definition DEFAULT_ENGINE_INSTANCE_ID :: string where
  "DEFAULT_ENGINE_INSTANCE_ID = ''default''"

definition valid_instance_id :: "string \<Rightarrow> bool" where
  "valid_instance_id v \<longleftrightarrow> length v \<le> 64 \<and> (case v of [] \<Rightarrow> False | c # cs \<Rightarrow> is_ascii_alphanumeric c)
     \<and> list_all (\<lambda>c. is_ascii_alphanumeric c \<or> c \<in> set ''._-'') v"

definition normalize_engine_instance_id :: "string option \<Rightarrow> string + string" where
  "normalize_engine_instance_id raw =
     (let v = trim (case raw of None \<Rightarrow> [] | Some r \<Rightarrow> r)
      in if v = [] then Inr DEFAULT_ENGINE_INSTANCE_ID
         else if \<not> valid_instance_id v then Inl (''invalid_instance_id:'' @ v) else Inr v)"

definition engine_instance_id_from_env :: "env \<Rightarrow> string + string" where
  "engine_instance_id_from_env env =
     (case env_trim env ''TEECHAT_ENGINE_INSTANCE_ID'' of
        Some explicit \<Rightarrow> normalize_engine_instance_id (Some explicit)
      | None \<Rightarrow>
         (case env ''TEECHAT_ENGINE_SLOT'' of
            Some slot \<Rightarrow> if trim slot = ''blue'' \<or> trim slot = ''green'' then Inr (trim slot) else Inr DEFAULT_ENGINE_INSTANCE_ID
          | None \<Rightarrow> Inr DEFAULT_ENGINE_INSTANCE_ID))"

definition env_flag_false :: "env \<Rightarrow> string \<Rightarrow> bool" where
  "env_flag_false env key = (case env key of None \<Rightarrow> False | Some v \<Rightarrow> v = ''0'' \<or> eq_ignore_ascii_case v ''false'')"

definition verify_gateway_platform_enabled :: "env \<Rightarrow> bool" where
  "verify_gateway_platform_enabled env \<longleftrightarrow> \<not> env_flag_false env ''TEECHAT_ENGINE_VERIFY_GATEWAY_PLATFORM''"

text \<open>The first of two variables that is set, if it is not blank: a blank one hides the second.\<close>

definition env_alias :: "env \<Rightarrow> string \<Rightarrow> string \<Rightarrow> string option" where
  "env_alias env a b =
     (case (case env a of None \<Rightarrow> env b | Some v \<Rightarrow> Some v) of
        None \<Rightarrow> None | Some v \<Rightarrow> if trim v = [] then None else Some (trim v))"

definition push_missing :: "string option \<Rightarrow> string list \<Rightarrow> string list" where
  "push_missing m ms = (case m of None \<Rightarrow> ms | Some x \<Rightarrow> if x \<in> set ms then ms else ms @ [x])"

definition models_from_env :: "env \<Rightarrow> string list" where
  "models_from_env env =
     (let models = (case env_alias env ''OLLAMA_MODEL'' ''TEECHAT_OLLAMA_MODEL'' of
             None \<Rightarrow> [''google/gemma-4-31B-it''] | Some m \<Rightarrow> [m])
      in push_missing (embed_model_id_from_env env) (push_missing (task_model_id_from_env env) models))"

definition unwrap_or :: "'a option \<Rightarrow> 'a \<Rightarrow> 'a" where
  "unwrap_or v d = (case v of None \<Rightarrow> d | Some x \<Rightarrow> x)"

record engine_settings =
  eg_engine_id :: string
  eg_gateway :: string
  eg_pool_target_size :: u32
  eg_upstream_base :: string
  eg_models :: "string list"
  eg_force_stub :: bool
  eg_instance_id :: string
  eg_prefer_mock :: bool

definition engine_settings_from_env :: "env \<Rightarrow> string + engine_settings" where
  "engine_settings_from_env env =
     (let force_stub = env_flag_true env ''TEECHAT_ENGINE_STUB''
      in case engine_instance_id_from_env env of
           Inl e \<Rightarrow> Inl e
         | Inr instance_id \<Rightarrow>
             if env_flag_false env ''TEECHAT_ENGINE_TLS_REJECT_UNAUTHORIZED'' \<and> \<not> force_stub
             then Inl ''TEECHAT_ENGINE_TLS_REJECT_UNAUTHORIZED=0 is forbidden; use TEECHAT_ENGINE_STUB=1 for local stubs''
             else Inr
              \<lparr>eg_engine_id = unwrap_or (env_alias env ''TEECHAT_OPE_ENGINE_ID'' ''TEECHAT_ENGINE_ID'') ''engine-rust-canary'',
               eg_gateway = unwrap_or (env_alias env ''TEECHAT_ENGINE_GATEWAY_URL'' ''TEECHAT_GATEWAY_ENGINE_PLANE_URL'') ''https://127.0.0.1:8788'',
               eg_pool_target_size = max 1 (unwrap_or (Option.bind
                 (case env ''TEECHAT_ENGINE_POOL_TARGET_SIZE'' of Some v \<Rightarrow> Some v | None \<Rightarrow> env ''TEECHAT_OPE_ENGINE_POOL_TARGET_SIZE'')
                 parse_u32) 1),
               eg_upstream_base = unwrap_or (env_alias env ''TEECHAT_VLLM_BASE_URL'' ''VLLM_BASE_URL'') ''http://127.0.0.1:11434/v1'',
               eg_models = models_from_env env,
               eg_force_stub = force_stub,
               eg_instance_id = instance_id,
               eg_prefer_mock = (case env ''TEECHAT_CRYPTO'' of None \<Rightarrow> False | Some v \<Rightarrow> eq_ignore_ascii_case v ''mock'') \<or> force_stub\<rparr>)"

text \<open>The pool's own configuration, with the target size of the dial.\<close>

definition engine_pool_config :: "env \<Rightarrow> engine_settings \<Rightarrow> supervised_pool_config" where
  "engine_pool_config env s = (supervised_pool_config_from_env env)\<lparr>pool_target_size := eg_pool_target_size s\<rparr>"

definition engine_gateway_verifier :: "env \<Rightarrow> gateway_verifier option" where
  "engine_gateway_verifier env =
     (if verify_gateway_platform_enabled env then Some (platform_policy_verifier_from_env env) else None)"

definition engine_connect_request ::
    "engine_settings \<Rightarrow> string \<Rightarrow> string \<Rightarrow> attestation_bundle \<Rightarrow> string \<Rightarrow> string list \<Rightarrow> attested_connect_request" where
  "engine_connect_request s session_id ed25519_public attestation challenge capabilities =
     \<lparr>acr_session_id = session_id, acr_engine_id = eg_engine_id s, acr_models = eg_models s,
      acr_identity = \<lparr>id_engine_id = eg_engine_id s, id_kex = ''X25519MLKEM768'', id_ed25519_public = ed25519_public\<rparr>,
      acr_attestation = attestation, acr_pool_target_size = Some (eg_pool_target_size s),
      acr_instance_id = Some (eg_instance_id s), acr_gateway_challenge_nonce = Some challenge,
      acr_capabilities = Some capabilities\<rparr>"

text \<open>A worker's inference options are those of the template; the sizes are \<open>nat\<close> as in \<^verbatim>\<open>usize\<close>.\<close>

definition inference_template ::
    "env \<Rightarrow> engine_settings \<Rightarrow> rotating_epoch_decryptor \<Rightarrow> string \<Rightarrow> ope_inference_options" where
  "inference_template env s decryptor signing_key =
     (let embeddings = embeddings_config_from_env env; task = vllm_task_config_from_env env
      in \<lparr>oo_request_id = None, oo_decrypt_handle = 0, oo_rotating = Some decryptor,
          oo_vllm_base_url = eg_upstream_base s, oo_vllm_api_key = env ''VLLM_API_KEY'',
          oo_task_vllm_base_url = map_option fst task, oo_task_vllm_api_key = Option.bind task snd,
          oo_task_model_id = task_model_id_from_env env,
          oo_embeddings_base_url = map_option fst embeddings, oo_embeddings_api_key = Option.bind embeddings snd,
          oo_embeddings_default_model = embed_model_id_from_env env,
          oo_chunk_chars = (case Option.bind (env ''TEECHAT_ENGINE_CHUNK_CHARS'') parse_u64 of None \<Rightarrow> 8 | Some n \<Rightarrow> unat n),
          oo_usage_signing_key = Some signing_key\<rparr>)"

subsection \<open>Handlers\<close>

fun attestation_error_display :: "attestation_error \<Rightarrow> string" where
  "attestation_error_display AMissingEngineSha =
     ''missing engine runtime measurement: set TEECHAT_ENGINE_BINARY_SHA256 / TEECHAT_IE_RUNTIME_SHA256 or RELEASE_MANIFEST.json ieRuntimeSha256''"
| "attestation_error_display AMissingVllmSha =
     ''missing vLLM measurement: set TEECHAT_VLLM_BINARY_SHA256 or TEECHAT_VLLM_BINARY_PATH''"
| "attestation_error_display (AIo m) = ''failed to read '' @ m"
| "attestation_error_display (AJson m) = ''failed to parse JSON at '' @ m"
| "attestation_error_display (AInvalidTcbPins reason) = ''invalid tcb pins: '' @ reason"
| "attestation_error_display ASevGuestUnavailable = ''/dev/sev-guest is not available''"
| "attestation_error_display (AToolInvoke m) = ''failed to invoke '' @ m"
| "attestation_error_display (AToolFailed bin) = ''tool '' @ bin @ '' failed''"
| "attestation_error_display (AToolTimedOut bin secs) = ''tool '' @ bin @ '' timed out after '' @ show_word secs @ ''s''"
| "attestation_error_display (AInvalidSnpGuestBin m) =
     ''invalid TEECHAT_SNP_GUEST_BIN (allow snpguest or /usr/bin|/usr/local/bin/snpguest): '' @ m"
| "attestation_error_display (AInvalidNvattestBin m) =
     ''invalid TEECHAT_NVATTEST_BIN (allow nvattest or /usr/bin|/usr/local/bin/nvattest): '' @ m"
| "attestation_error_display AGpuCcModeOff = ''gpu_cc_mode_off''"

fun challenge_error_display :: "engine_challenge_error \<Rightarrow> string" where
  "challenge_error_display (ChInvalid label) = label"
| "challenge_error_display ChEpochMismatch = ''epoch_mismatch''"
| "challenge_error_display ChEndorsementUnavailable = ''endorsement_unavailable''"
| "challenge_error_display (ChAttestation e) = ''attestation_report: '' @ attestation_error_display e"

text \<open>The arguments a challenge is answered with: the current epoch, and hashes from the environment.\<close>

definition challenge_handler_args ::
    "env \<Rightarrow> string \<Rightarrow> engine_epoch \<Rightarrow> attestation_bundle \<Rightarrow> engine_challenge_wire_request \<Rightarrow> mint_engine_challenge_args" where
  "challenge_handler_args env engine_id epoch attestation request =
     \<lparr>ma_request = request, ma_engine_id = engine_id, ma_build_version = wm_version (ab_engine attestation),
      ma_policy_hash_hex = unwrap_or (env_trim env ''TEECHAT_ENGINE_POLICY_HASH'')
        (if length (cpu_policy_id (ab_cpu_tee attestation)) = 64 then cpu_policy_id (ab_cpu_tee attestation) else zero_hash),
      ma_measurement = LaunchDigest (unwrap_or (env_trim env ''TEECHAT_ENGINE_LAUNCH_DIGEST'') zero_hash)
        (unwrap_or (env_trim env ''TEECHAT_ENGINE_IMAGE_DIGEST'') zero_hash),
      ma_epoch = challenge_epoch_of epoch, ma_gpu_evidence_b64 = Some (gpu_evidence (ab_gpu_tee attestation)),
      ma_gpu_collected_at = None, ma_env = env\<rparr>"

definition engine_challenge_handler ::
    "challenge_host \<Rightarrow> env \<Rightarrow> string \<Rightarrow> epoch_rotator \<Rightarrow> engine_challenge_wire_request \<Rightarrow> string + engine_challenge_wire_response" where
  "engine_challenge_handler X env engine_id r request =
     (case er_attestation r of
        None \<Rightarrow> Inl ''challenge_attestation_unavailable''
      | Some attestation \<Rightarrow>
         (case mint_engine_challenge_response X (challenge_handler_args env engine_id (er_current r) attestation request) of
            Inl e \<Rightarrow> Inl (challenge_error_display e) | Inr response \<Rightarrow> Inr response))"

text \<open>What the handlers of the workers share.\<close>

record engine_state =
  en_pool :: supervised_pool
  en_limiter :: ops_control_rate_limiter
  en_rotator :: epoch_rotator
  en_desired :: "u32 list"
  en_lost :: "string list"

text \<open>
  The configuration of the worker of one session; \<open>now\<close> is the clock of the limiter. A desired target
  goes to the applier of the pool and a loss of the transport to its reconnect queue.
\<close>

definition engine_worker_config ::
    "pool_host \<Rightarrow> challenge_host \<Rightarrow> (engine_state \<Rightarrow> nat) \<Rightarrow> env \<Rightarrow> string \<Rightarrow> ope_inference_options \<Rightarrow> string \<Rightarrow> engine_state worker_config" where
  "engine_worker_config H X now env engine_id template session_id =
     \<lparr>wc_session_id = session_id,
      wc_inference = template\<lparr>oo_request_id := None\<rparr>,
      wc_on_desired = Some (\<lambda>n s. s\<lparr>en_desired := en_desired s @ [n]\<rparr>),
      wc_answer_challenge = Some (\<lambda>request s. (engine_challenge_handler X env engine_id (en_rotator s) request, s)),
      wc_answer_ops_control = Some (\<lambda>request s.
        let (result, l, p) = engine_ops_control_handler H engine_id (now s) request (en_limiter s, en_pool s)
        in (result, s\<lparr>en_limiter := l, en_pool := p\<rparr>)),
      wc_on_lost = Some (\<lambda>s. s\<lparr>en_lost := en_lost s @ [session_id]\<rparr>)\<rparr>"

text \<open>The evidence minter given to the rotator; the GPU evidence is read from the cache.\<close>

definition epoch_evidence_minter ::
    "attest_host \<Rightarrow> env \<Rightarrow> string \<Rightarrow> string \<Rightarrow> string \<Rightarrow> string \<Rightarrow> quote_epoch_claims \<Rightarrow> attestation_bundle option" where
  "epoch_evidence_minter A env cwd ed25519_public tls_cert_sha gpu_cache claims =
     (case build_engine_epoch_attestation_bundle A env cwd ed25519_public tls_cert_sha claims None (Reuse gpu_cache) of
        Inl _ \<Rightarrow> None | Inr bundle \<Rightarrow> Some bundle)"

definition engine_attestation_refresh ::
    "attest_host \<Rightarrow> env \<Rightarrow> string \<Rightarrow> string \<Rightarrow> string \<Rightarrow> string \<Rightarrow> epoch_rotator \<Rightarrow> (string + attestation_bundle) \<times> epoch_rotator" where
  "engine_attestation_refresh A env cwd ed25519_public tls_cert_sha gpu_cache r =
     (case build_engine_attestation_bundle_with_gpu A env cwd ed25519_public tls_cert_sha None (Reuse gpu_cache) of
        Inl e \<Rightarrow> (Inl (attestation_error_display e), r)
      | Inr bundle \<Rightarrow> (Inr bundle, set_attestation bundle r))"

subsection \<open>Boot\<close>

text \<open>A worker that cannot be started is logged.\<close>

definition start_workers :: "pool_host \<Rightarrow> string list \<Rightarrow> supervised_pool \<Rightarrow> supervised_pool" where
  "start_workers H sids p = fold (\<lambda>sid p. snd (ensure_started H sid p)) sids p"

text \<open>
  The rotator lists the sessions the pool has reported last. An error of the boot or of the
  registration ends \<^verbatim>\<open>run_engine\<close>.
\<close>

definition engine_boot ::
    "pool_host \<Rightarrow> (string list \<Rightarrow> epoch_host) \<Rightarrow> attested_connect_request \<Rightarrow> supervised_pool \<times> epoch_rotator
     \<Rightarrow> (engine_error + unit) \<times> supervised_pool \<times> epoch_rotator" where
  "engine_boot H E request = (\<lambda>(p, r).
     case boot H request p of
       (Inl e, p) \<Rightarrow> (Inl e, p, r)
     | (Inr _, p) \<Rightarrow>
         if live_session_count p = 0 then (Inr (), p, r)
         else case register_initial_epoch (E (session_ids p)) r of
           (Inl e, r) \<Rightarrow> (Inl e, p, r)
         | (Inr _, r) \<Rightarrow> (Inr (), start_workers H (session_ids p) p, r))"

subsection \<open>Idle recollection of GPU evidence\<close>

record gpu_idle_recollect_config =
  gi_interval :: u64
  gi_quiet :: u64

definition gpu_idle_recollect_config_from_env :: "env \<Rightarrow> gpu_idle_recollect_config" where
  "gpu_idle_recollect_config_from_env env =
     (let secs = (\<lambda>key. Option.bind (env key) (\<lambda>s. parse_u64 (trim s)))
      in \<lparr>gi_interval = unwrap_or (secs ''TEECHAT_GPU_EVIDENCE_IDLE_RECOLLECT_SECS'') 21600,
          gi_quiet = (case secs ''TEECHAT_GPU_EVIDENCE_IDLE_QUIET_SECS'' of None \<Rightarrow> 30 | Some n \<Rightarrow> if 0 < n then n else 30)\<rparr>)"

definition recollect_enabled :: "gpu_idle_recollect_config \<Rightarrow> bool" where
  "recollect_enabled cfg \<longleftrightarrow> gi_interval cfg \<noteq> 0"

datatype recollect_event = RvIdle bool | RvSleep nat | RvCollect

text \<open>The pool, the clock in seconds and the collector, on what the loop has done so far.\<close>

record recollect_host =
  rh_idle :: "recollect_event list \<Rightarrow> bool"
  rh_clock :: "recollect_event list \<Rightarrow> nat"
  rh_collect :: "recollect_event list \<Rightarrow> string + string"

record recollect_state =
  rc_cache :: string
  rc_rotator :: epoch_rotator
  rc_history :: "recollect_event list"

definition patch_bundle_gpu_evidence :: "attestation_bundle \<Rightarrow> string \<Rightarrow> attestation_bundle" where
  "patch_bundle_gpu_evidence b evidence = b\<lparr>ab_gpu_tee := (ab_gpu_tee b)\<lparr>gpu_evidence := evidence\<rparr>\<rparr>"

text \<open>\<open>None\<close> is an exhausted step bound: a pool that is never idle keeps the loop waiting.\<close>

fun wait_for_quiet_idle :: "recollect_host \<Rightarrow> nat \<Rightarrow> nat \<Rightarrow> nat option \<Rightarrow> recollect_event list \<Rightarrow> recollect_event list option" where
  "wait_for_quiet_idle R quiet 0 idle_since h = None"
| "wait_for_quiet_idle R quiet (Suc fuel) idle_since h =
     (let idle = rh_idle R h; h = h @ [RvIdle idle]
      in if idle
         then let since = unwrap_or idle_since (rh_clock R h)
              in if quiet \<le> rh_clock R h - since then Some h
                 else wait_for_quiet_idle R quiet fuel (Some since) (h @ [RvSleep 5])
         else wait_for_quiet_idle R quiet fuel None (h @ [RvSleep 5]))"

text \<open>One round of the loop of \<^verbatim>\<open>spawn_gpu_evidence_idle_recollect\<close>.\<close>

definition recollect_round :: "recollect_host \<Rightarrow> gpu_idle_recollect_config \<Rightarrow> nat \<Rightarrow> recollect_state \<Rightarrow> recollect_state option" where
  "recollect_round R cfg fuel s =
     (case wait_for_quiet_idle R (unat (gi_quiet cfg)) fuel None (rc_history s) of
        None \<Rightarrow> None
      | Some h \<Rightarrow>
         (let idle = rh_idle R h; h = h @ [RvIdle idle]
          in if \<not> idle then Some (s\<lparr>rc_history := h @ [RvSleep 5]\<rparr>)
             else let ans = rh_collect R h; h = h @ [RvCollect, RvSleep (unat (gi_interval cfg))]
               in case ans of
                 Inl e \<Rightarrow> Some (s\<lparr>rc_history := h\<rparr>)
               | Inr evidence \<Rightarrow> Some (s\<lparr>rc_cache := evidence, rc_history := h,
                   rc_rotator := (case er_attestation (rc_rotator s) of
                      None \<Rightarrow> rc_rotator s
                    | Some current \<Rightarrow> set_attestation (patch_bundle_gpu_evidence current evidence) (rc_rotator s))\<rparr>)))"

end
