(* ===== verification/Pull_Properties.thy ===== *)
theory Pull_Properties
  imports Pull_Worker
begin

section \<open>Properties of pull workers\<close>

text \<open>
  Work is done while the busy flag is set, each assigned piece of work is answered once and with the
  status it ended with, a loss of the transport is reported once, and what happens when the answer
  itself cannot be delivered.
\<close>

subsection \<open>What a step records\<close>

text \<open>Work on behalf of the gateway, as opposed to polling.\<close>

fun is_work :: "worker_event \<Rightarrow> bool" where
  "is_work WvPull = False"
| "is_work (WvDesired n) = False"
| "is_work (WvSleep n) = False"
| "is_work WvLost = False"
| "is_work e = True"

definition done_busy :: "bool \<times> worker_event \<Rightarrow> bool" where
  "done_busy x \<longleftrightarrow> (is_work (snd x) \<longrightarrow> fst x)"

fun is_answer :: "worker_event \<Rightarrow> bool" where
  "is_answer (WvPost path body content_type headers) = True"
| "is_answer WvFinish = True"
| "is_answer e = False"

definition answers :: "worker_trace \<Rightarrow> nat" where
  "answers tr = length (filter (is_answer \<circ> snd) tr)"

fun is_pull :: "worker_event \<Rightarrow> bool" where
  "is_pull WvPull = True"
| "is_pull e = False"

definition pulls :: "worker_trace \<Rightarrow> nat" where
  "pulls tr = length (filter (is_pull \<circ> snd) tr)"

fun is_loss :: "worker_event \<Rightarrow> bool" where
  "is_loss WvLost = True"
| "is_loss e = False"

definition losses :: "worker_trace \<Rightarrow> nat" where
  "losses tr = length (filter (is_loss \<circ> snd) tr)"

text \<open>The entries a step adds, when it only adds.\<close>

definition adds :: "'p worker \<Rightarrow> worker_trace \<Rightarrow> 'p worker \<Rightarrow> bool" where
  "adds w es w' \<longleftrightarrow> w_trace w' = w_trace w @ es \<and> w_running w' = w_running w"

lemma adds_refl [intro]: "adds w [] w" by (simp add: adds_def)

lemma adds_trans: "adds w es w' \<Longrightarrow> adds w' fs w'' \<Longrightarrow> adds w (es @ fs) w''" by (simp add: adds_def)

lemma record_event_simps [simp]:
  "w_busy (record_event e w) = w_busy w" "w_running (record_event e w) = w_running w" "w_infer (record_event e w) = w_infer w"
  "w_app (record_event e w) = w_app w" "w_trace (record_event e w) = w_trace w @ [(w_busy w, e)]"
  by (simp_all add: record_event_def)

lemma worker_request_simps [simp]:
  "worker_request W e w = (wh_answer W (w_trace w @ [(w_busy w, e)]), record_event e w)"
  by (simp add: worker_request_def Let_def)

lemma counts_append [simp]:
  "answers (es @ fs) = answers es + answers fs" "pulls (es @ fs) = pulls es + pulls fs"
  "losses (es @ fs) = losses es + losses fs" "answers [] = 0" "pulls [] = 0" "losses [] = 0"
  "answers (x # es) = (if is_answer (snd x) then 1 else 0) + answers es"
  "pulls (x # es) = (if is_pull (snd x) then 1 else 0) + pulls es"
  "losses (x # es) = (if is_loss (snd x) then 1 else 0) + losses es"
  by (simp_all add: answers_def pulls_def losses_def)

text \<open>
  A piece of work: it runs with the flag set, does not pull, and answers at most once, exactly once
  when it is processed.
\<close>

definition does_work :: "'p worker \<Rightarrow> (plane_error + work_pull_outcome) \<times> 'p worker \<Rightarrow> bool" where
  "does_work w out \<longleftrightarrow> (\<exists>es. adds w es (snd out) \<and> list_all done_busy es \<and> pulls es = 0 \<and> losses es = 0 \<and> answers es \<le> 1
     \<and> (isl (fst out) \<or> fst out = Inr Processed \<and> answers es = 1))"

lemma post_result_out:
  "post_result W path body ct hs w =
     (case wh_answer W (w_trace w @ [(w_busy w, WvPost path body ct hs)]) of Inl e \<Rightarrow> Inl e | Inr _ \<Rightarrow> Inr Processed,
      record_event (WvPost path body ct hs) w)"
  by (simp add: post_result_def split: sum.split)

lemma does_workI:
  assumes "adds w es w1" "list_all done_busy es" "pulls es = 0 \<and> losses es = 0" "answers es = 0" "w_busy w1"
  shows "does_work w (post_result W path body ct hs w1)"
  unfolding does_work_def using assms
  by (intro exI [of _ "es @ [(True, WvPost path body ct hs)]"]) (auto simp: post_result_out adds_def done_busy_def split: sum.split)

lemma challenge_work_result_adds:
  assumes "challenge_work_result W cfg body w = (r, w1)" and "w_busy w"
  shows "\<exists>es. adds w es w1 \<and> list_all done_busy es \<and> pulls es = 0 \<and> losses es = 0 \<and> answers es = 0 \<and> w_busy w1 \<and> w_infer w1 = w_infer w"
  using assms
  by (auto simp: challenge_work_result_def adds_def done_busy_def Let_def split: sum.splits if_splits option.splits prod.splits)

lemma ops_work_result_adds:
  assumes "ops_work_result W cfg body w = (r, w1)" and "w_busy w"
  shows "\<exists>es. adds w es w1 \<and> list_all done_busy es \<and> pulls es = 0 \<and> losses es = 0 \<and> answers es = 0 \<and> w_busy w1 \<and> w_infer w1 = w_infer w"
  using assms
  by (auto simp: ops_work_result_def adds_def done_busy_def Let_def split: sum.splits if_splits option.splits prod.splits)

lemma challenge_does_work: "w_busy w \<Longrightarrow> does_work w (answer_challenge_work W cfg i body w)"
  by (cases "challenge_work_result W cfg body w")
    (auto simp: answer_challenge_work_def split: prod.split dest!: challenge_work_result_adds intro: does_workI)

lemma ops_does_work: "w_busy w \<Longrightarrow> does_work w (answer_ops_control_work W cfg i body w)"
  by (cases "ops_work_result W cfg body w")
    (auto simp: answer_ops_control_work_def Let_def split: prod.split dest!: ops_work_result_adds intro: does_workI)

lemma run_inference_simps [simp]:
  "w_busy (snd (run_inference W cfg i env w)) = w_busy w"
  "w_running (snd (run_inference W cfg i env w)) = w_running w"
  "w_app (snd (run_inference W cfg i env w)) = w_app w"
  "w_trace (snd (run_inference W cfg i env w)) = w_trace w @ [(w_busy w, WvInfer env)]"
  by (simp_all add: run_inference_def Let_def split: prod.split)

lemma non_streaming_does_work: "w_busy w \<Longrightarrow> does_work w (non_streaming_work W cfg i env w)"
  using run_inference_simps [of W cfg i env w]
  by (cases "run_inference W cfg i env w") (auto simp: non_streaming_work_def Let_def adds_def done_busy_def
      split: prod.split intro!: does_workI [of w "[(True, WvInfer env)]"])

lemma streaming_does_work:
  assumes "w_busy w"
  shows "does_work w (streaming_work W cfg i env w)"
proof -
  let ?w = "record_event (WvOpen (result_headers W cfg i 200)) w"
  let ?es = "[(True, WvOpen (result_headers W cfg i 200))]"
  obtain result frames w1 where run: "run_inference W cfg i env ?w = ((result, frames), w1)" by (metis prod.collapse)
  have tr: "w_busy w1" "w_running w1 = w_running w" "w_trace w1 = w_trace w @ ?es @ [(True, WvInfer env)]"
    using run_inference_simps [of W cfg i env ?w] run assms by simp_all
  show ?thesis
  proof (cases "wh_open W (w_trace ?w)")
    case (Inl e)
    then show ?thesis using assms unfolding does_work_def
      by (intro exI [of _ ?es]) (simp add: streaming_work_def Let_def adds_def done_busy_def)
  next
    case (Inr u)
    show ?thesis
    proof (cases "oir_status result < 400 \<and> str_contains (oir_content_type result) ''ope+json-stream''")
      case True
      then show ?thesis using run tr assms Inr unfolding does_work_def
        by (intro exI [of _ "?es @ [(True, WvInfer env), (True, WvFrames frames), (True, WvFinish)]"])
          (auto simp: streaming_work_def Let_def adds_def done_busy_def split: sum.split)
    next
      case False
      have "does_work w (post_result W p b ct hs (record_event WvAbort (record_event (WvFrames frames) w1)))" for p b ct hs
        using tr assms by (intro does_workI [of w "?es @ [(True, WvInfer env), (True, WvFrames frames), (True, WvAbort)]"])
          (auto simp: adds_def done_busy_def)
      then show ?thesis using run False Inr by (auto simp: streaming_work_def Let_def)
    qed
  qed
qed

lemma note_desired_adds:
  "\<exists>es. adds w es (note_desired cfg r w) \<and> list_all done_busy es \<and> pulls es = 0 \<and> losses es = 0 \<and> answers es = 0
     \<and> w_busy (note_desired cfg r w) = w_busy w \<and> w_infer (note_desired cfg r w) = w_infer w"
  by (auto simp: note_desired_def adds_def done_busy_def Let_def split: option.split)

lemma answer_inference_does_work:
  "does_work (w\<lparr>w_busy := True\<rparr>) (fst (answer_inference_work W cfg i env w), snd (answer_inference_work W cfg i env w))
    \<and> (fst (answer_inference_work W cfg i env w) = Inr Processed \<longrightarrow> \<not> w_busy (snd (answer_inference_work W cfg i env w)))"
proof -
  let ?out = "(if is_gateway_plane_task_envelope env \<or> validate_ope_inference_envelope env \<noteq> GateOk
               then non_streaming_work else streaming_work) W cfg i env (w\<lparr>w_busy := True\<rparr>)"
  have "does_work (w\<lparr>w_busy := True\<rparr>) ?out" by (simp add: non_streaming_does_work streaming_does_work)
  then show ?thesis
    by (cases ?out) (auto simp: answer_inference_work_def Let_def does_work_def adds_def split: sum.splits)
qed

lemma while_busy_does_work:
  assumes "\<And>w. w_busy w \<Longrightarrow> does_work w (f w)"
  shows "does_work (w\<lparr>w_busy := True\<rparr>) (while_busy f w) \<and> \<not> w_busy (snd (while_busy f w))"
  using assms [of "w\<lparr>w_busy := True\<rparr>"]
  by (cases "f (w\<lparr>w_busy := True\<rparr>)") (auto simp: while_busy_def does_work_def adds_def)

text \<open>What one pull adds to the trace.\<close>

definition pull_ok :: "'p worker \<Rightarrow> (plane_error + work_pull_outcome) \<times> 'p worker \<Rightarrow> bool" where
  "pull_ok w = (\<lambda>(r, w'). \<exists>es. adds w es w' \<and> list_all done_busy es \<and> pulls es = 1 \<and> losses es = 0
     \<and> (case r of Inl e \<Rightarrow> answers es \<le> 1
        | Inr Idle \<Rightarrow> answers es = 0 \<and> w_busy w' = w_busy w
        | Inr Processed \<Rightarrow> answers es = 1 \<and> \<not> w_busy w'))"

lemma pull_ok_work:
  assumes "adds w es w1" "list_all done_busy es" "pulls es = 1 \<and> losses es = 0" "answers es = 0"
    and "does_work (w1\<lparr>w_busy := True\<rparr>) out" and "fst out = Inr Processed \<Longrightarrow> \<not> w_busy (snd out)"
  shows "pull_ok w out"
proof -
  obtain r w' fs where out: "out = (r, w')" and fs: "adds (w1\<lparr>w_busy := True\<rparr>) fs w'" "list_all done_busy fs" "pulls fs = 0 \<and> losses fs = 0"
    "answers fs \<le> 1" "isl r \<or> r = Inr Processed \<and> answers fs = 1"
    using assms(5) by (cases out) (auto simp: does_work_def)
  have "adds w (es @ fs) w'" using assms(1) fs(1) by (simp add: adds_def)
  then show ?thesis using assms fs out unfolding pull_ok_def
    by (auto simp: isl_def split: sum.split work_pull_outcome.split intro!: exI [of _ "es @ fs"])
qed

lemma pull_once_ok: "pull_ok w (pull_once W cfg w)"
proof (cases "wh_answer W (w_trace w @ [(w_busy w, WvPull)])")
  case (Inl e)
  then show ?thesis
    by (auto simp: pull_once_def pull_ok_def adds_def done_busy_def intro!: exI [of _ "[(w_busy w, WvPull)]"])
next
  case (Inr r)
  let ?w = "note_desired cfg r (record_event WvPull w)"
  obtain fs where fs: "adds (record_event WvPull w) fs ?w" "list_all done_busy fs" "pulls fs = 0 \<and> losses fs = 0" "answers fs = 0" "w_busy ?w = w_busy w"
    using note_desired_adds [of "record_event WvPull w" cfg r] by auto
  define es where "es = (w_busy w, WvPull) # fs"
  have es: "adds w es ?w" "list_all done_busy es" "pulls es = 1 \<and> losses es = 0" "answers es = 0"
    using fs by (simp_all add: es_def adds_def done_busy_def)
  note work = pull_ok_work [OF es]
  have idle: "pull_ok w (Inr Idle, ?w)" and failed: "pull_ok w (Inl e, ?w)" for e
    using es fs(5) by (auto simp: pull_ok_def)
  have "pull_ok w (while_busy (answer_challenge_work W cfg i body) ?w)" for i body
    using while_busy_does_work [OF challenge_does_work, of ?w] by (intro work) auto
  moreover have "pull_ok w (while_busy (answer_ops_control_work W cfg i body) ?w)" for i body
    using while_busy_does_work [OF ops_does_work, of ?w] by (intro work) auto
  moreover have "pull_ok w (answer_inference_work W cfg i env ?w)" for i env
    using answer_inference_does_work [of ?w W cfg i env] by (intro work) auto
  ultimately show ?thesis
    using idle failed by (simp add: pull_once_def Inr Let_def split: sum.split traffic_class_consistency.split)
qed

text \<open>
  (C10) A pull does its work under the busy flag: everything it does for the gateway is done with the
  flag set, it polls once, answers a processed piece of work exactly once and clears the flag, and
  answers nothing and leaves the flag alone when there is no work.
\<close>

theorem pull_works_while_busy:
  "case pull_once W cfg w of (r, w') \<Rightarrow> \<exists>es. w_trace w' = w_trace w @ es \<and> list_all done_busy es \<and> pulls es = 1
     \<and> (case r of Inl e \<Rightarrow> answers es \<le> 1
        | Inr Idle \<Rightarrow> answers es = 0 \<and> w_busy w' = w_busy w
        | Inr Processed \<Rightarrow> answers es = 1 \<and> \<not> w_busy w')"
  using pull_once_ok [of w W cfg] unfolding pull_ok_def adds_def split_def by blast

subsection \<open>The answer of an inference\<close>

definition result_shape :: "infer_host \<Rightarrow> ope_inference_result \<Rightarrow> bool" where
  "result_shape H r \<longleftrightarrow> oir_content_type r = ''application/json''
     \<or> oir_content_type r = ih_ope_json_stream H \<and> oir_body r = [] \<and> (oir_status r = 200 \<or> oir_status r = 502)"

lemma shape_results [simp]:
  "result_shape H (error_result H status e d)" "result_shape H (vllm_upstream_failed_result H err)"
  "result_shape H (embeddings_upstream_failed_result H err)"
  "result_shape H (run_gateway_plane_task_inference H env base k i)"
  "result_shape H (fst (finish_reply H True share n uhdr rp))"
  by (auto simp: result_shape_def error_result_def json_result_def vllm_upstream_failed_result_def
      embeddings_upstream_failed_result_def run_gateway_plane_task_inference_def finish_reply_def Let_def split: sum.split)

lemma shape_chat_stream: "result_shape H (fst (chat_stream H True options env plan legacy pv resp x))"
proof -
  obtain deltas err stream where "x = (deltas, err, stream)" by (cases x)
  then show ?thesis by (simp add: chat_stream_def Let_def result_shape_def [of H "\<lparr>oir_status = _, oir_content_type = _, oir_body = _, oir_usage_header = _\<rparr>"] split: option.split)
qed

lemma shape_chat: "result_shape H (fst (run_chat_inference H True env payload options handle st))"
  using shape_chat_stream by (simp add: run_chat_inference_def Let_def split_def split: sum.split)

lemma shape_embeddings: "result_shape H (fst (run_embeddings_inference H True env payload options u st))"
  by (simp add: run_embeddings_inference_def Let_def split_def split: sum.split)

lemma shape_run: "result_shape H (fst (run_ope_inference_on_envelope H True env options st))"
proof -
  obtain a st1 where admit: "admit_envelope H env st = (a, st1)" by fastforce
  then have refused: "result_shape H r" if "a = Some r" for r
    using that by (auto simp: admit_envelope_def split: option.splits prod.splits sum.splits crypto_error.splits)
  have decrypted: "result_shape H (fst (run_decrypted H True env options handle payload st1))" for handle payload
    using shape_chat shape_embeddings by (simp add: run_decrypted_def split: option.split)
  show ?thesis
    using refused decrypted
    by (simp add: run_ope_inference_on_envelope_def admit split_def Let_def split: gate_result.split option.split sum.split)
qed

lemma run_inference_out:
  "run_inference W cfg i env w = ((result, frames), w1) \<longleftrightarrow>
     (\<exists>st. run_ope_inference_on_envelope (wh_infer W (w_trace w @ [(w_busy w, WvInfer env)])) True env
        ((wc_inference cfg)\<lparr>oo_request_id := Some i\<rparr>) (w_infer w) = (result, frames, st)
      \<and> w1 = (record_event (WvInfer env) w)\<lparr>w_infer := st\<rparr>)"
  by (auto simp: run_inference_def Let_def split: prod.split)

lemma post_processed:
  "post_result W path body ct hs w = (Inr Processed, w') \<Longrightarrow> w' = record_event (WvPost path body ct hs) w"
  by (auto simp: post_result_out split: sum.splits)

lemma not_json_stream: "\<not> str_contains ''application/json'' ''ope+json-stream''"
  by code_simp


text \<open>
  A chat that breaks off after output leaves the gateway with nothing: the stream that carried the
  output is aborted, and what is posted in its place is an empty body declared as JSON.
\<close>

theorem broken_stream_loses_its_output:
  assumes "run_ope_inference_on_envelope (wh_infer W (w_trace w @ [(True, WvOpen (result_headers W cfg i 200)), (True, WvInfer env)]))
      True env ((wc_inference cfg)\<lparr>oo_request_id := Some i\<rparr>) (w_infer w) = (result, frames, st)"
    and "oir_status result = 502" and "oir_content_type result \<noteq> ''application/json''"
    and "answer_inference_work W cfg i env w = (Inr Processed, w')"
    and "\<not> is_gateway_plane_task_envelope env" and "validate_ope_inference_envelope env = GateOk"
  shows "w_trace w' = w_trace w @ [(True, WvOpen (result_headers W cfg i 200)), (True, WvInfer env), (True, WvFrames frames), (True, WvAbort),
      (True, WvPost (wn_inference_result (wh_names W)) (PayText []) ''application/json''
         (result_headers W cfg i 502 @ usage_headers W result))]"
proof -
  let ?v = "record_event (WvOpen (result_headers W cfg i 200)) (w\<lparr>w_busy := True\<rparr>)"
  have run: "run_inference W cfg i env ?v = ((result, frames), (record_event (WvInfer env) ?v)\<lparr>w_infer := st\<rparr>)"
    using assms(1) by (simp add: run_inference_out)
  have "oir_body result = []" using shape_run assms(1,3) unfolding result_shape_def by (metis fst_conv)
  moreover obtain w2 where "streaming_work W cfg i env (w\<lparr>w_busy := True\<rparr>) = (Inr Processed, w2)" "w' = w2\<lparr>w_busy := False\<rparr>"
    using assms(4-6) by (auto simp: answer_inference_work_def Let_def split: prod.splits sum.splits)
  ultimately show ?thesis
    using run assms(2) by (auto simp: streaming_work_def Let_def split: sum.splits dest!: post_processed)
qed

subsection \<open>What is run\<close>

text \<open>Answering challenges and control requests runs no inference.\<close>

definition infers :: "worker_trace \<Rightarrow> ope_envelope list" where
  "infers tr = concat (map (\<lambda>x. case snd x of WvInfer env \<Rightarrow> [env] | _ \<Rightarrow> []) tr)"

lemma infers_simps [simp]:
  "infers [] = []" "infers (es @ fs) = infers es @ infers fs"
  "infers (x # es) = (case snd x of WvInfer env \<Rightarrow> [env] | _ \<Rightarrow> []) @ infers es"
  by (simp_all add: infers_def)

lemma post_result_infers [simp]:
  "infers (w_trace (snd (post_result W path body ct hs w))) = infers (w_trace w)"
  "w_infer (snd (post_result W path body ct hs w)) = w_infer w"
  by (simp_all add: post_result_out)

lemma challenge_infers:
  "infers (w_trace (snd (answer_challenge_work W cfg i body w))) = infers (w_trace w)
   \<and> w_infer (snd (answer_challenge_work W cfg i body w)) = w_infer w"
  by (auto simp: answer_challenge_work_def challenge_work_result_def Let_def split: prod.splits sum.splits if_splits option.splits)

lemma ops_infers:
  "infers (w_trace (snd (answer_ops_control_work W cfg i body w))) = infers (w_trace w)
   \<and> w_infer (snd (answer_ops_control_work W cfg i body w)) = w_infer w"
  by (auto simp: answer_ops_control_work_def ops_work_result_def Let_def split: prod.splits sum.splits if_splits option.splits)

lemma while_busy_infers:
  assumes "\<And>w. infers (w_trace (snd (f w))) = infers (w_trace w) \<and> w_infer (snd (f w)) = w_infer w"
  shows "infers (w_trace (snd (while_busy f w))) = infers (w_trace w) \<and> w_infer (snd (while_busy f w)) = w_infer w"
  using assms [of "w\<lparr>w_busy := True\<rparr>"] by (simp add: while_busy_def split_def Let_def)

lemma note_desired_infers [simp]:
  "infers (w_trace (note_desired cfg r w)) = infers (w_trace w)" "w_infer (note_desired cfg r w) = w_infer w"
  by (simp_all add: note_desired_def Let_def split: option.split)

lemma answer_inference_infers:
  "\<exists>runs. infers (w_trace (snd (answer_inference_work W cfg i env w))) = infers (w_trace w) @ runs \<and> set runs \<subseteq> {env}"
proof -
  obtain result frames w1 where run: "run_inference W cfg i env (w\<lparr>w_busy := True\<rparr>) = ((result, frames), w1)" by (metis prod.collapse)
  have "infers (w_trace w1) = infers (w_trace w) @ [env]" using run by (auto simp: run_inference_out)
  then have plain: "infers (w_trace (snd (non_streaming_work W cfg i env (w\<lparr>w_busy := True\<rparr>)))) = infers (w_trace w) @ [env]"
    using run by (simp add: non_streaming_work_def Let_def)
  let ?v = "record_event (WvOpen (result_headers W cfg i 200)) (w\<lparr>w_busy := True\<rparr>)"
  obtain result' frames' w2 where run2: "run_inference W cfg i env ?v = ((result', frames'), w2)" by (metis prod.collapse)
  then have "infers (w_trace w2) = infers (w_trace w) @ [env]" by (auto simp: run_inference_out)
  then have "\<exists>runs. infers (w_trace (snd (streaming_work W cfg i env (w\<lparr>w_busy := True\<rparr>)))) = infers (w_trace w) @ runs \<and> set runs \<subseteq> {env}"
    using run2 by (auto simp: streaming_work_def Let_def split: sum.split)
  with plain show ?thesis
    by (auto simp: answer_inference_work_def Let_def split_def split: sum.split)
qed

text \<open>
  (C17) Only classified work reaches inference: whatever a pull decrypts and runs is the envelope the
  gateway has just assigned, in a non-empty 200 response with a request id, of neither special kind, whose traffic
  class in the header agrees with the envelope's own.
\<close>

theorem only_classified_work_is_run:
  assumes "pull_once W cfg w = (r, w')" and "(b, WvInfer env) \<in> set (drop (length (w_trace w)) (w_trace w'))"
  shows "\<exists>resp. wh_answer W (w_trace w @ [(w_busy w, WvPull)]) = Inr resp \<and> br_status resp = 200 \<and> br_body resp \<noteq> []
    \<and> (\<exists>i. header_value resp (wn_request (wh_names W)) = Some i \<and> i \<noteq> [])
    \<and> header_value resp (wn_work_kind (wh_names W)) \<notin> {Some (wn_challenge (wh_names W)), Some (wn_ops_control (wh_names W))}
    \<and> wh_envelope W (br_body resp) = Inr env
    \<and> wh_traffic_class W (header_value resp (wn_traffic_class (wh_names W))) (envelope_traffic_class env) = TrafficOk"
proof -
  obtain es where es: "w_trace w' = w_trace w @ es"
    using pull_once_ok [of w W cfg] assms(1) by (auto simp: pull_ok_def adds_def)
  then have "env \<in> set (infers es)" using assms(2) by (force simp: infers_def)
  then have ran: "infers (w_trace w') \<noteq> infers (w_trace w)" and new: "env \<in> set (drop (length (infers (w_trace w))) (infers (w_trace w')))"
    using es by auto
  show ?thesis
  proof (cases "wh_answer W (w_trace w @ [(w_busy w, WvPull)])")
    case (Inl e)
    then show ?thesis using assms(1) ran by (auto simp: pull_once_def)
  next
    case (Inr resp)
    let ?w = "note_desired cfg resp (record_event WvPull w)"
    have base: "infers (w_trace ?w) = infers (w_trace w)" by simp
    have quiet: "infers (w_trace (snd (while_busy (answer_challenge_work W cfg i body) ?w))) = infers (w_trace w)"
      "infers (w_trace (snd (while_busy (answer_ops_control_work W cfg i body) ?w))) = infers (w_trace w)" for i body
      using while_busy_infers [of "answer_challenge_work W cfg i body" ?w, OF challenge_infers]
        while_busy_infers [of "answer_ops_control_work W cfg i body" ?w, OF ops_infers] by simp_all
    let ?i = "case header_value resp (wn_request (wh_names W)) of None \<Rightarrow> [] | Some i \<Rightarrow> i"
    have work: "br_status resp = 200" "br_body resp \<noteq> []" "?i \<noteq> []"
      "header_value resp (wn_work_kind (wh_names W)) \<noteq> Some (wn_challenge (wh_names W))"
      "header_value resp (wn_work_kind (wh_names W)) \<noteq> Some (wn_ops_control (wh_names W))"
      using assms(1) ran quiet base by (auto simp: pull_once_def Inr Let_def split: if_splits) (metis snd_conv)+
    then obtain env' where env': "wh_envelope W (br_body resp) = Inr env'"
      "wh_traffic_class W (header_value resp (wn_traffic_class (wh_names W))) (envelope_traffic_class env') = TrafficOk"
      "answer_inference_work W cfg ?i env' ?w = (r, w')"
      using assms(1) ran base by (auto simp: pull_once_def Inr Let_def split: sum.splits traffic_class_consistency.splits)
    then have "env' = env"
      using answer_inference_infers [of W cfg ?i env' ?w] new base by auto
    then show ?thesis using Inr work env' by (auto split: option.splits)
  qed
qed

subsection \<open>Response sessions\<close>

lemma run_inference_sessions:
  "provider_wf (is_provider (w_infer w)) \<Longrightarrow>
   live_sessions (is_provider (w_infer (snd (run_inference W cfg i env w)))) = live_sessions (is_provider (w_infer w))"
  using run_balances_sessions [of "w_infer w" "wh_infer W (w_trace w @ [(w_busy w, WvInfer env)])" True env
      "(wc_inference cfg)\<lparr>oo_request_id := Some i\<rparr>"]
  by (auto simp: run_inference_def Let_def split: prod.splits)

lemma answer_inference_sessions:
  assumes "provider_wf (is_provider (w_infer w))"
  shows "live_sessions (is_provider (w_infer (snd (answer_inference_work W cfg i env w)))) = live_sessions (is_provider (w_infer w))"
proof -
  have plain: "live_sessions (is_provider (w_infer (snd (non_streaming_work W cfg i env v)))) = live_sessions (is_provider (w_infer w))"
    if "w_infer v = w_infer w" for v
    using run_inference_sessions [of v W cfg i env] assms that
    by (cases "run_inference W cfg i env v") (auto simp: non_streaming_work_def Let_def split: prod.splits)
  have "live_sessions (is_provider (w_infer (snd (streaming_work W cfg i env v)))) = live_sessions (is_provider (w_infer w))"
    if "w_infer v = w_infer w" for v
    using run_inference_sessions [of "record_event (WvOpen (result_headers W cfg i 200)) v" W cfg i env] assms that
    by (cases "run_inference W cfg i env (record_event (WvOpen (result_headers W cfg i 200)) v)")
      (auto simp: streaming_work_def Let_def split: prod.splits sum.splits)
  with plain show ?thesis
    by (auto simp: answer_inference_work_def Let_def split_def split: sum.split)
qed

text \<open>
  A pull leaves the response sessions of the crypto provider as it found them, whatever the
  gateway assigned and however the work ended.
\<close>

theorem pull_keeps_response_sessions:
  assumes "provider_wf (is_provider (w_infer w))"
  shows "live_sessions (is_provider (w_infer (snd (pull_once W cfg w)))) = live_sessions (is_provider (w_infer w))"
proof (cases "wh_answer W (w_trace w @ [(w_busy w, WvPull)])")
  case (Inl e)
  then show ?thesis by (simp add: pull_once_def)
next
  case (Inr resp)
  let ?w = "note_desired cfg resp (record_event WvPull w)"
  have "w_infer (snd (while_busy (answer_challenge_work W cfg i body) ?w)) = w_infer w"
    "w_infer (snd (while_busy (answer_ops_control_work W cfg i body) ?w)) = w_infer w" for i body
    using while_busy_infers [of "answer_challenge_work W cfg i body" ?w, OF challenge_infers]
      while_busy_infers [of "answer_ops_control_work W cfg i body" ?w, OF ops_infers] by simp_all
  then show ?thesis
    using answer_inference_sessions [of ?w W cfg] assms
    by (simp add: pull_once_def Inr Let_def split: sum.split traffic_class_consistency.split)
qed

subsection \<open>The worker\<close>

definition worker_wf :: "'p worker \<Rightarrow> bool" where
  "worker_wf w \<longleftrightarrow> list_all done_busy (w_trace w) \<and> losses (w_trace w) \<le> 1 \<and> (w_running w \<longrightarrow> losses (w_trace w) = 0)"

lemma pull_once_wf:
  assumes "worker_wf w" and "w_running w" and "pull_once W cfg w = (r, w')"
  shows "list_all done_busy (w_trace w') \<and> losses (w_trace w') = 0 \<and> w_running w'"
  using pull_once_ok [of w W cfg] assms unfolding pull_ok_def adds_def worker_wf_def by fastforce

lemma transport_lost_wf:
  assumes "list_all done_busy (w_trace w) \<and> losses (w_trace w) = 0"
  shows "worker_wf (transport_lost cfg w)"
  using assms by (simp add: transport_lost_def worker_wf_def done_busy_def Let_def split: option.split)

lemma worker_turn_wf:
  assumes "worker_wf w"
  shows "worker_wf (worker_turn W cfg w)"
proof (cases "w_running w")
  case True
  obtain r w' where pull: "pull_once W cfg w = (r, w')" by fastforce
  from pull_once_wf [OF assms True this] show ?thesis
    using assms True pull transport_lost_wf [of w cfg] transport_lost_wf [of w' cfg]
    by (auto simp: worker_turn_def worker_wf_def done_busy_def split: sum.split work_pull_outcome.split)
qed (use assms in \<open>simp add: worker_turn_def\<close>)

text \<open>
  Between two turns the other sessions' workers may change what the workers share: the state of the
  inference and the state behind the handlers.
\<close>

inductive worker_step :: "worker_host \<Rightarrow> 'p worker_config \<Rightarrow> 'p worker \<Rightarrow> 'p worker \<Rightarrow> bool" for W cfg where
  turn: "worker_step W cfg w (worker_turn W cfg (w\<lparr>w_infer := st, w_app := app\<rparr>))"

definition worker_init :: "'p worker \<Rightarrow> bool" where
  "worker_init w \<longleftrightarrow> w = worker_new (w_infer w) (w_app w)"

interpretation worker_machine: state_machine worker_init "worker_step W cfg" worker_wf for W cfg
proof
  show "worker_wf w" if "worker_init w" for w :: "'a worker"
  proof -
    have "w_trace w = []" using that unfolding worker_init_def by (metis worker.select_convs(5) worker_new_def)
    then show ?thesis by (simp add: worker_wf_def)
  qed
  show "worker_wf t" if "worker_wf s" "worker_step W cfg s t" for s t :: "'a worker"
    using that(2)
  proof cases
    case (turn app st)
    have "worker_wf (s\<lparr>w_infer := st, w_app := app\<rparr>)" using that(1) by (simp add: worker_wf_def)
    then show ?thesis unfolding turn by (rule worker_turn_wf)
  qed
qed

text \<open>
  Whatever the other workers do between its turns, a worker reports the loss of its transport at
  most once and has ended when it has, and everything it ever did for the gateway was done with the
  busy flag set.
\<close>

theorem worker_reports_loss_once:
  assumes "reachable worker_init (worker_step W cfg) w"
  shows "losses (w_trace w) \<le> 1 \<and> (0 < losses (w_trace w) \<longrightarrow> \<not> w_running w) \<and> list_all done_busy (w_trace w)"
  using worker_machine.reachable_inv [OF assms] by (auto simp: worker_wf_def)

subsection \<open>Samples\<close>

text \<open>
  A gateway that assigns one envelope, which fails the gate, has nothing more to do afterwards, and
  whose result endpoint works or not.
\<close>

definition sample_names :: worker_names where
  "sample_names = \<lparr>wn_session = ''s'', wn_request = ''r'', wn_traffic_class = ''t'', wn_work_kind = ''k'', wn_usage_report = ''u'',
     wn_challenge = ''c'', wn_ops_control = ''o'', wn_challenge_result = ''/c'', wn_ops_control_result = ''/o'', wn_inference_result = ''/i''\<rparr>"

definition sample_answer :: "bool \<Rightarrow> worker_trace \<Rightarrow> plane_error + bytes_response" where
  "sample_answer works tr =
     (if is_answer (snd (last tr)) then (if works then Inr \<lparr>br_status = 200, br_headers = [], br_body = []\<rparr> else Inl PDisconnectTimeout)
      else if pulls tr = 1 then Inr \<lparr>br_status = 200, br_headers = [(''r'', ''req'')], br_body = [1]\<rparr>
      else Inr \<lparr>br_status = 204, br_headers = [], br_body = []\<rparr>)"

definition sample_worker_host :: "bool \<Rightarrow> ope_envelope \<Rightarrow> worker_host" where
  "sample_worker_host works env = \<lparr>wh_names = sample_names, wh_infer = (\<lambda>_. sample_infer_host), wh_answer = sample_answer works,
     wh_open = (\<lambda>_. Inr ()), wh_closed = (\<lambda>_. False), wh_stopped = (\<lambda>_. False), wh_challenge_request = (\<lambda>_. Inl ''json''),
     wh_ops_request = (\<lambda>_. Inl ''json''), wh_envelope = (\<lambda>_. Inr env), wh_traffic_class = (\<lambda>_ _. TrafficOk)\<rparr>"

definition sample_worker_config :: "unit worker_config" where
  "sample_worker_config = \<lparr>wc_session_id = ''x'', wc_inference = sample_options, wc_on_desired = None, wc_answer_challenge = None,
     wc_answer_ops_control = None, wc_on_lost = None\<rparr>"

definition sample_plain_envelope :: ope_envelope where
  "sample_plain_envelope = sample_e2e_envelope\<lparr>oe_ciphertext := None\<rparr>"

definition sample_start :: "unit worker" where
  "sample_start = worker_new sample_infer_state ()"

lemma sample_no_desired: "parse_desired_pool_target_header (header_value \<lparr>br_status = st, br_headers = [], br_body = b\<rparr> name) = None"
  by (simp add: header_value_def parse_desired_pool_target_header_def)

lemma sample_rejected: "validate_ope_inference_envelope sample_plain_envelope \<noteq> GateOk"
  by code_simp


definition sample_delivered :: "(plane_error + work_pull_outcome) \<times> unit worker" where
  "sample_delivered = answer_inference_work (sample_worker_host True sample_e2e_envelope) sample_worker_config ''req'' sample_e2e_envelope sample_start"

lemma sample_delivered_ok: "fst sample_delivered = Inr Processed"
  by code_simp


theorem only_classified_work_is_run_witness:
  "\<exists>resp. wh_answer (sample_worker_host True sample_plain_envelope) [(False, WvPull)] = Inr resp
    \<and> wh_envelope (sample_worker_host True sample_plain_envelope) (br_body resp) = Inr sample_plain_envelope"
proof -
  let ?W = "sample_worker_host True sample_plain_envelope"
  obtain r w' where pull: "pull_once ?W sample_worker_config sample_start = (r, w')" by fastforce
  have "infers (w_trace (snd (pull_once ?W sample_worker_config sample_start))) \<noteq> []" by code_simp
  then obtain x where "x \<in> set (w_trace w')" "(case snd x of WvInfer env \<Rightarrow> [env] | _ \<Rightarrow> []) \<noteq> []"
    using pull by (auto simp: infers_def)
  then obtain env where "snd x = WvInfer env" by (auto split: worker_event.splits)
  then obtain b where "(b, WvInfer env) \<in> set (w_trace w')" using \<open>x \<in> set (w_trace w')\<close> by (metis prod.collapse)
  then have "(b, WvInfer env) \<in> set (drop (length (w_trace sample_start)) (w_trace w'))"
    by (simp add: sample_start_def worker_new_def)
  from only_classified_work_is_run [OF pull this] show ?thesis
    by (auto simp: sample_start_def worker_new_def sample_worker_host_def)
qed

theorem pull_keeps_response_sessions_witness:
  "live_sessions (is_provider (w_infer (snd (pull_once (sample_worker_host True sample_e2e_envelope) sample_worker_config sample_start))))
   = live_sessions (is_provider sample_infer_state)"
proof -
  have start: "w_infer sample_start = sample_infer_state" by (simp add: sample_start_def worker_new_def)
  have "provider_wf (is_provider (w_infer sample_start))" by (simp add: start sample_infer_state_def sample_real_state_def)
  from pull_keeps_response_sessions [OF this] show ?thesis by (simp add: start)
qed

theorem worker_reports_loss_once_witness:
  "\<exists>w :: unit worker. losses (w_trace w) = 1 \<and> losses (w_trace w) \<le> 1 \<and> \<not> w_running w \<and> list_all done_busy (w_trace w)"
proof -
  let ?W = "(sample_worker_host True sample_e2e_envelope)\<lparr>wh_closed := (\<lambda>_. True)\<rparr>"
  let ?cfg = "sample_worker_config\<lparr>wc_on_lost := Some id\<rparr>"
  define w where "w = worker_turn ?W ?cfg (sample_start\<lparr>w_infer := sample_infer_state, w_app := ()\<rparr>)"
  have "worker_init sample_start" by (simp add: worker_init_def sample_start_def worker_new_def)
  then have "reachable worker_init (worker_step ?W ?cfg) w"
    unfolding w_def by (blast intro: reachable_init reachable_step turn)
  from worker_reports_loss_once [OF this] have "\<not> w_running w \<and> list_all done_busy (w_trace w)" if "losses (w_trace w) = 1"
    using that by simp
  moreover have "losses (w_trace w) = 1"
    by (simp add: w_def worker_turn_def sample_start_def worker_new_def sample_worker_host_def transport_lost_def Let_def)
  ultimately show ?thesis by (metis order_refl)
qed

text \<open>An upstream that fails after a first piece of text.\<close>

definition sample_broken_host :: infer_host where
  "sample_broken_host = sample_infer_host\<lparr>ih_upstream := sample_chat_upstream
     \<lparr>uh_post := (\<lambda>url key body. Inr \<lparr>hr_status = 200, hr_chunks = [Inr (map of_char ''data:more than eight''), Inr [10], Inl ''gone'']\<rparr>)\<rparr>\<rparr>"

definition sample_broken_worker_host :: worker_host where
  "sample_broken_worker_host = (sample_worker_host True sample_e2e_envelope)\<lparr>wh_infer := (\<lambda>_. sample_broken_host)\<rparr>"

definition sample_broken_run :: "ope_inference_result \<times> ope_stream_frame list \<times> infer_state" where
  "sample_broken_run = run_ope_inference_on_envelope sample_broken_host True sample_e2e_envelope
     (sample_options\<lparr>oo_request_id := Some ''req''\<rparr>) sample_infer_state"

lemma sample_broken:
  "oir_status (fst sample_broken_run) = 502" "oir_content_type (fst sample_broken_run) \<noteq> ''application/json''"
  "fst (snd sample_broken_run) \<noteq> []"
  "fst (answer_inference_work sample_broken_worker_host sample_worker_config ''req'' sample_e2e_envelope sample_start) = Inr Processed"
  "validate_ope_inference_envelope sample_e2e_envelope = GateOk"
  by code_simp+

theorem broken_stream_loses_its_output_witness:
  "\<exists>frames hs. frames \<noteq> [] \<and> w_trace (snd (answer_inference_work sample_broken_worker_host sample_worker_config ''req'' sample_e2e_envelope sample_start))
    = [(True, WvOpen (result_headers sample_broken_worker_host sample_worker_config ''req'' 200)), (True, WvInfer sample_e2e_envelope),
       (True, WvFrames frames), (True, WvAbort), (True, WvPost ''/i'' (PayText []) ''application/json'' hs)]"
proof -
  obtain result frames st where run: "sample_broken_run = (result, frames, st)" by (cases sample_broken_run)
  then have result: "oir_status result = 502" "oir_content_type result \<noteq> ''application/json''" "frames \<noteq> []"
    using sample_broken(1-3) by (metis fst_conv snd_conv)+
  have "answer_inference_work sample_broken_worker_host sample_worker_config ''req'' sample_e2e_envelope sample_start
      = (Inr Processed, snd (answer_inference_work sample_broken_worker_host sample_worker_config ''req'' sample_e2e_envelope sample_start))"
    using sample_broken(4) by (metis prod.collapse)
  moreover have "\<not> is_gateway_plane_task_envelope sample_e2e_envelope"
    by (simp add: is_gateway_plane_task_envelope_def sample_e2e_envelope_def)
  moreover have "run_ope_inference_on_envelope (wh_infer sample_broken_worker_host tr) True sample_e2e_envelope
      ((wc_inference sample_worker_config)\<lparr>oo_request_id := Some ''req''\<rparr>) (w_infer sample_start) = (result, frames, st)" for tr
    using run by (simp add: sample_broken_run_def sample_broken_worker_host_def sample_worker_config_def sample_start_def worker_new_def)
  ultimately have "w_trace (snd (answer_inference_work sample_broken_worker_host sample_worker_config ''req'' sample_e2e_envelope sample_start))
    = w_trace sample_start @ [(True, WvOpen (result_headers sample_broken_worker_host sample_worker_config ''req'' 200)), (True, WvInfer sample_e2e_envelope),
       (True, WvFrames frames), (True, WvAbort), (True, WvPost (wn_inference_result (wh_names sample_broken_worker_host)) (PayText []) ''application/json''
         (result_headers sample_broken_worker_host sample_worker_config ''req'' 502 @ usage_headers sample_broken_worker_host result))]"
    using sample_broken(5) result(1,2) by (intro broken_stream_loses_its_output) assumption+
  then show ?thesis using result(3)
    by (simp add: sample_start_def worker_new_def sample_broken_worker_host_def sample_worker_host_def sample_names_def)
qed

end
