(* ===== verification/Engine_Properties.thy ===== *)
theory Engine_Properties
  imports Engine_Main Pull_Properties
begin

section \<open>Properties of the engine process\<close>

text \<open>
  What the environment files and settings guarantee, that no worker pulls before the epoch is
  registered, what a challenge answered through a worker states, and when GPU evidence is collected.
\<close>

subsection \<open>Environment files\<close>

lemma load_env_line_extends: "load_env_line l env = Some env' \<Longrightarrow> env \<subseteq>\<^sub>m env'"
  by (auto simp: load_env_line_def Let_def map_le_def split: if_splits option.splits prod.splits)

lemma load_env_lines_extends: "load_env_lines ls env = Some env' \<Longrightarrow> env \<subseteq>\<^sub>m env'"
proof (induction ls arbitrary: env)
  case (Cons l ls)
  then obtain e where "load_env_line l env = Some e" "load_env_lines ls e = Some env'" by (auto split: option.splits)
  with Cons.IH load_env_line_extends show ?case by (blast intro: map_le_trans)
qed simp

lemma load_env_files_extends: "load_env_files files ps env = Some env' \<Longrightarrow> env \<subseteq>\<^sub>m env'"
proof (induction ps arbitrary: env)
  case (Cons p ps)
  then obtain e where e: "load_env_file files p env = Some e" "load_env_files files ps e = Some env'" by (auto split: option.splits)
  then have "env \<subseteq>\<^sub>m e" by (auto simp: load_env_file_def load_env_lines_extends split: option.splits)
  with Cons.IH e(2) show ?case by (blast intro: map_le_trans)
qed simp

text \<open>
  Loading the environment files only fills gaps: a variable of the process is never overridden, and
  what \<^verbatim>\<open>.env\<close> has set is not overridden by a later file.
\<close>

theorem env_files_only_fill_gaps:
  assumes "load_engine_env_files files exists_path cwd seed = Some env"
  shows "\<exists>first. load_env_file files (path_join cwd ''.env'') seed = Some first \<and> seed \<subseteq>\<^sub>m first \<and> first \<subseteq>\<^sub>m env"
proof -
  obtain rest where "load_env_files files (path_join cwd ''.env'' # rest) seed = Some env"
    using assms by (auto simp: load_engine_env_files_def Let_def split: if_splits)
  then obtain e where e: "load_env_file files (path_join cwd ''.env'') seed = Some e" "load_env_files files rest e = Some env"
    by (auto split: option.splits)
  then have "seed \<subseteq>\<^sub>m e" by (auto simp: load_env_file_def load_env_lines_extends split: option.splits)
  then show ?thesis using e load_env_files_extends by blast
qed

lemma unquote_None: "unquote v = None \<longleftrightarrow> v = [CHR 0x22] \<or> v = [CHR 0x27]"
  by (cases v; cases "tl v") (auto simp: unquote_def quoted_by_def ends_with_def)

text \<open>
  A line panics exactly when it sets a fresh variable to a single quote character.
\<close>

theorem env_line_panics_on_lone_quote:
  "load_env_line line env = None \<longleftrightarrow> (\<exists>key value. split_once (CHR ''='') (trim line) = Some (key, value)
     \<and> \<not> starts_with (trim line) ''#'' \<and> trim key \<noteq> [] \<and> env (trim key) = None \<and> trim value \<in> {[CHR 0x22], [CHR 0x27]})"
proof -
  have "trim line \<noteq> []" if "split_once (CHR ''='') (trim line) = Some kv" for kv
    using that by (auto simp: split_once_def)
  then show ?thesis
    by (auto simp: load_env_line_def Let_def unquote_None split: option.splits prod.splits if_splits)
qed

subsection \<open>Settings\<close>

text \<open>
  The instance id of an engine is well formed: at most 64 characters, the first alphanumeric, the
  others alphanumeric, dots, underscores or dashes.
\<close>

theorem instance_id_well_formed:
  "case engine_instance_id_from_env env of Inl e \<Rightarrow> True | Inr i \<Rightarrow> valid_instance_id i"
proof -
  have "valid_instance_id DEFAULT_ENGINE_INSTANCE_ID" "valid_instance_id ''blue''" "valid_instance_id ''green''" by code_simp+
  then show ?thesis
    by (auto simp: engine_instance_id_from_env_def normalize_engine_instance_id_def Let_def
        split: option.splits sum.splits if_splits)
qed

text \<open>
  The advertised models are the chat model, then the task and the embedding model when they are
  configured, without repetition.
\<close>

theorem advertised_models:
  "models_from_env env \<noteq> [] \<and> distinct (models_from_env env)
   \<and> set (models_from_env env) = set_option (task_model_id_from_env env) \<union> set_option (embed_model_id_from_env env)
       \<union> {hd (models_from_env env)}"
  by (auto simp: models_from_env_def push_missing_def Let_def split: option.splits)

subsection \<open>Boot\<close>

lemma connect_one_booting:
  assumes "sp_booting p"
  shows "sp_workers (snd (connect_one H request p)) = sp_workers p \<and> sp_booting (snd (connect_one H request p))"
proof (cases "apply_fresh_attestation H request p")
  case (Pair x q)
  then have "sp_workers q = sp_workers p" "sp_booting q"
    using fresh_attestation_fields(4,6) [of H request p] assms by simp_all
  then show ?thesis using assms Pair by (auto simp: connect_one_def Let_def split: sum.split)
qed

lemma connect_many_booting:
  "sp_booting p \<Longrightarrow> sp_workers (snd (connect_many H n request p)) = sp_workers p"
proof (induction n arbitrary: p)
  case (Suc n)
  obtain r q where q: "connect_one H request p = (r, q)" by fastforce
  then have "sp_workers q = sp_workers p" "sp_booting q" using connect_one_booting [OF Suc.prems, of H request] by simp_all
  then show ?case using Suc.IH [of q] q by (simp add: Let_def split_def)
qed simp

lemma boot_workers: "sp_workers (snd (boot H request p)) = sp_workers p"
  using connect_many_booting [of "p\<lparr>sp_connect_template := Some (request\<lparr>acr_pool_target_size := Some (pool_target_size (sp_config p))\<rparr>),
      sp_booting := True\<rparr>"]
  by (simp add: boot_def Let_def split_def)

lemma start_workers_fields:
  "sp_slots (start_workers H sids p) = sp_slots p \<and> sp_workers (start_workers H sids p) \<subseteq> sp_workers p \<union> set sids"
proof (induction sids arbitrary: p)
  case (Cons sid sids)
  let ?q = "snd (ensure_started H sid p)"
  have "sp_workers ?q \<subseteq> insert sid (sp_workers p)" by (auto simp: ensure_started_def split: option.splits sum.splits)
  then show ?case using Cons [of ?q] by (auto simp: start_workers_def)
qed (simp add: start_workers_def)

text \<open>What a boot that succeeded with sessions has posted, and what every session answered.\<close>

lemma booted_epoch:
  assumes "engine_boot H E request (p, r) = (Inr (), p', r')" and "live_session_count p' \<noteq> 0"
    and "\<forall>sids h. eh_list_sessions (E sids) h = sids"
  shows "er_current r' = er_current r
    \<and> er_history r' = er_history r @ map (\<lambda>s. EpPost s (ep_epoch_id (er_current r))) (session_ids p')
    \<and> list_all (\<lambda>i. post_accepted (E (session_ids p')) (er_current r)
          (er_history r @ map (\<lambda>s. EpPost s (ep_epoch_id (er_current r))) (take i (session_ids p'))) (session_ids p' ! i))
        [0..<length (session_ids p')]"
proof -
  obtain b q where b: "boot H request p = (b, q)" by fastforce
  obtain reg r1 where reg: "register_initial_epoch (E (session_ids q)) r = (reg, r1)" by fastforce
  have slots: "sp_slots (start_workers H (session_ids q) q) = sp_slots q" using start_workers_fields by blast
  then have count: "live_session_count (start_workers H (session_ids q) q) = live_session_count q"
    by (simp add: live_session_count_def)
  have started: "b = Inr ()" "reg = Inr ()" "p' = start_workers H (session_ids q) q" "r' = r1"
    using assms(1,2) b reg count by (auto simp: engine_boot_def split: sum.splits if_splits)
  then have ids: "session_ids p' = session_ids q" using slots by (simp add: session_ids_def)
  obtain err h where l: "post_loop (E (session_ids q)) (er_current r) (session_ids q) None (er_history r) = (err, h)" by fastforce
  then have "err = None" "r1 = r\<lparr>er_history := h\<rparr>"
    using reg started(2) assms(3) by (auto simp: register_initial_epoch_def post_epoch_to_sessions_def Let_def split: if_splits option.splits)
  then show ?thesis
    using l post_loop_history [of "E (session_ids q)" "er_current r" "session_ids q" None "er_history r"]
      post_loop_result [of "E (session_ids q)" "er_current r" "session_ids q" None "er_history r"] started ids
    by (auto simp: list_all_iff)
qed

text \<open>
  (C19) No session is worked on before its epoch is registered: after the boot of an engine, whenever a
  pull worker runs, the boot has succeeded, the worker belongs to a live session, and the current
  epoch was posted to every live session and accepted by each of them with 201.
\<close>

theorem boot_registers_epoch_before_pulling:
  assumes "engine_boot H E request (p, r) = (res, p', r')" and "sp_workers p = {}" and "sid \<in> sp_workers p'"
    and "\<forall>sids h. eh_list_sessions (E sids) h = sids"
  shows "res = Inr () \<and> sid \<in> set (session_ids p') \<and> er_current r' = er_current r
    \<and> er_history r' = er_history r @ map (\<lambda>s. EpPost s (ep_epoch_id (er_current r))) (session_ids p')
    \<and> list_all (\<lambda>i. post_accepted (E (session_ids p')) (er_current r)
          (er_history r @ map (\<lambda>s. EpPost s (ep_epoch_id (er_current r))) (take i (session_ids p'))) (session_ids p' ! i))
        [0..<length (session_ids p')]"
proof -
  obtain b q where b: "boot H request p = (b, q)" by fastforce
  then have none: "sp_workers q = {}" using boot_workers [of H request p] assms(2) by simp
  obtain reg r1 where reg: "register_initial_epoch (E (session_ids q)) r = (reg, r1)" by fastforce
  note fields = start_workers_fields [of H "session_ids q" q]
  have started: "res = Inr ()" "p' = start_workers H (session_ids q) q" "live_session_count q \<noteq> 0"
    using assms(1,3) b reg none by (auto simp: engine_boot_def split: sum.splits if_splits)
  moreover have "live_session_count p' \<noteq> 0" using started fields by (simp add: live_session_count_def)
  moreover have "sid \<in> set (session_ids p')" using started(2) fields none assms(3) by (auto simp: session_ids_def)
  ultimately show ?thesis using booted_epoch [OF _ _ assms(4)] assms(1) by blast
qed

subsection \<open>Challenges\<close>

lemma minted_epoch:
  assumes "mint_engine_challenge_response X a = Inr resp"
  shows "cw_epoch resp = ma_epoch a
    \<and> (cq_epoch_id (ma_request a) = None \<or> cq_epoch_id (ma_request a) = Some (ce_epoch_id (ma_epoch a)))
    \<and> (\<exists>nonce. decode_nonce_b64_url X (cq_nonce_b64 (ma_request a)) = Inr nonce \<and> cw_challenge_nonce_b64 resp = encode_nonce_b64_url X nonce)"
  using assms
  by (auto simp: mint_engine_challenge_response_def mint_engine_challenge_response_with_def split: sum.splits if_splits option.splits prod.splits)

text \<open>
  A challenge answered through a worker is about the engine as it is: when a worker of the engine
  posts a challenge response, the response states the rotator's current epoch and the engine's id, echoes the nonce of
  the assigned request, and a request that names an epoch named this one.
\<close>

theorem posted_challenge_states_current_epoch:
  assumes "answer_challenge_work W (engine_worker_config H X now env engine_id template sid) i body w = (res, w')"
    and "last (w_trace w') = (b, WvPost path (PayChallenge resp) ct hs)"
  shows "cw_epoch resp = challenge_epoch_of (er_current (en_rotator (w_app w))) \<and> hs = result_headers W (engine_worker_config H X now env engine_id template sid) i 200
    \<and> (\<exists>request nonce. wh_challenge_request W body = Inr request
         \<and> decode_nonce_b64_url X (trim (cq_nonce_b64 request)) = Inr nonce \<and> cw_challenge_nonce_b64 resp = encode_nonce_b64_url X nonce
         \<and> (cq_epoch_id request = None \<or> map_option trim (cq_epoch_id request) = Some (ep_epoch_id (er_current (en_rotator (w_app w))))))"
proof -
  let ?cfg = "engine_worker_config H X now env engine_id template sid"
  obtain r w1 where r: "challenge_work_result W ?cfg body w = (r, w1)" by fastforce
  then have resp: "r = Inr resp" "hs = result_headers W ?cfg i 200"
    using assms by (auto simp: answer_challenge_work_def post_result_out split: sum.splits)
  then obtain request where request: "wh_challenge_request W body = Inr request"
    and handled: "engine_challenge_handler X env engine_id (en_rotator (w_app w))
        (request\<lparr>cq_nonce_b64 := trim (cq_nonce_b64 request), cq_epoch_id := map_option trim (cq_epoch_id request)\<rparr>) = Inr resp"
    using r by (auto simp: challenge_work_result_def engine_worker_config_def Let_def record_event_def split: sum.splits if_splits)
  then obtain attestation where "mint_engine_challenge_response X (challenge_handler_args env engine_id (er_current (en_rotator (w_app w))) attestation
      (request\<lparr>cq_nonce_b64 := trim (cq_nonce_b64 request), cq_epoch_id := map_option trim (cq_epoch_id request)\<rparr>)) = Inr resp"
    by (auto simp: engine_challenge_handler_def split: option.splits sum.splits)
  from minted_epoch [OF this] show ?thesis
    using request resp by (auto simp: challenge_handler_args_def challenge_epoch_of_def)
qed

subsection \<open>GPU evidence\<close>

text \<open>The pool was found idle at every check of a stretch.\<close>

definition idle_stretch :: "recollect_event list \<Rightarrow> bool" where
  "idle_stretch es \<longleftrightarrow> RvIdle False \<notin> set es \<and> RvCollect \<notin> set es"

text \<open>Since the remembered instant the pool has been idle at every check.\<close>

lemma wait_quiet:
  assumes "wait_for_quiet_idle R quiet fuel since h = Some h'"
    and "\<And>t. since = Some t \<Longrightarrow> \<exists>pre es. h = pre @ RvIdle True # es \<and> idle_stretch es \<and> rh_clock R (pre @ [RvIdle True]) = t"
  shows "\<exists>pre es. h' = pre @ RvIdle True # es \<and> idle_stretch es \<and> quiet \<le> rh_clock R h' - rh_clock R (pre @ [RvIdle True])"
  using assms
proof (induction fuel arbitrary: since h)
  case (Suc fuel)
  show ?case
  proof (cases "rh_idle R h")
    case False
    then have "wait_for_quiet_idle R quiet fuel None (h @ [RvIdle False, RvSleep 5]) = Some h'" using Suc.prems(1) by simp
    from Suc.IH [OF this] show ?thesis by simp
  next
    case True
    let ?h = "h @ [RvIdle True]"
    define t where "t = unwrap_or since (rh_clock R ?h)"
    have stretch: "\<exists>pre es. ?h = pre @ RvIdle True # es \<and> idle_stretch es \<and> rh_clock R (pre @ [RvIdle True]) = t"
    proof (cases since)
      case None
      then show ?thesis by (intro exI [of _ h] exI [of _ "[]"]) (simp add: t_def unwrap_or_def idle_stretch_def)
    next
      case (Some u)
      from Suc.prems(2) [OF Some] obtain pre es where "h = pre @ RvIdle True # es" "idle_stretch es" "rh_clock R (pre @ [RvIdle True]) = u" by blast
      then show ?thesis using Some
        by (intro exI [of _ pre] exI [of _ "es @ [RvIdle True]"]) (simp add: t_def unwrap_or_def idle_stretch_def)
    qed
    show ?thesis
    proof (cases "quiet \<le> rh_clock R ?h - t")
      case True
      then have "h' = ?h" using Suc.prems(1) \<open>rh_idle R h\<close> by (simp add: t_def)
      then show ?thesis using stretch True by fastforce
    next
      case False
      then have "wait_for_quiet_idle R quiet fuel (Some t) (?h @ [RvSleep 5]) = Some h'"
        using Suc.prems(1) \<open>rh_idle R h\<close> by (simp add: t_def)
      moreover have "\<exists>pre es. ?h @ [RvSleep 5] = pre @ RvIdle True # es \<and> idle_stretch es \<and> rh_clock R (pre @ [RvIdle True]) = t"
      proof -
        obtain pre es where "?h = pre @ RvIdle True # es" "idle_stretch es" "rh_clock R (pre @ [RvIdle True]) = t" using stretch by blast
        then show ?thesis by (intro exI [of _ pre] exI [of _ "es @ [RvSleep 5]"]) (simp add: idle_stretch_def)
      qed
      ultimately show ?thesis using Suc.IH by blast
    qed
  qed
qed simp

text \<open>
  GPU evidence is collected only from a quiet engine: a round that runs the collector has found the
  pool idle at every check over at least the quiet time, and once more right before collecting; a
  round that does not, or whose collector fails, keeps the last good evidence.
\<close>

theorem collects_gpu_evidence_only_when_quiet:
  assumes "recollect_round R cfg fuel s = Some s'"
  shows "(\<exists>pre es evidence. rc_history s' = (pre @ RvIdle True # es) @ [RvIdle True, RvCollect, RvSleep (unat (gi_interval cfg))]
       \<and> idle_stretch es \<and> unat (gi_quiet cfg) \<le> rh_clock R (pre @ RvIdle True # es) - rh_clock R (pre @ [RvIdle True])
       \<and> rh_collect R ((pre @ RvIdle True # es) @ [RvIdle True]) = Inr evidence \<and> rc_cache s' = evidence)
     \<or> rc_cache s' = rc_cache s \<and> rc_rotator s' = rc_rotator s"
proof -
  obtain h where h: "wait_for_quiet_idle R (unat (gi_quiet cfg)) fuel None (rc_history s) = Some h"
    using assms by (auto simp: recollect_round_def split: option.splits)
  from wait_quiet [OF h] obtain pre es where quiet: "h = pre @ RvIdle True # es" "idle_stretch es"
    "unat (gi_quiet cfg) \<le> rh_clock R h - rh_clock R (pre @ [RvIdle True])" by auto
  show ?thesis
  proof (cases "rh_idle R h \<and> (\<exists>evidence. rh_collect R (h @ [RvIdle True]) = Inr evidence)")
    case True
    then obtain evidence where "rh_idle R h" "rh_collect R (h @ [RvIdle True]) = Inr evidence" by blast
    then show ?thesis using assms h quiet
      by (intro disjI1 exI [of _ pre] exI [of _ es] exI [of _ evidence]) (auto simp: recollect_round_def Let_def)
  next
    case False
    then show ?thesis using assms h by (auto simp: recollect_round_def Let_def split: if_splits sum.splits)
  qed
qed

text \<open>
  The wait for a quiet engine ends: when the pool stays idle and the clock advances with every
  pause of five seconds, one check per five seconds of quiet time and one more are enough.
\<close>

theorem quiet_wait_ends:
  assumes "\<forall>h. rh_idle R h" and "\<forall>h. rh_clock R h + 5 \<le> rh_clock R (h @ [RvSleep 5, RvIdle True])" and "quiet \<le> 5 * n"
  shows "wait_for_quiet_idle R quiet (Suc n) None h \<noteq> None"
proof -
  have "wait_for_quiet_idle R quiet (Suc n) (Some t) h \<noteq> None" if "t + quiet \<le> rh_clock R (h @ [RvIdle True]) + 5 * n" for t n h
    using that
  proof (induction n arbitrary: h)
    case (Suc n)
    have "t + quiet \<le> rh_clock R ((h @ [RvIdle True, RvSleep 5]) @ [RvIdle True]) + 5 * n"
      using Suc.prems assms(2) [rule_format, of "h @ [RvIdle True]"] by simp
    from Suc.IH [OF this] show ?case using assms(1)
      by (subst wait_for_quiet_idle.simps(2)) (simp del: wait_for_quiet_idle.simps add: unwrap_or_def Let_def)
  qed (auto simp: assms(1) unwrap_or_def Let_def)
  from this [of "rh_clock R (h @ [RvIdle True])" h n] show ?thesis using assms(1,3) by (simp add: unwrap_or_def Let_def)
qed

subsection \<open>Samples\<close>

definition sample_env_files :: "string \<Rightarrow> string option" where
  "sample_env_files path = (if path = ''d/.env'' then Some ''A=1'' else if path = ''d/.env.local'' then Some ''A=2'' else None)"

lemma sample_env_files_load:
  "map_option (\<lambda>env. env ''A'') (load_engine_env_files sample_env_files (\<lambda>_. False) ''d'' Map.empty) = Some (Some ''1'')"
  by code_simp

theorem env_files_only_fill_gaps_witness:
  "\<exists>first env. load_env_file sample_env_files (path_join ''d'' ''.env'') Map.empty = Some first
     \<and> load_engine_env_files sample_env_files (\<lambda>_. False) ''d'' Map.empty = Some env \<and> first \<subseteq>\<^sub>m env \<and> env ''A'' = Some ''1''"
proof -
  obtain env where "load_engine_env_files sample_env_files (\<lambda>_. False) ''d'' Map.empty = Some env" "env ''A'' = Some ''1''"
    using sample_env_files_load by auto
  with env_files_only_fill_gaps [OF this(1)] show ?thesis by blast
qed

definition sample_engine_epoch :: engine_epoch where
  "sample_engine_epoch = (sample_epoch ''ep'' 0 0)\<lparr>ep_usage_signing_public_b64 := hex_encode [3],
     ep_hybrid := \<lparr>hy_kex = ''k'', hy_mlkem_encapsulation_key = hex_encode [1], hy_x25519_public = hex_encode [2]\<rparr>\<rparr>"

definition sample_engine_rotator :: epoch_rotator where
  "sample_engine_rotator = \<lparr>er_engine_id = ''e'', er_ed25519_public_b64 = ''pk'', er_lead_ms = 0, er_ttl_ms = 0,
     er_attestation = Some (sample_bundle\<lparr>ab_gpu_tee := (ab_gpu_tee sample_bundle)\<lparr>gpu_evidence := hex_encode [10]\<rparr>\<rparr>),
     er_current = sample_engine_epoch, er_rotating = False, er_stopped = False, er_history = []\<rparr>"

definition sample_posting_host :: "string list \<Rightarrow> epoch_host" where
  "sample_posting_host sids = sample_epoch_host\<lparr>eh_list_sessions := (\<lambda>_. sids)\<rparr>"

definition sample_booted :: "(engine_error + unit) \<times> supervised_pool \<times> epoch_rotator" where
  "sample_booted = engine_boot sample_host sample_posting_host sample_request (supervised_pool_new sample_config ''gw'', sample_engine_rotator)"

lemma sample_booted_workers: "''s'' \<in> sp_workers (fst (snd sample_booted))"
  by code_simp

theorem boot_registers_epoch_before_pulling_witness:
  "fst sample_booted = Inr () \<and> ''s'' \<in> set (session_ids (fst (snd sample_booted)))"
proof -
  obtain res p r where b: "sample_booted = (res, p, r)" by (cases sample_booted)
  have "sp_workers (supervised_pool_new sample_config ''gw'') = {}" by (simp add: supervised_pool_new_def)
  moreover have "''s'' \<in> sp_workers p" using sample_booted_workers b by (metis fst_conv snd_conv)
  moreover have "\<forall>sids h. eh_list_sessions (sample_posting_host sids) h = sids" by (simp add: sample_posting_host_def)
  ultimately have "res = Inr () \<and> ''s'' \<in> set (session_ids p)"
    using boot_registers_epoch_before_pulling [OF b [unfolded sample_booted_def]] by blast
  then show ?thesis unfolding b by simp
qed

definition sample_engine_state :: engine_state where
  "sample_engine_state = \<lparr>en_pool = supervised_pool_new sample_config ''gw'', en_limiter = rate_limiter_new 60 5,
     en_rotator = sample_engine_rotator, en_desired = [], en_lost = []\<rparr>"

definition sample_engine_config :: "engine_state worker_config" where
  "sample_engine_config = engine_worker_config sample_host sample_challenge_host (\<lambda>_. 0) [''TEECHAT_SNP_VCEK_DER_B64'' \<mapsto> ''v'']
     ''e'' sample_options ''x''"

definition sample_asking_host :: worker_host where
  "sample_asking_host = (sample_worker_host True sample_e2e_envelope)
     \<lparr>wh_challenge_request := (\<lambda>_. Inr \<lparr>cq_nonce_b64 = hex_encode (replicate 32 7), cq_epoch_id = Some ''ep''\<rparr>)\<rparr>"

definition sample_asked :: "(plane_error + work_pull_outcome) \<times> engine_state worker" where
  "sample_asked = answer_challenge_work sample_asking_host sample_engine_config ''req'' [1] (worker_new sample_infer_state sample_engine_state)"

lemma sample_handler_answers:
  "isl (engine_challenge_handler sample_challenge_host [''TEECHAT_SNP_VCEK_DER_B64'' \<mapsto> ''v''] ''e'' sample_engine_rotator
     \<lparr>cq_nonce_b64 = hex_encode (replicate 32 7), cq_epoch_id = Some ''ep''\<rparr>) = False"
proof -
  have zero: "zero_hash = hex_encode (replicate 32 0)" by code_simp
  have policy: "length (cpu_policy_id (ab_cpu_tee sample_bundle)) \<noteq> 64" by (simp add: sample_bundle_def)
  let ?a = "challenge_handler_args [''TEECHAT_SNP_VCEK_DER_B64'' \<mapsto> ''v''] ''e'' sample_engine_epoch
    (sample_bundle\<lparr>ab_gpu_tee := (ab_gpu_tee sample_bundle)\<lparr>gpu_evidence := hex_encode [10]\<rparr>\<rparr>)
    \<lparr>cq_nonce_b64 = hex_encode (replicate 32 7), cq_epoch_id = Some ''ep''\<rparr>"
  have "isl (mint_engine_challenge_response sample_challenge_host ?a) = False"
    by (rule sample_host_answers [where policy = "replicate 32 0" and body = "2 # replicate 32 0 @ replicate 32 0"
          and mlkem = "[1]" and xkey = "[2]" and usage = "[3]" and g = 10 and gs = "[]"])
      (simp_all add: challenge_handler_args_def challenge_epoch_of_def sample_engine_epoch_def sample_epoch_def
        unwrap_or_def env_trim_def policy zero measurement_body_def decode_hex_32_encode)
  then show ?thesis by (auto simp: engine_challenge_handler_def sample_engine_rotator_def split: sum.split)
qed

lemma sample_asked_answered:
  "(case last (w_trace (snd sample_asked)) of (b, WvPost path (PayChallenge resp) ct hs) \<Rightarrow> True | _ \<Rightarrow> False)"
proof -
  let ?q = "\<lparr>cq_nonce_b64 = hex_encode (replicate 32 7), cq_epoch_id = Some ''ep''\<rparr>"
  obtain resp where resp: "engine_challenge_handler sample_challenge_host [''TEECHAT_SNP_VCEK_DER_B64'' \<mapsto> ''v''] ''e''
      sample_engine_rotator ?q = Inr resp"
    using sample_handler_answers by (metis sum.collapse(2))
  have "length (hex_encode (replicate 32 7)) = 64" by (simp add: length_hex_encode)
  then have "hex_encode (replicate 32 7) \<noteq> []" by (metis list.size(3) zero_neq_numeral)
  moreover have "trim ''ep'' = ''ep''" by code_simp
  ultimately have work: "fst (challenge_work_result sample_asking_host sample_engine_config [1] w) = Inr resp"
    if "w_app w = sample_engine_state" for w
    using resp that
    by (simp add: challenge_work_result_def sample_asking_host_def trim_hex_encode sample_engine_config_def
        engine_worker_config_def sample_engine_state_def Let_def)
  let ?w = "worker_new sample_infer_state sample_engine_state"
  obtain w where "challenge_work_result sample_asking_host sample_engine_config [1] ?w = (Inr resp, w)"
    using work [of ?w] by (cases "challenge_work_result sample_asking_host sample_engine_config [1] ?w") (simp add: worker_new_def)
  then show ?thesis
    by (simp add: sample_asked_def answer_challenge_work_def post_result_def worker_request_def record_event_def Let_def
        split: sum.split prod.split)
qed

theorem posted_challenge_states_current_epoch_witness:
  "\<exists>b path resp ct hs. last (w_trace (snd sample_asked)) = (b, WvPost path (PayChallenge resp) ct hs)
     \<and> cw_epoch resp = challenge_epoch_of sample_engine_epoch"
proof -
  obtain b path resp ct hs where last: "last (w_trace (snd sample_asked)) = (b, WvPost path (PayChallenge resp) ct hs)"
    using sample_asked_answered by (auto split: prod.splits worker_event.splits payload.splits)
  have "answer_challenge_work sample_asking_host (engine_worker_config sample_host sample_challenge_host (\<lambda>_. 0)
      [''TEECHAT_SNP_VCEK_DER_B64'' \<mapsto> ''v''] ''e'' sample_options ''x'') ''req'' [1] (worker_new sample_infer_state sample_engine_state)
      = (fst sample_asked, snd sample_asked)"
    by (simp add: sample_asked_def sample_engine_config_def)
  from posted_challenge_states_current_epoch [OF this last] show ?thesis
    using last by (auto simp: worker_new_def sample_engine_state_def sample_engine_rotator_def)
qed

definition sample_recollect_host :: recollect_host where
  "sample_recollect_host = \<lparr>rh_idle = (\<lambda>_. True), rh_clock = (\<lambda>h. 5 * length h), rh_collect = (\<lambda>_. Inr ''fresh'')\<rparr>"

definition sample_recollect_state :: recollect_state where
  "sample_recollect_state = \<lparr>rc_cache = ''boot'', rc_rotator = sample_engine_rotator, rc_history = []\<rparr>"

definition sample_recollected :: "recollect_state option" where
  "sample_recollected = recollect_round sample_recollect_host \<lparr>gi_interval = 21600, gi_quiet = 30\<rparr> 20 sample_recollect_state"

lemma sample_recollected_cache: "map_option rc_cache sample_recollected = Some ''fresh''"
  by code_simp

theorem collects_gpu_evidence_only_when_quiet_witness:
  "\<exists>s' pre es. sample_recollected = Some s' \<and> idle_stretch es
     \<and> rc_history s' = (pre @ RvIdle True # es) @ [RvIdle True, RvCollect, RvSleep 21600]"
proof -
  obtain s' where s': "sample_recollected = Some s'" "rc_cache s' = ''fresh''" using sample_recollected_cache by auto
  from collects_gpu_evidence_only_when_quiet [OF s'(1) [unfolded sample_recollected_def]] show ?thesis
    using s' by (auto simp: sample_recollect_state_def)
qed

theorem quiet_wait_ends_witness: "wait_for_quiet_idle sample_recollect_host 30 (Suc 6) None [] \<noteq> None"
  by (rule quiet_wait_ends) (simp_all add: sample_recollect_host_def)

end
