(* ===== verification/Gateway_Properties.thy ===== *)
theory Gateway_Properties
  imports Gateway_Connect Attestation_Properties
begin

section \<open>Properties of attested connections\<close>

text \<open>
  What a connection under the platform verifier has checked, that the default verifier refuses every
  gateway when no quote backend is registered, that a disconnect comes back in bounded time, and that
  the connector's table holds open transports only, each for one session.
\<close>

subsection \<open>Connecting\<close>

lemma open_connection_ok:
  assumes "open_pooled_connection P opts s h = (Inr (t, r), h')"
  shows "t = length h
    \<and> (\<exists>body cert. h' = h @ [PvDial (do_gateway_base_url opts), PvRequest t (BConnect body)]
         \<and> ph_dial P h (do_gateway_base_url opts) = Inr cert
         \<and> build_connect_request (do_connect_template opts) s (do_pool_target_size opts) (do_gateway_challenge_nonce opts) = Inr body
         \<and> (case do_gateway_verifier opts of None \<Rightarrow> True
            | Some v \<Rightarrow> (\<exists>nonce. acr_gateway_challenge_nonce body = Some nonce \<and> verify_connect_response (ph_checks P h') v r nonce cert = Inr ())))"
  using assms
  by (auto simp: open_pooled_connection_def open_pooled_connection_on_transport_def verify_response_def Let_def
      split: sum.splits if_splits option.splits)

lemma open_connection_error:
  assumes "open_pooled_connection P opts s h = (Inl e, h')"
  shows "\<exists>es. h' = h @ es \<and> es \<noteq> [] \<and> (\<forall>t. PvClose t \<in> set es \<longrightarrow> t = length h)"
  using assms
  by (auto simp: open_pooled_connection_def open_pooled_connection_on_transport_def verify_response_def Let_def
      split: sum.splits if_splits option.splits)

lemma connect_options_fields [simp]:
  "do_gateway_challenge_nonce (connect_options c url request s nonce) = Some nonce"
  "do_gateway_verifier (connect_options c url request s nonce) = do_gateway_verifier (hc_dial c)"
  by (simp_all add: connect_options_def Let_def split: option.split)

lemma nonce_echo_ok:
  "verify_nonce_echo A r nonce = Inr () \<longleftrightarrow>
     (\<exists>bundle echo. acp_gateway_attestation r = Some bundle \<and> acp_gateway_challenge_nonce r = Some echo
        \<and> normalize_gateway_connect_challenge_nonce echo = Some nonce
        \<and> (case parse_sev_snp_quote_wrapper A (cpu_quote (ab_cpu_tee bundle)) of None \<Rightarrow> True
           | Some w \<Rightarrow> verify_wrapper_report_data A w (Some nonce)))"
  by (auto simp: verify_nonce_echo_def split: option.splits if_splits)

lemma tls_leaf_ok:
  "assert_gateway_tls_leaf A bundle peer = Inr () \<longleftrightarrow>
     (\<exists>leaf. normalize_tls_leaf peer = Some leaf \<and> gateway_quote_tls_leaf A bundle = Inr leaf \<and> leaf \<noteq> [])"
  by (auto simp: assert_gateway_tls_leaf_def split: option.splits sum.splits if_splits)

lemma platform_policy_ok:
  "verify_platform_policy G ep pp b r nonce peer = Inr () \<longleftrightarrow>
     verify_nonce_echo (gc_attest G) r nonce = Inr ()
     \<and> (\<exists>bundle. acp_gateway_attestation r = Some bundle \<and> assert_gateway_tls_leaf (gc_attest G) bundle peer = Inr ()
          \<and> av_ok (verify_platform_attestation_bundle (gc_attest G) bundle ep pp b (gc_now_ms G)
              (production_cpu_quote_verifier (gc_backend G))))"
  by (auto simp: verify_platform_policy_def Let_def split: sum.splits option.splits if_splits)

lemma connect_inner_ok:
  assumes "connect_inner P url request preserve c = (Inr r, c')"
  obtains h nonce opts s t body cert where "opts = connect_options c url request s nonce"
    "nonce = generate_gateway_connect_challenge_nonce (ph_random P h)"
    "\<exists>es. h = hc_history c @ es \<and> (\<forall>t. PvClose t \<notin> set es)" "t = length h + 1"
    "hc_history c' = h @ [PvNonce, PvDial (do_gateway_base_url opts), PvRequest t (BConnect body)]"
    "ph_dial P (h @ [PvNonce]) (do_gateway_base_url opts) = Inr cert"
    "build_connect_request (do_connect_template opts) s (do_pool_target_size opts) (Some nonce) = Inr body"
    "hc_sessions c' = (hc_sessions c)(s \<mapsto> t)" "hc_dial c' = hc_dial c" "cr_session_id r = s"
    "case do_gateway_verifier (hc_dial c) of None \<Rightarrow> True
     | Some v \<Rightarrow> (\<exists>n. acr_gateway_challenge_nonce body = Some n \<and> verify_connect_response (ph_checks P (hc_history c')) v (cr_response r) n cert = Inr ())"
proof -
  obtain s h where sh: "(case preserve of Some s \<Rightarrow> (s, hc_history c)
      | None \<Rightarrow> (ph_uuid P (hc_history c), hc_history c @ [PvUuid])) = (s, h)" by fastforce
  then have h: "\<exists>es. h = hc_history c @ es \<and> (\<forall>t. PvClose t \<notin> set es)" by (auto split: option.splits)
  define nonce where "nonce = generate_gateway_connect_challenge_nonce (ph_random P h)"
  define opts where "opts = connect_options c url request s nonce"
  obtain t resp h2 where o: "open_pooled_connection P opts s (h @ [PvNonce]) = (Inr (t, resp), h2)"
    and r: "r = \<lparr>cr_session_id = s, cr_response = resp\<rparr>" and c': "c' = c\<lparr>hc_history := h2, hc_sessions := (hc_sessions c)(s \<mapsto> t)\<rparr>"
    using assms sh by (auto simp: connect_inner_def nonce_def opts_def Let_def split: sum.splits prod.splits)
  from open_connection_ok [OF o] obtain body cert where ok: "t = length h + 1"
    "h2 = h @ [PvNonce, PvDial (do_gateway_base_url opts), PvRequest t (BConnect body)]"
    "ph_dial P (h @ [PvNonce]) (do_gateway_base_url opts) = Inr cert"
    "build_connect_request (do_connect_template opts) s (do_pool_target_size opts) (Some nonce) = Inr body"
    "case do_gateway_verifier (hc_dial c) of None \<Rightarrow> True
     | Some v \<Rightarrow> (\<exists>n. acr_gateway_challenge_nonce body = Some n \<and> verify_connect_response (ph_checks P h2) v resp n cert = Inr ())"
    by (auto simp: opts_def)
  show thesis
    by (rule that [OF opts_def nonce_def h ok(1) _ ok(3,4)]) (use ok(2,5) r c' in \<open>auto split: option.splits\<close>)
qed

lemma connect_inner_error:
  assumes "connect_inner P url request preserve c = (Inl e, c')"
  shows "hc_sessions c' = hc_sessions c \<and> hc_dial c' = hc_dial c
    \<and> (\<exists>es k. hc_history c' = hc_history c @ es \<and> (\<forall>t. PvClose t \<in> set es \<longrightarrow> t = length (hc_history c) + k) \<and> k < length es)"
proof -
  obtain s h where sh: "(case preserve of Some s \<Rightarrow> (s, hc_history c)
      | None \<Rightarrow> (ph_uuid P (hc_history c), hc_history c @ [PvUuid])) = (s, h)" by fastforce
  then obtain es where h: "h = hc_history c @ es" "\<forall>t. PvClose t \<notin> set es" by (auto split: option.splits)
  obtain h2 where o: "open_pooled_connection P (connect_options c url request s (generate_gateway_connect_challenge_nonce (ph_random P h))) s (h @ [PvNonce]) = (Inl e, h2)"
    and c': "c' = c\<lparr>hc_history := h2\<rparr>"
    using assms sh by (auto simp: connect_inner_def Let_def split: sum.splits prod.splits)
  from open_connection_error [OF o] obtain fs where fs: "h2 = (h @ [PvNonce]) @ fs" "fs \<noteq> []"
    "\<forall>t. PvClose t \<in> set fs \<longrightarrow> t = length (h @ [PvNonce])" by blast
  then have "hc_history c' = hc_history c @ (es @ PvNonce # fs)" using h c' by simp
  moreover have "\<forall>t. PvClose t \<in> set (es @ PvNonce # fs) \<longrightarrow> t = length (hc_history c) + (length es + 1)" using fs h by auto
  moreover have "length es + 1 < length (es @ PvNonce # fs)" using fs(2) by simp
  moreover have "hc_sessions c' = hc_sessions c \<and> hc_dial c' = hc_dial c" using c' by simp
  ultimately show ?thesis by blast
qed

lemma normalize_generated:
  assumes "length random = 16"
  shows "normalize_gateway_connect_challenge_nonce (generate_gateway_connect_challenge_nonce random)
       = Some (generate_gateway_connect_challenge_nonce random)"
proof -
  have "length (hex_encode random) = 32" using assms by (simp add: length_hex_encode)
  then show ?thesis
    by (simp add: normalize_gateway_connect_challenge_nonce_def generate_gateway_connect_challenge_nonce_def trim_hex_encode
        lower_hex_encode hexdigits_hex_encode Let_def)
qed

text \<open>
  (C7) A connection under the platform verifier is authenticated: when it is entered into the table, the
  gateway has presented an attestation, echoed the nonce generated for this very dial, and shown a
  quote that names the TLS certificate this dial met, that binds the nonce if it is a hardware quote,
  and that the platform policy accepts from the registered production backend.
\<close>

theorem connection_is_authenticated:
  assumes "connect_inner P url request preserve c = (Inr r, c')"
    and "do_gateway_verifier (hc_dial c) = Some (PlatformPolicy ep pp b)"
    and "\<forall>h. length (ph_random P h) = 16"
  shows "\<exists>h gateway cert bundle echo leaf.
      ph_dial P (h @ [PvNonce]) gateway = Inr cert
    \<and> acp_gateway_attestation (cr_response r) = Some bundle \<and> acp_gateway_challenge_nonce (cr_response r) = Some echo
    \<and> normalize_gateway_connect_challenge_nonce echo = Some (generate_gateway_connect_challenge_nonce (ph_random P h))
    \<and> normalize_tls_leaf cert = Some leaf
    \<and> gateway_quote_tls_leaf (gc_attest (ph_checks P (hc_history c'))) bundle = Inr leaf
    \<and> (case parse_sev_snp_quote_wrapper (gc_attest (ph_checks P (hc_history c'))) (cpu_quote (ab_cpu_tee bundle)) of None \<Rightarrow> True
       | Some w \<Rightarrow> verify_wrapper_report_data (gc_attest (ph_checks P (hc_history c'))) w
           (Some (generate_gateway_connect_challenge_nonce (ph_random P h))))
    \<and> av_ok (verify_platform_attestation_bundle (gc_attest (ph_checks P (hc_history c'))) bundle ep pp b
         (gc_now_ms (ph_checks P (hc_history c'))) (production_cpu_quote_verifier (gc_backend (ph_checks P (hc_history c')))))"
proof -
  obtain h nonce opts s t body cert where
    opts: "opts = connect_options c url request s nonce" and nonce: "nonce = generate_gateway_connect_challenge_nonce (ph_random P h)"
    and dial: "ph_dial P (h @ [PvNonce]) (do_gateway_base_url opts) = Inr cert"
    and body: "build_connect_request (do_connect_template opts) s (do_pool_target_size opts) (Some nonce) = Inr body"
    and verified: "case do_gateway_verifier (hc_dial c) of None \<Rightarrow> True
      | Some v \<Rightarrow> (\<exists>n. acr_gateway_challenge_nonce body = Some n \<and> verify_connect_response (ph_checks P (hc_history c')) v (cr_response r) n cert = Inr ())"
    by (rule connect_inner_ok [OF assms(1)]) (rule that)
  have "normalize_gateway_connect_challenge_nonce nonce = Some nonce"
    using normalize_generated assms(3) unfolding nonce by blast
  then have "acr_gateway_challenge_nonce body = Some nonce" using body by (auto simp: build_connect_request_def Let_def)
  then have "verify_platform_policy (ph_checks P (hc_history c')) ep pp b (cr_response r) nonce cert = Inr ()"
    using verified assms(2) by simp
  then show ?thesis
    using dial nonce unfolding platform_policy_ok nonce_echo_ok tls_leaf_ok by (auto intro!: exI [of _ h]) blast
qed

text \<open>
  The default verifier needs a registered backend: without one every dial that asks for platform
  verification fails, and no session enters the table. (No part of the repository outside its tests
  registers a backend.)
\<close>

theorem no_backend_no_connection:
  assumes "\<forall>h. gc_backend (ph_checks P h) = None" and "do_gateway_verifier (hc_dial c) = Some (platform_policy_verifier_from_env env)"
  shows "\<exists>e c'. connect_inner P url request preserve c = (Inl e, c') \<and> hc_sessions c' = hc_sessions c"
proof -
  obtain r c' where out: "connect_inner P url request preserve c = (r, c')" by fastforce
  obtain ep pp b where v: "platform_policy_verifier_from_env env = PlatformPolicy ep pp b"
    by (simp add: platform_policy_verifier_from_env_def Let_def)
  have "\<not> av_ok (verify_platform_attestation_bundle A bd ep pp b now (production_cpu_quote_verifier None))" for A bd now
    by (simp add: verify_platform_attestation_bundle_def verify_bundle_with_verifier_def production_cpu_quote_verifier_def
        attest_fail_def Let_def)
  then have refused: "verify_connect_response (ph_checks P h) (PlatformPolicy ep pp b) resp n cert \<noteq> Inr ()" for h resp n cert
    using assms(1) by (simp add: platform_policy_ok)
  show ?thesis
  proof (cases r)
    case (Inl e)
    then show ?thesis using out connect_inner_error [of P url request preserve c e c'] by auto
  next
    case (Inr res)
    then have "connect_inner P url request preserve c = (Inr res, c')" using out by simp
    then show ?thesis using connect_inner_ok [of P url request preserve c res c'] assms(2) v refused by auto
  qed
qed

subsection \<open>Disconnecting\<close>

lemma post_disconnect_history:
  "snd (post_disconnect_on_attested_session P t s e reason h) = h @ [PvRequest t (BDisconnect \<lparr>dq_engine_id = e, dq_session_id = s, dq_reason = reason\<rparr>)]"
  by (simp add: post_disconnect_on_attested_session_def Let_def split: sum.split)

lemma disconnect_loop_history:
  "disconnect_loop P t s e reason deadline fuel h = Some (r, h') \<Longrightarrow> \<exists>es. h' = h @ es \<and> (\<forall>u. PvClose u \<notin> set es)"
proof (induction fuel arbitrary: h)
  case 0
  then show ?case by (simp add: disconnect_loop.simps)
next
  case (Suc fuel)
  obtain x h1 where post: "post_disconnect_on_attested_session P t s e reason h = (x, h1)" by fastforce
  let ?req = "PvRequest t (BDisconnect \<lparr>dq_engine_id = e, dq_session_id = s, dq_reason = reason\<rparr>)"
  have h1: "h1 = h @ [?req]" using post_disconnect_history [of P t s e reason h] post by simp
  show ?case
  proof (cases "h' = h1")
    case True
    then show ?thesis using h1 by auto
  next
    case False
    then have "disconnect_loop P t s e reason deadline fuel (h1 @ [PvSleep]) = Some (r, h')"
      using Suc.prems post by (auto simp: disconnect_loop.simps [of P t s e reason deadline "Suc fuel"] split: sum.splits if_splits)
    from Suc.IH [OF this] obtain es where "h' = (h1 @ [PvSleep]) @ es" "\<forall>u. PvClose u \<notin> set es" by blast
    then have "h' = h @ (?req # PvSleep # es) \<and> (\<forall>u. PvClose u \<notin> set (?req # PvSleep # es))" using h1 by simp
    then show ?thesis by blast
  qed
qed

text \<open>A clock that never goes back and that a poll interval moves on by its 250 milliseconds.\<close>

definition poll_clock :: "plane_host \<Rightarrow> bool" where
  "poll_clock P \<longleftrightarrow> (\<forall>h es. ph_clock P h \<le> ph_clock P (h @ es)) \<and> (\<forall>h. ph_clock P h + 250 \<le> ph_clock P (h @ [PvSleep]))"

lemma disconnect_loop_ends:
  assumes "poll_clock P"
  shows "deadline \<le> ph_clock P h + 250 * fuel \<Longrightarrow> disconnect_loop P t s e reason deadline (Suc fuel) h \<noteq> None"
proof (induction fuel arbitrary: h)
  case 0
  obtain x h1 where post: "post_disconnect_on_attested_session P t s e reason h = (x, h1)" by fastforce
  then have "ph_clock P h \<le> ph_clock P h1"
    using post_disconnect_history [of P t s e reason h] assms by (auto simp: poll_clock_def)
  then show ?case using 0 post by (cases x) (auto simp: disconnect_loop.simps)
next
  case (Suc fuel)
  obtain x h1 where post: "post_disconnect_on_attested_session P t s e reason h = (x, h1)" by fastforce
  then have "ph_clock P h \<le> ph_clock P h1"
    using post_disconnect_history [of P t s e reason h] assms by (auto simp: poll_clock_def)
  moreover have "ph_clock P h1 + 250 \<le> ph_clock P (h1 @ [PvSleep])" using assms by (simp add: poll_clock_def)
  ultimately have "deadline \<le> ph_clock P (h1 @ [PvSleep]) + 250 * fuel" using Suc.prems by simp
  from Suc.IH [OF this] post show ?case by (cases x) (auto simp: disconnect_loop.simps [of P t s e reason deadline "Suc (Suc fuel)"])
qed


subsection \<open>The table of sessions\<close>

text \<open>
  The table holds transports that were dialled and not closed, no two sessions share one, and only
  transports that exist are ever closed.
\<close>

definition transport_table :: "plane_event list \<Rightarrow> (string \<rightharpoonup> nat) \<Rightarrow> bool" where
  "transport_table h m \<longleftrightarrow>
     (\<forall>s t. m s = Some t \<longrightarrow> t < length h \<and> (\<exists>url. h ! t = PvDial url) \<and> PvClose t \<notin> set h)
     \<and> (\<forall>s s' t. m s = Some t \<longrightarrow> m s' = Some t \<longrightarrow> s = s')
     \<and> (\<forall>t. PvClose t \<in> set h \<longrightarrow> t < length h)"

definition connector_wf :: "http2_connector \<Rightarrow> bool" where
  "connector_wf c \<longleftrightarrow> transport_table (hc_history c) (hc_sessions c)"

lemma transport_table_entry:
  assumes "transport_table h m" and "m s = Some t"
  shows "t < length h" and "\<exists>url. h ! t = PvDial url" and "PvClose t \<notin> set h"
  using assms by (simp_all add: transport_table_def)

lemma transport_table_shared: "transport_table h m \<Longrightarrow> m s = Some t \<Longrightarrow> m s' = Some t \<Longrightarrow> s = s'"
  unfolding transport_table_def by blast

lemma transport_table_closed: "transport_table h m \<Longrightarrow> PvClose t \<in> set h \<Longrightarrow> t < length h"
  by (simp add: transport_table_def)

lemma transport_tableI:
  assumes "\<And>s t. m s = Some t \<Longrightarrow> t < length h \<and> (\<exists>url. h ! t = PvDial url) \<and> PvClose t \<notin> set h"
    and "\<And>s s' t. m s = Some t \<Longrightarrow> m s' = Some t \<Longrightarrow> s = s'"
    and "\<And>t. PvClose t \<in> set h \<Longrightarrow> t < length h"
  shows "transport_table h m"
  using assms unfolding transport_table_def by blast

lemma transport_table_extend:
  assumes T: "transport_table h m" and es: "\<And>t. PvClose t \<in> set es \<Longrightarrow> length h \<le> t \<and> t < length h + length es"
  shows "transport_table (h @ es) m"
proof (rule transport_tableI)
  show "t < length (h @ es) \<and> (\<exists>url. (h @ es) ! t = PvDial url) \<and> PvClose t \<notin> set (h @ es)" if "m s = Some t" for s t
    using transport_table_entry [OF T that] es [of t] by (auto simp: nth_append)
  show "t < length (h @ es)" if "PvClose t \<in> set (h @ es)" for t
    using that es [of t] transport_table_closed [OF T, of t] by auto
qed (rule transport_table_shared [OF T])

lemma transport_table_enter:
  assumes T: "transport_table h m" and es: "\<And>t. PvClose t \<notin> set (es @ fs)"
  shows "transport_table (h @ es @ PvDial url # fs) (m(s \<mapsto> length h + length es))"
proof (rule transport_tableI)
  let ?h = "h @ es @ PvDial url # fs"
  let ?m = "m(s \<mapsto> length h + length es)"
  have closed: "PvClose t \<in> set ?h \<longleftrightarrow> PvClose t \<in> set h" for t using es [of t] by auto
  show "t < length ?h \<and> (\<exists>url. ?h ! t = PvDial url) \<and> PvClose t \<notin> set ?h" if "?m s' = Some t" for s' t
  proof (cases "s' = s")
    case True
    then have "t = length h + length es" using that by simp
    then show ?thesis using transport_table_closed [OF T, of t] closed [of t] by (auto simp: nth_append)
  next
    case False
    then have "m s' = Some t" using that by simp
    then show ?thesis using transport_table_entry [OF T, of s' t] closed [of t] by (auto simp: nth_append)
  qed
  show "s' = s''" if "?m s' = Some t" "?m s'' = Some t" for s' s'' t
    using that transport_table_entry(1) [OF T] transport_table_shared [OF T] by (fastforce split: if_splits)
  show "t < length ?h" if "PvClose t \<in> set ?h" for t
    using that closed [of t] transport_table_closed [OF T, of t] by simp
qed

lemma transport_table_leave:
  assumes T: "transport_table h m" and "m s = Some t" and "\<And>u. PvClose u \<notin> set es"
  shows "transport_table (h @ es @ [PvClose t]) (m(s := None))"
proof (rule transport_tableI)
  let ?h = "h @ es @ [PvClose t]"
  have closed: "PvClose u \<in> set ?h \<longleftrightarrow> u = t \<or> PvClose u \<in> set h" for u using assms(3) [of u] by auto
  show "u < length ?h \<and> (\<exists>url. ?h ! u = PvDial url) \<and> PvClose u \<notin> set ?h" if "(m(s := None)) s' = Some u" for s' u
  proof -
    have "m s' = Some u" "s' \<noteq> s" using that by (auto split: if_splits)
    then show ?thesis
      using transport_table_entry [OF T, of s' u] transport_table_shared [OF T assms(2), of s'] closed [of u]
      by (auto simp: nth_append)
  qed
  show "s' = s''" if "(m(s := None)) s' = Some u" "(m(s := None)) s'' = Some u" for s' s'' u
    using that transport_table_shared [OF T, of s' u s''] by (auto split: if_splits)
  show "u < length ?h" if "PvClose u \<in> set ?h" for u
    using that closed [of u] transport_table_closed [OF T, of u] transport_table_entry(1) [OF T assms(2)] by auto
qed

lemma connect_inner_wf:
  assumes "connector_wf c" and "connect_inner P url request preserve c = (r, c')"
  shows "connector_wf c'"
proof (cases r)
  case (Inl e)
  then have "hc_sessions c' = hc_sessions c
    \<and> (\<exists>es k. hc_history c' = hc_history c @ es \<and> (\<forall>t. PvClose t \<in> set es \<longrightarrow> t = length (hc_history c) + k) \<and> k < length es)"
    using connect_inner_error [of P url request preserve c e c'] assms(2) by simp
  then obtain es k where "hc_sessions c' = hc_sessions c" "hc_history c' = hc_history c @ es" "k < length es"
    "\<And>t. PvClose t \<in> set es \<Longrightarrow> t = length (hc_history c) + k" by blast
  then show ?thesis
    using assms(1) transport_table_extend [of "hc_history c" "hc_sessions c" es] unfolding connector_wf_def by fastforce
next
  case (Inr res)
  with assms(2) have ok: "connect_inner P url request preserve c = (Inr res, c')" by simp
  obtain es fs u s where "\<And>t. PvClose t \<notin> set (es @ fs)" "hc_history c' = hc_history c @ es @ PvDial u # fs"
    "hc_sessions c' = (hc_sessions c)(s \<mapsto> length (hc_history c) + length es)"
  proof (rule connect_inner_ok [OF ok])
    fix h nonce opts s t body cert
    assume "\<exists>es. h = hc_history c @ es \<and> (\<forall>t. PvClose t \<notin> set es)" and t: "t = length h + 1"
      and h: "hc_history c' = h @ [PvNonce, PvDial (do_gateway_base_url opts), PvRequest t (BConnect body)]"
      and m: "hc_sessions c' = (hc_sessions c)(s \<mapsto> t)"
    then obtain es where es: "h = hc_history c @ es" "\<forall>t. PvClose t \<notin> set es" by blast
    show thesis
      by (rule that [of "es @ [PvNonce]" "[PvRequest t (BConnect body)]" "do_gateway_base_url opts" s])
        (use es h m t in auto)
  qed
  then show ?thesis using transport_table_enter [of "hc_history c" "hc_sessions c" es fs] assms(1) unfolding connector_wf_def by metis
qed

lemma disconnect_with_reason_wf:
  assumes "connector_wf c" and "disconnect_with_reason P fuel s reason c = Some (r, c')"
  shows "connector_wf c'"
proof (cases "hc_sessions c s")
  case None
  then show ?thesis using assms by (simp add: disconnect_with_reason_def)
next
  case (Some t)
  with assms(2) obtain h where h: "disconnect_loop P t s (acr_engine_id (do_connect_template (hc_dial c))) reason
      (ph_clock P (hc_history c) + hc_disconnect_timeout c) fuel (hc_history c) = Some (r, h)"
    and c': "c' = c\<lparr>hc_sessions := (hc_sessions c)(s := None), hc_history := h @ [PvClose t]\<rparr>"
    by (auto simp: disconnect_with_reason_def graceful_disconnect_attested_session_def Let_def)
  from disconnect_loop_history [OF h] obtain es where "h = hc_history c @ es" "\<forall>u. PvClose u \<notin> set es" by blast
  then show ?thesis
    using transport_table_leave [of "hc_history c" "hc_sessions c" s t es] assms(1) Some c' by (simp add: connector_wf_def)
qed

lemma drop_session_wf: "connector_wf c \<Longrightarrow> connector_wf (drop_session s c)"
  using transport_table_leave [of "hc_history c" "hc_sessions c" s _ "[]"]
  by (auto simp: connector_wf_def drop_session_def split: option.split)

lemma force_close_all_wf: "connector_wf c \<Longrightarrow> set order = ran (hc_sessions c) \<Longrightarrow> connector_wf (force_close_all order c)"
  using transport_table_closed [of "hc_history c" "hc_sessions c"] transport_table_entry(1) [of "hc_history c" "hc_sessions c"]
  by (fastforce simp: connector_wf_def force_close_all_def ran_def intro!: transport_tableI)

lemma post_ephemeral_wf: "connector_wf c \<Longrightarrow> connector_wf (snd (post_ephemeral P s body c))"
  using transport_table_extend [of "hc_history c" "hc_sessions c" "[PvRequest _ (BEphemeral body)]"]
  by (auto simp: connector_wf_def post_ephemeral_def post_ephemeral_on_attested_session_def Let_def split: option.split sum.split)

text \<open>Every call of the connector's interface, as a step.\<close>

inductive connector_step :: "plane_host \<Rightarrow> http2_connector \<Rightarrow> http2_connector \<Rightarrow> bool" for P where
  step_connect: "connector_connect P request c = (r, c') \<Longrightarrow> connector_step P c c'"
| step_connect_to: "connector_connect_to P url request c = (r, c') \<Longrightarrow> connector_step P c c'"
| step_reconnect: "connector_reconnect P s url request c = (r, c') \<Longrightarrow> connector_step P c c'"
| step_disconnect: "disconnect_with_reason P fuel s reason c = Some (r, c') \<Longrightarrow> connector_step P c c'"
| step_teardown: "teardown_for_reconnect P fuel s c = Some c' \<Longrightarrow> connector_step P c c'"
| step_force_close: "set order = ran (hc_sessions c) \<Longrightarrow> connector_step P c (force_close_all order c)"
| step_ephemeral: "post_ephemeral P s body c = (x, c') \<Longrightarrow> connector_step P c c'"
| step_base_url: "connector_step P c (set_gateway_base_url url c)"

inductive_cases connector_stepE: "connector_step P c c'"

definition connector_init :: "http2_connector \<Rightarrow> bool" where
  "connector_init c \<longleftrightarrow> c = http2_connector_new (hc_dial c)"

lemma connector_new_wf: "connector_wf (http2_connector_new dial)"
  by (simp add: connector_wf_def transport_table_def http2_connector_new_def)

lemma connector_step_wf:
  assumes "connector_wf c" and "connector_step P c c'"
  shows "connector_wf c'"
  using assms(2)
proof cases
  case (step_teardown fuel s)
  then obtain r c1 where "disconnect_with_reason P fuel s ReasonAdmin c = Some (r, c1)" "c' = c1 \<or> c' = drop_session s c1"
    by (auto simp: teardown_for_reconnect_def split: option.splits prod.splits sum.splits)
  then show ?thesis using disconnect_with_reason_wf drop_session_wf assms(1) by blast
next
  case (step_ephemeral s body x)
  then show ?thesis using post_ephemeral_wf [of c P s body] assms(1) by simp
next
  case (step_base_url url)
  then show ?thesis using assms(1) by (simp add: set_gateway_base_url_def connector_wf_def)
qed (use assms(1) in \<open>auto simp: connector_connect_def connector_connect_to_def connector_reconnect_def
      intro: connect_inner_wf disconnect_with_reason_wf force_close_all_wf drop_session_wf\<close>)

interpretation connector_machine: state_machine connector_init "connector_step P" connector_wf for P
proof
  show "connector_wf s" if "connector_init s" for s
    using that unfolding connector_init_def
    by (metis connector_new_wf)
  show "connector_wf t" if "connector_wf s" "connector_step P s t" for s t using that by (rule connector_step_wf)
qed

text \<open>
  (C23) However its calls are interleaved, the connector's table of sessions stays sound: every entry is a
  transport that was dialled and has not been closed, and no two sessions share a transport.
\<close>

theorem connector_table_sound:
  assumes "reachable connector_init (connector_step P) c" and "hc_sessions c s = Some t"
  shows "(\<exists>url. t < length (hc_history c) \<and> hc_history c ! t = PvDial url) \<and> PvClose t \<notin> set (hc_history c)
    \<and> (\<forall>s'. s' \<noteq> s \<longrightarrow> hc_sessions c s' \<noteq> Some t)"
  using connector_machine.reachable_inv [OF assms(1)] assms(2) unfolding connector_wf_def transport_table_def by metis

subsection \<open>Samples\<close>

text \<open>
  A gateway with a registered backend, whose quote names the certificate it shows and that echoes the
  nonce; it never says it is ready to close.
\<close>

definition sample_peer_cert :: string where
  "sample_peer_cert = replicate 64 (CHR ''a'')"

definition sample_gateway_claims :: quote_claims where
  "sample_gateway_claims = sample_claims\<lparr>qt_tls_client_cert_sha256 := sample_peer_cert\<rparr>"

definition sample_checks :: "bool \<Rightarrow> gateway_checks" where
  "sample_checks registered =
     \<lparr>gc_attest = sample_attest_core\<lparr>at_decode := (\<lambda>_. Some (replicate 33 0)), at_claims_slice := (\<lambda>_. Some sample_gateway_claims)\<rparr>,
      gc_backend = (if registered then Some (\<lambda>quote kind. Some sample_gateway_claims) else None), gc_now_ms = 1000\<rparr>"

definition sample_nonce :: string where
  "sample_nonce = generate_gateway_connect_challenge_nonce (replicate 16 0)"

definition sample_connect_response :: attested_connect_response where
  "sample_connect_response = \<lparr>acp_gateway_attestation = Some sample_gateway_bundle, acp_gateway_challenge_nonce = Some sample_nonce\<rparr>"

definition sample_plane :: "bool \<Rightarrow> plane_host" where
  "sample_plane registered =
     \<lparr>ph_checks = (\<lambda>_. sample_checks registered), ph_dial = (\<lambda>_ _. Inr sample_peer_cert), ph_request = (\<lambda>_ _ _. Inr (200, JNull)),
      ph_is_closed = (\<lambda>_ _. False), ph_connect_response = (\<lambda>_. Inr sample_connect_response),
      ph_disconnect_response = (\<lambda>_. Inr not_ready), ph_json_text = (\<lambda>_. []), ph_random = (\<lambda>_. replicate 16 0),
      ph_uuid = (\<lambda>h. replicate (length h) (CHR ''u'')), ph_clock = (\<lambda>h. 250 * length h)\<rparr>"

definition sample_gateway_request :: attested_connect_request where
  "sample_gateway_request =
     \<lparr>acr_session_id = [], acr_engine_id = ''eng'', acr_models = [''m''],
      acr_identity = \<lparr>id_engine_id = ''eng'', id_kex = ''k'', id_ed25519_public = ''ed''\<rparr>, acr_attestation = sample_gateway_bundle, acr_pool_target_size = None,
      acr_instance_id = None, acr_gateway_challenge_nonce = None, acr_capabilities = None\<rparr>"

definition sample_connector :: "gateway_verifier \<Rightarrow> http2_connector" where
  "sample_connector v = http2_connector_new
     \<lparr>do_gateway_base_url = ''https://gw'', do_connect_template = sample_gateway_request, do_pool_target_size = 1,
      do_gateway_challenge_nonce = None, do_gateway_verifier = Some v\<rparr>"

definition sample_gateway_verifier :: gateway_verifier where
  "sample_gateway_verifier = PlatformPolicy default_test_attestation_policy sample_platform_policy sample_gateway_bind"

lemma sample_quote_texts:
  "normalize_tls_leaf sample_peer_cert = Some sample_peer_cert" "to_ascii_lowercase (trim sample_peer_cert) = sample_peer_cert"
  "sample_peer_cert \<noteq> []"
  by code_simp+

lemma sample_nonce_normal: "normalize_gateway_connect_challenge_nonce sample_nonce = Some sample_nonce"
  unfolding sample_nonce_def by (rule normalize_generated) simp

lemma sample_response_verifies:
  "verify_connect_response (sample_checks True) sample_gateway_verifier sample_connect_response sample_nonce sample_peer_cert = Inr ()"
proof -
  let ?A = "gc_attest (sample_checks True)"
  have parsed: "parse_sev_snp_quote_wrapper ?A q = None" "parse_mock_cpu_quote ?A q = Some sample_gateway_claims" for q
    by (simp_all add: parse_sev_snp_quote_wrapper_def parse_mock_cpu_quote_def sample_checks_def sample_attest_core_def
        drop_replicate Let_def)
  have "verify_nonce_echo ?A sample_connect_response sample_nonce = Inr ()"
    by (simp add: nonce_echo_ok parsed sample_connect_response_def sample_nonce_normal)
  moreover have "assert_gateway_tls_leaf ?A sample_gateway_bundle sample_peer_cert = Inr ()"
    by (simp add: tls_leaf_ok gateway_quote_tls_leaf_def parsed sample_gateway_claims_def sample_quote_texts)
  moreover have "av_ok (verify_platform_attestation_bundle ?A sample_gateway_bundle default_test_attestation_policy
      sample_platform_policy sample_gateway_bind 1000 (\<lambda>quote kind. Inr sample_gateway_claims))"
    by (simp add: verify_platform_attestation_bundle_def verify_bundle_with_verifier_def verify_claims_against_policy_def
      quote_age_def attest_ok_def sample_gateway_bind_def sample_platform_policy_def sample_gateway_bundle_def sample_checks_def
      sample_attest_core_def sample_gateway_claims_def sample_claims_def platform_quote_policy_def default_test_attestation_policy_def
      sample_gateway_texts)
  moreover have "production_cpu_quote_verifier (gc_backend (sample_checks True)) = (\<lambda>quote kind. Inr sample_gateway_claims)"
    by (simp add: production_cpu_quote_verifier_def sample_checks_def fun_eq_iff)
  ultimately show ?thesis
    by (simp add: sample_gateway_verifier_def platform_policy_ok sample_connect_response_def sample_checks_def)
qed

lemma sample_connect:
  "\<exists>r c'. connect_inner (sample_plane True) None sample_gateway_request None (sample_connector sample_gateway_verifier) = (Inr r, c')"
  using sample_response_verifies
  by (simp add: connect_inner_def open_pooled_connection_def open_pooled_connection_on_transport_def verify_response_def
      build_connect_request_def sample_plane_def sample_connector_def http2_connector_new_def connect_options_def
      sample_nonce_normal [unfolded sample_nonce_def] sample_nonce_def Let_def)

theorem connection_is_authenticated_witness:
  "\<exists>r c' cert bundle leaf. connect_inner (sample_plane True) None sample_gateway_request None (sample_connector sample_gateway_verifier) = (Inr r, c')
    \<and> acp_gateway_attestation (cr_response r) = Some bundle \<and> normalize_tls_leaf cert = Some leaf
    \<and> gateway_quote_tls_leaf (gc_attest (sample_checks True)) bundle = Inr leaf"
proof -
  obtain r c' where ok: "connect_inner (sample_plane True) None sample_gateway_request None (sample_connector sample_gateway_verifier) = (Inr r, c')"
    using sample_connect by blast
  have "do_gateway_verifier (hc_dial (sample_connector sample_gateway_verifier))
      = Some (PlatformPolicy default_test_attestation_policy sample_platform_policy sample_gateway_bind)"
    by (simp add: sample_connector_def http2_connector_new_def sample_gateway_verifier_def)
  moreover have "\<forall>h. length (ph_random (sample_plane True) h) = 16" "ph_checks (sample_plane True) h = sample_checks True" for h
    by (simp_all add: sample_plane_def)
  ultimately show ?thesis using connection_is_authenticated [OF ok] ok by fastforce
qed

theorem no_backend_no_connection_witness:
  "\<exists>e c'. connect_inner (sample_plane False) None sample_gateway_request None
      (sample_connector (platform_policy_verifier_from_env Map.empty)) = (Inl e, c') \<and> hc_sessions c' = Map.empty"
  using no_backend_no_connection [of "sample_plane False" "sample_connector (platform_policy_verifier_from_env Map.empty)" Map.empty
      None sample_gateway_request None]
  by (simp add: sample_plane_def sample_checks_def sample_connector_def http2_connector_new_def)


theorem connector_table_sound_witness:
  "\<exists>c s t. reachable connector_init (connector_step (sample_plane True)) c \<and> hc_sessions c s = Some t
    \<and> PvClose t \<notin> set (hc_history c)"
proof -
  let ?c = "sample_connector sample_gateway_verifier"
  obtain r c' where ok: "connect_inner (sample_plane True) None sample_gateway_request None ?c = (Inr r, c')"
    using sample_connect by blast
  have "connector_init ?c" by (simp add: connector_init_def sample_connector_def http2_connector_new_def)
  then have "reachable connector_init (connector_step (sample_plane True)) c'"
    using ok reachable_init reachable_step step_connect unfolding connector_connect_def by metis
  moreover have "\<exists>s t. hc_sessions c' = (hc_sessions ?c)(s \<mapsto> t)" by (rule connect_inner_ok [OF ok]) blast
  then obtain s t where "hc_sessions c' s = Some t" by fastforce
  ultimately show ?thesis using connector_table_sound by blast
qed

end
