(* ===== verification/Timed_Command.thy ===== *)
theory Timed_Command
  imports Attestation
begin

section \<open>Commands under a time limit\<close>

text \<open>
  \<^verbatim>\<open>ie-attestation/src/process_timeout.rs\<close>: a tool is started, looked at every 100 ms, and killed when its
  time is over. The process is the host: what the \<open>n\<close>-th look at it finds, and by how much that look is
  later than the \<open>n\<close> pauses before it; a pause takes at least its length.
\<close>

datatype process_look = Exited bool | Running | WaitFailed string

record process_host =
  po_spawn :: "string option"
  po_pipes :: "string option"
  po_look :: "nat \<Rightarrow> process_look"
  po_late :: "nat \<Rightarrow> nat"
  po_stdout :: bytes

definition look_time :: "process_host \<Rightarrow> nat \<Rightarrow> nat" where
  "look_time P n = 100 * n + po_late P n"

text \<open>The result with the number of pauses it took; time is in milliseconds.\<close>

function await_exit :: "process_host \<Rightarrow> string \<Rightarrow> u64 \<Rightarrow> nat \<Rightarrow> (attestation_error + bool \<times> bytes) \<times> nat" where
  "await_exit P bin secs n =
     (case po_look P n of
        Exited success \<Rightarrow> (Inr (success, po_stdout P), n)
      | WaitFailed e \<Rightarrow> (Inl (AToolInvoke (bin @ '': '' @ e)), n)
      | Running \<Rightarrow>
          if 1000 * unat secs \<le> look_time P n then (Inl (AToolTimedOut bin (max 1 secs)), n)
          else await_exit P bin secs (Suc n))"
  by pat_completeness auto

termination
  by (relation "measure (\<lambda>(P, bin, secs, n). Suc (1000 * unat secs) - 100 * n)") (auto simp: look_time_def)

declare await_exit.simps [simp del]

definition command_output_timed :: "process_host \<Rightarrow> string \<Rightarrow> u64 \<Rightarrow> attestation_error + bool \<times> bytes" where
  "command_output_timed P bin secs =
     (case po_spawn P of Some e \<Rightarrow> Inl (AToolInvoke (bin @ '': '' @ e))
      | None \<Rightarrow> (case po_pipes P of Some e \<Rightarrow> Inl (AToolInvoke (bin @ '': '' @ e))
          | None \<Rightarrow> fst (await_exit P bin secs 0)))"

text \<open>
  A command comes back: it is looked at at most ten times per second of its limit and once more,
  whatever the process does.
\<close>

lemma await_exit_pauses: "n \<le> 10 * unat secs \<Longrightarrow> snd (await_exit P bin secs n) \<le> 10 * unat secs"
proof (induction P bin secs n rule: await_exit.induct)
  case (1 P bin secs n)
  show ?case
  proof (cases "po_look P n = Running \<and> look_time P n < 1000 * unat secs")
    case True
    then have "Suc n \<le> 10 * unat secs" by (simp add: look_time_def)
    with 1 True show ?thesis by (simp add: await_exit.simps [of P bin secs n])
  next
    case False
    with 1(2) show ?thesis by (auto simp: await_exit.simps [of P bin secs n] split: process_look.split)
  qed
qed

theorem command_pauses_bounded: "snd (await_exit P bin secs 0) \<le> 10 * unat secs"
  by (rule await_exit_pauses) simp

text \<open>The first look that does not find the process running decides, if it is not too late.\<close>

lemma await_exit_decided:
  assumes "\<forall>k. n \<le> k \<and> k < m \<longrightarrow> po_look P k = Running \<and> look_time P k < 1000 * unat secs"
    and "n \<le> m" and "po_look P m \<noteq> Running"
  shows "await_exit P bin secs n =
    (case po_look P m of Exited success \<Rightarrow> Inr (success, po_stdout P) | WaitFailed e \<Rightarrow> Inl (AToolInvoke (bin @ '': '' @ e))
     | Running \<Rightarrow> undefined, m)"
  using assms(2,1)
proof (induction rule: inc_induct)
  case base
  with assms(3) show ?case by (subst await_exit.simps) (auto split: process_look.split)
next
  case (step n)
  then have "po_look P n = Running" "\<not> 1000 * unat secs \<le> look_time P n" by (auto simp: not_le)
  with step show ?case by (subst await_exit.simps) simp
qed

text \<open>
  A tool that ends in time is not cut: when every look before the one that finds its exit is within
  the limit, the command returns the tool's own result. A timed-out command was found running at or
  after its limit.
\<close>

theorem command_result_within_limit:
  assumes "po_spawn P = None" and "po_pipes P = None" and "po_look P m = Exited success"
    and "\<forall>k < m. po_look P k = Running \<and> look_time P k < 1000 * unat secs"
  shows "command_output_timed P bin secs = Inr (success, po_stdout P)"
proof -
  have "fst (await_exit P bin secs 0) = Inr (success, po_stdout P)"
    using assms(3,4) by (subst await_exit_decided [where m = m]) auto
  with assms(1,2) show ?thesis by (simp add: command_output_timed_def)
qed

definition sample_process :: process_host where
  "sample_process = \<lparr>po_spawn = None, po_pipes = None, po_look = (\<lambda>n. if n < 2 then Running else Exited True),
     po_late = (\<lambda>n. n), po_stdout = [7]\<rparr>"

theorem command_result_within_limit_witness: "command_output_timed sample_process ''nvattest'' 1 = Inr (True, [7])"
proof -
  have "\<forall>k < 2. po_look sample_process k = Running \<and> look_time sample_process k < 1000 * unat (1 :: u64)"
    by (auto simp: sample_process_def look_time_def)
  then show ?thesis
    using command_result_within_limit [of sample_process 2 True 1 "''nvattest''"] by (simp add: sample_process_def)
qed

end
