(* ===== verification/Gpu_Attestation.thy ===== *)
theory Gpu_Attestation
  imports Timed_Command
begin

section \<open>GPU evidence\<close>

text \<open>
  \<^verbatim>\<open>ie-attestation/src/nv_cc/\<close>: when live evidence is collected and when a mock or a not-applicable marker
  stands in for it, what the collector puts into the evidence, and how claims and evidence are judged.
  The processes of \<^verbatim>\<open>nvidia-smi\<close> and \<^verbatim>\<open>nvattest\<close>, base64, JSON and the clock are the host.
\<close>

record gpu_host =
  gh_process :: "nat \<Rightarrow> string \<Rightarrow> string list \<Rightarrow> process_host"
  gh_decode :: "string \<Rightarrow> bytes option"
  gh_json :: "bytes \<Rightarrow> string + json"
  gh_encode :: "json \<Rightarrow> string"
  gh_now :: string
  gh_now_millis :: string

text \<open>The tools are run in order; a run is named by its position.\<close>

definition gh_run :: "gpu_host \<Rightarrow> nat \<Rightarrow> string \<Rightarrow> string list \<Rightarrow> u64 \<Rightarrow> attestation_error + bool \<times> bytes" where
  "gh_run G n bin args secs = command_output_timed (gh_process G n bin args) bin secs"

subsection \<open>Judging evidence\<close>

record gpu_attestation_policy =
  gp_require_gpu_attestation :: bool
  gp_allowed_gpu_driver_versions :: "utext set"
  gp_allowed_gpu_vbios_versions :: "utext set"
  gp_allowed_gpu_architectures :: "utext set"
  gp_max_gpu_evidence_age_ms :: u64

definition default_gpu_attestation_policy :: gpu_attestation_policy where
  "default_gpu_attestation_policy =
     \<lparr>gp_require_gpu_attestation = True, gp_allowed_gpu_driver_versions = {}, gp_allowed_gpu_vbios_versions = {},
      gp_allowed_gpu_architectures = {}, gp_max_gpu_evidence_age_ms = 24 * 60 * 60 * 1000\<rparr>"

record gpu_evidence_verify_result =
  gv_ok :: bool
  gv_reason :: "string option"

definition gpu_fail :: "string \<Rightarrow> gpu_evidence_verify_result" where
  "gpu_fail reason = \<lparr>gv_ok = False, gv_reason = Some reason\<rparr>"

definition gpu_ok :: gpu_evidence_verify_result where
  "gpu_ok = \<lparr>gv_ok = True, gv_reason = None\<rparr>"

type_synonym gpu_claims = "string \<rightharpoonup> json"

definition claim_bool :: "gpu_claims \<Rightarrow> string \<Rightarrow> bool" where
  "claim_bool claims key \<longleftrightarrow> Option.bind (claims key) as_bool = Some True"

definition cert_chain_validated :: "gpu_claims \<Rightarrow> bool" where
  "cert_chain_validated claims =
     (if claim_bool claims ''x-nvidia-gpu-attestation-report-cert-chain-validated'' then True
      else case claims ''x-nvidia-gpu-attestation-report-cert-chain'' of
        None \<Rightarrow> False
      | Some chain \<Rightarrow> get_str ''x-nvidia-cert-status'' chain = Some (lit ''valid'')
          \<and> get_str ''x-nvidia-cert-ocsp-status'' chain = Some (lit ''good''))"

definition rim_schema_validated :: "gpu_claims \<Rightarrow> string \<Rightarrow> bool" where
  "rim_schema_validated claims kind =
     (if claim_bool claims (if kind = ''driver'' then ''x-nvidia-gpu-driver-rim-schema-validated''
          else ''x-nvidia-gpu-vbios-rim-schema-validated'') then True
      else let (sig, ver) = (if kind = ''driver''
             then (''x-nvidia-gpu-driver-rim-signature-verified'', ''x-nvidia-gpu-driver-rim-version-match'')
             else (''x-nvidia-gpu-vbios-rim-signature-verified'', ''x-nvidia-gpu-vbios-rim-version-match''))
        in claim_bool claims sig \<and> claim_bool claims ver)"

definition claim_required_true :: "gpu_claims \<Rightarrow> string \<Rightarrow> bool" where
  "claim_required_true claims key =
     (if key = ''x-nvidia-gpu-attestation-report-cert-chain-validated'' then cert_chain_validated claims
      else if key = ''x-nvidia-gpu-driver-rim-schema-validated'' then rim_schema_validated claims ''driver''
      else if key = ''x-nvidia-gpu-vbios-rim-schema-validated'' then rim_schema_validated claims ''vbios''
      else claim_bool claims key)"

definition required_gpu_claims :: "string list" where
  "required_gpu_claims =
     [''x-nvidia-gpu-driver-rim-signature-verified'', ''x-nvidia-gpu-vbios-rim-signature-verified'',
      ''x-nvidia-gpu-attestation-report-cert-chain-validated'', ''x-nvidia-gpu-attestation-report-signature-verified'',
      ''x-nvidia-gpu-driver-rim-schema-validated'', ''x-nvidia-gpu-vbios-rim-schema-validated'', ''x-nvidia-gpu-arch-check'']"

definition ascii_upper_text :: "utext \<Rightarrow> utext" where
  "ascii_upper_text t = map (\<lambda>c. if 97 \<le> c \<and> c \<le> 122 then c - 32 else c) t"

definition claim_text :: "json option \<Rightarrow> utext" where
  "claim_text v = (case Option.bind v as_str of None \<Rightarrow> [] | Some t \<Rightarrow> text_trim t)"

definition validate_nv_gpu_claims_against_policy :: "gpu_claims \<Rightarrow> gpu_attestation_policy \<Rightarrow> gpu_evidence_verify_result" where
  "validate_nv_gpu_claims_against_policy claims policy =
     (case find (\<lambda>key. \<not> claim_required_true claims key) required_gpu_claims of
        Some key \<Rightarrow> gpu_fail (''gpu_claim_'' @ key)
      | None \<Rightarrow>
         if Option.bind (claims ''measres'') as_str \<noteq> Some (lit ''success'') then gpu_fail ''gpu_measres_not_success''
         else if Option.bind (claims ''secboot'') as_bool \<noteq> Some True then gpu_fail ''gpu_secboot_false''
         else if gp_allowed_gpu_driver_versions policy \<noteq> {}
           \<and> text_lower (claim_text (claims ''x-nvidia-gpu-driver-version'')) \<notin> gp_allowed_gpu_driver_versions policy
         then gpu_fail ''gpu_driver_version_not_allowed''
         else if gp_allowed_gpu_vbios_versions policy \<noteq> {}
           \<and> text_lower (claim_text (claims ''x-nvidia-gpu-vbios-version'')) \<notin> gp_allowed_gpu_vbios_versions policy
         then gpu_fail ''gpu_vbios_version_not_allowed''
         else if gp_allowed_gpu_architectures policy \<noteq> {}
           \<and> ascii_upper_text (claim_text (case claims ''x-nvidia-gpu-architecture'' of None \<Rightarrow> claims ''arch'' | Some v \<Rightarrow> Some v))
             \<notin> (\<lambda>a. ascii_upper_text (text_trim a)) ` gp_allowed_gpu_architectures policy
         then gpu_fail ''gpu_architecture_not_allowed''
         else gpu_ok)"

definition verify_mock_nv_cc_gpu_evidence :: "gpu_host \<Rightarrow> string \<Rightarrow> gpu_evidence_verify_result" where
  "verify_mock_nv_cc_gpu_evidence G evidence_b64 =
     (case gh_decode G evidence_b64 of None \<Rightarrow> gpu_fail ''decode_failed''
      | Some raw \<Rightarrow> (case gh_json G raw of Inl _ \<Rightarrow> gpu_fail ''invalid_json''
          | Inr v \<Rightarrow> if get_str ''source'' v = Some (lit ''mock'') then gpu_ok else gpu_fail ''not_mock''))"

definition verify_nv_cc_gpu_evidence ::
    "gpu_host \<Rightarrow> string \<Rightarrow> gpu_attestation_policy \<Rightarrow> bool \<Rightarrow> bool \<Rightarrow> gpu_evidence_verify_result" where
  "verify_nv_cc_gpu_evidence G evidence_b64 policy skip_gpu_verification production_build =
     (if (str_contains evidence_b64 ''gpu-tee-pending'' \<or> evidence_b64 = ''Z3B1LXRlZS1wZW5kaW5n'') \<and> production_build
      then gpu_fail ''legacy_gpu_placeholder''
      else case gh_decode G evidence_b64 of None \<Rightarrow> gpu_fail ''decode_failed''
      | Some raw \<Rightarrow> (case gh_json G raw of Inl _ \<Rightarrow> gpu_fail ''invalid_json''
          | Inr v \<Rightarrow>
              if Option.bind (json_get ''not_applicable'' v) as_bool = Some True \<and> skip_gpu_verification then gpu_ok
              else if get_str ''source'' v = Some (lit ''mock'') then verify_mock_nv_cc_gpu_evidence G evidence_b64
              else if gp_require_gpu_attestation policy then gpu_fail ''gpu_evidence_not_verified'' else gpu_ok))"

subsection \<open>Collecting evidence\<close>

definition env_timeout_secs :: "env \<Rightarrow> string \<Rightarrow> u64 \<Rightarrow> u64" where
  "env_timeout_secs env key d =
     (case Option.bind (env key) (\<lambda>s. parse_u64 (trim s)) of None \<Rightarrow> d | Some n \<Rightarrow> if 0 < n then n else d)"

definition nvidia_smi_bin :: "env \<Rightarrow> string" where
  "nvidia_smi_bin env = (case env_trim env ''TEECHAT_NVIDIA_SMI_BIN'' of None \<Rightarrow> ''nvidia-smi'' | Some b \<Rightarrow> b)"

definition resolve_nvattest_bin :: "string \<Rightarrow> attestation_error + string" where
  "resolve_nvattest_bin raw =
     (let trimmed = trim raw
      in if trimmed = [] \<or> str_contains trimmed ''..'' then Inl (AInvalidNvattestBin trimmed)
         else if starts_with trimmed ''/''
         then (if list_ex (starts_with trimmed) [''/usr/bin/'', ''/usr/local/bin/''] \<and> path_file_name trimmed = Some ''nvattest''
               then Inr trimmed else Inl (AInvalidNvattestBin trimmed))
         else if trimmed = ''nvattest'' then Inr ''nvattest'' else Inl (AInvalidNvattestBin trimmed))"

definition nvattest_bin_from_env :: "env \<Rightarrow> attestation_error + string" where
  "nvattest_bin_from_env env =
     resolve_nvattest_bin
       (case (case env ''TEECHAT_NVATTEST_BIN'' of Some v \<Rightarrow> Some v | None \<Rightarrow> env ''NVATTEST_BIN'') of
          None \<Rightarrow> ''nvattest'' | Some v \<Rightarrow> if trim v = [] then ''nvattest'' else trim v)"

definition mock_allowed :: "env \<Rightarrow> bool" where
  "mock_allowed env \<longleftrightarrow>
     (case env ''TEECHAT_ENV'' of None \<Rightarrow> [] | Some k \<Rightarrow> to_ascii_lowercase (trim k))
       \<in> set [''development'', ''dev'', ''test'', ''staging'', []]
     \<or> env_flag_true env ''TEECHAT_ENGINE_STUB''"

definition should_use_real_gpu_collector :: "env \<Rightarrow> bool" where
  "should_use_real_gpu_collector env =
     (if env_flag_true env ''TEECHAT_FORCE_REAL_GPU_ATTESTATION'' then True
      else if (case env ''TEECHAT_GPU_ATTESTATION'' of None \<Rightarrow> False | Some s \<Rightarrow> eq_ignore_ascii_case (trim s) ''real'') then True
      else \<not> mock_allowed env)"

definition text_contains :: "utext \<Rightarrow> utext \<Rightarrow> bool" where
  "text_contains t p \<longleftrightarrow> list_ex (\<lambda>i. take (length p) (drop i t) = p) [0..<Suc (length t)]"

definition text_ends_with :: "utext \<Rightarrow> utext \<Rightarrow> bool" where
  "text_ends_with t p \<longleftrightarrow> length p \<le> length t \<and> drop (length t - length p) t = p"

text \<open>\<^verbatim>\<open>str::lines\<close>: a carriage return before a line feed is dropped, and so is an empty rest.\<close>

definition chop_return :: "utext \<Rightarrow> utext" where
  "chop_return l = (if l \<noteq> [] \<and> last l = 13 then butlast l else l)"

fun unicode_lines :: "utext \<Rightarrow> utext \<Rightarrow> utext list" where
  "unicode_lines acc [] = (if acc = [] then [] else [acc])"
| "unicode_lines acc (c # cs) = (if c = 10 then chop_return acc # unicode_lines [] cs else unicode_lines (acc @ [c]) cs)"

definition capture_field :: "utext \<Rightarrow> utext \<Rightarrow> utext option" where
  "capture_field content label =
     first_some (\<lambda>line. if 58 \<notin> set line then None
       else if text_lower (text_trim (takeWhile (\<lambda>c. c \<noteq> 58) line)) \<noteq> text_lower label then None
       else let v = text_trim (tl (dropWhile (\<lambda>c. c \<noteq> 58) line)) in if v = [] then None else Some v)
     (unicode_lines [] content)"

definition cc_line_on :: "utext \<Rightarrow> bool" where
  "cc_line_on line =
     (let lower = text_lower line
      in (text_contains lower (lit ''cc state'') \<or> text_contains lower (lit ''cc mode''))
         \<and> (text_contains lower (lit '': on'') \<or> text_ends_with lower (lit ''on'')))"

definition read_conf_compute_state :: "gpu_host \<Rightarrow> nat \<Rightarrow> env \<Rightarrow> attestation_error + json" where
  "read_conf_compute_state G n env =
     (case gh_run G n (nvidia_smi_bin env) [''conf-compute'', ''-q''] (env_timeout_secs env ''TEECHAT_NVIDIA_SMI_TIMEOUT_SECS'' 45) of
        Inl e \<Rightarrow> Inl e
      | Inr (success, out) \<Rightarrow>
          if \<not> success then Inr (JObj [(''enabled'', JBool False)])
          else (let content = from_utf8_lossy (map uint out);
                    field = (\<lambda>key label cc. case capture_field content (lit label) of None \<Rightarrow> cc | Some v \<Rightarrow> json_set key (JStr v) cc)
                in Inr (field ''environment'' ''Environment'' (field ''dev_tools_attestation'' ''DevTools Attestation''
                     (JObj [(''enabled'', JBool (list_ex cc_line_on (unicode_lines [] content)))])))))"

definition cc_enabled :: "json \<Rightarrow> bool" where
  "cc_enabled cc \<longleftrightarrow> Option.bind (json_get ''enabled'' cc) as_bool = Some True"

definition has_cc_capable_gpu :: "gpu_host \<Rightarrow> env \<Rightarrow> attestation_error + bool" where
  "has_cc_capable_gpu G env =
     (case gh_run G 0 (nvidia_smi_bin env) [''-L''] (env_timeout_secs env ''TEECHAT_NVIDIA_SMI_TIMEOUT_SECS'' 45) of
        Inl e \<Rightarrow> Inl e
      | Inr (success, out) \<Rightarrow>
          if \<not> success then Inr False
          else (case read_conf_compute_state G 1 env of Inl e \<Rightarrow> Inl e | Inr cc \<Rightarrow> Inr (cc_enabled cc)))"

text \<open>\<^verbatim>\<open>as_i64() == Some(0)\<close>.\<close>

definition result_code_zero :: "json \<Rightarrow> bool" where
  "result_code_zero v \<longleftrightarrow> (case json_get ''result_code'' v of Some (JNum (PosInt n)) \<Rightarrow> n = 0 | Some (JNum (NegInt i)) \<Rightarrow> i = 0 | _ \<Rightarrow> False)"

definition gpu_evidences :: "json \<Rightarrow> json list" where
  "gpu_evidences v = (case Option.bind (json_get ''evidences'' v) as_array of None \<Rightarrow> [] | Some es \<Rightarrow> es)"

definition nonblank :: "string option \<Rightarrow> string option" where
  "nonblank nonce = Option.bind nonce (\<lambda>n. if trim n = [] then None else Some (trim n))"

definition collect_via_nvattest :: "gpu_host \<Rightarrow> env \<Rightarrow> string option \<Rightarrow> attestation_error + json" where
  "collect_via_nvattest G env nonce =
     (case nvattest_bin_from_env env of
        Inl e \<Rightarrow> Inl e
      | Inr bin \<Rightarrow>
         (let args = [''collect-evidence'', ''--device'', ''gpu'', ''--format'', ''json'']
                @ (case nonblank nonce of None \<Rightarrow> [] | Some n \<Rightarrow> [''--nonce'', n])
          in case gh_run G 3 bin args (env_timeout_secs env ''TEECHAT_NVATTEST_TIMEOUT_SECS'' 120) of
               Inl e \<Rightarrow> Inl e
             | Inr (success, out) \<Rightarrow>
                 if \<not> success then Inl (AToolFailed bin)
                 else (case gh_json G out of
                   Inl m \<Rightarrow> Inl (AJson (''nvattest-stdout: '' @ m))
                 | Inr parsed \<Rightarrow>
                     if \<not> result_code_zero parsed \<or> gpu_evidences parsed = [] then Inl (AToolFailed bin) else Inr parsed)))"

definition mock_gpu_evidence :: "gpu_host \<Rightarrow> json" where
  "mock_gpu_evidence G = JObj [(''v'', JNum (PosInt 1)), (''kind'', JStr (lit ''nv-cc'')), (''source'', JStr (lit ''mock'')),
     (''collected_at'', JStr (lit (gh_now G)))]"

definition not_applicable_evidence :: "gpu_host \<Rightarrow> json" where
  "not_applicable_evidence G = JObj [(''v'', JNum (PosInt 1)), (''kind'', JStr (lit ''nv-cc'')), (''not_applicable'', JBool True),
     (''collected_at'', JStr (lit (gh_now G)))]"

definition nvattest_evidence :: "gpu_host \<Rightarrow> json \<Rightarrow> json \<Rightarrow> string option \<Rightarrow> json" where
  "nvattest_evidence G cc_mode nvattest nonce =
     (let envelope = JObj [(''v'', JNum (PosInt 1)), (''kind'', JStr (lit ''nv-cc'')), (''collected_at'', JStr (lit (gh_now_millis G))),
             (''source'', JStr (lit ''nvattest'')), (''cc_mode'', cc_mode), (''nvattest'', nvattest)];
          envelope = (case nonblank nonce of None \<Rightarrow> envelope | Some n \<Rightarrow> json_set ''nonce'' (JStr (lit n)) envelope)
      in case (case gpu_evidences nvattest of [] \<Rightarrow> None | e # _ \<Rightarrow> get_str ''arch'' e) of
           None \<Rightarrow> envelope
         | Some arch \<Rightarrow> json_set ''measurements'' (JObj [(''architecture'', JStr arch)]) envelope)"

text \<open>The evidence before it is printed and encoded.\<close>

definition collect_gpu_evidence :: "gpu_host \<Rightarrow> env \<Rightarrow> string option \<Rightarrow> attestation_error + json" where
  "collect_gpu_evidence G env nonce =
     (let skip = (if mock_allowed env then mock_gpu_evidence G else not_applicable_evidence G)
      in if \<not> should_use_real_gpu_collector env then Inr skip
         else case has_cc_capable_gpu G env of
           Inl e \<Rightarrow> Inl e
         | Inr False \<Rightarrow> Inr skip
         | Inr True \<Rightarrow>
            (case read_conf_compute_state G 2 env of
               Inl e \<Rightarrow> Inl e
             | Inr cc_mode \<Rightarrow>
                 if \<not> cc_enabled cc_mode then Inl AGpuCcModeOff
                 else (case collect_via_nvattest G env nonce of
                   Inl e \<Rightarrow> Inl e | Inr nvattest \<Rightarrow> Inr (nvattest_evidence G cc_mode nvattest nonce))))"

definition collect_nv_cc_gpu_evidence_b64 :: "gpu_host \<Rightarrow> env \<Rightarrow> string option \<Rightarrow> attestation_error + string" where
  "collect_nv_cc_gpu_evidence_b64 G env nonce =
     (case collect_gpu_evidence G env nonce of Inl e \<Rightarrow> Inl e | Inr v \<Rightarrow> Inr (gh_encode G v))"

subsection \<open>Properties\<close>

text \<open>
  Accepted GPU claims have been verified: the driver and VBIOS reference manifests and the report
  are signed, the certificate chain is valid, measurements and secure boot are good, and the versions
  are in the policy's lists where it has any.
\<close>

theorem accepted_gpu_claims_guarantee:
  assumes "gv_ok (validate_nv_gpu_claims_against_policy claims policy)"
  shows "claim_bool claims ''x-nvidia-gpu-driver-rim-signature-verified'' \<and> claim_bool claims ''x-nvidia-gpu-vbios-rim-signature-verified''
    \<and> claim_bool claims ''x-nvidia-gpu-attestation-report-signature-verified'' \<and> claim_bool claims ''x-nvidia-gpu-arch-check''
    \<and> cert_chain_validated claims \<and> rim_schema_validated claims ''driver'' \<and> rim_schema_validated claims ''vbios''
    \<and> Option.bind (claims ''measres'') as_str = Some (lit ''success'') \<and> Option.bind (claims ''secboot'') as_bool = Some True
    \<and> (gp_allowed_gpu_driver_versions policy = {}
        \<or> text_lower (claim_text (claims ''x-nvidia-gpu-driver-version'')) \<in> gp_allowed_gpu_driver_versions policy)
    \<and> (gp_allowed_gpu_vbios_versions policy = {}
        \<or> text_lower (claim_text (claims ''x-nvidia-gpu-vbios-version'')) \<in> gp_allowed_gpu_vbios_versions policy)"
proof -
  have "list_all (claim_required_true claims) required_gpu_claims"
    using assms by (auto simp: validate_nv_gpu_claims_against_policy_def gpu_fail_def find_None_iff list_all_iff
        split: option.splits if_splits)
  then have required: "claim_bool claims ''x-nvidia-gpu-driver-rim-signature-verified''"
    "claim_bool claims ''x-nvidia-gpu-vbios-rim-signature-verified''"
    "claim_bool claims ''x-nvidia-gpu-attestation-report-signature-verified''" "claim_bool claims ''x-nvidia-gpu-arch-check''"
    "cert_chain_validated claims" "rim_schema_validated claims ''driver''" "rim_schema_validated claims ''vbios''"
    by (simp_all add: required_gpu_claims_def claim_required_true_def)
  show ?thesis using assms required
    by (auto simp: validate_nv_gpu_claims_against_policy_def gpu_fail_def split: option.splits if_splits)
qed

definition sample_gpu_claims :: gpu_claims where
  "sample_gpu_claims = map_of (map (\<lambda>k. (k, JBool True)) required_gpu_claims
     @ [(''measres'', JStr (lit ''success'')), (''secboot'', JBool True),
        (''x-nvidia-gpu-driver-version'', JStr (lit ''580.95.05'')), (''x-nvidia-gpu-vbios-version'', JStr (lit ''97.00.88.00.0F'')),
        (''x-nvidia-gpu-architecture'', JStr (lit ''BLACKWELL''))])"

lemmas gpu_claim_simps = validate_nv_gpu_claims_against_policy_def sample_gpu_claims_def required_gpu_claims_def
  claim_required_true_def cert_chain_validated_def rim_schema_validated_def claim_bool_def claim_text_def
  default_gpu_attestation_policy_def gpu_ok_def gpu_fail_def ascii_upper_text_def

lemma sample_gpu_claims_accepted:
  "gv_ok (validate_nv_gpu_claims_against_policy sample_gpu_claims
     (default_gpu_attestation_policy\<lparr>gp_allowed_gpu_architectures := {lit ''blackwell''}\<rparr>))"
  by code_simp

theorem accepted_gpu_claims_guarantee_witness:
  "claim_bool sample_gpu_claims ''x-nvidia-gpu-attestation-report-signature-verified'' \<and> cert_chain_validated sample_gpu_claims"
  using accepted_gpu_claims_guarantee[OF sample_gpu_claims_accepted] by blast

text \<open>
  A driver or VBIOS version in the policy that is not already in lower case allows nothing: the
  claim is lowered before it is looked up and the policy's entry is not, so no evidence passes a list of
  such entries, not even evidence that states the very version listed.
\<close>

lemma text_lower_idem [simp]: "text_lower (text_lower t) = text_lower t"
  by (auto simp: text_lower_def)

theorem mixed_case_version_allows_nothing:
  assumes "versions \<noteq> {}" and "\<And>v. v \<in> versions \<Longrightarrow> text_lower v \<noteq> v"
    and "gp_allowed_gpu_vbios_versions policy = versions \<or> gp_allowed_gpu_driver_versions policy = versions"
  shows "\<not> gv_ok (validate_nv_gpu_claims_against_policy claims policy)"
proof -
  have "text_lower v \<notin> versions" for v using assms(2)[of "text_lower v"] by auto
  with assms(1,3) show ?thesis
    by (auto simp: validate_nv_gpu_claims_against_policy_def gpu_fail_def split: option.splits)
qed

theorem mixed_case_version_allows_nothing_witness:
  "claim_text (sample_gpu_claims ''x-nvidia-gpu-vbios-version'') = lit ''97.00.88.00.0F''
   \<and> \<not> gv_ok (validate_nv_gpu_claims_against_policy sample_gpu_claims
        (default_gpu_attestation_policy\<lparr>gp_allowed_gpu_vbios_versions := {lit ''97.00.88.00.0F''}\<rparr>))"
proof
  show "claim_text (sample_gpu_claims ''x-nvidia-gpu-vbios-version'') = lit ''97.00.88.00.0F''" by code_simp
  have "text_lower (lit ''97.00.88.00.0F'') \<noteq> lit ''97.00.88.00.0F''" by code_simp
  then show "\<not> gv_ok (validate_nv_gpu_claims_against_policy sample_gpu_claims
        (default_gpu_attestation_policy\<lparr>gp_allowed_gpu_vbios_versions := {lit ''97.00.88.00.0F''}\<rparr>))"
    by (intro mixed_case_version_allows_nothing[where versions = "{lit ''97.00.88.00.0F''}"]) auto
qed

text \<open>
  (C37) What a verifier that requires GPU attestation accepts, in a production build or not: exactly
  evidence that calls itself a mock, and a not-applicable marker when GPU verification is skipped.
  Evidence collected from a real GPU is not among it.
\<close>

theorem required_gpu_evidence_is_mock:
  assumes "gp_require_gpu_attestation policy"
  shows "gv_ok (verify_nv_cc_gpu_evidence G e policy skip production)
    \<longleftrightarrow> \<not> (production \<and> (str_contains e ''gpu-tee-pending'' \<or> e = ''Z3B1LXRlZS1wZW5kaW5n''))
      \<and> (\<exists>raw v. gh_decode G e = Some raw \<and> gh_json G raw = Inr v
           \<and> (get_str ''source'' v = Some (lit ''mock'')
              \<or> skip \<and> Option.bind (json_get ''not_applicable'' v) as_bool = Some True))"
  using assms by (auto simp: verify_nv_cc_gpu_evidence_def verify_mock_nv_cc_gpu_evidence_def gpu_fail_def gpu_ok_def
      split: option.splits sum.splits)

definition sample_gpu_host :: gpu_host where
  "sample_gpu_host = \<lparr>gh_process = (\<lambda>n bin args. \<lparr>po_spawn = None, po_pipes = None, po_look = (\<lambda>_. Exited True), po_late = (\<lambda>_. 0),
       po_stdout = map of_char (if n = 3 then ''evidence'' else ''CC State: ON'')\<rparr>),
     gh_decode = (\<lambda>e. if e = ''bW9jaw'' then Some [1] else if e = ''bnZhdHRlc3Q'' then Some [2] else None),
     gh_json = (\<lambda>raw. if raw = [1] then Inr (JObj [(''source'', JStr (lit ''mock''))])
        else if raw = [2] then Inr (JObj [(''source'', JStr (lit ''nvattest''))])
        else if raw = map of_char ''evidence''
        then Inr (JObj [(''result_code'', JNum (PosInt 0)), (''evidences'', JArr [JObj [(''arch'', JStr (lit ''BLACKWELL''))]])])
        else Inl ''expected value''),
     gh_encode = (\<lambda>v. if get_str ''source'' v = Some (lit ''mock'') then ''bW9jaw'' else ''bnZhdHRlc3Q''),
     gh_now = ''2026-01-01T00:00:00+00:00'', gh_now_millis = ''2026-01-01T00:00:00.000Z''\<rparr>"

theorem required_gpu_evidence_is_mock_witness:
  "gv_ok (verify_nv_cc_gpu_evidence sample_gpu_host ''bW9jaw'' default_gpu_attestation_policy False True)
   \<and> \<not> gv_ok (verify_nv_cc_gpu_evidence sample_gpu_host ''bnZhdHRlc3Q'' default_gpu_attestation_policy False True)"
proof -
  have required: "gp_require_gpu_attestation default_gpu_attestation_policy" by (simp add: default_gpu_attestation_policy_def)
  have "lit ''nvattest'' \<noteq> lit ''mock''" by (simp add: lit_def)
  then show ?thesis
    unfolding required_gpu_evidence_is_mock[OF required] by (simp add: sample_gpu_host_def get_str_def)
qed

text \<open>
  Only an \<^verbatim>\<open>nvattest\<close> from the system's own directories is ever run: a configured program is the
  bare name or an absolute path below one of the two, without a step to a parent directory.
\<close>

theorem nvattest_program_is_contained:
  assumes "nvattest_bin_from_env env = Inr p"
  shows "\<not> str_contains p ''..'' \<and> (p = ''nvattest''
    \<or> (starts_with p ''/usr/bin/'' \<or> starts_with p ''/usr/local/bin/'') \<and> path_file_name p = Some ''nvattest'')"
  using assms by (auto simp: nvattest_bin_from_env_def resolve_nvattest_bin_def Let_def split: if_splits)

theorem nvattest_program_is_contained_witness:
  "path_file_name ''/usr/local/bin/nvattest'' = Some ''nvattest''
   \<and> (\<exists>p. nvattest_bin_from_env [''TEECHAT_NVATTEST_BIN'' \<mapsto> '' /usr/local/bin/nvattest''] = Inr p \<and> \<not> str_contains p ''..'')"
proof -
  have run: "nvattest_bin_from_env [''TEECHAT_NVATTEST_BIN'' \<mapsto> '' /usr/local/bin/nvattest''] = Inr ''/usr/local/bin/nvattest''"
    by code_simp
  show ?thesis using nvattest_program_is_contained[OF run] run by simp
qed

text \<open>
  Outside the development environments no mock evidence is produced: what is collected was
  either marked not applicable, because no GPU has confidential computing on, or comes from
  \<^verbatim>\<open>nvattest\<close>, run with confidential computing on and reporting success with evidence.
\<close>

theorem production_never_collects_mock:
  assumes "\<not> mock_allowed env" and "collect_gpu_evidence G env nonce = Inr v"
  shows "get_str ''source'' v \<noteq> Some (lit ''mock'')
    \<and> (v = not_applicable_evidence G \<and> has_cc_capable_gpu G env = Inr False
       \<or> has_cc_capable_gpu G env = Inr True \<and> get_str ''source'' v = Some (lit ''nvattest'')
         \<and> (\<exists>cc report. read_conf_compute_state G 2 env = Inr cc \<and> cc_enabled cc
              \<and> collect_via_nvattest G env nonce = Inr report \<and> result_code_zero report \<and> gpu_evidences report \<noteq> []
              \<and> v = nvattest_evidence G cc report nonce))"
proof -
  have real: "should_use_real_gpu_collector env" using assms(1) by (simp add: should_use_real_gpu_collector_def)
  have differ: "lit ''nvattest'' \<noteq> lit ''mock''" by (simp add: lit_def)
  have source: "get_str ''source'' (nvattest_evidence G cc report nonce) = Some (lit ''nvattest'')" for cc report
    by (auto simp: nvattest_evidence_def get_str_def Let_def split: option.splits list.splits)
  have reported: "result_code_zero report \<and> gpu_evidences report \<noteq> []" if "collect_via_nvattest G env nonce = Inr report" for report
    using that by (auto simp: collect_via_nvattest_def Let_def split: sum.splits if_splits prod.splits)
  show ?thesis using assms real differ source reported
    by (auto simp: collect_gpu_evidence_def Let_def not_applicable_evidence_def get_str_def
        split: sum.splits bool.splits if_splits)
qed

theorem production_never_collects_mock_witness:
  "\<exists>v. collect_gpu_evidence sample_gpu_host [''TEECHAT_ENV'' \<mapsto> ''production''] None = Inr v
     \<and> get_str ''source'' v = Some (lit ''nvattest'')"
proof -
  let ?env = "[''TEECHAT_ENV'' \<mapsto> ''production'']"
  have production: "\<not> mock_allowed ?env" by code_simp
  have capable: "has_cc_capable_gpu sample_gpu_host ?env = Inr True" by code_simp
  have "\<not> Option.is_none (case collect_gpu_evidence sample_gpu_host ?env None of Inl _ \<Rightarrow> None | Inr v \<Rightarrow> Some v)"
    by code_simp
  then obtain v where run: "collect_gpu_evidence sample_gpu_host ?env None = Inr v" by (auto split: sum.splits)
  show ?thesis using production_never_collects_mock[OF production run] run capable by auto
qed

end
