(* ===== verification/Plane_Transport.thy ===== *)
theory Plane_Transport
  imports Pull_Worker
begin

section \<open>The transport of a session\<close>

text \<open>
  \<^verbatim>\<open>ie-runtime/src/tls.rs\<close> and \<^verbatim>\<open>ie-engine/src/plane/hyper_transport.rs\<close>: the client's TLS material,
  dialling the gateway, and the requests sent over one HTTP/2 connection. Sockets, TLS, HTTP/2, PEM and JSON
  are the host; a transport records what it sends, and the answers may depend on all of it.
\<close>

subsection \<open>TLS material\<close>

record engine_client_tls_material =
  tm_ca_cert_pem :: string
  tm_client_cert_pem :: string
  tm_client_key_pem :: string
  tm_client_cert_sha256 :: string

record tls_host =
  th_read_pem :: "string \<Rightarrow> string + string"
  th_keygen :: "string + string"
  th_self_sign :: "string \<Rightarrow> string \<Rightarrow> string + string"
  th_cert_digest :: "string \<Rightarrow> string + string"

definition generate_ephemeral_client_identity :: "tls_host \<Rightarrow> string \<Rightarrow> string + string \<times> string \<times> string" where
  "generate_ephemeral_client_identity T subject =
     (case th_keygen T of Inl e \<Rightarrow> Inl (''ephemeral engine-plane identity: keygen: '' @ e)
      | Inr key \<Rightarrow>
         (case th_self_sign T subject key of Inl e \<Rightarrow> Inl (''ephemeral engine-plane identity: '' @ e)
          | Inr cert \<Rightarrow>
             (case th_cert_digest T cert of Inl e \<Rightarrow> Inl (''attested-mtls error: cert digest: '' @ e)
              | Inr digest \<Rightarrow> Inr (cert, key, digest))))"

definition CA_PEM_ENV :: string where
  "CA_PEM_ENV = ''TEECHAT_GATEWAY_ENGINE_TLS_CA_PEM''"

definition engine_plane_client_tls :: "tls_host \<Rightarrow> env \<Rightarrow> string \<Rightarrow> string + engine_client_tls_material" where
  "engine_plane_client_tls T env subject =
     (case Option.bind (env CA_PEM_ENV) (\<lambda>v. if trim v = [] then None else Some v) of
        None \<Rightarrow> Inl (''attested-mtls error: '' @ CA_PEM_ENV @ '' is required'')
      | Some raw \<Rightarrow>
         (case th_read_pem T raw of Inl e \<Rightarrow> Inl (''attested-mtls error: '' @ e)
          | Inr ca \<Rightarrow>
             (case generate_ephemeral_client_identity T subject of Inl e \<Rightarrow> Inl e
              | Inr (cert, key, digest) \<Rightarrow>
                  Inr \<lparr>tm_ca_cert_pem = ca, tm_client_cert_pem = cert, tm_client_key_pem = key, tm_client_cert_sha256 = digest\<rparr>)))"

subsection \<open>Dialling\<close>

record client_config =
  cc_roots :: "bytes list"
  cc_certs :: "bytes list"
  cc_key :: bytes
  cc_alpn :: "string list"

record dial_host =
  dh_certs :: "string \<Rightarrow> string + bytes list"
  dh_add_root :: "bytes \<Rightarrow> string option"
  dh_private_key :: "string \<Rightarrow> string + bytes option"
  dh_client_auth :: "bytes list \<Rightarrow> bytes \<Rightarrow> string option"
  dh_url :: "string \<Rightarrow> string + string option \<times> nat option"
  dh_server_name :: "string \<Rightarrow> string option"
  dh_tcp :: "string \<Rightarrow> nat \<Rightarrow> string option"
  dh_tls :: "client_config \<Rightarrow> string \<Rightarrow> string + string option \<times> bytes list option"
  dh_handshake :: "string option"
  dh_sha256 :: "bytes \<Rightarrow> bytes"
  dh_show_alpn :: "string option \<Rightarrow> string"

definition build_client_config :: "dial_host \<Rightarrow> engine_client_tls_material \<Rightarrow> bool \<Rightarrow> plane_error + client_config" where
  "build_client_config D tls reject_unauthorized =
     (case dh_certs D (tm_ca_cert_pem tls) of Inl e \<Rightarrow> Inl (PTls (''ca pem: '' @ e))
      | Inr roots \<Rightarrow>
         (case first_some (dh_add_root D) roots of Some e \<Rightarrow> Inl (PTls (''ca add: '' @ e))
          | None \<Rightarrow>
             (case dh_certs D (tm_client_cert_pem tls) of Inl e \<Rightarrow> Inl (PTls (''client cert: '' @ e))
              | Inr certs \<Rightarrow>
                 (case dh_private_key D (tm_client_key_pem tls) of
                    Inl e \<Rightarrow> Inl (PTls (''client key: '' @ e))
                  | Inr None \<Rightarrow> Inl (PTls ''client key missing'')
                  | Inr (Some key) \<Rightarrow>
                     (case dh_client_auth D certs key of
                        Some e \<Rightarrow> Inl (PTls (''client auth: '' @ e))
                      | None \<Rightarrow>
                          if \<not> reject_unauthorized then Inl (PTls
                            ''reject_unauthorized=false is disabled; set TEECHAT_ENGINE_ALLOW_INSECURE_TLS=1 only for local labs'')
                          else Inr \<lparr>cc_roots = roots, cc_certs = certs, cc_key = key, cc_alpn = [''h2'']\<rparr>)))))"

record hyper_transport =
  ht_authority :: string
  ht_closed :: bool

definition dial_hyper_transport ::
    "dial_host \<Rightarrow> string \<Rightarrow> engine_client_tls_material \<Rightarrow> bool \<Rightarrow> plane_error + hyper_transport \<times> string" where
  "dial_hyper_transport D url tls reject_unauthorized =
     (case dh_url D url of
        Inl e \<Rightarrow> Inl (PInvalidUrl e)
      | Inr (None, _) \<Rightarrow> Inl (PInvalidUrl ''missing host'')
      | Inr (Some host, port) \<Rightarrow>
         (let port = (case port of None \<Rightarrow> 443 | Some p \<Rightarrow> p)
          in case dh_server_name D host of
               Some e \<Rightarrow> Inl (PTls (''invalid SNI: '' @ e))
             | None \<Rightarrow>
                (case build_client_config D tls reject_unauthorized of
                   Inl e \<Rightarrow> Inl e
                 | Inr cfg \<Rightarrow>
                    (case dh_tcp D host port of
                       Some e \<Rightarrow> Inl (PIo e)
                     | None \<Rightarrow>
                        (case dh_tls D cfg host of
                           Inl e \<Rightarrow> Inl (PTls e)
                         | Inr (alpn, certs) \<Rightarrow>
                             if alpn \<noteq> Some ''h2'' then Inl (PTls (''expected ALPN h2, negotiated='' @ dh_show_alpn D alpn))
                             else (case certs of
                               None \<Rightarrow> Inl (PTls ''missing server certificate'')
                             | Some [] \<Rightarrow> Inl (PTls ''missing server certificate'')
                             | Some (der # _) \<Rightarrow>
                                (case dh_handshake D of
                                   Some e \<Rightarrow> Inl (PH2 e)
                                 | None \<Rightarrow> Inr
                                    (\<lparr>ht_authority = (if port = 443 then host else host @ '':'' @ show_nat port), ht_closed = False\<rparr>,
                                     hex_encode (dh_sha256 D der)))))))))"

subsection \<open>Requests\<close>

record h2_request =
  hq_method :: string
  hq_path :: string
  hq_headers :: "(string \<times> string) list"
  hq_body :: bytes

record h2_host =
  xh_build :: "h2_request \<Rightarrow> string option"
  xh_closed :: "h2_request list \<Rightarrow> bool"
  xh_send :: "h2_request list \<Rightarrow> string + u16 \<times> (string \<times> bytes) list"
  xh_body :: "h2_request list \<Rightarrow> string + bytes"
  xh_json :: "bytes \<Rightarrow> json option"
  xh_print :: "json \<Rightarrow> bytes"

record h2_line =
  hl_transport :: hyper_transport
  hl_sent :: "h2_request list"

definition mark_closed :: "h2_line \<Rightarrow> h2_line" where
  "mark_closed l = l\<lparr>hl_transport := (hl_transport l)\<lparr>ht_closed := True\<rparr>\<rparr>"

text \<open>The part that \<^verbatim>\<open>send\<close> and \<^verbatim>\<open>send_bytes\<close> share: the request, its response head and its whole body.\<close>

definition exchange :: "h2_host \<Rightarrow> h2_request \<Rightarrow> h2_line \<Rightarrow> (plane_error + u16 \<times> (string \<times> bytes) list \<times> bytes) \<times> h2_line" where
  "exchange X request l =
     (case xh_build X request of
        Some e \<Rightarrow> (Inl (PH2 e), l)
      | None \<Rightarrow>
          if xh_closed X (hl_sent l) then (Inl (PH2 ''h2 connection closed''), mark_closed l)
          else let l = l\<lparr>hl_sent := hl_sent l @ [request]\<rparr>
            in case xh_send X (hl_sent l) of
                 Inl e \<Rightarrow> (Inl (PH2 (''send_request: '' @ e)), mark_closed l)
               | Inr (status, headers) \<Rightarrow>
                  (case xh_body X (hl_sent l) of
                     Inl e \<Rightarrow> (Inl (PH2 (''body: '' @ e)), mark_closed l)
                   | Inr body \<Rightarrow> (Inr (status, headers, body), l)))"

definition json_headers :: "string option \<Rightarrow> (string \<times> string) list" where
  "json_headers content_type = (case content_type of None \<Rightarrow> [] | Some ct \<Rightarrow> [(''content-type'', ct)])"

definition send_json ::
    "h2_host \<Rightarrow> string \<Rightarrow> string \<Rightarrow> json option \<Rightarrow> (string \<times> string) list \<Rightarrow> h2_line \<Rightarrow> (plane_error + u16 \<times> json) \<times> h2_line" where
  "send_json X verb path body headers l =
     (let request = \<lparr>hq_method = verb, hq_path = path,
            hq_headers = (''host'', ht_authority (hl_transport l))
              # json_headers (map_option (\<lambda>_. ''application/json'') body) @ headers,
            hq_body = (case body of None \<Rightarrow> [] | Some v \<Rightarrow> xh_print X v)\<rparr>
      in case exchange X request l of
           (Inl e, l) \<Rightarrow> (Inl e, l)
         | (Inr (status, _, bytes), l) \<Rightarrow>
             (Inr (status, if bytes = [] then JNull
                else case xh_json X bytes of None \<Rightarrow> JStr (from_utf8_lossy (map uint bytes)) | Some v \<Rightarrow> v), l))"

text \<open>\<^verbatim>\<open>HeaderValue::to_str\<close>: a header that is not visible ASCII is left out.\<close>

definition header_text :: "bytes \<Rightarrow> string option" where
  "header_text v = (if list_all (\<lambda>b. (32 \<le> b \<and> b < 127) \<or> b = 9) v then Some (map (\<lambda>b. char_of (unat b)) v) else None)"

definition text_headers :: "(string \<times> bytes) list \<Rightarrow> (string \<times> string) list" where
  "text_headers hs = List.map_filter (\<lambda>(name, v). map_option (Pair name) (header_text v)) hs"

definition send_bytes ::
    "h2_host \<Rightarrow> string \<Rightarrow> string \<Rightarrow> bytes option \<Rightarrow> string option \<Rightarrow> (string \<times> string) list \<Rightarrow> h2_line
     \<Rightarrow> (plane_error + bytes_response) \<times> h2_line" where
  "send_bytes X verb path body content_type headers l =
     (let ct = (case content_type of Some ct \<Rightarrow> Some ct | None \<Rightarrow> map_option (\<lambda>_. ''application/json'') body);
          request = \<lparr>hq_method = verb, hq_path = path,
            hq_headers = (''host'', ht_authority (hl_transport l)) # json_headers ct @ headers,
            hq_body = (case body of None \<Rightarrow> [] | Some b \<Rightarrow> b)\<rparr>
      in case exchange X request l of
           (Inl e, l) \<Rightarrow> (Inl e, l)
         | (Inr (status, hs, bytes), l) \<Rightarrow> (Inr \<lparr>br_status = status, br_headers = text_headers hs, br_body = bytes\<rparr>, l))"

text \<open>
  A streaming post is handed to the connection before its body is written; its chunks are the request's
  body once it is finished. Neither opening nor finishing it touches the closed flag.
\<close>

definition open_streaming_post ::
    "h2_host \<Rightarrow> string \<Rightarrow> string \<Rightarrow> (string \<times> string) list \<Rightarrow> h2_line \<Rightarrow> plane_error + h2_request" where
  "open_streaming_post X path content_type headers l =
     (let request = \<lparr>hq_method = ''POST'', hq_path = path,
            hq_headers = (''host'', ht_authority (hl_transport l)) # (''content-type'', content_type) # headers, hq_body = []\<rparr>
      in case xh_build X request of Some e \<Rightarrow> Inl (PH2 e) | None \<Rightarrow> Inr request)"

definition streaming_write :: "bytes \<Rightarrow> h2_request \<Rightarrow> h2_request" where
  "streaming_write chunk request = request\<lparr>hq_body := hq_body request @ chunk\<rparr>"

definition streaming_finish :: "h2_host \<Rightarrow> h2_request \<Rightarrow> h2_line \<Rightarrow> (plane_error + bytes_response) \<times> h2_line" where
  "streaming_finish X request l =
     (let l = l\<lparr>hl_sent := hl_sent l @ [request]\<rparr>
      in (case xh_send X (hl_sent l) of
            Inl e \<Rightarrow> Inl (PH2 (''response: '' @ e))
          | Inr (status, hs) \<Rightarrow>
             (case xh_body X (hl_sent l) of
                Inl e \<Rightarrow> Inl (PH2 (''body: '' @ e))
              | Inr body \<Rightarrow> Inr \<lparr>br_status = status, br_headers = text_headers hs, br_body = body\<rparr>), l))"

text \<open>\<open>held\<close> says whether the sender is locked by a request; the lock is only tried.\<close>

definition transport_is_closed :: "h2_host \<Rightarrow> bool \<Rightarrow> h2_line \<Rightarrow> bool" where
  "transport_is_closed X held l \<longleftrightarrow> ht_closed (hl_transport l) \<or> \<not> held \<and> xh_closed X (hl_sent l)"

definition transport_close :: "h2_line \<Rightarrow> h2_line" where
  "transport_close l = mark_closed l"

end
