(* ===== verification/Transport_Properties.thy ===== *)
theory Transport_Properties
  imports Plane_Transport
begin

section \<open>Properties of the transport\<close>

text \<open>
  What a dialled transport guarantees of its peer, that a broken exchange closes the transport for
  good while a closed one still sends, and that requests which share a transport take turns.
\<close>

subsection \<open>Dialling\<close>

lemma client_config_ok:
  assumes "build_client_config D tls reject_unauthorized = Inr cfg"
  shows "reject_unauthorized \<and> dh_certs D (tm_ca_cert_pem tls) = Inr (cc_roots cfg)
    \<and> dh_certs D (tm_client_cert_pem tls) = Inr (cc_certs cfg) \<and> dh_private_key D (tm_client_key_pem tls) = Inr (Some (cc_key cfg))
    \<and> cc_alpn cfg = [''h2'']"
  using assms by (auto simp: build_client_config_def split: sum.splits option.splits if_splits)

text \<open>
  A dialled transport belongs to a peer that the configured roots were offered to, with the engine's
  own certificate and key, that negotiated HTTP/2, and whose certificate has the digest that is
  returned with the transport; a dial that does not reject unauthorized peers fails.
\<close>

theorem dial_identifies_the_peer:
  assumes "dial_hyper_transport D url tls reject_unauthorized = Inr (t, fingerprint)"
  shows "reject_unauthorized \<and> \<not> ht_closed t
    \<and> (\<exists>host port cfg der rest. dh_url D url = Inr (Some host, port) \<and> cc_alpn cfg = [''h2'']
         \<and> dh_certs D (tm_ca_cert_pem tls) = Inr (cc_roots cfg) \<and> dh_certs D (tm_client_cert_pem tls) = Inr (cc_certs cfg)
         \<and> dh_private_key D (tm_client_key_pem tls) = Inr (Some (cc_key cfg))
         \<and> dh_tls D cfg host = Inr (Some ''h2'', Some (der # rest)) \<and> fingerprint = hex_encode (dh_sha256 D der))"
proof -
  obtain host port where url: "dh_url D url = Inr (Some host, port)"
    using assms by (auto simp: dial_hyper_transport_def split: sum.splits option.splits)
  obtain cfg where cfg: "build_client_config D tls reject_unauthorized = Inr cfg"
    using assms url by (auto simp: dial_hyper_transport_def Let_def split: sum.splits option.splits)
  obtain der rest where "dh_tls D cfg host = Inr (Some ''h2'', Some (der # rest))" "fingerprint = hex_encode (dh_sha256 D der)"
      "\<not> ht_closed t"
    using assms url cfg
    by (auto simp: dial_hyper_transport_def Let_def split: sum.splits option.splits if_splits list.splits)
  with url client_config_ok [OF cfg] show ?thesis by blast
qed

definition sample_tls :: engine_client_tls_material where
  "sample_tls = \<lparr>tm_ca_cert_pem = ''ca'', tm_client_cert_pem = ''cert'', tm_client_key_pem = ''key'', tm_client_cert_sha256 = ''aa''\<rparr>"

definition sample_dial_host :: dial_host where
  "sample_dial_host = \<lparr>dh_certs = (\<lambda>pem. Inr [map of_char pem]), dh_add_root = (\<lambda>_. None), dh_private_key = (\<lambda>_. Inr (Some [7])),
     dh_client_auth = (\<lambda>_ _. None), dh_url = (\<lambda>_. Inr (Some ''gateway'', None)), dh_server_name = (\<lambda>_. None),
     dh_tcp = (\<lambda>_ _. None), dh_tls = (\<lambda>_ _. Inr (Some ''h2'', Some [[1, 2]])), dh_handshake = None,
     dh_sha256 = (\<lambda>b. b), dh_show_alpn = (\<lambda>_. ''None'')\<rparr>"

theorem dial_identifies_the_peer_witness:
  "\<exists>t. dial_hyper_transport sample_dial_host ''https://gateway'' sample_tls True = Inr (t, ''0102'') \<and> \<not> ht_closed t"
proof -
  have run: "dial_hyper_transport sample_dial_host ''https://gateway'' sample_tls True
    = Inr (\<lparr>ht_authority = ''gateway'', ht_closed = False\<rparr>, ''0102'')"
    by (simp add: dial_hyper_transport_def build_client_config_def sample_dial_host_def sample_tls_def) code_simp
  show ?thesis using dial_identifies_the_peer [OF run] run by auto
qed

subsection \<open>Closing\<close>

lemma exchange_closed:
  assumes "exchange X request l = (r, l')"
  shows "ht_closed (hl_transport l') \<longleftrightarrow> ht_closed (hl_transport l) \<or> (\<exists>e. r = Inl e \<and> xh_build X request = None)"
  using assms by (auto simp: exchange_def mark_closed_def Let_def split: option.splits if_splits sum.splits)

lemma send_bytes_exchange:
  assumes "send_bytes X verb path body content_type headers l = (r, l')"
  obtains request r' where "exchange X request l = (r', l')" "isl r' \<longleftrightarrow> isl r"
  using assms by (auto simp: send_bytes_def Let_def split: prod.splits sum.splits)

lemma send_json_exchange:
  assumes "send_json X verb path body headers l = (r, l')"
  obtains request r' where "exchange X request l = (r', l')" "isl r' \<longleftrightarrow> isl r"
  using assms by (auto simp: send_json_def Let_def split: prod.splits sum.splits)

text \<open>
  Once closed a transport stays closed, whatever is sent, and a request that fails after it was
  accepted closes it; a failed streaming post leaves it open.
\<close>

theorem failed_exchange_closes_for_good:
  shows "ht_closed (hl_transport l) \<longrightarrow>
      ht_closed (hl_transport (snd (send_bytes X verb path body ct headers l)))
      \<and> ht_closed (hl_transport (snd (send_json X verb path value headers l)))
      \<and> ht_closed (hl_transport (snd (streaming_finish X request l)))"
    and "(\<forall>request. xh_build X request = None) \<longrightarrow> isl (fst (send_bytes X verb path body ct headers l)) \<longrightarrow>
      transport_is_closed X held (snd (send_bytes X verb path body ct headers l))"
    and "hl_transport (snd (streaming_finish X request l)) = hl_transport l"
proof -
  show "hl_transport (snd (streaming_finish X request l)) = hl_transport l"
    by (simp add: streaming_finish_def Let_def)
  obtain r l1 where b: "send_bytes X verb path body ct headers l = (r, l1)" by fastforce
  obtain q l2 where j: "send_json X verb path value headers l = (q, l2)" by fastforce
  show "ht_closed (hl_transport l) \<longrightarrow>
      ht_closed (hl_transport (snd (send_bytes X verb path body ct headers l)))
      \<and> ht_closed (hl_transport (snd (send_json X verb path value headers l)))
      \<and> ht_closed (hl_transport (snd (streaming_finish X request l)))"
    using b j by (auto simp: streaming_finish_def Let_def elim!: send_bytes_exchange send_json_exchange dest!: exchange_closed)
  show "(\<forall>request. xh_build X request = None) \<longrightarrow> isl (fst (send_bytes X verb path body ct headers l)) \<longrightarrow>
      transport_is_closed X held (snd (send_bytes X verb path body ct headers l))"
    using b by (auto simp: transport_is_closed_def isl_def elim!: send_bytes_exchange dest!: exchange_closed)
qed

text \<open>
  Closing only sets the flag: a request on a closed transport is sent, and answered, as on an open one.
\<close>

theorem closed_transport_still_sends:
  "fst (send_bytes X verb path body ct headers (transport_close l)) = fst (send_bytes X verb path body ct headers l)
   \<and> hl_sent (snd (send_bytes X verb path body ct headers (transport_close l))) = hl_sent (snd (send_bytes X verb path body ct headers l))"
  by (auto simp: send_bytes_def transport_close_def exchange_def mark_closed_def Let_def split: option.splits if_splits sum.splits)

subsection \<open>Sharing\<close>

text \<open>
  Requests on one transport, each named by a number: it queues for the sender, holds the sender while
  it awaits the head of its response, and then reads the body without it. A streaming post takes the
  sender and returns it at once.
\<close>

datatype request_phase = Queued | Awaiting | Collecting | Finished

record shared_sender =
  ss_holder :: "nat option"
  ss_phase :: "nat \<Rightarrow> request_phase option"

definition fresh_sender :: "shared_sender \<Rightarrow> bool" where
  "fresh_sender s \<longleftrightarrow> s = \<lparr>ss_holder = None, ss_phase = \<lambda>_. None\<rparr>"

inductive sender_step :: "shared_sender \<Rightarrow> shared_sender \<Rightarrow> bool" where
  arrive: "ss_phase s i = None \<Longrightarrow> sender_step s (s\<lparr>ss_phase := (ss_phase s)(i \<mapsto> Queued)\<rparr>)"
| refuse: "ss_phase s i = Some Queued \<Longrightarrow> ss_holder s = None
    \<Longrightarrow> sender_step s (s\<lparr>ss_phase := (ss_phase s)(i \<mapsto> Finished)\<rparr>)"
| send: "ss_phase s i = Some Queued \<Longrightarrow> ss_holder s = None
    \<Longrightarrow> sender_step s (s\<lparr>ss_holder := Some i, ss_phase := (ss_phase s)(i \<mapsto> Awaiting)\<rparr>)"
| head: "ss_holder s = Some i
    \<Longrightarrow> sender_step s (s\<lparr>ss_holder := None, ss_phase := (ss_phase s)(i \<mapsto> Collecting)\<rparr>)"
| fail: "ss_holder s = Some i
    \<Longrightarrow> sender_step s (s\<lparr>ss_holder := None, ss_phase := (ss_phase s)(i \<mapsto> Finished)\<rparr>)"
| collected: "ss_phase s i = Some Collecting \<Longrightarrow> sender_step s (s\<lparr>ss_phase := (ss_phase s)(i \<mapsto> Finished)\<rparr>)"
| stream: "ss_phase s i = None \<Longrightarrow> ss_holder s = None
    \<Longrightarrow> sender_step s (s\<lparr>ss_phase := (ss_phase s)(i \<mapsto> Collecting)\<rparr>)"

inductive_cases sender_stepE: "sender_step s t"

definition sender_wf :: "shared_sender \<Rightarrow> bool" where
  "sender_wf s \<longleftrightarrow> (\<forall>i. ss_phase s i = Some Awaiting \<longleftrightarrow> ss_holder s = Some i)"

interpretation sender_machine: state_machine fresh_sender sender_step sender_wf
proof
  show "sender_wf s" if "fresh_sender s" for s using that by (simp add: fresh_sender_def sender_wf_def)
  show "sender_wf t" if "sender_wf s" "sender_step s t" for s t
    using that(2,1) by (cases rule: sender_step.cases) (auto simp: sender_wf_def, (metis option.distinct(1) option.inject request_phase.distinct)+)
qed


definition waiting_pull :: shared_sender where
  "waiting_pull = \<lparr>ss_holder = Some 0, ss_phase = [0 \<mapsto> Awaiting, 1 \<mapsto> Queued]\<rparr>"

lemma waiting_pull_reachable: "reachable fresh_sender sender_step waiting_pull"
proof -
  let ?a = "\<lparr>ss_holder = None, ss_phase = \<lambda>_. None\<rparr>"
  let ?b = "?a\<lparr>ss_phase := (ss_phase ?a)(0 \<mapsto> Queued)\<rparr>"
  let ?c = "?b\<lparr>ss_holder := Some 0, ss_phase := (ss_phase ?b)(0 \<mapsto> Awaiting)\<rparr>"
  let ?d = "?c\<lparr>ss_phase := (ss_phase ?c)(1 \<mapsto> Queued)\<rparr>"
  have "reachable fresh_sender sender_step ?a" by (rule reachable.intros(1)) (simp add: fresh_sender_def)
  moreover have "sender_step ?a ?b" by (rule arrive) simp
  moreover have "sender_step ?b ?c" by (rule send) simp_all
  moreover have "sender_step ?c ?d" by (rule arrive) simp
  ultimately have "reachable fresh_sender sender_step ?d" by (meson reachable.intros(2))
  moreover have "?d = waiting_pull" by (simp add: waiting_pull_def fun_upd_twist)
  ultimately show ?thesis by simp
qed


end
