(* ===== verification/Engine_Machine.thy ===== *)
theory Engine_Machine
  imports Engine_Main Pull_Properties Pool_Machine Controls
begin

section \<open>The engine as a state machine\<close>

text \<open>
  The tasks of the running process as one step relation: the boot, the tasks and callbacks of the pool, the
  rotator, turns of any pull worker with the handlers of the binary, desired targets and lost transports on
  their way to the pool, and the control files and signals. The main result is a refinement: whatever these do
  together, the pool only takes steps of its own machine and the rotator only steps of its own, so that what
  holds in every reachable state of those machines holds in the engine.
\<close>

subsection \<open>What a worker's handlers do to the state they share\<close>

locale worker_handlers =
  fixes cfg :: "'p worker_config" and R :: "'p \<Rightarrow> 'p \<Rightarrow> bool"
  assumes refl: "R p p"
    and trans: "R p q \<Longrightarrow> R q r \<Longrightarrow> R p r"
    and desired: "wc_on_desired cfg = Some note \<Longrightarrow> R p (note n p)"
    and challenge: "wc_answer_challenge cfg = Some ch \<Longrightarrow> R p (snd (ch request p))"
    and ops: "wc_answer_ops_control cfg = Some oc \<Longrightarrow> R p (snd (oc control p))"
    and lost: "wc_on_lost cfg = Some tell \<Longrightarrow> R p (tell p)"
begin

lemma challenge_app: "R (w_app w) (w_app (snd (answer_challenge_work W cfg i body w)))"
proof -
  have "R (w_app w) (w_app w1)" if "challenge_work_result W cfg body w = (r, w1)" for r w1
    using that challenge refl
    by (auto simp: challenge_work_result_def Let_def split: sum.splits if_splits option.splits prod.splits) (metis snd_conv)
  then show ?thesis by (auto simp: answer_challenge_work_def post_result_out split: prod.split)
qed

lemma ops_app: "R (w_app w) (w_app (snd (answer_ops_control_work W cfg i body w)))"
proof -
  have "R (w_app w) (w_app w1)" if "ops_work_result W cfg body w = (r, w1)" for r w1
    using that ops refl
    by (auto simp: ops_work_result_def Let_def split: sum.splits if_splits option.splits prod.splits) (metis snd_conv)
  then show ?thesis by (auto simp: answer_ops_control_work_def post_result_out Let_def split: prod.split)
qed

lemma inference_app [simp]: "w_app (snd (answer_inference_work W cfg i env w)) = w_app w"
proof -
  have run: "w_app v' = w_app v" if "run_inference W cfg i env v = (rf, v')" for v v' :: "'p worker" and rf
    using run_inference_simps(3) [of W cfg i env v] that by simp
  have work: "w_app (snd (non_streaming_work W cfg i env v)) = w_app v" "w_app (snd (streaming_work W cfg i env v)) = w_app v"
    for v :: "'p worker"
    by (auto simp: non_streaming_work_def streaming_work_def post_result_out Let_def split: prod.split sum.split dest!: run)
  have kept: "w_app v' = w_app v" if "(if c then non_streaming_work else streaming_work) W cfg i env v = (r, v')" for c v v' r
    using work [of v] that by (cases c) simp_all
  obtain r v where out: "(if is_gateway_plane_task_envelope env \<or> validate_ope_inference_envelope env \<noteq> GateOk
      then non_streaming_work else streaming_work) W cfg i env (w\<lparr>w_busy := True\<rparr>) = (r, v)" by fastforce
  show ?thesis unfolding answer_inference_work_def Let_def out using kept [OF out] by (simp split: sum.split)
qed

lemma note_app: "R (w_app w) (w_app (note_desired cfg r w))"
  using desired refl by (auto simp: note_desired_def Let_def split: option.split)

lemma pull_app: "R (w_app w) (w_app (snd (pull_once W cfg w)))"
proof -
  have busy: "w_app (snd (while_busy f v)) = w_app (snd (f (v\<lparr>w_busy := True\<rparr>)))" for f and v :: "'p worker"
    by (simp add: while_busy_def split: prod.split)
  have work: "R (w_app v) (w_app (snd (while_busy (answer_challenge_work W cfg i body) v)))"
    "R (w_app v) (w_app (snd (while_busy (answer_ops_control_work W cfg i body) v)))" for i body v
    using challenge_app [of "v\<lparr>w_busy := True\<rparr>"] ops_app [of "v\<lparr>w_busy := True\<rparr>"] by (simp_all add: busy)
  show ?thesis
  proof (cases "wh_answer W (w_trace w @ [(w_busy w, WvPull)])")
    case Inl
    then show ?thesis by (simp add: pull_once_def refl)
  next
    case (Inr r)
    have "R (w_app (note_desired cfg r (record_event WvPull w))) (w_app (snd (pull_once W cfg w)))"
      using Inr refl work by (simp add: pull_once_def Let_def split: sum.split traffic_class_consistency.split)
    then show ?thesis using note_app [of "record_event WvPull w" r] trans by (metis record_event_simps(4))
  qed
qed

lemma turn_app: "R (w_app w) (w_app (worker_turn W cfg w))"
proof -
  have tell: "R (w_app v) (w_app (transport_lost cfg v))" for v
    using lost refl by (auto simp: transport_lost_def Let_def split: option.split)
  obtain r v where pull: "pull_once W cfg w = (r, v)" by fastforce
  then have "R (w_app w) (w_app v)" using pull_app [of w W] by simp
  then show ?thesis using pull tell refl trans
    by (auto simp: worker_turn_def split: sum.split work_pull_outcome.split)
qed

end

subsection \<open>The machine\<close>

text \<open>The hosts and constants of the process.\<close>

record engine_world =
  ew_pool :: pool_host
  ew_epoch :: epoch_host
  ew_challenge :: challenge_host
  ew_clock :: "pool_event list \<Rightarrow> nat"
  ew_drain_json :: "string \<Rightarrow> string + pool_drain_request"
  ew_scale_json :: "string \<Rightarrow> string + pool_scale_request"
  ew_migrate_json :: "string \<Rightarrow> string + gateway_migration_request"
  ew_env :: env
  ew_engine_id :: string

definition epoch_host_for :: "engine_world \<Rightarrow> string list \<Rightarrow> epoch_host" where
  "epoch_host_for W sids = (ew_epoch W)\<lparr>eh_list_sessions := \<lambda>_. sids\<rparr>"

definition engine_init :: "engine_world \<Rightarrow> engine_state \<Rightarrow> bool" where
  "engine_init W s \<longleftrightarrow> pool_init (en_pool s) \<and> rotator_init (epoch_host_for W []) (en_rotator s)"

text \<open>
  A turn is taken by some worker on some transport, whose answers are arbitrary, and sees the shared state of
  that moment. The content of a control file is arbitrary at every signal.
\<close>

inductive engine_step :: "engine_world \<Rightarrow> engine_state \<Rightarrow> engine_state \<Rightarrow> bool" for W where
  e_pool: "pool_step (ew_pool W) (en_pool s) p \<Longrightarrow> engine_step W s (s\<lparr>en_pool := p\<rparr>)"
| e_boot: "engine_boot (ew_pool W) (epoch_host_for W) request (en_pool s, en_rotator s) = (result, p, r)
    \<Longrightarrow> engine_step W s (s\<lparr>en_pool := p, en_rotator := r\<rparr>)"
| e_rotator: "rotator_step (epoch_host_for W (session_ids (en_pool s))) (en_rotator s) r
    \<Longrightarrow> engine_step W s (s\<lparr>en_rotator := r\<rparr>)"
| e_worker: "w_app w = s
    \<Longrightarrow> engine_step W s (w_app (worker_turn T
          (engine_worker_config (ew_pool W) (ew_challenge W) now (ew_env W) (ew_engine_id W) template sid) w))"
| e_desired: "en_desired s = n # later
    \<Longrightarrow> engine_step W s (s\<lparr>en_pool := desired_pool_applier_round (ew_pool W) n later (en_pool s), en_desired := []\<rparr>)"
| e_lost: "en_lost s = sid # rest
    \<Longrightarrow> engine_step W s (s\<lparr>en_pool := schedule_reconnect (ew_pool W) sid (en_pool s), en_lost := rest\<rparr>)"
| e_drain: "drain_handle_signal (ew_pool W) (ew_drain_json W) (c, en_pool s) = (c', p)
    \<Longrightarrow> engine_step W s (s\<lparr>en_pool := p\<rparr>)"
| e_scale: "scale_poll_tick (ew_pool W) (ew_scale_json W) (c, en_pool s) = (c', p)
    \<Longrightarrow> engine_step W s (s\<lparr>en_pool := p\<rparr>)"
| e_migrate: "migrate_handle_signal (ew_pool W) (ew_clock W) fuel (ew_migrate_json W) (c, en_pool s) = Some (c', p)
    \<Longrightarrow> engine_step W s (s\<lparr>en_pool := p\<rparr>)"

inductive_cases engine_stepE: "engine_step W s t"

subsection \<open>Every operation is a sequence of pool steps\<close>

abbreviation pool_steps :: "pool_host \<Rightarrow> supervised_pool \<Rightarrow> supervised_pool \<Rightarrow> bool" where
  "pool_steps H \<equiv> (pool_step H)\<^sup>*\<^sup>*"

lemma drain_steps: "drain_with_plan H count fraction p = (r, q) \<Longrightarrow> pool_steps H p q"
  using step_drain [of H p count fraction] by auto

lemma migrate_steps: "migrate_gateway_pool H target fraction p = (r, q) \<Longrightarrow> pool_steps H p q"
  using step_migrate [of H p target fraction] by auto

lemma scale_steps: "scale_to H n request p = (r, q) \<Longrightarrow> pool_steps H p q"
  using step_scale_to [of H p n request] by auto

lemma desired_steps: "apply_desired_pool_target H n p = (r, q) \<Longrightarrow> pool_steps H p q"
  by (auto simp: apply_desired_pool_target_def Let_def drain_idle_sessions_def
      split: if_splits option.splits sum.splits prod.splits dest: scale_steps intro: drain_steps [OF prod.collapse [symmetric]])

lemma ops_steps: "pool_steps H p (snd (apply_engine_ops_control H engine_id request p))"
  by (auto simp: apply_engine_ops_control_def apply_force_target_def apply_drain_def apply_migrate_def Let_def
      drain_idle_sessions_def drain_idle_pool_def
      split: sum.split prod.split option.split engine_ops_control_op.split
      dest: desired_steps drain_steps migrate_steps)

lemma start_steps: "set sids \<subseteq> set (session_ids p) \<Longrightarrow> pool_steps H p (start_workers H sids p)"
proof (induction sids arbitrary: p)
  case (Cons sid sids)
  let ?q = "snd (ensure_started H sid p)"
  have "pool_step H p ?q" using Cons.prems by (auto intro: step_worker)
  moreover have "pool_steps H ?q (start_workers H sids ?q)" using Cons by (simp add: session_ids_def)
  ultimately show ?case by (simp add: start_workers_def converse_rtranclp_into_rtranclp)
qed (simp add: start_workers_def)

lemma boot_steps:
  assumes "engine_boot H E request (p, r) = (result, q, r')"
  shows "pool_steps H p q \<and> (\<exists>sids. r' = r \<or> r' = snd (register_initial_epoch (E sids) r))"
proof -
  obtain b p1 where b: "boot H request p = (b, p1)" by fastforce
  then have "pool_step H p p1" using step_boot [of H p request] by simp
  moreover have "pool_steps H p1 (start_workers H (session_ids p1) p1)" by (rule start_steps) simp
  ultimately show ?thesis using assms b
    by (auto simp: engine_boot_def split: sum.splits if_splits prod.splits intro: converse_rtranclp_into_rtranclp) (metis snd_conv)+
qed

lemma retry_steps: "migrate_retry H clock request deadline fuel r p = Some (res, q) \<Longrightarrow> pool_steps H p q"
proof (induction fuel arbitrary: r p)
  case (Suc fuel)
  obtain m p1 where m: "migrate_gateway_pool H (gmr_target_url request) (gmr_fraction request) (emit EvRetryPause p) = (m, p1)" by fastforce
  have "pool_step H p (emit EvRetryPause p)" by (rule step_pause)
  then have "pool_steps H p p1" using migrate_steps [OF m] by (simp add: converse_rtranclp_into_rtranclp)
  then show ?case using Suc m
    by (auto simp: migrate_retry.simps [of H clock request deadline "Suc fuel" r p] split: if_splits sum.splits intro: rtranclp_trans)
qed (auto simp: migrate_retry.simps split: if_splits)

lemma handler_steps:
  "drain_handle_signal H dj (c, p) = (c', q) \<Longrightarrow> pool_steps H p q"
  "scale_poll_tick H sj (c, p) = (c', q) \<Longrightarrow> pool_steps H p q"
  "migrate_handle_signal H clock fuel mj (c, p) = Some (c', q) \<Longrightarrow> pool_steps H p q"
    apply (auto simp: drain_handle_signal_def run_pool_drain_once_def drain_idle_sessions_def drain_idle_pool_def
      split: if_splits sum.splits option.splits intro: drain_steps [OF prod.collapse [symmetric]])[1]
   apply (auto simp: scale_poll_tick_def scale_run_once_def split: if_splits sum.splits option.splits prod.splits dest: scale_steps)[1]
  apply (auto simp: migrate_handle_signal_def Let_def split: if_splits sum.splits option.splits prod.splits dest!: migrate_steps retry_steps intro: rtranclp_trans)
  done

subsection \<open>The refinement\<close>

definition engine_evolves :: "pool_host \<Rightarrow> engine_state \<Rightarrow> engine_state \<Rightarrow> bool" where
  "engine_evolves H s t \<longleftrightarrow> pool_steps H (en_pool s) (en_pool t) \<and> en_rotator t = en_rotator s"

interpretation engine_workers: worker_handlers "engine_worker_config H X now env engine_id template sid" "engine_evolves H"
  for H X now env engine_id template sid
proof
  show "engine_evolves H p r" if "engine_evolves H p q" "engine_evolves H q r" for p q r
    using that by (auto simp: engine_evolves_def)
  show "engine_evolves H p (snd (oc control p))"
    if "wc_answer_ops_control (engine_worker_config H X now env engine_id template sid) = Some oc" for oc control p
  proof -
    have "pool_steps H (en_pool p) q"
      if "engine_ops_control_handler H engine_id n control (l, en_pool p) = (res, l', q)" for n l res l' q
      using that ops_steps [of H "en_pool p" engine_id control]
      by (auto simp: engine_ops_control_handler_def split: prod.splits sum.splits)
    with that show ?thesis by (auto simp: engine_worker_config_def engine_evolves_def split: prod.split)
  qed
qed (auto simp: engine_worker_config_def engine_evolves_def)

lemma pool_reachable_steps:
  "pool_steps H p q \<Longrightarrow> reachable pool_init (pool_step H) p \<Longrightarrow> reachable pool_init (pool_step H) q"
  by (induction rule: rtranclp_induct) (auto intro: reachable_step)

lemma rotator_wf_host [simp]: "rotator_wf (epoch_host_for W sids) r = rotator_wf (ew_epoch W) r"
  by (simp add: rotator_wf_def epoch_host_for_def)

lemma engine_step_refines:
  assumes "engine_step W s t"
  shows "pool_steps (ew_pool W) (en_pool s) (en_pool t) \<and> (rotator_wf (ew_epoch W) (en_rotator s) \<longrightarrow> rotator_wf (ew_epoch W) (en_rotator t))"
  using assms
proof (cases rule: engine_step.cases)
  case (e_boot request result p r)
  have "rotator_wf (epoch_host_for W sids) (en_rotator s)
      \<Longrightarrow> rotator_wf (epoch_host_for W sids) (snd (register_initial_epoch (epoch_host_for W sids) (en_rotator s)))" for sids
    by (erule rotator_step_wf) (rule rstep_initial)
  then show ?thesis using boot_steps [OF e_boot(2)] e_boot(1) by auto
next
  case (e_rotator r)
  then show ?thesis using rotator_step_wf [OF _ e_rotator(2)] by simp
next
  case (e_worker w T now template sid)
  then show ?thesis
    using engine_workers.turn_app [of "ew_pool W" w T "ew_challenge W" now "ew_env W" "ew_engine_id W" template sid]
    by (simp add: engine_evolves_def)
next
  case (e_desired n later)
  then show ?thesis using step_desired [of "ew_pool W" "en_pool s" n later] by auto
next
  case (e_lost sid rest)
  then show ?thesis using step_transport_lost [of "ew_pool W" "en_pool s" sid] by auto
qed (auto dest: handler_steps)

interpretation engine_machine: state_machine "engine_init W" "engine_step W"
  "\<lambda>s. reachable pool_init (pool_step (ew_pool W)) (en_pool s) \<and> rotator_wf (ew_epoch W) (en_rotator s)" for W
proof
  show "reachable pool_init (pool_step (ew_pool W)) (en_pool s) \<and> rotator_wf (ew_epoch W) (en_rotator s)" if "engine_init W s" for s
    using that rotator_machine.init_inv [of "epoch_host_for W []"] by (auto simp: engine_init_def intro: reachable_init)
  show "reachable pool_init (pool_step (ew_pool W)) (en_pool t) \<and> rotator_wf (ew_epoch W) (en_rotator t)"
    if "reachable pool_init (pool_step (ew_pool W)) (en_pool s) \<and> rotator_wf (ew_epoch W) (en_rotator s)" "engine_step W s t" for s t
    using that engine_step_refines pool_reachable_steps by blast
qed


definition sample_world :: engine_world where
  "sample_world = \<lparr>ew_pool = sample_host, ew_epoch = sample_epoch_host, ew_challenge = undefined, ew_clock = length,
     ew_drain_json = Inl, ew_scale_json = Inl, ew_migrate_json = Inl, ew_env = Map.empty, ew_engine_id = ''eng''\<rparr>"

lemma create_engine_epoch_host: "create_engine_epoch (E\<lparr>eh_list_sessions := f\<rparr>) args h = create_engine_epoch E args h"
  by (simp add: create_engine_epoch_def Let_def cong: option.case_cong sum.case_cong)


end
