(* ===== verification/Event_Log.thy ===== *)
theory Event_Log
  imports Engine_Prelude
begin

section \<open>The event log\<close>

text \<open>
  \<^verbatim>\<open>ie-engine/src/ops/event_log.rs\<close>: the levels with their derived order, the level configured from the
  environment, and which events are written. The line is a value; writing it is left out.
\<close>

datatype event_log_level = LevelDebug | LevelInfo | LevelWarn | LevelError

fun level_value :: "event_log_level \<Rightarrow> nat" where
  "level_value LevelDebug = 10"
| "level_value LevelInfo = 20"
| "level_value LevelWarn = 30"
| "level_value LevelError = 40"

lemma level_value_inject [simp]: "level_value a = level_value b \<longleftrightarrow> a = b"
  by (cases a; cases b) simp_all

instantiation event_log_level :: linorder
begin

definition less_eq_event_log_level :: "event_log_level \<Rightarrow> event_log_level \<Rightarrow> bool" where
  "less_eq_event_log_level a b \<longleftrightarrow> level_value a \<le> level_value b"

definition less_event_log_level :: "event_log_level \<Rightarrow> event_log_level \<Rightarrow> bool" where
  "less_event_log_level a b \<longleftrightarrow> level_value a < level_value b"

instance
  by standard (auto simp: less_eq_event_log_level_def less_event_log_level_def)

end

definition event_log_level_from_env :: "env \<Rightarrow> event_log_level" where
  "event_log_level_from_env env =
     (case map_option (\<lambda>s. to_ascii_lowercase (trim s)) (env ''TEECHAT_LOG_LEVEL'') of
        None \<Rightarrow> LevelInfo
      | Some v \<Rightarrow>
          if v = ''debug'' then LevelDebug
          else if v = ''warn'' then LevelWarn
          else if v = ''error'' then LevelError
          else LevelInfo)"

fun level_str :: "event_log_level \<Rightarrow> string" where
  "level_str LevelDebug = ''debug''"
| "level_str LevelInfo = ''info''"
| "level_str LevelWarn = ''warn''"
| "level_str LevelError = ''error''"

definition quoted :: "string \<Rightarrow> string" where
  "quoted s = CHR 0x22 # s @ [CHR 0x22]"

text \<open>The level is a global that only \<^verbatim>\<open>configure_event_log_from_env\<close> sets.\<close>

definition log_event :: "event_log_level \<Rightarrow> event_log_level \<Rightarrow> string \<Rightarrow> string \<Rightarrow> string \<Rightarrow> string option" where
  "log_event min_level level component event data =
     (if level < min_level then None
      else Some (''{'' @ quoted ''level'' @ '':'' @ quoted (level_str level) @ '','' @ quoted ''component'' @ '':'' @ quoted component
        @ '','' @ quoted ''event'' @ '':'' @ quoted event @ '','' @ quoted ''fields'' @ '':'' @ data @ ''}''))"

text \<open>
  Raising the configured level only removes lines, errors are always written, and what is written under
  the level of an environment is what would be written under any lower one.
\<close>

lemma log_event_monotone:
  "low \<le> high \<Longrightarrow> log_event high level c e f = Some l \<Longrightarrow> log_event low level c e f = Some l"
  by (auto simp: log_event_def split: if_splits)

lemma errors_always_logged: "log_event (event_log_level_from_env env) LevelError c e f \<noteq> None"
  by (auto simp: log_event_def event_log_level_from_env_def less_event_log_level_def split: option.splits)

end
