(* ===== verification/Snp_Verification.thy ===== *)
theory Snp_Verification
  imports Gpu_Attestation
begin

section \<open>Guest reports and their verification with snpguest\<close>

text \<open>
  \<^verbatim>\<open>ie-attestation/src/sev_snp/guest_report.rs\<close> and \<^verbatim>\<open>verify_report.rs\<close> on a file system: how a report is
  asked for, how the certificates of a report are fetched into a cache that all reports share, and how
  a report is judged; then \<^verbatim>\<open>fixture.rs\<close> (the quote backend of a process), \<^verbatim>\<open>bundle.rs\<close> and the reading of
  \<^verbatim>\<open>tcb_pins.rs\<close>. The host gives, for a command line and the files it is started on, the process and the
  files it leaves. A report is asked for under a time limit; the commands that verify one are
  waited for without any, so that a verification may not come back: it is \<open>None\<close> then.
\<close>

type_synonym files = "string \<rightharpoonup> bytes"

record snp_host =
  sh_mkdir :: "string \<Rightarrow> bool"
  sh_tempdir :: "string + string"
  sh_write :: "string \<Rightarrow> string option"
  sh_missing :: string
  sh_process :: "string \<Rightarrow> string list \<Rightarrow> files \<Rightarrow> process_host"
  sh_effect :: "string \<Rightarrow> string list \<Rightarrow> files \<Rightarrow> files"

text \<open>The files, and the commands that were started so far.\<close>

record snp_world =
  vw_files :: files
  vw_runs :: "(string \<times> string list) list"

definition started :: "snp_host \<Rightarrow> string \<Rightarrow> string list \<Rightarrow> snp_world \<Rightarrow> snp_world" where
  "started H bin args w = w\<lparr>vw_files := sh_effect H bin args (vw_files w), vw_runs := vw_runs w @ [(bin, args)]\<rparr>"

definition under_dir :: "string \<Rightarrow> string \<Rightarrow> bool" where
  "under_dir dir p \<longleftrightarrow> starts_with p (path_join dir [])"

text \<open>A temporary directory goes with everything below it when its handle is dropped.\<close>

definition drop_dir :: "string \<Rightarrow> snp_world \<Rightarrow> snp_world" where
  "drop_dir dir w = w\<lparr>vw_files := (\<lambda>p. if under_dir dir p then None else vw_files w p)\<rparr>"

definition write_file :: "string \<Rightarrow> bytes \<Rightarrow> snp_world \<Rightarrow> snp_world" where
  "write_file p data w = w\<lparr>vw_files := (vw_files w)(p \<mapsto> data)\<rparr>"

subsection \<open>Asking for a report\<close>

definition report_in_dir ::
    "snp_host \<Rightarrow> string \<Rightarrow> string \<Rightarrow> bytes \<Rightarrow> env \<Rightarrow> snp_world \<Rightarrow> (attestation_error + bytes) \<times> snp_world" where
  "report_in_dir H bin dir report_data env w =
     (let req_path = path_join dir ''request.bin''; report_path = path_join dir ''report.bin''
      in case sh_write H req_path of
        Some e \<Rightarrow> (Inl (AIo (req_path @ '': '' @ e)), w)
      | None \<Rightarrow>
         (let w = write_file req_path report_data w; args = [''report'', report_path, req_path];
              P = sh_process H bin args (vw_files w);
              w' = (if po_spawn P = None then started H bin args w else w)
          in case command_output_timed P bin (snpguest_timeout env) of
               Inl e \<Rightarrow> (Inl e, w')
             | Inr (success, _) \<Rightarrow>
                 if \<not> success then (Inl (AToolFailed bin), w')
                 else (case vw_files w' report_path of
                     None \<Rightarrow> (Inl (AIo (report_path @ '': '' @ sh_missing H)), w')
                   | Some report \<Rightarrow> (Inr report, w'))))"

definition request_guest_report ::
    "snp_host \<Rightarrow> bool \<Rightarrow> bytes \<Rightarrow> env \<Rightarrow> snp_world \<Rightarrow> (attestation_error + bytes) \<times> snp_world" where
  "request_guest_report H device report_data env w =
     (if \<not> device then (Inl ASevGuestUnavailable, w)
      else case sev_snp_guest_bin_from_env env of
        Inl e \<Rightarrow> (Inl e, w)
      | Inr bin \<Rightarrow>
         (case sh_tempdir H of
            Inl e \<Rightarrow> (Inl (AIo (''tempdir: '' @ e)), w)
          | Inr dir \<Rightarrow> apsnd (drop_dir dir) (report_in_dir H bin dir report_data env w)))"

subsection \<open>Certificates\<close>

definition snp_cert_cache_dir :: "env \<Rightarrow> string" where
  "snp_cert_cache_dir env =
     (case env_trim env ''TEECHAT_SNP_CERT_CACHE_DIR'' of None \<Rightarrow> ''/var/cache/teechat/snp-certs'' | Some d \<Rightarrow> d)"

definition snp_cpu_family :: "env \<Rightarrow> string" where
  "snp_cpu_family env =
     (case env_trim env ''TEECHAT_SNP_CPU_FAMILY'' of None \<Rightarrow> ''milan'' | Some f \<Rightarrow> to_ascii_lowercase f)"

text \<open>
  \<^verbatim>\<open>Command::status\<close> and \<^verbatim>\<open>Command::output\<close> wait for the exit however long it takes. The inner result
  is whether the tool succeeded, \<open>None\<close> when waiting itself failed.
\<close>

partial_function (option) wait_exit :: "process_host \<Rightarrow> nat \<Rightarrow> bool option option" where
  "wait_exit P n =
     (case po_look P n of Exited success \<Rightarrow> Some (Some success) | WaitFailed e \<Rightarrow> Some None | Running \<Rightarrow> wait_exit P (Suc n))"

declare wait_exit.simps [code]

definition run_tool ::
    "snp_host \<Rightarrow> string \<Rightarrow> string list \<Rightarrow> snp_world \<Rightarrow> (bool option \<times> bytes \<times> snp_world) option" where
  "run_tool H bin args w =
     (let P = sh_process H bin args (vw_files w)
      in if po_spawn P \<noteq> None then Some (None, [], w)
         else map_option (\<lambda>status. (status, po_stdout P, started H bin args w)) (wait_exit P 0))"

definition fetch_missing ::
    "snp_host \<Rightarrow> string \<Rightarrow> string \<Rightarrow> string list \<Rightarrow> snp_world \<Rightarrow> (bool \<times> snp_world) option" where
  "fetch_missing H bin file args w =
     (if vw_files w file \<noteq> None then Some (True, w)
      else map_option (\<lambda>(status, _, w). (status = Some True, w)) (run_tool H bin args w))"

definition ensure_snp_certificates ::
    "snp_host \<Rightarrow> string \<Rightarrow> env \<Rightarrow> snp_world \<Rightarrow> ((unit + string) \<times> snp_world) option" where
  "ensure_snp_certificates H report_path env w =
     (let cache = snp_cert_cache_dir env
      in if \<not> sh_mkdir H cache then Some (Inl (), w)
         else case sev_snp_guest_bin_from_env env of
           Inl _ \<Rightarrow> Some (Inl (), w)
         | Inr bin \<Rightarrow>
             Option.bind (fetch_missing H bin (path_join cache ''vcek.pem'') [''fetch'', ''vcek'', ''pem'', cache, report_path] w)
               (\<lambda>(ok, w). if \<not> ok then Some (Inl (), w)
                  else map_option (\<lambda>(ok, w). (if ok then Inr cache else Inl (), w))
                    (fetch_missing H bin (path_join cache ''ark.pem'') [''fetch'', ''ca'', ''pem'', cache, snp_cpu_family env] w)))"

subsection \<open>Verifying a report\<close>

definition vek_signed :: "bytes \<Rightarrow> bool" where
  "vek_signed out = text_contains (from_utf8_lossy (map uint out)) (lit ''VEK signed the Attestation Report'')"

definition verify_in_dir :: "snp_host \<Rightarrow> string \<Rightarrow> string \<Rightarrow> bytes \<Rightarrow> env \<Rightarrow> snp_world \<Rightarrow> (bool \<times> snp_world) option" where
  "verify_in_dir H bin dir report env w =
     (let report_path = path_join dir ''report.bin''
      in if sh_write H report_path \<noteq> None then Some (False, w)
         else Option.bind (ensure_snp_certificates H report_path env (write_file report_path report w))
           (\<lambda>(certs, w). case certs of
               Inl _ \<Rightarrow> Some (False, w)
             | Inr certs \<Rightarrow>
                 Option.bind (run_tool H bin [''verify'', ''certs'', certs] w)
                   (\<lambda>(status, _, w). if status \<noteq> Some True then Some (False, w)
                      else map_option (\<lambda>(status, out, w). (status = Some True \<and> vek_signed out, w))
                        (run_tool H bin [''verify'', ''attestation'', certs, report_path] w))))"

definition verify_sev_snp_attestation_report ::
    "snp_host \<Rightarrow> bytes \<Rightarrow> bytes \<Rightarrow> env \<Rightarrow> snp_world \<Rightarrow> (bool \<times> snp_world) option" where
  "verify_sev_snp_attestation_report H report expected env w =
     (case extract_report_data_from_report report of
        None \<Rightarrow> Some (False, w)
      | Some embedded \<Rightarrow>
          if embedded \<noteq> expected then Some (False, w)
          else case sev_snp_guest_bin_from_env env of
            Inl _ \<Rightarrow> Some (False, w)
          | Inr bin \<Rightarrow>
             (case sh_tempdir H of
                Inl _ \<Rightarrow> Some (False, w)
              | Inr dir \<Rightarrow> map_option (apsnd (drop_dir dir)) (verify_in_dir H bin dir report env w)))"

lemma starts_with_prefix: "starts_with (p @ s) p"
  by (induction p) simp_all

lemma path_join_under: "under_dir dir (path_join dir rel)"
proof -
  have "path_join dir rel = path_join dir [] @ rel" by (simp add: path_join_def)
  then show ?thesis by (simp add: under_dir_def starts_with_prefix)
qed

lemma wait_exit_ends:
  assumes "po_look P m \<noteq> Running" and "n \<le> m"
  shows "\<exists>r. wait_exit P n = Some r"
  using assms(2,1)
proof (induction rule: inc_induct)
  case base
  then show ?case by (subst wait_exit.simps) (auto split: process_look.split)
next
  case (step n)
  then show ?case by (subst wait_exit.simps) (auto split: process_look.split)
qed

lemma wait_exit_ended:
  assumes "wait_exit P n = Some r"
  shows "\<exists>m. po_look P m \<noteq> Running"
proof -
  have "\<exists>m. po_look (fst (P, n)) m \<noteq> Running"
  proof (rule wait_exit.raw_induct [where Pa = "\<lambda>x r. \<exists>m. po_look (fst x) m \<noteq> Running", OF _ assms])
    fix rec :: "process_host \<Rightarrow> nat \<Rightarrow> bool option option" and P n y
    assume "\<And>P n y. rec P n = Some y \<Longrightarrow> \<exists>m. po_look (fst (P, n)) m \<noteq> Running"
      and "(case po_look P n of Exited success \<Rightarrow> Some (Some success) | WaitFailed e \<Rightarrow> Some None | Running \<Rightarrow> rec P (Suc n)) = Some y"
    then show "\<exists>m. po_look (fst (P, n)) m \<noteq> Running"
      by (cases "po_look P n") (auto intro: exI [of _ n])
  qed
  then show ?thesis by simp
qed

text \<open>A tool comes back when it cannot be started or ends some day.\<close>

definition tool_ends :: "process_host \<Rightarrow> bool" where
  "tool_ends P \<longleftrightarrow> po_spawn P \<noteq> None \<or> (\<exists>n. po_look P n \<noteq> Running)"

lemma run_tool_returns: "tool_ends (sh_process H bin args (vw_files w)) \<Longrightarrow> \<exists>r. run_tool H bin args w = Some r"
  using wait_exit_ends [of "sh_process H bin args (vw_files w)" _ 0] by (auto simp: run_tool_def tool_ends_def Let_def)

lemma run_tool_success:
  "run_tool H bin args w = Some (Some True, out, w') \<Longrightarrow>
   wait_exit (sh_process H bin args (vw_files w)) 0 = Some (Some True)
   \<and> out = po_stdout (sh_process H bin args (vw_files w)) \<and> w' = started H bin args w"
  by (auto simp: run_tool_def Let_def split: if_splits)

text \<open>Every world that running a tool leaves is the one before it or the one after a start.\<close>

lemma run_tool_world: "run_tool H bin args w = Some (st, out, w') \<Longrightarrow> w' = w \<or> w' = started H bin args w"
  by (auto simp: run_tool_def Let_def split: if_splits)

text \<open>The case split of a result whose error carries nothing, as a decision.\<close>

lemma sum_unit_cases: "(case r of Inl (_ :: unit) \<Rightarrow> a | Inr x \<Rightarrow> f x) = (if isl r then a else f (projr r))"
  by (cases r) auto

definition keeps_dir :: "snp_host \<Rightarrow> string \<Rightarrow> bool" where
  "keeps_dir H dir \<longleftrightarrow> (\<forall>bin args fs p. under_dir dir p \<longrightarrow> sh_effect H bin args fs p = fs p)"

lemma started_keeps: "keeps_dir H dir \<Longrightarrow> under_dir dir p \<Longrightarrow> vw_files (started H bin args w) p = vw_files w p"
  by (simp add: keeps_dir_def started_def)

lemma fetch_missing_keeps:
  "fetch_missing H bin file args w = Some (ok, w') \<Longrightarrow> keeps_dir H dir \<Longrightarrow> under_dir dir p \<Longrightarrow> vw_files w' p = vw_files w p"
  using run_tool_world started_keeps by (fastforce simp: fetch_missing_def split: if_splits)

lemma ensure_keeps:
  assumes "ensure_snp_certificates H report_path env w = Some (certs, w')" and "keeps_dir H dir" and "under_dir dir p"
  shows "vw_files w' p = vw_files w p"
  using assms fetch_missing_keeps [OF _ assms(2,3)]
  by (fastforce simp: ensure_snp_certificates_def Let_def bind_eq_Some_conv split: if_splits sum.splits prod.splits)

lemma ensure_dir: "ensure_snp_certificates H report_path env w = Some (Inr certs, w') \<Longrightarrow> certs = snp_cert_cache_dir env"
  by (auto simp: ensure_snp_certificates_def Let_def bind_eq_Some_conv split: if_splits sum.splits prod.splits)

lemma snpguest_bin_contained:
  "sev_snp_guest_bin_from_env env = Inr bin \<Longrightarrow>
   bin = ''snpguest'' \<or> (starts_with bin ''/usr/bin/'' \<or> starts_with bin ''/usr/local/bin/'') \<and> path_file_name bin = Some ''snpguest''"
  by (auto simp: sev_snp_guest_bin_from_env_def resolve_snpguest_bin_def Let_def split: if_splits)

lemma verify_in_dir_accepted:
  assumes "verify_in_dir H bin dir report env w = Some (True, w')" and "keeps_dir H dir"
  shows "\<exists>v. let certs = snp_cert_cache_dir env; report_path = path_join dir ''report.bin'';
                  judged = started H bin [''verify'', ''certs'', certs] v;
                  P = sh_process H bin [''verify'', ''attestation'', certs, report_path] (vw_files judged)
     in wait_exit (sh_process H bin [''verify'', ''certs'', certs] (vw_files v)) 0 = Some (Some True)
      \<and> vw_files judged report_path = Some report \<and> wait_exit P 0 = Some (Some True) \<and> vek_signed (po_stdout P)
      \<and> w' = started H bin [''verify'', ''attestation'', certs, report_path] judged"
proof -
  let ?certs = "snp_cert_cache_dir env" and ?path = "path_join dir ''report.bin''"
  obtain c v where ens: "ensure_snp_certificates H ?path env (write_file ?path report w) = Some (c, v)"
    and rest: "\<not> isl c" "\<exists>o1 u out. run_tool H bin [''verify'', ''certs'', projr c] v = Some (Some True, o1, u)
      \<and> run_tool H bin [''verify'', ''attestation'', projr c, ?path] u = Some (Some True, out, w') \<and> vek_signed out"
    using assms(1)
    by (auto simp: verify_in_dir_def Let_def bind_eq_Some_conv sum_unit_cases split: if_splits prod.splits)
  then obtain certs u out where "c = Inr certs"
    "\<exists>o1. run_tool H bin [''verify'', ''certs'', certs] v = Some (Some True, o1, u)"
    "run_tool H bin [''verify'', ''attestation'', certs, ?path] u = Some (Some True, out, w')" "vek_signed out"
    by (cases c) auto
  with ens have "ensure_snp_certificates H ?path env (write_file ?path report w) = Some (Inr certs, v)"
    "\<exists>o1. run_tool H bin [''verify'', ''certs'', certs] v = Some (Some True, o1, u)"
    "run_tool H bin [''verify'', ''attestation'', certs, ?path] u = Some (Some True, out, w')" "vek_signed out"
    by simp_all
  moreover from this have "vw_files v ?path = Some report"
    using ensure_keeps [OF _ assms(2) path_join_under, of ?path] by (simp add: write_file_def)
  moreover obtain o1 where first: "run_tool H bin [''verify'', ''certs'', certs] v = Some (Some True, o1, u)" using calculation(2) by blast
  moreover have "certs = snp_cert_cache_dir env" by (rule ensure_dir) (rule calculation(1))
  moreover have "vw_files u ?path = vw_files v ?path"
    using run_tool_success [OF first] by (simp add: started_keeps [OF assms(2) path_join_under])
  ultimately show ?thesis
    using run_tool_success [OF first] run_tool_success [of H bin "[''verify'', ''attestation'', certs, ?path]" u out w']
    by (intro exI [of _ v]) (simp add: Let_def)
qed

text \<open>
  (C21) An accepted report is the report that was judged: its data is the expected one, the tool is the
  allowed binary, the certificates of the cache were found good, the file the tool judged held exactly
  this report, and the tool succeeded and said that the report is signed. The tools are assumed to
  leave the temporary directory alone.
\<close>

theorem accepted_report_was_judged:
  assumes "verify_sev_snp_attestation_report H report expected env w = Some (True, w')"
    and "\<forall>dir. sh_tempdir H = Inr dir \<longrightarrow> keeps_dir H dir"
  shows "extract_report_data_from_report report = Some expected
    \<and> (\<exists>bin dir v. (bin = ''snpguest'' \<or> (starts_with bin ''/usr/bin/'' \<or> starts_with bin ''/usr/local/bin/'')
            \<and> path_file_name bin = Some ''snpguest'')
        \<and> (let certs = snp_cert_cache_dir env; report_path = path_join dir ''report.bin'';
               judged = started H bin [''verify'', ''certs'', certs] v;
               P = sh_process H bin [''verify'', ''attestation'', certs, report_path] (vw_files judged)
           in wait_exit (sh_process H bin [''verify'', ''certs'', certs] (vw_files v)) 0 = Some (Some True)
            \<and> vw_files judged report_path = Some report
            \<and> wait_exit P 0 = Some (Some True) \<and> vek_signed (po_stdout P)))"
proof -
  obtain bin dir u where got: "extract_report_data_from_report report = Some expected"
      "sev_snp_guest_bin_from_env env = Inr bin" "sh_tempdir H = Inr dir" "verify_in_dir H bin dir report env w = Some (True, u)"
    using assms(1)
    by (auto simp: verify_sev_snp_attestation_report_def split: option.splits if_splits sum.splits)
  with assms(2) have "keeps_dir H dir" by simp
  from verify_in_dir_accepted [OF got(4) this] snpguest_bin_contained [OF got(2)] got(1) show ?thesis
    by (simp only: Let_def) blast
qed

text \<open>Nothing a verification or a request writes into its temporary directory is left behind.\<close>

lemma drop_dir_clean: "under_dir dir p \<Longrightarrow> vw_files (drop_dir dir w) p = None"
  by (simp add: drop_dir_def)

theorem no_temporary_file_is_left:
  assumes "sh_tempdir H = Inr dir" and "\<forall>p. under_dir dir p \<longrightarrow> vw_files w p = None" and "under_dir dir p"
  shows "(verify_sev_snp_attestation_report H report expected env w = Some (ok, w') \<longrightarrow> vw_files w' p = None)
    \<and> vw_files (snd (request_guest_report H device report_data env w)) p = None"
  using assms
  by (auto simp: verify_sev_snp_attestation_report_def request_guest_report_def drop_dir_clean
      split: option.splits if_splits sum.splits)

text \<open>
  A request for a report always comes back (it is a total function of what the process does). A
  verification comes back when every tool does, and only then: a tool that hangs is waited for without
  a limit.
\<close>

lemma fetch_missing_returns:
  "(\<And>args fs. tool_ends (sh_process H bin args fs)) \<Longrightarrow> \<exists>r. fetch_missing H bin file args w = Some r"
  using run_tool_returns [of H bin args w] by (auto simp: fetch_missing_def)

lemma ensure_returns:
  assumes "\<And>bin args fs. tool_ends (sh_process H bin args fs)"
  shows "\<exists>r. ensure_snp_certificates H report_path env w = Some r"
proof -
  have "\<exists>r. fetch_missing H bin path args w = Some r" for bin path args w by (rule fetch_missing_returns) (rule assms)
  then have fetch: "\<exists>a b. fetch_missing H bin path args w = Some (a, b)" for bin path args w by (metis surj_pair)
  let ?cache = "snp_cert_cache_dir env"
  show ?thesis
  proof (cases "sh_mkdir H ?cache \<and> \<not> isl (sev_snp_guest_bin_from_env env)")
    case True
    then obtain bin where bin: "sev_snp_guest_bin_from_env env = Inr bin" by (auto simp: isl_def) (metis sum.exhaust)
    obtain a v where first: "fetch_missing H bin (path_join ?cache ''vcek.pem'') [''fetch'', ''vcek'', ''pem'', ?cache, report_path] w = Some (a, v)"
      using fetch by blast
    obtain b u where second: "fetch_missing H bin (path_join ?cache ''ark.pem'') [''fetch'', ''ca'', ''pem'', ?cache, snp_cpu_family env] v = Some (b, u)"
      using fetch by blast
    show ?thesis using True by (simp add: ensure_snp_certificates_def Let_def bin first second)
  next
    case False
    then show ?thesis by (auto simp: ensure_snp_certificates_def Let_def split: sum.split)
  qed
qed

theorem verification_returns:
  assumes "\<forall>bin args fs. tool_ends (sh_process H bin args fs)"
  shows "\<exists>ok w'. verify_sev_snp_attestation_report H report expected env w = Some (ok, w')"
proof -
  have run: "\<exists>a b c. run_tool H bin args v = Some (a, b, c)" for bin args v
    using run_tool_returns assms by (metis prod_cases3)
  have ens: "\<exists>a b. ensure_snp_certificates H p env v = Some (a, b)" for p v
    using ensure_returns [of H p env v] assms by (metis surj_pair)
  have "\<exists>r. verify_in_dir H bin dir report env w = Some r" for bin dir
  proof -
    let ?path = "path_join dir ''report.bin''"
    obtain c v where ens: "ensure_snp_certificates H ?path env (write_file ?path report w) = Some (c, v)" using ens by blast
    obtain a b u where certs: "run_tool H bin [''verify'', ''certs'', projr c] v = Some (a, b, u)" using run by blast
    obtain a' b' u' where judge: "run_tool H bin [''verify'', ''attestation'', projr c, ?path] u = Some (a', b', u')" using run by blast
    show ?thesis
      by (simp only: verify_in_dir_def Let_def ens certs judge bind.simps case_prod_conv sum_unit_cases option.map
          split: if_split) blast
  qed
  then show ?thesis
    unfolding verify_sev_snp_attestation_report_def
    by (auto split: option.split sum.split)
qed

lemma hanging_tool_hangs: "\<forall>n. po_look P n = Running \<Longrightarrow> wait_exit P 0 = None"
  using wait_exit_ended [of P 0] by (cases "wait_exit P 0") auto

text \<open>
  Certificates that are in the cache are not fetched again, whatever report is verified: the cache
  directory depends on the environment alone, so the certificate of the chip that made the first
  report is the one every later report is judged by.
\<close>

lemma cached_certificates_kept:
  assumes "vw_files w (path_join (snp_cert_cache_dir env) ''vcek.pem'') \<noteq> None"
    and "vw_files w (path_join (snp_cert_cache_dir env) ''ark.pem'') \<noteq> None"
    and "ensure_snp_certificates H report_path env w = Some (certs, w')"
  shows "w' = w"
  using assms
  by (auto simp: ensure_snp_certificates_def fetch_missing_def Let_def split: if_splits sum.splits)

definition only_verified :: "snp_world \<Rightarrow> snp_world \<Rightarrow> bool" where
  "only_verified w w' \<longleftrightarrow> (\<exists>rs. vw_runs w' = vw_runs w @ rs \<and> set (map (take 1 \<circ> snd) rs) \<subseteq> {[''verify'']})"

lemma only_verified_refl: "vw_runs w' = vw_runs w \<Longrightarrow> only_verified w w'"
  by (simp add: only_verified_def)

lemma only_verified_run:
  assumes "run_tool H bin (''verify'' # args) u = Some (st, out, u')" and "only_verified w u"
  shows "only_verified w u'"
  using run_tool_world [OF assms(1)] assms(2) by (auto simp: only_verified_def started_def)

lemma verify_in_dir_runs:
  assumes "vw_files w (path_join (snp_cert_cache_dir env) ''vcek.pem'') \<noteq> None"
    and "vw_files w (path_join (snp_cert_cache_dir env) ''ark.pem'') \<noteq> None"
    and "verify_in_dir H bin dir report env w = Some (ok, w')"
  shows "only_verified w w'"
proof -
  let ?path = "path_join dir ''report.bin''"
  let ?v = "write_file ?path report w"
  have start: "only_verified w v" if "ensure_snp_certificates H ?path env ?v = Some (c, v)" for c v
    using cached_certificates_kept [OF _ _ that] assms(1,2) by (simp add: write_file_def only_verified_refl)
  have "w' = w \<or> (\<exists>c v. ensure_snp_certificates H ?path env ?v = Some (c, v) \<and> (w' = v
      \<or> (\<exists>st out u. run_tool H bin [''verify'', ''certs'', projr c] v = Some (st, out, u) \<and> (w' = u
          \<or> (\<exists>st out. run_tool H bin [''verify'', ''attestation'', projr c, ?path] u = Some (st, out, w'))))))"
    using assms(3)
    by (auto simp: verify_in_dir_def Let_def bind_eq_Some_conv sum_unit_cases split: if_splits prod.splits)
  then show ?thesis by (metis only_verified_refl only_verified_run start)
qed

theorem cached_certificates_judge_every_report:
  assumes "vw_files w (path_join (snp_cert_cache_dir env) ''vcek.pem'') \<noteq> None"
    and "vw_files w (path_join (snp_cert_cache_dir env) ''ark.pem'') \<noteq> None"
    and "verify_sev_snp_attestation_report H report expected env w = Some (ok, w')"
  shows "\<exists>rs. vw_runs w' = vw_runs w @ rs \<and> set (map (take 1 \<circ> snd) rs) \<subseteq> {[''verify'']}"
  using assms(3) verify_in_dir_runs [OF assms(1,2)]
  by (fastforce simp: verify_sev_snp_attestation_report_def only_verified_def drop_dir_def
      split: option.splits if_splits sum.splits)

subsection \<open>A host for the witnesses\<close>

definition sample_tool :: process_host where
  "sample_tool = \<lparr>po_spawn = None, po_pipes = None, po_look = (\<lambda>_. Exited True), po_late = (\<lambda>_. 0),
     po_stdout = map of_char ''VEK signed the Attestation Report!''\<rparr>"

definition sample_snp :: snp_host where
  "sample_snp = \<lparr>sh_mkdir = (\<lambda>_. True), sh_tempdir = Inr ''/tmp/x'', sh_write = (\<lambda>_. None), sh_missing = ''no such file'',
     sh_process = (\<lambda>_ _ _. sample_tool), sh_effect = (\<lambda>_ _ fs. fs)\<rparr>"

definition sample_report :: bytes where
  "sample_report = replicate 80 0 @ replicate 64 7"

definition sample_world :: snp_world where
  "sample_world = \<lparr>vw_files = [''/var/cache/teechat/snp-certs/vcek.pem'' \<mapsto> [1], ''/var/cache/teechat/snp-certs/ark.pem'' \<mapsto> [2]], vw_runs = []\<rparr>"

lemma sample_vek_signed: "vek_signed (po_stdout sample_tool)"
  by code_simp

lemma sample_tool_ends: "wait_exit sample_tool n = Some (Some True)"
  by (subst wait_exit.simps) (simp add: sample_tool_def)

lemma sample_verification:
  "\<exists>w'. verify_sev_snp_attestation_report sample_snp sample_report (replicate 64 7) Map.empty sample_world = Some (True, w')"
proof -
  have "extract_report_data_from_report sample_report = Some (replicate 64 7)"
    by (simp add: extract_report_data_from_report_def sample_report_def)
  moreover have "sev_snp_guest_bin_from_env Map.empty = Inr ''snpguest''"
    by (simp add: sev_snp_guest_bin_from_env_def env_trim_def resolve_snpguest_bin_def) code_simp
  moreover have "run_tool sample_snp bin args w = Some (Some True, po_stdout sample_tool, started sample_snp bin args w)" for bin args w
    by (simp add: run_tool_def sample_tool_ends sample_snp_def) (simp add: sample_tool_def)
  ultimately show ?thesis
    by (simp add: verify_sev_snp_attestation_report_def verify_in_dir_def ensure_snp_certificates_def fetch_missing_def
        Let_def sample_snp_def sample_vek_signed ex_bool_eq)
qed

lemma sample_snp_keeps: "keeps_dir sample_snp dir"
  by (simp add: keeps_dir_def sample_snp_def)

theorem accepted_report_was_judged_witness:
  "\<exists>w'. verify_sev_snp_attestation_report sample_snp sample_report (replicate 64 7) Map.empty sample_world = Some (True, w')
     \<and> extract_report_data_from_report sample_report = Some (replicate 64 7)"
proof -
  obtain w' where ok: "verify_sev_snp_attestation_report sample_snp sample_report (replicate 64 7) Map.empty sample_world = Some (True, w')"
    using sample_verification by blast
  show ?thesis using ok conjunct1 [OF accepted_report_was_judged [OF ok]] sample_snp_keeps by blast
qed

theorem verification_returns_witness:
  "\<exists>ok w'. verify_sev_snp_attestation_report sample_snp sample_report (replicate 64 7) Map.empty sample_world = Some (ok, w')"
proof (rule verification_returns)
  show "\<forall>bin args fs. tool_ends (sh_process sample_snp bin args fs)"
    by (simp add: tool_ends_def sample_snp_def) (simp add: sample_tool_def)
qed

theorem cached_certificates_judge_every_report_witness:
  "\<exists>w' rs. verify_sev_snp_attestation_report sample_snp sample_report (replicate 64 7) Map.empty sample_world = Some (True, w')
     \<and> vw_runs w' = vw_runs sample_world @ rs \<and> set (map (take 1 \<circ> snd) rs) \<subseteq> {[''verify'']}"
proof -
  obtain w' where ok: "verify_sev_snp_attestation_report sample_snp sample_report (replicate 64 7) Map.empty sample_world = Some (True, w')"
    using sample_verification by blast
  have cached: "vw_files sample_world (path_join (snp_cert_cache_dir Map.empty) ''vcek.pem'') \<noteq> None"
    "vw_files sample_world (path_join (snp_cert_cache_dir Map.empty) ''ark.pem'') \<noteq> None"
    by (simp_all add: sample_world_def snp_cert_cache_dir_def env_trim_def path_join_def)
  show ?thesis using ok cached_certificates_judge_every_report [OF cached ok] by blast
qed

subsection \<open>The quote backend of a process\<close>

text \<open>
  One slot of the process holds the production backend; registering overwrites it. The fixture backend
  answers the placeholder quote and mock quotes of the expected kind.
\<close>

type_synonym quote_backend = "string \<Rightarrow> string \<Rightarrow> quote_claims option"

definition register_production_quote_backend :: "quote_backend \<Rightarrow> quote_backend option \<Rightarrow> quote_backend option" where
  "register_production_quote_backend backend slot = Some backend"

definition clear_production_quote_backend :: "quote_backend option \<Rightarrow> quote_backend option" where
  "clear_production_quote_backend slot = None"

definition is_production_quote_backend_registered :: "quote_backend option \<Rightarrow> bool" where
  "is_production_quote_backend_registered slot \<longleftrightarrow> slot \<noteq> None"

definition FIXTURE_INTEL_TDX_QUOTE_PLACEHOLDER :: string where
  "FIXTURE_INTEL_TDX_QUOTE_PLACEHOLDER = ''fixture-intel-tdx-v1-not-real-hardware''"

definition fixture_claims :: "attest_host \<Rightarrow> quote_claims" where
  "fixture_claims A =
     \<lparr>qt_v = 1, qt_kind = ''tdx'', qt_ed25519_public = ''AAAAAAAAAAAAAAAAAAAAAAAAAAAAAAAAAAAAAAAAAAA'',
      qt_tls_client_cert_sha256 = [],
      qt_engine = \<lparr>wm_version = ''fixture'',
        wm_binary_sha256 = ''a1b2c3d4e5f6789012345678abcdef9012345678abcdef9012345678abcdef90''\<rparr>,
      qt_vllm = \<lparr>wm_version = ''fixture'',
        wm_binary_sha256 = ''b2c3d4e5f6789012345678abcdef9012345678abcdef9012345678abcdef9012''\<rparr>,
      qt_ope = None, qt_attested_mtls = None, qt_launch_digest = None, qt_epoch = None, qt_issued_at = at_now_iso A\<rparr>"

definition create_fixture_production_quote_backend :: "attest_host \<Rightarrow> string set \<Rightarrow> quote_backend" where
  "create_fixture_production_quote_backend A allowed_quotes =
     (let allowed = (if allowed_quotes = {} then {FIXTURE_INTEL_TDX_QUOTE_PLACEHOLDER} else allowed_quotes)
      in (\<lambda>quote expected_kind.
           if quote \<in> allowed then (if expected_kind \<noteq> ''tdx'' then None else Some (fixture_claims A))
           else case parse_mock_cpu_quote A quote of
             None \<Rightarrow> None
           | Some claims \<Rightarrow> if qt_kind claims = expected_kind then Some claims else None))"

text \<open>
  What the registered fixture backend answers is of the kind that was asked for, and comes from an
  allowed quote or from a quote whose tag was computed with the mock secret.
\<close>

theorem fixture_backend_answers:
  assumes "production_cpu_quote_verifier
      (register_production_quote_backend (create_fixture_production_quote_backend A allowed) slot) quote kind = Inr claims"
  shows "qt_kind claims = kind
    \<and> (claims = fixture_claims A \<and> (quote \<in> allowed \<or> allowed = {} \<and> quote = FIXTURE_INTEL_TDX_QUOTE_PLACEHOLDER)
       \<or> (\<exists>body. at_decode A quote = Some (body @ at_hmac A body) \<and> at_claims_slice A body = Some claims))"
proof (cases "quote \<in> (if allowed = {} then {FIXTURE_INTEL_TDX_QUOTE_PLACEHOLDER} else allowed)")
  case True
  with assms show ?thesis
    by (auto simp: production_cpu_quote_verifier_def register_production_quote_backend_def
        create_fixture_production_quote_backend_def fixture_claims_def Let_def split: if_splits option.splits)
next
  case False
  with assms have "parse_mock_cpu_quote A quote = Some claims" and "qt_kind claims = kind"
    by (auto simp: production_cpu_quote_verifier_def register_production_quote_backend_def
        create_fixture_production_quote_backend_def Let_def split: if_splits option.splits)
  moreover from this obtain raw where "at_decode A quote = Some raw" and
    "drop (length raw - 32) raw = at_hmac A (take (length raw - 32) raw)" "at_claims_slice A (take (length raw - 32) raw) = Some claims"
    by (auto simp: parse_mock_cpu_quote_def Let_def split: option.splits if_splits)
  moreover from this(2) have "raw = take (length raw - 32) raw @ at_hmac A (take (length raw - 32) raw)"
    by (metis append_take_drop_id)
  ultimately show ?thesis by metis
qed

theorem cleared_backend_refuses:
  "production_cpu_quote_verifier (clear_production_quote_backend slot) quote kind = Inl NoProductionBackend
   \<and> \<not> is_production_quote_backend_registered (clear_production_quote_backend slot)"
  by (simp add: production_cpu_quote_verifier_def clear_production_quote_backend_def is_production_quote_backend_registered_def)

subsection \<open>A bundle from resolved measurements\<close>

record build_attestation_bundle_args =
  ba_ed25519_public :: string
  ba_tls_client_cert_sha256 :: string
  ba_policy_id :: "string option"
  ba_measurements :: binary_measurements
  ba_cpu_quote :: string
  ba_gpu_evidence :: string
  ba_issued_at :: string

definition build_attestation_bundle_from_measurements :: "build_attestation_bundle_args \<Rightarrow> attestation_bundle" where
  "build_attestation_bundle_from_measurements args =
     (let policy_id = (case ba_policy_id args of None \<Rightarrow> ''teechat-cpu-tee-prod-v1'' | Some p \<Rightarrow> p);
          claims = from_measurements (ba_ed25519_public args) (ba_tls_client_cert_sha256 args) (ba_measurements args) (ba_issued_at args)
      in into_attestation_bundle claims (ba_cpu_quote args) (ba_gpu_evidence args) policy_id)"

subsection \<open>Reading the pins\<close>

text \<open>The text of the file and the deserializer are the host.\<close>

definition load_tcb_pins :: "(string \<Rightarrow> string + string) \<Rightarrow> (string \<Rightarrow> string + tcb_pins) \<Rightarrow> string \<Rightarrow> attestation_error + tcb_pins" where
  "load_tcb_pins read_to_string from_str path =
     (case read_to_string path of
        Inl e \<Rightarrow> Inl (AIo (path @ '': '' @ e))
      | Inr text \<Rightarrow> (case from_str text of Inl e \<Rightarrow> Inl (AJson (path @ '': '' @ e)) | Inr pins \<Rightarrow> Inr pins))"

end
