(* ===== verification/Crypto_Services.thy ===== *)
theory Crypto_Services
  imports Crypto_Provider Epoch Cutover
begin

section \<open>Key generation, descriptors and response transcripts\<close>

text \<open>
  The rest of \<^verbatim>\<open>ie-crypto/src\<close>: key generation by either provider, the process-wide admitter, the fields of
  a request's key exchange (\<^verbatim>\<open>lib.rs\<close>) and the session that writes a response transcript
  (\<^verbatim>\<open>response_transcript.rs\<close>; the switch that turns it on is with the inference). The transcript writer, the E2E encryption of a client and
  the length of a mock key belong to the OPE crates and are parameters, as is the name of the key exchange.
\<close>

subsection \<open>Generating a hybrid key\<close>

text \<open>\<open>mk_random k n\<close> are the \<open>n\<close> bytes of the \<open>k\<close>-th draw of the thread's generator.\<close>

record mock_host =
  mk_kex :: string
  mk_encap_len :: nat
  mk_random :: "nat \<Rightarrow> nat \<Rightarrow> int list"

definition provider_mode :: "crypto_provider \<Rightarrow> string" where
  "provider_mode pv = (case pv of MockProvider \<Rightarrow> ''mock'' | RealProvider st \<Rightarrow> ''real'')"

definition mock_mlkem_encap :: "crypto_host \<Rightarrow> mock_host \<Rightarrow> string" where
  "mock_mlkem_encap C M =
     take (mk_encap_len M) (ch_encode C (mk_random M 1 (div_ceil (mk_encap_len M * 3) 4)))"

definition mock_generate_engine_hybrid :: "crypto_host \<Rightarrow> mock_host \<Rightarrow> engine_hybrid_public \<times> u64 option" where
  "mock_generate_engine_hybrid C M =
     (\<lparr>hy_kex = mk_kex M, hy_mlkem_encapsulation_key = mock_mlkem_encap C M,
       hy_x25519_public = ch_encode C (mk_random M 0 32)\<rparr>, None)"

definition hybrid_from_identity :: "string \<times> string \<times> string \<Rightarrow> engine_hybrid_public" where
  "hybrid_from_identity identity =
     (case identity of (kex, mlkem, x25519) \<Rightarrow>
        \<lparr>hy_kex = kex, hy_mlkem_encapsulation_key = mlkem, hy_x25519_public = x25519\<rparr>)"

definition generate_engine_hybrid ::
    "crypto_host \<Rightarrow> mock_host \<Rightarrow> string \<Rightarrow> string \<Rightarrow> crypto_provider
     \<Rightarrow> (crypto_error + engine_hybrid_public \<times> u64 option) \<times> crypto_provider" where
  "generate_engine_hybrid C M engine_id ed25519_public pv =
     (case pv of
        MockProvider \<Rightarrow> (Inr (mock_generate_engine_hybrid C M), MockProvider)
      | RealProvider st \<Rightarrow>
         (case real_generate_engine_hybrid C engine_id ed25519_public st of
            (Inl e, st) \<Rightarrow> (Inl e, RealProvider st)
          | (Inr (identity, handle), st) \<Rightarrow> (Inr (hybrid_from_identity identity, Some handle), RealProvider st)))"

text \<open>
  The mock ML-KEM key has the length of a real one, whatever that is: the encoder is base64url without
  padding, which turns \<open>n\<close> bytes into the smallest number of characters of six bits that hold them.
\<close>

theorem mock_mlkem_encap_length:
  assumes "\<forall>bs. 8 * length bs \<le> 6 * length (ch_encode C bs)" and "\<forall>k n. length (mk_random M k n) = n"
  shows "length (mock_mlkem_encap C M) = mk_encap_len M"
proof -
  let ?n = "div_ceil (mk_encap_len M * 3) 4"
  have "8 * ?n \<le> 6 * length (ch_encode C (mk_random M 1 ?n))" using assms(1) [rule_format, of "mk_random M 1 ?n"] assms(2) by simp
  moreover have "mk_encap_len M * 3 \<le> 4 * ?n" by (rule div_ceil_mult) simp
  ultimately show ?thesis by (simp add: mock_mlkem_encap_def)
qed

text \<open>
  A real provider hands out a handle that was free, holds exactly the secret that was generated with
  the public keys it returns, and forgets no other; a mock provider never has a handle. Handles are
  not exhausted.
\<close>

definition generated_together :: "crypto_host \<Rightarrow> string \<Rightarrow> engine_hybrid_public \<Rightarrow> bool" where
  "generated_together C secret hybrid \<longleftrightarrow>
     (\<exists>n engine_id bytes identity. ch_generate C n engine_id bytes = Inr (secret, identity) \<and> hybrid = hybrid_from_identity identity)"

lemma generate_real:
  assumes "generate_engine_hybrid C M i p pv = (Inr (hybrid, Some h), pv')" and "provider_wf pv"
    and "\<forall>st. pv = RealProvider st \<longrightarrow> rs_next_handle st \<noteq> - 1"
  obtains st st' secret where "pv = RealProvider st" "pv' = RealProvider st'" "h \<notin> dom (rs_engines st)"
    "rs_engines st' = (rs_engines st)(h \<mapsto> secret)" "generated_together C secret hybrid" "provider_wf pv'"
proof (cases pv)
  case MockProvider
  with assms(1) show thesis by (simp add: generate_engine_hybrid_def mock_generate_engine_hybrid_def)
next
  case (RealProvider st)
  from assms(1) obtain identity st' where real: "real_generate_engine_hybrid C i p st = (Inr (identity, h), st')"
      "hybrid = hybrid_from_identity identity" "pv' = RealProvider st'"
    by (auto simp: generate_engine_hybrid_def RealProvider split: prod.splits sum.splits)
  then obtain bytes secret where gen: "ch_generate C (rs_next_handle st) i bytes = Inr (secret, identity)"
      "register_secret secret st = (h, st')"
    by (auto simp: real_generate_engine_hybrid_def split: option.splits if_splits sum.splits prod.splits)
  have "generated_together C secret hybrid" using gen(1) real(2) unfolding generated_together_def by blast
  with that register_secret_fresh [OF _ _ gen(2)] assms(2,3) RealProvider real(3) show thesis by blast
qed

lemma generate_failed: "generate_engine_hybrid C M i p pv = (Inl e, pv') \<Longrightarrow> pv' = pv"
  by (auto simp: generate_engine_hybrid_def real_generate_engine_hybrid_def split: crypto_provider.splits
      prod.splits sum.splits option.splits if_splits)

lemma generate_without_handle: "generate_engine_hybrid C M i p pv = (Inr (hybrid, None), pv') \<Longrightarrow> pv' = pv"
  by (auto simp: generate_engine_hybrid_def split: crypto_provider.splits prod.splits sum.splits)

subsection \<open>The admitter of the process\<close>

text \<open>A \<^verbatim>\<open>OnceLock\<close>: the first installation counts, also one of no admitter.\<close>

definition install_global_admitter ::
    "envelope_admitter option \<Rightarrow> envelope_admitter option option \<Rightarrow> envelope_admitter option option" where
  "install_global_admitter admitter cell = (case cell of None \<Rightarrow> Some admitter | Some a \<Rightarrow> Some a)"

definition global_admitter :: "envelope_admitter option option \<Rightarrow> envelope_admitter option" where
  "global_admitter cell = Option.bind cell (\<lambda>a. a)"

lemma first_installation_wins:
  "global_admitter (fold install_global_admitter (a # admitters) None) = a"
proof -
  have "fold install_global_admitter admitters (Some a) = Some a" for admitters
    by (induction admitters) (simp_all add: install_global_admitter_def)
  then show ?thesis by (simp add: global_admitter_def install_global_admitter_def)
qed

definition parse_trust_keys_json ::
    "crypto_host \<Rightarrow> (string \<Rightarrow> string + (string \<times> string) list) \<Rightarrow> string \<Rightarrow> crypto_error + (string \<rightharpoonup> int list)" where
  "parse_trust_keys_json C from_str raw =
     (case from_str raw of Inl e \<Rightarrow> Inl (CJson e) | Inr kvs \<Rightarrow> from_b64url_map C kvs)"

subsection \<open>Fields of a descriptor\<close>

record ope_e2e_wire =
  ow_kex :: string
  ow_client_share :: "string option"
  ow_mlkem_ciphertext :: "string option"
  ow_client_x25519 :: "string option"
  ow_content_alg :: "string option"
  ow_engine_mlkem_encap :: string
  ow_engine_x25519 :: string
  ow_server_share :: "string option"

record e2e_wire_fields =
  ef_kex :: string
  ef_client_share :: "string option"
  ef_mlkem_ciphertext :: "string option"
  ef_client_x25519 :: string
  ef_content_alg :: string
  ef_engine_mlkem_encap :: string
  ef_engine_x25519 :: string
  ef_server_share :: "string option"

definition opt_or :: "'a option \<Rightarrow> 'a option \<Rightarrow> 'a option" where
  "opt_or a b = (case a of None \<Rightarrow> b | Some x \<Rightarrow> Some x)"

definition fields_from_descriptor :: "ope_e2e_wire \<Rightarrow> e2e_wire_fields" where
  "fields_from_descriptor d =
     \<lparr>ef_kex = ow_kex d, ef_client_share = ow_client_share d,
      ef_mlkem_ciphertext = opt_or (ow_mlkem_ciphertext d) (Some (ow_engine_mlkem_encap d)),
      ef_client_x25519 = (case opt_or (ow_client_x25519 d) (ow_client_share d) of None \<Rightarrow> [] | Some x \<Rightarrow> x),
      ef_content_alg = (case ow_content_alg d of None \<Rightarrow> ''chacha20poly1305'' | Some a \<Rightarrow> a),
      ef_engine_mlkem_encap = ow_engine_mlkem_encap d, ef_engine_x25519 = ow_engine_x25519 d,
      ef_server_share = ow_server_share d\<rparr>"

definition dependency_versions :: "(string \<times> string) list" where
  "dependency_versions =
     [(''ope-crypto'', ''0.1.0''), (''ope-envelope'', ''0.1.0''), (''ope-transport'', ''0.1.0''), (''ope-e2e'', ''0.1.0'')]"

text \<open>The tag of the hybrid encryption is a constant of \<^verbatim>\<open>ope-e2e\<close>.\<close>

definition is_hybrid_pq_enc :: "string \<Rightarrow> string \<Rightarrow> bool" where
  "is_hybrid_pq_enc enc_e2e_hybrid_pq enc \<longleftrightarrow> enc = enc_e2e_hybrid_pq"

text \<open>
  \<open>ope_e2e::encrypt_request\<close> is a function of the envelope, the identity, the payload and the client's
  session; \<^verbatim>\<open>?\<close> turns its error into an E2E error.
\<close>

definition client_encrypt_request ::
    "crypto_host \<Rightarrow> (ope_envelope \<Rightarrow> 'i \<Rightarrow> json \<Rightarrow> 's option \<Rightarrow> string + ope_envelope)
     \<Rightarrow> 'i \<Rightarrow> json \<Rightarrow> ope_envelope \<Rightarrow> 's option \<Rightarrow> crypto_error + ope_envelope" where
  "client_encrypt_request C encrypt_request identity payload base client_session =
     (case encrypt_request base identity payload client_session of
        Inl e \<Rightarrow> Inl (CE2e e)
      | Inr envelope \<Rightarrow> convert_envelope C envelope)"

subsection \<open>Response transcripts\<close>

record transcript_header =
  th_ope_transcript :: string
  th_request_nonce :: string
  th_engine_id :: string
  th_epoch_id :: string
  th_content_alg :: string

record ('w, 'h, 'f) transcript_host =
  tw_version :: string
  tw_begin :: "transcript_header \<Rightarrow> string \<Rightarrow> string + 'h \<times> 'w"
  tw_push :: "'w \<Rightarrow> bytes \<Rightarrow> bool \<Rightarrow> (string + 'f) \<times> 'w"

definition transcript_begin ::
    "('w, 'h, 'f) transcript_host \<Rightarrow> string \<Rightarrow> string \<Rightarrow> string \<Rightarrow> string \<Rightarrow> string \<Rightarrow> string + 'h \<times> 'w" where
  "transcript_begin T signing_key request_nonce engine_id epoch_id content_alg =
     tw_begin T
       \<lparr>th_ope_transcript = tw_version T, th_request_nonce = request_nonce, th_engine_id = engine_id,
        th_epoch_id = epoch_id, th_content_alg = content_alg\<rparr> signing_key"

definition transcript_push ::
    "('w, 'h, 'f) transcript_host \<Rightarrow> bytes \<Rightarrow> bool \<Rightarrow> 'w \<Rightarrow> (string + 'f) \<times> 'w" where
  "transcript_push T sealed_frame final_frame writer = tw_push T writer sealed_frame final_frame"

end
