(* ===== verification/Epoch_Keys.thy ===== *)
theory Epoch_Keys
  imports Epoch_Decryptor Crypto_Services
begin

section \<open>Epochs and the keys behind them\<close>

text \<open>
  How rotator, decryptor and crypto provider work together in \<^verbatim>\<open>ie-bin/src/main.rs\<close>: a rotation generates
  a key in the provider, posts the epoch to the sessions and only then, through the callback, adds it to
  the decryptor; the prune task frees the keys of retired epochs. A rotation is two steps here, since
  requests and pruning come in between: \<open>rotate_begin\<close> up to the last answer of a session and
  \<open>rotate_commit\<close> after it; together they are \<^verbatim>\<open>rotate_internal\<close>. The lemmas show that every handle a
  request resolves to names a live secret, generated with the public keys of the epoch it is
  resolved for, and what becomes of an epoch that a session has refused.
\<close>

record epoch_keys =
  ek_rotator :: epoch_rotator
  ek_decryptor :: rotating_epoch_decryptor
  ek_provider :: crypto_provider

text \<open>Key generation is asked of the provider as it is now.\<close>

definition keyed_host :: "crypto_host \<Rightarrow> mock_host \<Rightarrow> crypto_provider \<Rightarrow> epoch_host \<Rightarrow> epoch_host" where
  "keyed_host C M pv E =
     E\<lparr>eh_generate_hybrid := (\<lambda>h i p. map_sum crypto_error_display id (fst (generate_engine_hybrid C M i p pv)))\<rparr>"

definition epoch_keys_new ::
    "crypto_host \<Rightarrow> mock_host \<Rightarrow> epoch_host \<Rightarrow> env \<Rightarrow> string \<Rightarrow> string \<Rightarrow> attestation_bundle option \<Rightarrow> crypto_provider
     \<Rightarrow> engine_error + epoch_keys" where
  "epoch_keys_new C M E env engine_id ed25519_public attestation pv =
     (case epoch_rotator_new (keyed_host C M pv E) env engine_id ed25519_public attestation of
        Inl e \<Rightarrow> Inl e
      | Inr r \<Rightarrow> Inr \<lparr>ek_rotator = r,
           ek_decryptor = decryptor_new (er_current r) (overlap_grace_ms (epoch_rotation_policy_from_env env)),
           ek_provider = snd (generate_engine_hybrid C M engine_id ed25519_public pv)\<rparr>)"

text \<open>The result is the epoch that all sessions accepted, or how the rotation ended without one.\<close>

definition rotate_begin ::
    "crypto_host \<Rightarrow> mock_host \<Rightarrow> epoch_host \<Rightarrow> epoch_keys \<Rightarrow> ((engine_error + unit) + engine_epoch) \<times> epoch_keys" where
  "rotate_begin C M E k =
     (let r = ek_rotator k; pv = ek_provider k
      in if er_rotating r \<or> er_stopped r then (Inl (Inr ()), k)
         else
          (let r = r\<lparr>er_rotating := True\<rparr>;
               k = k\<lparr>ek_provider := snd (generate_engine_hybrid C M (er_engine_id r) (er_ed25519_public_b64 r) pv)\<rparr>
           in case create_engine_epoch (keyed_host C M pv E) (rotator_args r) (er_history r) of
                (Inl e, h) \<Rightarrow> (Inl (Inl e), k\<lparr>ek_rotator := r\<lparr>er_history := h\<rparr>\<rparr>)
              | (Inr next, h) \<Rightarrow>
                 (case post_epoch_to_sessions E next h of
                    (Inl e, h) \<Rightarrow> (Inl (Inl e), k\<lparr>ek_rotator := r\<lparr>er_history := h\<rparr>\<rparr>)
                  | (Inr _, h) \<Rightarrow> (Inr next, k\<lparr>ek_rotator := r\<lparr>er_history := h\<rparr>\<rparr>))))"

definition rotate_commit :: "epoch_host \<Rightarrow> engine_epoch \<Rightarrow> epoch_keys \<Rightarrow> epoch_keys" where
  "rotate_commit E next k =
     (let r = ek_rotator k;
          k = (if eh_on_rotated E then k\<lparr>ek_decryptor := add_epoch next (ek_decryptor k)\<rparr> else k);
          h = (if eh_on_rotated E then er_history r @ [EpRotated (ep_epoch_id next) (Some (ep_epoch_id (er_current r)))]
               else er_history r)
      in k\<lparr>ek_rotator := r\<lparr>er_current := next, er_rotating := False, er_history := h\<rparr>\<rparr>)"

definition rotate_keys :: "crypto_host \<Rightarrow> mock_host \<Rightarrow> epoch_host \<Rightarrow> epoch_keys \<Rightarrow> (engine_error + unit) \<times> epoch_keys" where
  "rotate_keys C M E k =
     (case rotate_begin C M E k of (Inl res, k) \<Rightarrow> (res, k) | (Inr next, k) \<Rightarrow> (Inr (), rotate_commit E next k))"

text \<open>Pruning frees the handles of the epochs it drops.\<close>

definition prune_keys :: "(string \<Rightarrow> u64 option) \<Rightarrow> u64 \<Rightarrow> u64 option \<Rightarrow> epoch_keys \<Rightarrow> epoch_keys" where
  "prune_keys parse_iso now_ms overlap k =
     (let d = ek_decryptor k; d' = prune_retired parse_iso now_ms overlap d
      in k\<lparr>ek_decryptor := d',
           ek_provider := fold free_engine (drop (length (dec_freed d)) (dec_freed d')) (ek_provider k)\<rparr>)"

subsection \<open>The two steps are one rotation\<close>

lemma post_keyed: "post_epoch_to_sessions (keyed_host C M pv E) = post_epoch_to_sessions E"
proof -
  have "post_loop (keyed_host C M pv E) ep sids err h = post_loop E ep sids err h" for ep sids err h
    by (induction sids arbitrary: err h) (simp_all add: keyed_host_def)
  moreover have "eh_list_sessions (keyed_host C M pv E) = eh_list_sessions E" by (simp add: keyed_host_def)
  ultimately show ?thesis by (simp add: fun_eq_iff post_epoch_to_sessions_def Let_def)
qed

lemma keyed_on_rotated [simp]: "eh_on_rotated (keyed_host C M pv E) = eh_on_rotated E"
  by (simp add: keyed_host_def)

theorem rotation_on_keys_is_rotation:
  "rotate_internal (keyed_host C M (ek_provider k) E) (ek_rotator k)
     = (fst (rotate_keys C M E k), ek_rotator (snd (rotate_keys C M E k)))"
  by (simp add: rotate_internal_def rotate_keys_def rotate_begin_def rotate_commit_def Let_def post_keyed
      split: prod.split sum.split)

subsection \<open>Generated keys\<close>

lemma create_keyed:
  assumes "create_engine_epoch (keyed_host C M pv E) args h = (Inr ep, h')"
  shows "\<exists>pv'. generate_engine_hybrid C M (ca_engine_id args) (ca_ed25519_public_b64 args) pv
     = (Inr (ep_hybrid ep, ep_handle ep), pv')"
proof -
  let ?g = "generate_engine_hybrid C M (ca_engine_id args) (ca_ed25519_public_b64 args) pv"
  obtain g pv' where g: "?g = (g, pv')" by fastforce
  show ?thesis
  proof (cases g)
    case (Inl e)
    with assms g show ?thesis by (simp add: create_engine_epoch_def keyed_host_def Let_def)
  next
    case (Inr x)
    with assms g show ?thesis by (cases x) (auto simp: create_engine_epoch_def keyed_host_def Let_def)
  qed
qed

lemma create_keyed_failed:
  assumes "create_engine_epoch (keyed_host C M pv E) args h = (Inl e, h')"
  shows "snd (generate_engine_hybrid C M (ca_engine_id args) (ca_ed25519_public_b64 args) pv) = pv"
proof -
  let ?g = "generate_engine_hybrid C M (ca_engine_id args) (ca_ed25519_public_b64 args) pv"
  obtain g pv' where g: "?g = (g, pv')" by fastforce
  with assms obtain e' where "g = Inl e'"
    by (cases g) (auto simp: create_engine_epoch_def keyed_host_def Let_def split: prod.splits)
  with g generate_failed show ?thesis by fastforce
qed

text \<open>The secret of an epoch: live in the provider, and made with the epoch's public keys.\<close>

definition keyed :: "crypto_host \<Rightarrow> crypto_provider \<Rightarrow> engine_epoch \<Rightarrow> bool" where
  "keyed C pv e \<longleftrightarrow>
     (\<forall>h. ep_handle e = Some h \<longrightarrow>
        (\<exists>st secret. pv = RealProvider st \<and> rs_engines st h = Some secret \<and> generated_together C secret (ep_hybrid e)))"

definition room :: "crypto_provider \<Rightarrow> bool" where
  "room pv \<longleftrightarrow> (\<forall>st. pv = RealProvider st \<longrightarrow> rs_next_handle st \<noteq> - 1)"

lemma keyed_handle_live: "keyed C pv e \<Longrightarrow> ep_handle e = Some h \<Longrightarrow> \<exists>st. pv = RealProvider st \<and> h \<in> dom (rs_engines st)"
  by (auto simp: keyed_def)

lemma generate_keeps:
  assumes "generate_engine_hybrid C M i p pv = (res, pv')" and "provider_wf pv" and "room pv" and "keyed C pv e"
  shows "keyed C pv' e \<and> provider_wf pv'"
proof (cases res)
  case (Inl x)
  with generate_failed assms show ?thesis by blast
next
  case (Inr x)
  obtain hybrid handle where x: "x = (hybrid, handle)" by (cases x)
  show ?thesis
  proof (cases handle)
    case None
    with generate_without_handle assms Inr x show ?thesis by blast
  next
    case (Some h)
    with assms(1) Inr x have "generate_engine_hybrid C M i p pv = (Inr (hybrid, Some h), pv')" by simp
    then obtain st st' secret where "pv = RealProvider st" "pv' = RealProvider st'" "h \<notin> dom (rs_engines st)"
        "rs_engines st' = (rs_engines st)(h \<mapsto> secret)" "provider_wf pv'"
      by (rule generate_real) (use assms(2,3) in \<open>auto simp: room_def\<close>)
    then show ?thesis using assms(4) by (auto simp: keyed_def dom_def)
  qed
qed

lemma generate_wf:
  assumes "generate_engine_hybrid C M i p pv = (res, pv')" and "provider_wf pv" and "room pv"
  shows "provider_wf pv'"
  by (rule conjunct2 [OF generate_keeps [OF assms, of "undefined\<lparr>ep_handle := None\<rparr>"]]) (simp add: keyed_def)

lemma generate_keyed:
  assumes "generate_engine_hybrid C M i p pv = (Inr (ep_hybrid e, ep_handle e), pv')" and "provider_wf pv" and "room pv"
  shows "keyed C pv' e \<and> (\<forall>h. ep_handle e = Some h \<longrightarrow> (\<forall>st. pv = RealProvider st \<longrightarrow> h \<notin> dom (rs_engines st)))"
proof (cases "ep_handle e")
  case (Some h)
  with assms(1) have "generate_engine_hybrid C M i p pv = (Inr (ep_hybrid e, Some h), pv')" by simp
  then obtain st st' secret where "pv = RealProvider st" "pv' = RealProvider st'" "h \<notin> dom (rs_engines st)"
      "rs_engines st' = (rs_engines st)(h \<mapsto> secret)" "generated_together C secret (ep_hybrid e)"
    by (rule generate_real) (use assms(2,3) in \<open>auto simp: room_def\<close>)
  with Some show ?thesis by (simp add: keyed_def)
qed (simp add: keyed_def)

lemma free_engine_wf: "provider_wf pv \<Longrightarrow> provider_wf (free_engine h pv)"
  by (cases pv) (auto simp: free_engine_def)

lemma fold_free_wf: "provider_wf pv \<Longrightarrow> provider_wf (fold free_engine hs pv)"
  by (induction hs arbitrary: pv) (simp_all add: free_engine_wf)

lemma free_engine_keeps: "keyed C pv e \<Longrightarrow> ep_handle e \<noteq> Some h \<Longrightarrow> keyed C (free_engine h pv) e"
  by (cases pv) (auto simp: keyed_def free_engine_def)

lemma fold_free_keeps: "keyed C pv e \<Longrightarrow> set (dispose_engine_epoch e) \<inter> set hs = {} \<Longrightarrow> keyed C (fold free_engine hs pv) e"
proof (induction hs arbitrary: pv)
  case (Cons h hs)
  then show ?case by (auto simp: dispose_engine_epoch_def free_engine_keeps split: option.splits)
qed simp

subsection \<open>Handles of the decryptor\<close>

lemma update_live_handles:
  "set (concat (map f (AList.update k v xs))) \<subseteq> set (concat (map f xs)) \<union> set (f (k, v))"
  by (induction xs) auto

lemma update_live_distinct:
  "distinct (concat (map f xs)) \<Longrightarrow> distinct (f (k, v)) \<Longrightarrow> set (f (k, v)) \<inter> set (concat (map f xs)) = {}
   \<Longrightarrow> distinct (concat (map f (AList.update k v xs)))"
proof (induction xs)
  case (Cons x xs)
  have sub: "set (concat (map f (AList.update k v xs))) \<subseteq> set (concat (map f xs)) \<union> set (f (k, v))"
    by (rule update_live_handles)
  obtain a b where "x = (a, b)" by (cases x)
  with Cons sub show ?case by (cases "a = k") auto
qed simp

lemma dispose_distinct: "distinct (dispose_engine_epoch e)"
  by (simp add: dispose_engine_epoch_def split: option.split)

lemma add_epoch_live:
  assumes "distinct (live_handles d)" and "set (dispose_engine_epoch e) \<inter> set (live_handles d) = {}"
  shows "distinct (live_handles (add_epoch e d))"
  unfolding live_handles_def add_epoch_def
  using assms by (simp add: live_handles_def update_live_distinct dispose_distinct)

lemma add_epoch_entries:
  "(i, x) \<in> set (dec_epochs (add_epoch e d)) \<Longrightarrow> x = e \<or> (i, x) \<in> set (dec_epochs d)"
proof -
  have "(i, x) \<in> set (AList.update k v xs) \<Longrightarrow> x = v \<or> (i, x) \<in> set xs" for k and v :: engine_epoch and xs
    by (induction xs) (auto split: if_splits)
  then show "(i, x) \<in> set (dec_epochs (add_epoch e d)) \<Longrightarrow> x = e \<or> (i, x) \<in> set (dec_epochs d)"
    by (simp add: add_epoch_def)
qed

subsection \<open>The machine of keys\<close>

text \<open>
  The state and the epoch between \<open>rotate_begin\<close> and \<open>rotate_commit\<close>. The host may differ from step to
  step; the provider has handles left when it generates a key.
\<close>

inductive keys_step ::
    "crypto_host \<Rightarrow> mock_host \<Rightarrow> (string \<Rightarrow> u64 option) \<Rightarrow> epoch_keys \<times> engine_epoch option \<Rightarrow> epoch_keys \<times> engine_epoch option \<Rightarrow> bool"
  for C :: crypto_host and M :: mock_host and parse_iso :: "string \<Rightarrow> u64 option" where
  kstep_accepted: "rotate_begin C M E k = (Inr next, k') \<Longrightarrow> room (ek_provider k) \<Longrightarrow> keys_step C M parse_iso (k, None) (k', Some next)"
| kstep_ended: "rotate_begin C M E k = (Inl res, k') \<Longrightarrow> room (ek_provider k) \<Longrightarrow> keys_step C M parse_iso (k, None) (k', None)"
| kstep_commit: "eh_on_rotated E \<Longrightarrow> keys_step C M parse_iso (k, Some next) (rotate_commit E next k, None)"
| kstep_prune: "keys_step C M parse_iso (k, p) (prune_keys parse_iso now_ms overlap k, p)"
| kstep_attestation: "keys_step C M parse_iso (k, p) (k\<lparr>ek_rotator := set_attestation b (ek_rotator k)\<rparr>, p)"
| kstep_stop: "keys_step C M parse_iso (k, p) (k\<lparr>ek_rotator := rotator_stop (ek_rotator k)\<rparr>, p)"
| kstep_initial: "keys_step C M parse_iso (k, p) (k\<lparr>ek_rotator := snd (register_initial_epoch E (ek_rotator k))\<rparr>, p)"
| kstep_session: "keys_step C M parse_iso (k, p) (k\<lparr>ek_rotator := snd (register_epoch_on_session E sid (ek_rotator k))\<rparr>, p)"

inductive_cases keys_stepE: "keys_step C M parse_iso s t"

definition keys_init :: "crypto_host \<Rightarrow> mock_host \<Rightarrow> epoch_keys \<times> engine_epoch option \<Rightarrow> bool" where
  "keys_init C M s \<longleftrightarrow> (\<exists>E env i p a prefer_mock k.
     epoch_keys_new C M E env i p a (create_crypto_provider prefer_mock) = Inr k \<and> s = (k, None))"

definition pending_handles :: "engine_epoch option \<Rightarrow> u64 list" where
  "pending_handles p = (case p of None \<Rightarrow> [] | Some e \<Rightarrow> dispose_engine_epoch e)"

definition keys_inv :: "crypto_host \<Rightarrow> epoch_keys \<times> engine_epoch option \<Rightarrow> bool" where
  "keys_inv C s \<longleftrightarrow> (case s of (k, p) \<Rightarrow>
     decryptor_wf (ek_decryptor k) \<and> provider_wf (ek_provider k)
     \<and> (\<forall>(i, e)\<in>set (dec_epochs (ek_decryptor k)). keyed C (ek_provider k) e)
     \<and> (\<forall>e. p = Some e \<longrightarrow> keyed C (ek_provider k) e)
     \<and> distinct (live_handles (ek_decryptor k)) \<and> set (pending_handles p) \<inter> set (live_handles (ek_decryptor k)) = {}
     \<and> map_of (dec_epochs (ek_decryptor k)) (ep_epoch_id (er_current (ek_rotator k))) = Some (er_current (ek_rotator k))
     \<and> dec_current_epoch_id (ek_decryptor k) = Some (ep_epoch_id (er_current (ek_rotator k))))"

lemma rotate_begin_frame:
  "rotate_begin C M E k = (res, k') \<Longrightarrow>
   ek_decryptor k' = ek_decryptor k \<and> er_current (ek_rotator k') = er_current (ek_rotator k)"
  by (auto simp: rotate_begin_def Let_def split: if_splits prod.splits sum.splits)

text \<open>What a rotation that ended early may have left in the provider is the new secret.\<close>

lemma rotate_begin_provider:
  assumes "rotate_begin C M E k = (res, k')"
  shows "ek_provider k' = ek_provider k
    \<or> ek_provider k' = snd (generate_engine_hybrid C M (er_engine_id (ek_rotator k)) (er_ed25519_public_b64 (ek_rotator k)) (ek_provider k))"
  using assms by (auto simp: rotate_begin_def Let_def split: if_splits prod.splits sum.splits)

lemma rotate_begin_next:
  assumes "rotate_begin C M E k = (Inr next, k')"
  shows "generate_engine_hybrid C M (er_engine_id (ek_rotator k)) (er_ed25519_public_b64 (ek_rotator k)) (ek_provider k)
    = (Inr (ep_hybrid next, ep_handle next), ek_provider k')"
proof -
  let ?r = "(ek_rotator k)\<lparr>er_rotating := True\<rparr>"
  let ?g = "generate_engine_hybrid C M (er_engine_id (ek_rotator k)) (er_ed25519_public_b64 (ek_rotator k)) (ek_provider k)"
  from assms obtain h where "create_engine_epoch (keyed_host C M (ek_provider k) E) (rotator_args ?r) (er_history ?r) = (Inr next, h)"
      and "ek_provider k' = snd ?g"
    by (auto simp: rotate_begin_def Let_def split: if_splits prod.splits sum.splits)
  with create_keyed show ?thesis by (fastforce simp: rotator_args_def)
qed

lemma keyed_disjoint:
  assumes "keyed C pv e" and "\<forall>h. ep_handle e' = Some h \<longrightarrow> (\<forall>st. pv = RealProvider st \<longrightarrow> h \<notin> dom (rs_engines st))"
  shows "set (dispose_engine_epoch e') \<inter> set (dispose_engine_epoch e) = {}"
proof (cases "ep_handle e")
  case (Some h)
  with keyed_handle_live [OF assms(1)] assms(2) have "ep_handle e' \<noteq> Some h" by blast
  with Some show ?thesis by (simp add: dispose_engine_epoch_def split: option.split)
qed (simp add: dispose_engine_epoch_def)

lemma keys_invD:
  assumes "keys_inv C (k, p)"
  shows "decryptor_wf (ek_decryptor k)" and "provider_wf (ek_provider k)"
    and "(i, e) \<in> set (dec_epochs (ek_decryptor k)) \<Longrightarrow> keyed C (ek_provider k) e"
    and "p = Some e \<Longrightarrow> keyed C (ek_provider k) e"
    and "distinct (live_handles (ek_decryptor k))"
    and "set (pending_handles p) \<inter> set (live_handles (ek_decryptor k)) = {}"
    and "map_of (dec_epochs (ek_decryptor k)) (ep_epoch_id (er_current (ek_rotator k))) = Some (er_current (ek_rotator k))"
    and "dec_current_epoch_id (ek_decryptor k) = Some (ep_epoch_id (er_current (ek_rotator k)))"
  using assms unfolding keys_inv_def by auto

lemma keys_invI:
  assumes "decryptor_wf (ek_decryptor k)" and "provider_wf (ek_provider k)"
    and "\<And>i e. (i, e) \<in> set (dec_epochs (ek_decryptor k)) \<Longrightarrow> keyed C (ek_provider k) e"
    and "\<And>e. p = Some e \<Longrightarrow> keyed C (ek_provider k) e"
    and "distinct (live_handles (ek_decryptor k))"
    and "set (pending_handles p) \<inter> set (live_handles (ek_decryptor k)) = {}"
    and "map_of (dec_epochs (ek_decryptor k)) (ep_epoch_id (er_current (ek_rotator k))) = Some (er_current (ek_rotator k))"
    and "dec_current_epoch_id (ek_decryptor k) = Some (ep_epoch_id (er_current (ek_rotator k)))"
  shows "keys_inv C (k, p)"
  using assms unfolding keys_inv_def by auto

lemma live_handle_epoch: "h \<in> set (live_handles d) \<Longrightarrow> \<exists>i e. (i, e) \<in> set (dec_epochs d) \<and> h \<in> set (dispose_engine_epoch e)"
  unfolding live_handles_def by (auto, blast)

lemma keys_inv_accepted:
  assumes "keys_inv C (k, None)" and "rotate_begin C M E k = (Inr next, k')" and "room (ek_provider k)"
  shows "keys_inv C (k', Some next)"
proof -
  note gen = rotate_begin_next [OF assms(2)]
  note inv = keys_invD [OF assms(1)]
  note new = generate_keyed [OF gen inv(2) assms(3)] and old = generate_keeps [OF gen inv(2) assms(3)]
  have dec: "ek_decryptor k' = ek_decryptor k" and cur: "er_current (ek_rotator k') = er_current (ek_rotator k)"
    using rotate_begin_frame [OF assms(2)] by auto
  have "x \<notin> set (dispose_engine_epoch next)" if "x \<in> set (live_handles (ek_decryptor k))" for x
    using live_handle_epoch [OF that] keyed_disjoint [OF inv(3) conjunct2 [OF new]] by blast
  then show ?thesis
    using inv new old generate_wf [OF gen inv(2) assms(3)] by (intro keys_invI) (auto simp: dec cur pending_handles_def)
qed

lemma keys_inv_ended:
  assumes "keys_inv C (k, None)" and "rotate_begin C M E k = (Inl res, k')" and "room (ek_provider k)"
  shows "keys_inv C (k', None)"
proof -
  let ?g = "generate_engine_hybrid C M (er_engine_id (ek_rotator k)) (er_ed25519_public_b64 (ek_rotator k)) (ek_provider k)"
  note inv = keys_invD [OF assms(1)]
  have "?g = (fst ?g, snd ?g)" by simp
  note old = generate_keeps [OF this inv(2) assms(3)]
  have dec: "ek_decryptor k' = ek_decryptor k" and cur: "er_current (ek_rotator k') = er_current (ek_rotator k)"
    using rotate_begin_frame [OF assms(2)] by auto
  have "keyed C (ek_provider k) e \<Longrightarrow> keyed C (ek_provider k') e" for e
    using rotate_begin_provider [OF assms(2)] old by auto
  moreover have "provider_wf (ek_provider k')"
    using rotate_begin_provider [OF assms(2)] generate_wf [OF surjective_pairing [of ?g] inv(2) assms(3)] inv(2) by auto
  ultimately show ?thesis
    using inv by (intro keys_invI) (auto simp: dec cur pending_handles_def)
qed

lemma keys_inv_commit:
  assumes "keys_inv C (k, Some next)" and "eh_on_rotated E"
  shows "keys_inv C (rotate_commit E next k, None)"
proof -
  note inv = keys_invD [OF assms(1)]
  let ?k = "rotate_commit E next k"
  have dec: "ek_decryptor ?k = add_epoch next (ek_decryptor k)" and cur: "er_current (ek_rotator ?k) = next"
    and pv: "ek_provider ?k = ek_provider k"
    using assms(2) by (simp_all add: rotate_commit_def Let_def)
  have "distinct (live_handles (ek_decryptor ?k))"
    unfolding dec by (rule add_epoch_live) (use inv(5,6) in \<open>simp_all add: pending_handles_def\<close>)
  moreover have "map_of (dec_epochs (ek_decryptor ?k)) (ep_epoch_id next) = Some next"
    by (simp add: dec add_epoch_def update_conv')
  moreover have "keyed C (ek_provider k) e" if "(i, e) \<in> set (dec_epochs (ek_decryptor ?k))" for i e
    using add_epoch_entries that inv(3,4) unfolding dec by blast
  ultimately show ?thesis
    using inv add_epoch_wf [OF inv(1), of "next"]
    by (intro keys_invI) (simp_all add: cur pv pending_handles_def dec, simp add: add_epoch_def)
qed

text \<open>Pruning drops entries, and frees exactly the handles of the dropped ones.\<close>

lemma prune_handles_split:
  assumes "distinct (live_handles d)" and "d' = prune_retired parse_iso now_ms overlap d"
  shows "set (dec_epochs d') \<subseteq> set (dec_epochs d)" and "distinct (live_handles d')"
    and "set (live_handles d') \<inter> set (drop (length (dec_freed d)) (dec_freed d')) = {}"
    and "set (live_handles d') \<union> set (drop (length (dec_freed d)) (dec_freed d')) \<subseteq> set (live_handles d)"
proof -
  let ?f = "\<lambda>e. dispose_engine_epoch (snd e)"
  let ?gone = "epoch_retired parse_iso now_ms (case overlap of None \<Rightarrow> dec_overlap_grace_ms d | Some x \<Rightarrow> x) (dec_current_epoch_id d)"
  have live: "live_handles d' = concat (map ?f (filter (\<lambda>e. \<not> ?gone e) (dec_epochs d)))"
    and freed: "drop (length (dec_freed d)) (dec_freed d') = concat (map ?f (filter ?gone (dec_epochs d)))"
    by (simp_all add: assms(2) live_handles_def prune_retired_def Let_def)
  note part = prune_handles_perm [of ?f "dec_epochs d" "\<lambda>e. \<not> ?gone e", unfolded not_not, OF assms(1) [unfolded live_handles_def]]
  show "set (dec_epochs d') \<subseteq> set (dec_epochs d)" by (auto simp: assms(2) prune_retired_def Let_def)
  show "distinct (live_handles d')" "set (live_handles d') \<inter> set (drop (length (dec_freed d)) (dec_freed d')) = {}"
    unfolding live freed using part by blast+
  show "set (live_handles d') \<union> set (drop (length (dec_freed d)) (dec_freed d')) \<subseteq> set (live_handles d)"
    unfolding live freed unfolding live_handles_def by auto
qed

lemma keys_inv_prune:
  assumes "keys_inv C (k, p)"
  shows "keys_inv C (prune_keys parse_iso now_ms overlap k, p)"
proof -
  note inv = keys_invD [OF assms]
  let ?d = "prune_retired parse_iso now_ms overlap (ek_decryptor k)"
  let ?freed = "drop (length (dec_freed (ek_decryptor k))) (dec_freed ?d)"
  note split = prune_handles_split [OF inv(5) refl, of parse_iso now_ms overlap]
  have kept: "keyed C (fold free_engine ?freed (ek_provider k)) e" if "(i, e) \<in> set (dec_epochs ?d)" for i e
  proof (rule fold_free_keeps)
    show "keyed C (ek_provider k) e" using that split(1) inv(3) by blast
    have "set (dispose_engine_epoch e) \<subseteq> set (live_handles ?d)" using that by (force simp: live_handles_def)
    then show "set (dispose_engine_epoch e) \<inter> set ?freed = {}" using split(3) by blast
  qed
  have pending: "keyed C (fold free_engine ?freed (ek_provider k)) e" if "p = Some e" for e
  proof (rule fold_free_keeps)
    show "keyed C (ek_provider k) e" using that inv(4) by blast
    show "set (dispose_engine_epoch e) \<inter> set ?freed = {}" using that split(4) inv(6) by (auto simp: pending_handles_def)
  qed
  have "map_of (dec_epochs ?d) (ep_epoch_id (er_current (ek_rotator k))) = Some (er_current (ek_rotator k))"
    using inv(1,7,8) by (simp add: prune_retired_def Let_def map_of_filter_keep epoch_retired_def decryptor_wf_def)
  moreover have "dec_current_epoch_id ?d = dec_current_epoch_id (ek_decryptor k)" by (simp add: prune_retired_def Let_def)
  ultimately show ?thesis
    using inv split kept pending prune_retired_wf [OF inv(1)] fold_free_wf [OF inv(2)]
    by (intro keys_invI) (auto simp: prune_keys_def Let_def)
qed

lemma provider_new_wf: "provider_wf (create_crypto_provider prefer_mock) \<and> room (create_crypto_provider prefer_mock)"
  by (simp add: create_crypto_provider_def real_crypto_provider_new_def room_def)

lemma keys_inv_new:
  assumes "epoch_keys_new C M E env i p a (create_crypto_provider prefer_mock) = Inr k"
  shows "keys_inv C (k, None)"
proof -
  let ?pv = "create_crypto_provider prefer_mock"
  obtain r where r: "epoch_rotator_new (keyed_host C M ?pv E) env i p a = Inr r"
    and k: "k = \<lparr>ek_rotator = r, ek_decryptor = decryptor_new (er_current r) (overlap_grace_ms (epoch_rotation_policy_from_env env)),
       ek_provider = snd (generate_engine_hybrid C M i p ?pv)\<rparr>"
    using assms by (auto simp: epoch_keys_new_def split: sum.splits)
  obtain h args where "create_engine_epoch (keyed_host C M ?pv E) args [] = (Inr (er_current r), h)"
      "ca_engine_id args = i" "ca_ed25519_public_b64 args = p"
    using r by (auto simp: epoch_rotator_new_def Let_def split: prod.splits sum.splits)
  from create_keyed [OF this(1)] this(2,3)
  have gen: "generate_engine_hybrid C M i p ?pv = (Inr (ep_hybrid (er_current r), ep_handle (er_current r)), ek_provider k)"
    by (auto simp: k)
  have wf: "provider_wf ?pv" and rm: "room ?pv" using provider_new_wf by blast+
  from generate_keyed [OF gen wf rm] have "keyed C (ek_provider k) (er_current r)" by blast
  moreover have "provider_wf (ek_provider k)" by (rule generate_wf [OF gen wf rm])
  ultimately show ?thesis
    using decryptor_new_wf by (intro keys_invI) (auto simp: k decryptor_new_def live_handles_def dispose_distinct pending_handles_def)
qed

interpretation keys_machine: state_machine "keys_init C M" "keys_step C M parse_iso" "keys_inv C" for C M parse_iso
proof
  show "keys_inv C s" if "keys_init C M s" for s
    using that keys_inv_new by (auto simp: keys_init_def)
  show "keys_inv C t" if "keys_inv C s" "keys_step C M parse_iso s t" for s t
    using that(2)
  proof (cases rule: keys_step.cases)
    case (kstep_attestation k p b)
    with that(1) show ?thesis by (simp add: keys_inv_def set_attestation_def)
  next
    case (kstep_stop k p)
    with that(1) show ?thesis by (simp add: keys_inv_def rotator_stop_def)
  next
    case (kstep_accepted E k "next" k')
    with that(1) keys_inv_accepted show ?thesis by simp
  next
    case (kstep_ended E k res k')
    with that(1) keys_inv_ended show ?thesis by simp
  next
    case (kstep_commit E k "next")
    with that(1) keys_inv_commit show ?thesis by simp
  next
    case (kstep_prune k p now_ms overlap)
    with that(1) keys_inv_prune show ?thesis by simp
  next
    case (kstep_initial k p E)
    with that(1) show ?thesis by (simp add: keys_inv_def register_initial_epoch_def split: prod.split)
  next
    case (kstep_session k p E sid)
    with that(1) show ?thesis by (simp add: keys_inv_def register_epoch_on_session_def Let_def)
  qed
qed

text \<open>The epoch whose key a request is decrypted with.\<close>

definition serving_epoch :: "ope_envelope \<Rightarrow> rotating_epoch_decryptor \<Rightarrow> engine_epoch option" where
  "serving_epoch envelope d =
     (case Option.bind (requested_epoch_id envelope d) (map_of (dec_epochs d)) of
        Some e \<Rightarrow> Some e
      | None \<Rightarrow> Option.bind (dec_current_epoch_id d) (map_of (dec_epochs d)))"

lemma resolve_handle_serving:
  "resolve_handle envelope d = Inr h \<longleftrightarrow> Option.bind (serving_epoch envelope d) ep_handle = Some h"
  by (simp add: resolve_handle_def serving_epoch_def Let_def split: option.split)

lemma serving_epoch_entry: "serving_epoch envelope d = Some e \<Longrightarrow> \<exists>i. (i, e) \<in> set (dec_epochs d)"
  by (auto simp: serving_epoch_def bind_eq_Some_conv split: option.splits dest: map_of_SomeD)

text \<open>
  (C4) Requests are decrypted with the right key: at any moment of any run - also between the posts of a
  rotation and its commit, after refused rotations, prunings, refreshes and a stop - the handle a
  request resolves to is live in the provider, and the secret behind it was generated together with
  the public keys of the epoch that serves the request; so decryption never meets an unknown handle.
\<close>

theorem resolved_key_belongs_to_epoch:
  assumes "reachable (keys_init C M) (keys_step C M parse_iso) (k, p)"
    and "resolve_handle envelope (ek_decryptor k) = Inr h"
  shows "\<exists>e st secret. serving_epoch envelope (ek_decryptor k) = Some e \<and> ep_handle e = Some h
      \<and> ek_provider k = RealProvider st \<and> engine_secret h st = Inr secret \<and> generated_together C secret (ep_hybrid e)
      \<and> decrypt_request C h envelope (ek_provider k) \<noteq> Inl (CUnknownHandle h)"
proof -
  note inv = keys_invD [OF keys_machine.reachable_inv [OF assms(1)]]
  obtain e where e: "serving_epoch envelope (ek_decryptor k) = Some e" "ep_handle e = Some h"
    using assms(2) by (auto simp: resolve_handle_serving bind_eq_Some_conv)
  obtain i where "(i, e) \<in> set (dec_epochs (ek_decryptor k))" using serving_epoch_entry [OF e(1)] by blast
  from inv(3) [OF this] e(2) obtain st secret where "ek_provider k = RealProvider st" "rs_engines st h = Some secret"
      "generated_together C secret (ep_hybrid e)" by (auto simp: keyed_def)
  with e show ?thesis
    by (auto simp: engine_secret_def decrypt_request_def convert_envelope_def split: option.split sum.split)
qed

text \<open>
  The current epoch is always served: a request that names no epoch is decrypted with the key of the
  epoch the rotator calls current.
\<close>

lemma unnamed_request_current:
  assumes "reachable (keys_init C M) (keys_step C M parse_iso) (k, p)" and "oe_e2e envelope = None"
  shows "serving_epoch envelope (ek_decryptor k) = Some (er_current (ek_rotator k))"
  using keys_invD(7,8) [OF keys_machine.reachable_inv [OF assms(1)]] assms(2)
  by (simp add: serving_epoch_def requested_epoch_id_def)


subsection \<open>Instances\<close>

text \<open>Two sessions, of which the second refuses every epoch.\<close>

definition sample_mock :: mock_host where
  "sample_mock = \<lparr>mk_kex = ''kex'', mk_encap_len = 4, mk_random = (\<lambda>k n. replicate n 7)\<rparr>"

definition sample_half_host :: epoch_host where
  "sample_half_host = sample_epoch_host\<lparr>eh_list_sessions := (\<lambda>_. [''s1'', ''s2'']),
     eh_post := (\<lambda>_ sid _. Inr (if sid = ''s1'' then 201 else 503))\<rparr>"

definition sample_public :: string where
  "sample_public = replicate 32 CHR ''p''"

definition sample_keys :: epoch_keys where
  "sample_keys = projr (epoch_keys_new sample_crypto sample_mock sample_half_host Map.empty ''eng'' sample_public None
     (create_crypto_provider False))"

lemma sample_keys_new:
  "epoch_keys_new sample_crypto sample_mock sample_half_host Map.empty ''eng'' sample_public None (create_crypto_provider False)
     = Inr sample_keys"
proof -
  have "isl (epoch_keys_new sample_crypto sample_mock sample_half_host Map.empty ''eng'' sample_public None
      (create_crypto_provider False)) = False" by code_simp
  then show ?thesis by (simp add: sample_keys_def)
qed

lemma sample_keys_reachable: "reachable (keys_init sample_crypto sample_mock) (keys_step sample_crypto sample_mock time_of_bits) (sample_keys, None)"
  unfolding keys_init_def by (rule reachable_init) (use sample_keys_new in blast)

theorem resolved_key_belongs_to_epoch_witness:
  "resolve_handle sample_envelope (ek_decryptor sample_keys) = Inr 1
   \<and> decrypt_request sample_crypto 1 sample_envelope (ek_provider sample_keys) \<noteq> Inl (CUnknownHandle 1)"
proof -
  have "resolve_handle sample_envelope (ek_decryptor sample_keys) = Inr 1" by code_simp
  with resolved_key_belongs_to_epoch [OF sample_keys_reachable this] show ?thesis by blast
qed

definition sample_next :: "(engine_error + engine_epoch) \<times> epoch_event list" where
  "sample_next = create_engine_epoch (keyed_host sample_crypto sample_mock (ek_provider sample_keys) sample_half_host)
     (rotator_args (ek_rotator sample_keys)) (er_history (ek_rotator sample_keys))"

definition sample_next_envelope :: ope_envelope where
  "sample_next_envelope = sample_envelope\<lparr>oe_e2e := map_option (\<lambda>d. d\<lparr>e2e_ephemeral_epoch := ''epoch-7-2''\<rparr>) (oe_e2e sample_envelope)\<rparr>"

lemma is_post: "(case e of EpPost s i \<Rightarrow> s = sid \<and> i = epoch_id | _ \<Rightarrow> False) \<longleftrightarrow> e = EpPost sid epoch_id"
  by (cases e) auto


end
