(* ===== verification/Usage_Metering.thy ===== *)
theory Usage_Metering
  imports Inference
begin

section \<open>Signed usage reports\<close>

text \<open>
  \<^verbatim>\<open>ie-engine/src/ops/metering.rs\<close>: a usage report is signed over its canonical JSON with the usage key of
  an epoch, and a gateway verifies it with the public key of the epoch's evidence. Ed25519, base64url and the
  JSON printer are the host. The lemmas show that what is signed verifies under the key the epoch published,
  and that a signature counts for no other report.
\<close>

record signature_host =
  sg_to_string :: "json \<Rightarrow> utext"
  sg_encode :: "bytes \<Rightarrow> string"
  sg_decode :: "string \<Rightarrow> bytes option"
  sg_key_ok :: "bytes \<Rightarrow> bool"
  sg_sign :: "string \<Rightarrow> utext \<Rightarrow> bytes"
  sg_verify :: "bytes \<Rightarrow> utext \<Rightarrow> bytes \<Rightarrow> bool"

record signed_usage_report =
  su_report :: usage_report
  su_sig :: string

definition report_bytes :: "signature_host \<Rightarrow> usage_report \<Rightarrow> utext" where
  "report_bytes S report = sg_to_string S (usage_report_json report)"

definition sign_usage_report :: "signature_host \<Rightarrow> string \<Rightarrow> usage_report \<Rightarrow> string" where
  "sign_usage_report S signing_key report = sg_encode S (sg_sign S signing_key (report_bytes S report))"

definition verify_usage_report :: "signature_host \<Rightarrow> string \<Rightarrow> signed_usage_report \<Rightarrow> bool" where
  "verify_usage_report S ed25519_public_b64 sr =
     (let msg = report_bytes S (su_report sr)
      in case (sg_decode S (su_sig sr), sg_decode S ed25519_public_b64) of
           (Some sig_bytes, Some pub_bytes) \<Rightarrow>
             if length sig_bytes \<noteq> 64 then False
             else if length pub_bytes \<noteq> 32 then False
             else if \<not> sg_key_ok S pub_bytes then False
             else sg_verify S pub_bytes msg sig_bytes
         | _ \<Rightarrow> False)"

text \<open>
  Documented behaviour of the libraries: what is encoded decodes, a public key is 32 bytes and a signature
  64, a signature verifies under the public key of its signing key, and the JSON printer is injective.
  \<open>public_raw\<close> gives the public key of a signing key.
\<close>

definition signature_laws :: "signature_host \<Rightarrow> (string \<Rightarrow> bytes) \<Rightarrow> bool" where
  "signature_laws S public_raw \<longleftrightarrow>
     (\<forall>bs. sg_decode S (sg_encode S bs) = Some bs)
     \<and> (\<forall>key. length (public_raw key) = 32 \<and> sg_key_ok S (public_raw key))
     \<and> (\<forall>key msg. length (sg_sign S key msg) = 64 \<and> sg_verify S (public_raw key) msg (sg_sign S key msg))"

theorem signed_report_verifies:
  assumes "signature_laws S public_raw"
  shows "verify_usage_report S (sg_encode S (public_raw key)) \<lparr>su_report = report, su_sig = sign_usage_report S key report\<rparr>"
  using assms by (simp add: signature_laws_def verify_usage_report_def sign_usage_report_def)

text \<open>
  The report of a request is verified with what its epoch published: the usage key that
  \<^verbatim>\<open>create_engine_epoch\<close> put into the claims of the epoch's evidence verifies every report that is signed
  with the epoch's usage key.
\<close>

theorem epoch_usage_signature_verifies:
  assumes "create_engine_epoch E args h = (Inr ep, h')" and "signature_laws S public_raw"
    and "\<forall>key. eh_usage_public E key = sg_encode S (public_raw key)"
  shows "verify_usage_report S (ep_usage_signing_public_b64 ep)
      \<lparr>su_report = report, su_sig = sign_usage_report S (ep_usage_signing_key ep) report\<rparr>
    \<and> (\<forall>claims. EpMint claims \<in> set h' - set h \<longrightarrow> qc_usage_signing_public claims = ep_usage_signing_public_b64 ep)"
proof -
  have key: "ep_usage_signing_public_b64 ep = eh_usage_public E (ep_usage_signing_key ep)"
    and minted: "\<forall>claims. EpMint claims \<in> set h' - set h \<longrightarrow> qc_usage_signing_public claims = ep_usage_signing_public_b64 ep"
    using assms(1)
    by (auto simp: create_engine_epoch_def Let_def epoch_claims_def split: sum.splits option.splits if_splits)
  show ?thesis using signed_report_verifies [OF assms(2)] minted by (simp add: key assms(3))
qed

text \<open>
  A signature counts for one report only: reports with the same signed bytes are the same report, in
  every field that is billed.
\<close>

lemma lit_injective: "lit a = lit b \<longleftrightarrow> a = b"
  by (simp add: lit_def inj_map_eq_map inj_of_char)

theorem report_bytes_injective:
  assumes "inj (sg_to_string S)" and "report_bytes S report = report_bytes S report'"
  shows "report = report'"
proof -
  have "usage_report_json report = usage_report_json report'"
    using assms by (simp add: report_bytes_def inj_eq)
  then show ?thesis by (cases report; cases report') (simp add: usage_report_json_def lit_injective)
qed

text \<open>A verified report carries a signature of its own bytes, under the key it is verified with.\<close>

theorem verified_report_is_signed:
  assumes "verify_usage_report S public sr"
  shows "\<exists>sig_bytes pub_bytes. sg_decode S (su_sig sr) = Some sig_bytes \<and> length sig_bytes = 64
    \<and> sg_decode S public = Some pub_bytes \<and> length pub_bytes = 32 \<and> sg_key_ok S pub_bytes
    \<and> sg_verify S pub_bytes (report_bytes S (su_report sr)) sig_bytes"
  using assms by (auto simp: verify_usage_report_def Let_def split: option.splits if_splits)

text \<open>The header an inference sets is this signature, when the keys of the two hosts agree.\<close>

lemma usage_header_is_signed:
  assumes "infer_usage_signing_key options envelope = Some key"
    and "\<forall>key msg. ih_sign H key msg = sg_encode S (sg_sign S key msg)"
    and "uh_to_string (ih_upstream H) = sg_to_string S"
  shows "usage_header_for H options envelope report = Some (ih_signed_report H report (sign_usage_report S key report))"
  using assms by (simp add: usage_header_for_def sign_usage_report_def usage_report_signing_bytes_def report_bytes_def)

subsection \<open>Instances\<close>

definition sample_signature_host :: signature_host where
  "sample_signature_host = \<lparr>sg_to_string = (\<lambda>j. []), sg_encode = map (\<lambda>b. char_of (unat b)),
     sg_decode = (\<lambda>s. Some (map (\<lambda>c. word_of_nat (of_char c)) s)),
     sg_key_ok = (\<lambda>_. True), sg_sign = (\<lambda>key msg. replicate 64 0), sg_verify = (\<lambda>k m s. s = replicate 64 0)\<rparr>"

lemma sample_signature_laws: "signature_laws sample_signature_host (\<lambda>_. replicate 32 0)"
proof -
  have "word_of_nat (of_char (char_of (unat b :: nat))) = b" for b :: u8
    using unat_lt_size [of b] by simp
  then show ?thesis by (simp add: signature_laws_def sample_signature_host_def o_def)
qed

definition sample_report_usage :: usage_report where
  "sample_report_usage = \<lparr>ur_request_id = ''r'', ur_conversation_id = ''c'', ur_engine_id = ''e'', ur_prompt_tokens = 1,
     ur_completion_tokens = 2, ur_cached_tokens = 0, ur_ts = ''t''\<rparr>"

theorem signed_report_verifies_witness:
  "verify_usage_report sample_signature_host (sg_encode sample_signature_host (replicate 32 0))
     \<lparr>su_report = sample_report_usage, su_sig = sign_usage_report sample_signature_host ''k'' sample_report_usage\<rparr>"
  using signed_report_verifies [OF sample_signature_laws, of sample_report_usage "''k''"] by simp

end
