(* ===== verification/Control_Tasks.thy ===== *)
theory Control_Tasks
  imports Engine_Machine
begin

section \<open>The installed controls\<close>

text \<open>
  \<^verbatim>\<open>ie-engine/src/controls/mod.rs\<close> and \<^verbatim>\<open>status.rs\<close>: the four controls of a running engine on one file
  system - drain on SIGUSR2, migration on SIGUSR1, the polled scale file, the published status - with the
  files they were installed for. Handlers run one at a time here; a handler that runs when its signal comes is
  covered by the \<open>ct_handling\<close> flag of the handlers. The status is written beside its file and renamed into
  place. The lemmas show that a reader of the status never sees a part of one, that a request that was
  applied is gone, and that the controls leave each other's files alone.
\<close>

type_synonym text_files = "string \<rightharpoonup> string"

subsection \<open>Writing the status\<close>

text \<open>\<^verbatim>\<open>Path::with_extension\<close> of a path that ends in a file name.\<close>

definition path_directory :: "string \<Rightarrow> string" where
  "path_directory p = rev (dropWhile (\<lambda>c. c \<noteq> CHR ''/'') (rev p))"

definition path_last :: "string \<Rightarrow> string" where
  "path_last p = rev (takeWhile (\<lambda>c. c \<noteq> CHR ''/'') (rev p))"

definition file_stem :: "string \<Rightarrow> string" where
  "file_stem name =
     (let before = rev (tl (dropWhile (\<lambda>c. c \<noteq> CHR ''.'') (rev name)))
      in if CHR ''.'' \<notin> set name \<or> before = [] then name else before)"

definition with_extension :: "string \<Rightarrow> string \<Rightarrow> string" where
  "with_extension p ext = path_directory p @ file_stem (path_last p) @ ''.'' @ ext"

definition path_parent :: "string \<Rightarrow> string" where
  "path_parent p = trim_end_slashes (path_directory p)"

text \<open>
  What the file system does with each call: \<open>fw_write\<close> gives the text that has reached the file when the
  write fails.
\<close>

record file_writer =
  fw_mkdir :: "string \<Rightarrow> string option"
  fw_write :: "string \<Rightarrow> string \<Rightarrow> (string \<times> string) option"
  fw_rename :: "string \<Rightarrow> string \<Rightarrow> string option"

text \<open>The files as they are after each call, with the result.\<close>

definition write_pool_status_file ::
    "file_writer \<Rightarrow> nat \<Rightarrow> (engine_pool_status_snapshot \<Rightarrow> string) \<Rightarrow> string \<Rightarrow> engine_pool_status_snapshot \<Rightarrow> text_files
     \<Rightarrow> (string + unit) \<times> text_files list" where
  "write_pool_status_file F pid to_string path snapshot fs =
     (case fw_mkdir F (path_parent path) of
        Some e \<Rightarrow> (Inl e, [fs])
      | None \<Rightarrow>
         (let tmp = with_extension path (show_nat pid @ ''.tmp''); body = to_string snapshot @ [CHR 0x0A]
          in case fw_write F tmp body of
               Some (e, part) \<Rightarrow> (Inl e, [fs, fs(tmp \<mapsto> part)])
             | None \<Rightarrow>
                (case fw_rename F tmp path of
                   Some e \<Rightarrow> (Inl e, [fs, fs(tmp \<mapsto> body)])
                 | None \<Rightarrow> (Inr (), [fs, fs(tmp \<mapsto> body), (fs(tmp := None))(path \<mapsto> body)]))))"

lemma path_split: "path_directory p @ path_last p = p"
proof -
  have "rev (dropWhile (\<lambda>c. c \<noteq> CHR ''/'') (rev p)) @ rev (takeWhile (\<lambda>c. c \<noteq> CHR ''/'') (rev p)) = rev (rev p)"
    by (simp only: rev_append [symmetric] takeWhile_dropWhile_id)
  then show ?thesis by (simp add: path_directory_def path_last_def)
qed

lemma with_extension_differs: "path_last p \<noteq> file_stem (path_last p) @ ''.'' @ ext \<Longrightarrow> with_extension p ext \<noteq> p"
proof
  assume ne: "path_last p \<noteq> file_stem (path_last p) @ ''.'' @ ext" and "with_extension p ext = p"
  then have "path_directory p @ file_stem (path_last p) @ ''.'' @ ext = path_directory p @ path_last p"
    unfolding with_extension_def by (simp only: path_split)
  with ne show False by simp
qed

lemma ends_json_stem:
  assumes "path_last p = stem @ ''.json''"
  shows "path_last p \<noteq> file_stem (path_last p) @ ''.'' @ x @ ''.tmp''"
proof
  assume "path_last p = file_stem (path_last p) @ ''.'' @ x @ ''.tmp''"
  then have "rev (path_last p) = rev (file_stem (path_last p) @ ''.'' @ x @ ''.tmp'')" by (rule arg_cong)
  with assms show False by simp
qed

text \<open>
  The status is replaced as a whole: whatever fails and whenever a reader looks, the status file is what it
  was before or the complete new snapshot, and after success it is the new one with no temporary file left.
\<close>

theorem status_file_replaced_atomically:
  assumes "path_last path = stem @ ''.json''"
    and "write_pool_status_file F pid to_string path snapshot fs = (result, seen)"
  shows "(\<forall>fs'\<in>set seen. fs' path = fs path \<or> fs' path = Some (to_string snapshot @ [CHR 0x0A]))
    \<and> (result = Inr () \<longrightarrow> last seen = fs(with_extension path (show_nat pid @ ''.tmp'') := None, path \<mapsto> to_string snapshot @ [CHR 0x0A]))"
proof -
  have "with_extension path (show_nat pid @ ''.tmp'') \<noteq> path"
    by (rule with_extension_differs) (rule ends_json_stem [OF assms(1)])
  then show ?thesis
    using assms(2) by (auto simp: write_pool_status_file_def Let_def split: option.splits)
qed

subsection \<open>Installation and tasks\<close>

record installed_controls =
  ic_drain_file :: string
  ic_scale_file :: string
  ic_status_file :: string
  ic_migrate_file :: string
  ic_engine_id :: string
  ic_status_interval_ms :: u64

definition pool_status_control_interval :: "u64 \<Rightarrow> u64" where
  "pool_status_control_interval interval_ms = max interval_ms 250"

definition controls_of_env :: "string \<Rightarrow> env \<Rightarrow> installed_controls" where
  "controls_of_env engine_id env =
     \<lparr>ic_drain_file = default_pool_drain_file env, ic_scale_file = default_pool_scale_file env,
      ic_status_file = default_pool_status_file env, ic_migrate_file = default_gateway_migration_file env,
      ic_engine_id = engine_id, ic_status_interval_ms = pool_status_control_interval 1000\<rparr>"

record control_world =
  kw_pool :: pool_host
  kw_clock :: "pool_event list \<Rightarrow> nat"
  kw_drain_json :: "string \<Rightarrow> string + pool_drain_request"
  kw_scale_json :: "string \<Rightarrow> string + pool_scale_request"
  kw_migrate_json :: "string \<Rightarrow> string + gateway_migration_request"
  kw_writer :: "pool_event list \<Rightarrow> file_writer"
  kw_pid :: nat
  kw_now :: "pool_event list \<Rightarrow> string"
  kw_status_json :: "engine_pool_status_snapshot \<Rightarrow> string"

datatype control_event = Sigusr2 | Sigusr1 | ScaleTick | StatusTick

text \<open>A handler is given its request file and leaves it or not.\<close>

definition on_file ::
    "string \<Rightarrow> (control_state \<times> supervised_pool \<Rightarrow> control_state \<times> supervised_pool) \<Rightarrow> text_files \<times> supervised_pool
     \<Rightarrow> text_files \<times> supervised_pool" where
  "on_file path handler = (\<lambda>(fs, p).
     let (c, p) = handler (\<lparr>ct_handling = False, ct_file = fs path\<rparr>, p) in (fs(path := ct_file c), p))"

definition publish_status :: "control_world \<Rightarrow> installed_controls \<Rightarrow> text_files \<times> supervised_pool \<Rightarrow> text_files \<times> supervised_pool" where
  "publish_status K ic = (\<lambda>(fs, p).
     (last (snd (write_pool_status_file (kw_writer K (sp_history p)) (kw_pid K) (kw_status_json K) (ic_status_file ic)
        (publish_once (kw_now K (sp_history p)) (ic_engine_id ic) p) fs)), p))"

text \<open>The migration handler always returns with the fuel of 180 retries on a clock that runs.\<close>

definition run_migration :: "control_world \<Rightarrow> control_state \<times> supervised_pool \<Rightarrow> control_state \<times> supervised_pool" where
  "run_migration K cp =
     (case migrate_handle_signal (kw_pool K) (kw_clock K) 180 (kw_migrate_json K) cp of None \<Rightarrow> cp | Some cp \<Rightarrow> cp)"

definition control_event :: "control_world \<Rightarrow> installed_controls \<Rightarrow> control_event \<Rightarrow> text_files \<times> supervised_pool \<Rightarrow> text_files \<times> supervised_pool" where
  "control_event K ic ev =
     (case ev of
        Sigusr2 \<Rightarrow> on_file (ic_drain_file ic) (drain_handle_signal (kw_pool K) (kw_drain_json K))
      | Sigusr1 \<Rightarrow> on_file (ic_migrate_file ic) (run_migration K)
      | ScaleTick \<Rightarrow> on_file (ic_scale_file ic) (scale_poll_tick (kw_pool K) (kw_scale_json K))
      | StatusTick \<Rightarrow> publish_status K ic)"

text \<open>
  Installing starts the poll task, publishes once and starts the publishing task, whose first tick comes
  at once, like that of the poll task.
\<close>

definition install_engine_controls ::
    "control_world \<Rightarrow> string \<Rightarrow> env \<Rightarrow> text_files \<times> supervised_pool \<Rightarrow> installed_controls \<times> text_files \<times> supervised_pool" where
  "install_engine_controls K engine_id env s =
     (let ic = controls_of_env engine_id env
      in (ic, fold (control_event K ic) [StatusTick, ScaleTick, StatusTick] s))"

subsection \<open>What the events do\<close>

lemma on_file_result:
  "on_file path handler (fs, p) =
     (fs(path := ct_file (fst (handler (\<lparr>ct_handling = False, ct_file = fs path\<rparr>, p)))),
      snd (handler (\<lparr>ct_handling = False, ct_file = fs path\<rparr>, p)))"
  by (simp add: on_file_def split: prod.split)

lemma drain_keeps_none: "ct_file c = None \<Longrightarrow> ct_handling c = False \<Longrightarrow> drain_handle_signal H dj (c, p) = (c, p)"
  by (simp add: drain_handle_signal_def read_request_file_def)

lemma drain_consumes:
  "drain_handle_signal H dj (\<lparr>ct_handling = False, ct_file = f\<rparr>, p)
     = (\<lparr>ct_handling = False, ct_file = if isl (read_request_file (parse_pool_drain_request_json dj) \<lparr>ct_handling = False, ct_file = f\<rparr>) then f else None\<rparr>,
        if isl (read_request_file (parse_pool_drain_request_json dj) \<lparr>ct_handling = False, ct_file = f\<rparr>) then p
        else snd (run_pool_drain_once H (projr (read_request_file (parse_pool_drain_request_json dj) \<lparr>ct_handling = False, ct_file = f\<rparr>)) p))"
  by (cases "read_request_file (parse_pool_drain_request_json dj) \<lparr>ct_handling = False, ct_file = f\<rparr>")
    (simp_all add: drain_handle_signal_def)


text \<open>Each control leaves the files of the others alone.\<close>

lemma control_event_frame:
  assumes "path \<notin> {ic_drain_file ic, ic_scale_file ic, ic_status_file ic, ic_migrate_file ic,
      with_extension (ic_status_file ic) (show_nat (kw_pid K) @ ''.tmp'')}"
  shows "fst (control_event K ic ev (fs, p)) path = fs path"
  using assms
  by (cases ev) (auto simp: control_event_def on_file_result publish_status_def write_pool_status_file_def Let_def
      split: option.split prod.split)

lemma status_leaves_pool: "snd (control_event K ic StatusTick (fs, p)) = p"
  by (simp add: control_event_def publish_status_def)

text \<open>Whatever signals and ticks come, the pool takes steps of its own machine only.\<close>

lemma run_migration_returns:
  assumes "retry_clock (kw_clock K)"
  shows "migrate_handle_signal (kw_pool K) (kw_clock K) 180 (kw_migrate_json K) cp = Some (run_migration K cp)"
proof (cases cp)
  case (Pair c p)
  with migration_handler_returns [OF assms, of "kw_pool K" "kw_migrate_json K" c p] show ?thesis
    by (auto simp: run_migration_def)
qed

lemma control_event_steps: "pool_steps (kw_pool K) p (snd (control_event K ic ev (fs, p)))"
proof (cases ev)
  case Sigusr2
  then show ?thesis
    by (simp add: control_event_def on_file_result) (rule handler_steps(1) [OF prod.collapse [symmetric]])
next
  case Sigusr1
  let ?c = "\<lparr>ct_handling = False, ct_file = fs (ic_migrate_file ic)\<rparr>"
  have "pool_steps (kw_pool K) p (snd (run_migration K (?c, p)))"
    using handler_steps(3) [of "kw_pool K" "kw_clock K" 180 "kw_migrate_json K" ?c p]
    by (auto simp: run_migration_def split: option.split)
  with Sigusr1 show ?thesis by (simp add: control_event_def on_file_result)
next
  case ScaleTick
  then show ?thesis
    by (simp add: control_event_def on_file_result) (rule handler_steps(2) [OF prod.collapse [symmetric]])
next
  case StatusTick
  then show ?thesis by (simp add: status_leaves_pool)
qed

lemma controls_steps: "pool_steps (kw_pool K) p (snd (fold (control_event K ic) evs (fs, p)))"
proof (induction evs arbitrary: fs p)
  case (Cons ev evs)
  obtain fs' q where q: "control_event K ic ev (fs, p) = (fs', q)" by fastforce
  with control_event_steps [of K p ic ev fs] have "pool_steps (kw_pool K) p q" by simp
  moreover have "pool_steps (kw_pool K) q (snd (fold (control_event K ic) evs (fs', q)))" by (rule Cons.IH)
  ultimately show ?case using q by simp
qed simp

text \<open>
  Every file an installed control reads or writes lies below an allowed directory, when the slot name
  has no slash.
\<close>

lemma installed_controls_contained:
  assumes "\<forall>slot. env ''TEECHAT_ENGINE_SLOT'' = Some slot \<longrightarrow> CHR ''/'' \<notin> set slot"
    and "install_engine_controls K engine_id env s = (ic, s')"
  shows "list_all (path_contained env) [ic_drain_file ic, ic_scale_file ic, ic_status_file ic, ic_migrate_file ic]"
proof -
  have "list_all (path_contained env) [default_pool_drain_file env, default_pool_scale_file env,
      default_pool_status_file env, default_gateway_migration_file env]"
    unfolding default_pool_drain_file_def default_pool_scale_file_def default_pool_status_file_def default_gateway_migration_file_def
    using assms(1) by (auto intro!: resolve_or_default_contained slot_path_contained fixed_defaults_contained)
  with assms(2) show ?thesis by (auto simp: install_engine_controls_def controls_of_env_def Let_def)
qed

definition sample_writer :: file_writer where
  "sample_writer = \<lparr>fw_mkdir = (\<lambda>_. None), fw_write = (\<lambda>_ _. None), fw_rename = (\<lambda>_ _. Some ''busy'')\<rparr>"

theorem status_file_replaced_atomically_witness:
  "\<forall>fs'\<in>set (snd (write_pool_status_file sample_writer 7 (\<lambda>_. ''{}'') ''/etc/teechat/engine-pool-status.json''
        (publish_once ''t'' ''e'' sample_pool) Map.empty)).
     fs' ''/etc/teechat/engine-pool-status.json'' = None \<or> fs' ''/etc/teechat/engine-pool-status.json'' = Some (''{}'' @ [CHR 0x0A])"
proof -
  have "path_last ''/etc/teechat/engine-pool-status.json'' = ''engine-pool-status'' @ ''.json''" by (simp add: path_last_def)
  from status_file_replaced_atomically [OF this prod.collapse [symmetric],
      of sample_writer 7 "\<lambda>_. ''{}''" "publish_once ''t'' ''e'' sample_pool" Map.empty]
  show ?thesis by simp
qed

end
