(* ===== verification/Default_Methods.thy ===== *)
theory Default_Methods
  imports Plane_Transport Pool_Properties Upstream
begin

section \<open>Default methods and small wrappers\<close>

text \<open>
  The default methods of the transport trait and the session that wraps a transport
  (\<^verbatim>\<open>ie-engine/src/plane/session.rs\<close>), the inference upstream of the pool (\<^verbatim>\<open>ie-engine/src/traits.rs\<close>,
  \<^verbatim>\<open>ie-engine/src/pool.rs\<close>), its dials through the throttle and its count of sessions by gateway. The lemmas
  relate them to the operations the engine runs on.
\<close>

subsection \<open>A streaming post\<close>

text \<open>
  The channel with the chunks sent so far, open until the post is finished, and the task that reads it: it
  ends by itself with a result, or it was cancelled or panicked.
\<close>

record streaming_post_handle =
  sh_tx :: "bytes list option"
  sh_join :: "bytes list \<Rightarrow> string + (plane_error + bytes_response)"

definition streaming_post_handle_new :: "(bytes list \<Rightarrow> string + (plane_error + bytes_response)) \<Rightarrow> streaming_post_handle" where
  "streaming_post_handle_new reader = \<lparr>sh_tx = Some [], sh_join = reader\<rparr>"

definition handle_write :: "bytes \<Rightarrow> streaming_post_handle \<Rightarrow> streaming_post_handle" where
  "handle_write chunk s = (case sh_tx s of None \<Rightarrow> s | Some chunks \<Rightarrow> s\<lparr>sh_tx := Some (chunks @ [chunk])\<rparr>)"

definition handle_finish :: "streaming_post_handle \<Rightarrow> plane_error + bytes_response" where
  "handle_finish s =
     (case sh_join s (case sh_tx s of None \<Rightarrow> [] | Some chunks \<Rightarrow> chunks) of
        Inl e \<Rightarrow> Inl (PH2 (''streaming post join: '' @ e))
      | Inr result \<Rightarrow> result)"

subsection \<open>Default methods of a transport\<close>

definition default_is_closed :: bool where
  "default_is_closed = False"

text \<open>\<open>request_json\<close> is the transport's own method, on a state \<open>l\<close> of its own.\<close>

definition default_request_bytes ::
    "(bytes \<Rightarrow> json option) \<Rightarrow> (json \<Rightarrow> bytes)
     \<Rightarrow> (string \<Rightarrow> string \<Rightarrow> json option \<Rightarrow> (string \<times> string) list \<Rightarrow> 'l \<Rightarrow> (plane_error + u16 \<times> json) \<times> 'l)
     \<Rightarrow> string \<Rightarrow> string \<Rightarrow> bytes option \<Rightarrow> string option \<Rightarrow> (string \<times> string) list \<Rightarrow> 'l \<Rightarrow> (plane_error + bytes_response) \<times> 'l" where
  "default_request_bytes from_slice to_vec request_json verb path body content_type headers l =
     (let hdrs = headers @ json_headers content_type;
          val = (case body of
              None \<Rightarrow> None
            | Some b \<Rightarrow> if b = [] then None else Some (case from_slice b of None \<Rightarrow> JNull | Some v \<Rightarrow> v))
      in case request_json verb path val hdrs l of
           (Inl e, l) \<Rightarrow> (Inl e, l)
         | (Inr (status, j), l) \<Rightarrow>
             (Inr \<lparr>br_status = status, br_headers = [], br_body = (if j = JNull then [] else to_vec j)\<rparr>, l))"

definition default_open_streaming_post :: "plane_error + streaming_post_handle" where
  "default_open_streaming_post =
     Inr (streaming_post_handle_new
       (\<lambda>chunks. Inr (Inl (PH2 (''open_streaming_bytes_post default stub '' @ [CHR 0xE2, CHR 0x80, CHR 0x94] @ '' override on real transport'')))))"

subsection \<open>A session and its transport\<close>

record 't attested_h2_session =
  as_session_id :: string
  as_transport :: 't

definition session_from_transport :: "string \<Rightarrow> 't \<Rightarrow> 't attested_h2_session" where
  "session_from_transport session_id transport = \<lparr>as_session_id = session_id, as_transport = transport\<rparr>"

text \<open>A body is serialized before anything is sent.\<close>

definition session_request_json ::
    "('b \<Rightarrow> string + json) \<Rightarrow> h2_host \<Rightarrow> string \<Rightarrow> string \<Rightarrow> 'b option \<Rightarrow> (string \<times> string) list \<Rightarrow> h2_line attested_h2_session
     \<Rightarrow> (plane_error + u16 \<times> json) \<times> h2_line attested_h2_session" where
  "session_request_json to_value X verb path body headers s =
     (case (case body of None \<Rightarrow> Inr None | Some b \<Rightarrow> map_sum id Some (to_value b)) of
        Inl e \<Rightarrow> (Inl (PJson e), s)
      | Inr v \<Rightarrow> (let (result, l) = send_json X verb path v headers (as_transport s) in (result, s\<lparr>as_transport := l\<rparr>)))"

definition session_request_bytes ::
    "h2_host \<Rightarrow> string \<Rightarrow> string \<Rightarrow> bytes option \<Rightarrow> string option \<Rightarrow> (string \<times> string) list \<Rightarrow> h2_line attested_h2_session
     \<Rightarrow> (plane_error + bytes_response) \<times> h2_line attested_h2_session" where
  "session_request_bytes X verb path body content_type headers s =
     (let (result, l) = send_bytes X verb path body content_type headers (as_transport s) in (result, s\<lparr>as_transport := l\<rparr>))"

definition session_close :: "h2_line attested_h2_session \<Rightarrow> h2_line" where
  "session_close s = transport_close (as_transport s)"

subsection \<open>The upstream of the pool\<close>

record infer_result =
  ir_completion :: utext
  ir_finish_reason :: "string option"

text \<open>\<open>process_env\<close> is the environment of the process itself, without the environment files.\<close>

definition vllm_infer_chat :: "upstream_host \<Rightarrow> env \<Rightarrow> utext \<Rightarrow> utext \<Rightarrow> upstream_error + infer_result" where
  "vllm_infer_chat U process_env model prompt =
     map_sum id (\<lambda>completion. \<lparr>ir_completion = completion, ir_finish_reason = Some ''stop''\<rparr>)
       (complete_chat U
         \<lparr>vo_base_url = (case env_first process_env [''TEECHAT_VLLM_BASE_URL'', ''VLLM_BASE_URL''] of
             None \<Rightarrow> ''http://127.0.0.1:8000'' | Some url \<Rightarrow> url),
          vo_model = model, vo_messages = [JObj [(''role'', JStr (lit ''user'')), (''content'', JStr prompt)]],
          vo_api_key = env_first process_env [''TEECHAT_VLLM_API_KEY'', ''VLLM_API_KEY''],
          vo_max_tokens = None, vo_frequency_penalty = None, vo_presence_penalty = None, vo_temperature = None,
          vo_top_p = None, vo_enable_thinking = None, vo_legacy_completion_text = False, vo_tools = None,
          vo_tool_choice = None\<rparr>)"

definition infer_via_upstream ::
    "('e \<Rightarrow> string) \<Rightarrow> (utext \<Rightarrow> utext \<Rightarrow> 'e + infer_result) \<Rightarrow> utext \<Rightarrow> utext \<Rightarrow> engine_error + infer_result" where
  "infer_via_upstream to_string infer_chat model prompt = map_sum (\<lambda>e. EInfer (to_string e)) id (infer_chat model prompt)"

subsection \<open>Dials through the throttle\<close>

text \<open>A dial takes its slot at the instant \<open>now\<close>, sleeps and asks the connector.\<close>

definition throttled_connect ::
    "pool_host \<Rightarrow> nat \<Rightarrow> pool_event list \<Rightarrow> attested_connect_request \<Rightarrow> pool_connect_throttle
     \<Rightarrow> nat \<times> (string + connect_result) \<times> pool_connect_throttle" where
  "throttled_connect H now h request th =
     (let (wait, th) = throttle_slot now th in (now + wait, h_connect H h request, th))"

definition throttled_connect_to ::
    "pool_host \<Rightarrow> nat \<Rightarrow> pool_event list \<Rightarrow> string \<Rightarrow> attested_connect_request \<Rightarrow> pool_connect_throttle
     \<Rightarrow> nat \<times> (string + connect_result) \<times> pool_connect_throttle" where
  "throttled_connect_to H now h url request th =
     (let (wait, th) = throttle_slot now th in (now + wait, h_connect_to H h url request, th))"

definition throttled_reconnect ::
    "pool_host \<Rightarrow> nat \<Rightarrow> pool_event list \<Rightarrow> string \<Rightarrow> string \<Rightarrow> attested_connect_request \<Rightarrow> pool_connect_throttle
     \<Rightarrow> nat \<times> (string + connect_result) \<times> pool_connect_throttle" where
  "throttled_reconnect H now h session_id url request th =
     (let (wait, th) = throttle_slot now th in (now + wait, h_reconnect H h session_id url request, th))"

subsection \<open>Sessions by gateway\<close>

definition sessions_by_gateway_url_from_slots :: "session_slot list \<Rightarrow> string \<rightharpoonup> u32" where
  "sessions_by_gateway_url_from_slots slots =
     fold (\<lambda>s m. let url = trim (sl_gateway_base_url s)
       in if url = [] then m else m(url \<mapsto> (case m url of None \<Rightarrow> 0 | Some n \<Rightarrow> n) + 1)) slots Map.empty"

subsection \<open>Properties\<close>

text \<open>A post through the default method sends nothing, whatever is written to it, and its end is an error.\<close>

lemma default_streaming_post_fails:
  "default_open_streaming_post = Inr s \<Longrightarrow> isl (handle_finish (fold handle_write chunks s))"
proof -
  have join: "sh_join (fold handle_write cs s) = sh_join s" for cs s
    by (induction cs arbitrary: s) (simp_all add: handle_write_def split: option.split)
  assume "default_open_streaming_post = Inr s"
  then have "\<And>cs. \<exists>e. sh_join s cs = Inr (Inl e)"
    by (auto simp: default_open_streaming_post_def streaming_post_handle_new_def)
  then show ?thesis by (metis join handle_finish_def sum.case(2) sum.disc(1))
qed

text \<open>Chunks reach the reader in the order they are written.\<close>

lemma chunks_arrive_in_order:
  "handle_finish (fold handle_write chunks (streaming_post_handle_new reader)) =
     (case reader chunks of Inl e \<Rightarrow> Inl (PH2 (''streaming post join: '' @ e)) | Inr result \<Rightarrow> result)"
proof -
  have "fold handle_write cs \<lparr>sh_tx = Some done, sh_join = reader\<rparr> = \<lparr>sh_tx = Some (done @ cs), sh_join = reader\<rparr>" for cs "done"
    by (induction cs arbitrary: "done") (simp_all add: handle_write_def)
  then show ?thesis by (simp add: streaming_post_handle_new_def handle_finish_def)
qed

text \<open>
  The default byte request over JSON is the JSON request: what is printed arrives as the value it
  was printed from.
\<close>

lemma default_bytes_are_json:
  assumes "from_slice (to_vec v) = Some v" and "to_vec v \<noteq> []" and "v \<noteq> JNull"
  shows "default_request_bytes from_slice to_vec request_json verb path (Some (to_vec v)) None headers l =
    (case request_json verb path (Some v) headers l of
       (Inl e, l) \<Rightarrow> (Inl e, l)
     | (Inr (status, j), l) \<Rightarrow> (Inr \<lparr>br_status = status, br_headers = [], br_body = (if j = JNull then [] else to_vec j)\<rparr>, l))"
  using assms by (simp add: default_request_bytes_def json_headers_def)

text \<open>Both counts of the sessions agree on a pool whose gateways have trimmed names.\<close>

theorem session_counts_agree:
  assumes "\<forall>s\<in>set (sp_slots p). trim (sl_gateway_base_url s) = sl_gateway_base_url s \<and> sl_gateway_base_url s \<noteq> []"
  shows "sessions_by_gateway_url_from_slots (sp_slots p) = sessions_by_gateway_url p"
  unfolding sessions_by_gateway_url_from_slots_def sessions_by_gateway_url_def
  using assms by (intro fold_cong) (auto simp: Let_def)

text \<open>
  Two dials through the throttle start at least the stagger apart, whatever kinds they are of and whenever
  they ask.
\<close>

lemma throttled_dials_staggered:
  assumes "throttled_connect H now h request th = (start, answer, th')"
    and "throttled_reconnect H now' h' sid url request' th' = (start', answer', th'')"
  shows "start + unat (th_stagger_ms th) \<le> start'"
  using assms by (auto simp: throttled_connect_def throttled_reconnect_def throttle_slot_def Let_def)

end
