(* ===== verification/Engine_Run.thy ===== *)
theory Engine_Run
  imports Control_Tasks Epoch_Keys Snp_Verification Plane_Transport Event_Log Attestation_Properties Engine_Properties Default_Methods
begin

section \<open>A run of the process\<close>

text \<open>
  \<^verbatim>\<open>ie-bin/src/main.rs\<close> from the command line to the exit, with \<^verbatim>\<open>ie-bin/src/shutdown.rs\<close>: checking the
  pins, printing the configuration, preparing a run (settings, provider, identity key, TLS material,
  evidence and connect request), starting it against a gateway or against the stubs of a local
  run, the running process, and its shutdown. The parts are those of the other theories; between its
  start and the signal a process takes arbitrary steps of the machines of its pool and its keys.
\<close>

subsection \<open>The command line\<close>

text \<open>The parsed command line and what \<^verbatim>\<open>main\<close> makes of it: an exit code with the printed lines, a panic while
  the environment files are read, or a run.\<close>

record cli =
  cl_check_tcb_pins :: "string option"
  cl_print_config :: bool
  cl_run :: bool
  cl_cwd :: string

datatype main_action = Exits nat "string list" | Panics | Runs string env

definition run_check_tcb_pins ::
    "(string \<Rightarrow> string + string) \<Rightarrow> (string \<Rightarrow> string + tcb_pins) \<Rightarrow> string \<Rightarrow> attestation_error + string list" where
  "run_check_tcb_pins read_to_string from_str path =
     (case load_tcb_pins read_to_string from_str path of
        Inl e \<Rightarrow> Inl e
      | Inr pins \<Rightarrow>
         (case validate_tcb_pins pins of
            Inl e \<Rightarrow> Inl e
          | Inr v \<Rightarrow> Inr [''schema: '' @ tcb_schema v,
              ''ope: version='' @ pin_version (tcb_ope v) @ '' libope_ffi_sha256='' @ pin_sha256 (tcb_ope v),
              ''attested_mtls: version='' @ pin_version (tcb_attested_mtls v) @ '' lib_attested_mtls_sha256=''
                @ pin_sha256 (tcb_attested_mtls v)]))"

definition printed_keys :: "string list" where
  "printed_keys =
     [''TEECHAT_ENGINE_ID'', ''TEECHAT_OPE_ENGINE_ID'', ''TEECHAT_GATEWAY_ENGINE_PLANE_URL'', ''TEECHAT_ENGINE_GATEWAY_URL'',
      ''TEECHAT_ENGINE_POOL_TARGET_SIZE'', ''TEECHAT_ENGINE_POOL_BASELINE'', ''TEECHAT_ENGINE_POOL_INITIAL_FRACTION'',
      ''TEECHAT_VLLM_BASE_URL'', ''TEECHAT_EMBEDDINGS_UPSTREAM_URL'', ''TEECHAT_EMBED_MODEL'', ''VLLM_TASK_BASE_URL'',
      ''TEECHAT_TASK_MODEL'', ''TEECHAT_BUILD'', ''TEECHAT_ENGINE_SLOT'', ''TEECHAT_ENGINE_STUB'',
      ''TEECHAT_ENGINE_VERIFY_GATEWAY_PLATFORM'', ''OLLAMA_MODEL'']"

definition print_config :: "env \<Rightarrow> string list" where
  "print_config env = concat (map (\<lambda>key. case env key of None \<Rightarrow> [] | Some v \<Rightarrow> [key @ ''='' @ v]) printed_keys)"

text \<open>\<open>files\<close> and \<open>exists_path\<close> are the file system the environment files are read from.\<close>

definition engine_main ::
    "(string \<Rightarrow> string + string) \<Rightarrow> (string \<Rightarrow> string + tcb_pins) \<Rightarrow> (string \<Rightarrow> string option) \<Rightarrow> (string \<Rightarrow> bool)
     \<Rightarrow> string \<Rightarrow> cli \<Rightarrow> env \<Rightarrow> main_action" where
  "engine_main read_to_string from_str files exists_path version c process_env =
     (case cl_check_tcb_pins c of
        Some path \<Rightarrow>
          (case run_check_tcb_pins read_to_string from_str path of
             Inl e \<Rightarrow> Exits 1 []
           | Inr ls \<Rightarrow> Exits 0 (ls @ [''tcb-pins OK: '' @ path]))
      | None \<Rightarrow>
          (case load_engine_env_files files exists_path (cl_cwd c) process_env of
             None \<Rightarrow> Panics
           | Some env \<Rightarrow>
               if cl_print_config c then Exits 0 (print_config env)
               else if cl_run c then Runs (cl_cwd c) env
               else Exits 0 [''teechat-inference-engine '' @ version, ''Use --run to start the supervised pool, or --help.'']))"

subsection \<open>Preparing a run\<close>

text \<open>
  The host of a run: the file system and deserializer of the pins, the hosts of the parts, the keys of a new
  identity and of the development vector (each with its public half in base64), the identifier, the
  capability and the random bytes of the connect request.
\<close>

record run_host =
  rn_exists :: "string \<Rightarrow> bool"
  rn_read :: "string \<Rightarrow> string + string"
  rn_pins_json :: "string \<Rightarrow> string + tcb_pins"
  rn_trust_json :: "string \<Rightarrow> string + (string \<times> string) list"
  rn_attest :: attest_host
  rn_tls :: tls_host
  rn_crypto :: crypto_host
  rn_mock :: mock_host
  rn_epoch :: epoch_host
  rn_pool :: pool_host
  rn_start_worker :: "pool_event list \<Rightarrow> string \<Rightarrow> string + unit"
  rn_session_ready :: "pool_event list \<Rightarrow> string \<Rightarrow> string + unit"
  rn_dev_key :: "string \<times> string"
  rn_new_key :: "string \<times> string"
  rn_session_id :: string
  rn_capability :: string
  rn_random :: bytes
  rn_instant :: nat

record prepared =
  pr_settings :: engine_settings
  pr_provider :: crypto_provider
  pr_signing_key :: string
  pr_ed25519_public :: string
  pr_tls :: "engine_client_tls_material option"
  pr_tls_cert_sha :: string
  pr_connect :: attested_connect_request
  pr_challenge :: string

definition check_pins :: "run_host \<Rightarrow> string \<Rightarrow> attestation_error + unit" where
  "check_pins R cwd =
     (let path = path_join cwd ''config/tcb-pins.json''
      in if \<not> rn_exists R path then Inr ()
         else case load_tcb_pins (rn_read R) (rn_pins_json R) path of
             Inl e \<Rightarrow> Inl e
           | Inr pins \<Rightarrow> map_sum id (\<lambda>_. ()) (validate_tcb_pins pins))"

definition run_identity :: "run_host \<Rightarrow> engine_settings \<Rightarrow> string \<times> string" where
  "run_identity R s = (if eg_force_stub s then rn_dev_key R else rn_new_key R)"

definition run_tls :: "run_host \<Rightarrow> env \<Rightarrow> engine_settings \<Rightarrow> string + engine_client_tls_material option" where
  "run_tls R env s =
     (if eg_force_stub s then Inr None
      else case engine_plane_client_tls (rn_tls R) env (eg_engine_id s) of
          Inl e \<Rightarrow> Inl (''TLS material required for live H2 (or set TEECHAT_ENGINE_STUB=1): '' @ e)
        | Inr tls \<Rightarrow> Inr (Some tls))"

definition engine_prepare :: "run_host \<Rightarrow> string \<Rightarrow> env \<Rightarrow> string + prepared" where
  "engine_prepare R cwd env =
     (case check_pins R cwd of
        Inl e \<Rightarrow> Inl (attestation_error_display e)
      | Inr _ \<Rightarrow>
     (case engine_settings_from_env env of
        Inl e \<Rightarrow> Inl e
      | Inr s \<Rightarrow>
         (let (signing_key, ed25519_public) = run_identity R s
          in case run_tls R env s of
               Inl e \<Rightarrow> Inl e
             | Inr tls \<Rightarrow>
                (let cert_sha = (case tls of Some t \<Rightarrow> tm_client_cert_sha256 t | None \<Rightarrow> zero_hash)
                 in case build_engine_attestation_bundle (rn_attest R) env cwd ed25519_public cert_sha None of
                      Inl e \<Rightarrow> Inl (attestation_error_display e)
                    | Inr attestation \<Rightarrow>
                       (let challenge = generate_gateway_connect_challenge_nonce (rn_random R)
                        in Inr \<lparr>pr_settings = s, pr_provider = create_crypto_provider (eg_prefer_mock s),
                             pr_signing_key = signing_key, pr_ed25519_public = ed25519_public, pr_tls = tls,
                             pr_tls_cert_sha = cert_sha,
                             pr_connect = engine_connect_request s (rn_session_id R) ed25519_public attestation challenge
                               [rn_capability R],
                             pr_challenge = challenge\<rparr>)))))"

subsection \<open>The plane\<close>

text \<open>Local runs dial nothing: a stub accepts every session, and an upstream echoes.\<close>

definition stub_connect :: "(pool_event list \<Rightarrow> string) \<Rightarrow> pool_event list \<Rightarrow> attested_connect_request \<Rightarrow> string + connect_result" where
  "stub_connect new_uuid h request =
     Inr \<lparr>cr_session_id = (if acr_session_id request = [] then new_uuid h else acr_session_id request),
          cr_response = \<lparr>acp_gateway_attestation = None,
            acp_gateway_challenge_nonce = acr_gateway_challenge_nonce request\<rparr>\<rparr>"

definition stub_pool_host :: "pool_host \<Rightarrow> pool_host" where
  "stub_pool_host H =
     H\<lparr>h_connect := stub_connect (h_new_uuid H), h_connect_to := (\<lambda>h url. stub_connect (h_new_uuid H) h),
       h_reconnect := (\<lambda>h sid url request. stub_connect (h_new_uuid H) h (request\<lparr>acr_session_id := sid\<rparr>)),
       h_is_session_closed := (\<lambda>h sid. False), h_start_worker := None, h_session_ready := None,
       h_attestation_refresh := None, h_on_sessions_changed := False\<rparr>"

definition stub_infer_chat :: "string \<Rightarrow> utext \<Rightarrow> utext \<Rightarrow> infer_result" where
  "stub_infer_chat base_url model prompt =
     \<lparr>ir_completion = lit ''stub:'' @ model @ lit '':'' @ prompt @ lit ('' @ '' @ base_url), ir_finish_reason = Some ''stop''\<rparr>"

definition live_dial :: "env \<Rightarrow> prepared \<Rightarrow> engine_plane_dial_options" where
  "live_dial env pr =
     \<lparr>do_gateway_base_url = eg_gateway (pr_settings pr), do_connect_template = pr_connect pr,
      do_pool_target_size = eg_pool_target_size (pr_settings pr), do_gateway_challenge_nonce = Some (pr_challenge pr),
      do_gateway_verifier = engine_gateway_verifier env\<rparr>"

text \<open>
  The hosts of a live run: the pool has a starter of workers, a readiness callback and a refresh of the evidence,
  which reuses the GPU evidence in the cache; the rotator mints evidence over the same key and
  certificate, lists the sessions the pool has reported and tells the decryptor of every rotation.
\<close>

definition live_pool_host :: "run_host \<Rightarrow> string \<Rightarrow> env \<Rightarrow> prepared \<Rightarrow> string \<Rightarrow> pool_host" where
  "live_pool_host R cwd env pr gpu_cache =
     (rn_pool R)\<lparr>h_start_worker := Some (rn_start_worker R), h_session_ready := Some (rn_session_ready R),
       h_attestation_refresh := Some (\<lambda>h. map_sum attestation_error_display id
         (build_engine_attestation_bundle_with_gpu (rn_attest R) env cwd (pr_ed25519_public pr) (pr_tls_cert_sha pr) None
           (Reuse gpu_cache))),
       h_on_sessions_changed := True\<rparr>"

definition live_epoch_host :: "run_host \<Rightarrow> string \<Rightarrow> env \<Rightarrow> prepared \<Rightarrow> string \<Rightarrow> string list \<Rightarrow> epoch_host" where
  "live_epoch_host R cwd env pr gpu_cache sids =
     (rn_epoch R)\<lparr>eh_mint := Some (\<lambda>h. epoch_evidence_minter (rn_attest R) env cwd (pr_ed25519_public pr)
         (pr_tls_cert_sha pr) gpu_cache),
       eh_list_sessions := (\<lambda>h. sids), eh_on_rotated := True\<rparr>"

subsection \<open>Starting\<close>

record running =
  ru_pool :: supervised_pool
  ru_throttle :: pool_connect_throttle
  ru_gpu_cache :: string
  ru_keys :: "epoch_keys option"
  ru_admitter :: "envelope_admitter option"
  ru_template :: "ope_inference_options option"

definition new_running :: "run_host \<Rightarrow> env \<Rightarrow> prepared \<Rightarrow> running" where
  "new_running R env pr =
     \<lparr>ru_pool = supervised_pool_new (engine_pool_config env (pr_settings pr)) (eg_gateway (pr_settings pr)),
      ru_throttle = create_pool_connect_throttle_from_env (rn_instant R) env (eg_pool_target_size (pr_settings pr)),
      ru_gpu_cache = gpu_evidence (ab_gpu_tee (acr_attestation (pr_connect pr))),
      ru_keys = None, ru_admitter = None, ru_template = None\<rparr>"

definition start_live :: "run_host \<Rightarrow> string \<Rightarrow> env \<Rightarrow> prepared \<Rightarrow> running \<Rightarrow> (string + unit) \<times> running" where
  "start_live R cwd env pr u =
     (let s = pr_settings pr; E = live_epoch_host R cwd env pr (ru_gpu_cache u)
      in case epoch_keys_new (rn_crypto R) (rn_mock R) (E []) env (eg_engine_id s) (pr_ed25519_public pr)
             (Some (acr_attestation (pr_connect pr))) (pr_provider pr) of
           Inl e \<Rightarrow> (Inl (engine_error_display e), u)
         | Inr k \<Rightarrow>
            (let u = u\<lparr>ru_keys := Some k\<rparr>
             in case admitter_from_env (rn_crypto R) (rn_trust_json R) env of
                  Inl e \<Rightarrow> (Inl (crypto_error_display e), u)
                | Inr admitter \<Rightarrow>
                   (let H = live_pool_host R cwd env pr (ru_gpu_cache u);
                        (res, p, r) = engine_boot H E (pr_connect pr) (ru_pool u, ek_rotator k)
                    in (map_sum engine_error_display id res,
                        u\<lparr>ru_pool := p, ru_keys := Some (k\<lparr>ek_rotator := r\<rparr>), ru_admitter := admitter,
                          ru_template := Some (inference_template env s (ek_decryptor k) (pr_signing_key pr))\<rparr>))))"

definition engine_start :: "run_host \<Rightarrow> string \<Rightarrow> env \<Rightarrow> prepared \<Rightarrow> (string + unit) \<times> running" where
  "engine_start R cwd env pr =
     (let u = new_running R env pr
      in if eg_force_stub (pr_settings pr)
         then (let (res, p) = boot (stub_pool_host (rn_pool R)) (pr_connect pr) (ru_pool u)
               in (map_sum engine_error_display id res, u\<lparr>ru_pool := p\<rparr>))
         else start_live R cwd env pr u)"

subsection \<open>Running and stopping\<close>

text \<open>
  While the process runs, its pool takes steps of its machine, the control tasks among them, and its keys
  take steps of theirs; the second component is an epoch in rotation. The signal may come at any moment.
\<close>

inductive running_step ::
    "pool_host \<Rightarrow> crypto_host \<Rightarrow> mock_host \<Rightarrow> (string \<Rightarrow> u64 option) \<Rightarrow> running \<times> engine_epoch option
     \<Rightarrow> running \<times> engine_epoch option \<Rightarrow> bool"
  for H :: pool_host and C :: crypto_host and M :: mock_host and parse_iso :: "string \<Rightarrow> u64 option" where
  run_pool: "pool_step H (ru_pool u) p \<Longrightarrow> running_step H C M parse_iso (u, q) (u\<lparr>ru_pool := p\<rparr>, q)"
| run_keys: "ru_keys u = Some k \<Longrightarrow> keys_step C M parse_iso (k, q) (k', q')
    \<Longrightarrow> running_step H C M parse_iso (u, q) (u\<lparr>ru_keys := Some k'\<rparr>, q')"

inductive_cases running_stepE: "running_step H C M parse_iso s t"

text \<open>
  The task that recollects GPU evidence, unless it is switched off: its first attempt waits for one
  interval, and a collection is one \<open>recollect_round\<close>.
\<close>

definition spawn_recollect :: "gpu_idle_recollect_config \<Rightarrow> recollect_state \<Rightarrow> recollect_state option" where
  "spawn_recollect cfg s =
     (if \<not> recollect_enabled cfg then None
      else Some (s\<lparr>rc_history := rc_history s @ [RvSleep (unat (gi_interval cfg))]\<rparr>))"

definition engine_shutdown :: "pool_host \<Rightarrow> running \<Rightarrow> running" where
  "engine_shutdown H u =
     u\<lparr>ru_keys := map_option (\<lambda>k. k\<lparr>ek_rotator := rotator_stop (ek_rotator k)\<rparr>) (ru_keys u),
       ru_pool := close_all H (ru_pool u)\<rparr>"

definition running_pool_host :: "run_host \<Rightarrow> string \<Rightarrow> env \<Rightarrow> prepared \<Rightarrow> running \<Rightarrow> pool_host" where
  "running_pool_host R cwd env pr u =
     (if ru_keys u = None then stub_pool_host (rn_pool R) else live_pool_host R cwd env pr (ru_gpu_cache u))"

text \<open>The outcome of \<^verbatim>\<open>run_engine\<close> with the state that is left; \<open>files\<close> holds the control files.\<close>

inductive run_engine ::
    "run_host \<Rightarrow> control_world \<Rightarrow> (string \<Rightarrow> u64 option) \<Rightarrow> string \<Rightarrow> env \<Rightarrow> text_files \<Rightarrow> string + unit \<Rightarrow> running option \<Rightarrow> bool"
  for R :: run_host and K :: control_world and parse_iso :: "string \<Rightarrow> u64 option" and cwd :: string and env :: env
    and files :: text_files where
  run_refused: "engine_prepare R cwd env = Inl e \<Longrightarrow> run_engine R K parse_iso cwd env files (Inl e) None"
| run_not_started: "engine_prepare R cwd env = Inr pr \<Longrightarrow> engine_start R cwd env pr = (Inl e, u)
    \<Longrightarrow> run_engine R K parse_iso cwd env files (Inl e) (Some u)"
| run_stopped: "engine_prepare R cwd env = Inr pr \<Longrightarrow> engine_start R cwd env pr = (Inr (), u)
    \<Longrightarrow> H = running_pool_host R cwd env pr u
    \<Longrightarrow> install_engine_controls (K\<lparr>kw_pool := H\<rparr>) (eg_engine_id (pr_settings pr)) env (files, ru_pool u) = (controls, files', p)
    \<Longrightarrow> (running_step H (rn_crypto R) (rn_mock R) parse_iso)\<^sup>*\<^sup>* (u\<lparr>ru_pool := p\<rparr>, None) (v, q)
    \<Longrightarrow> run_engine R K parse_iso cwd env files (Inr ()) (Some (engine_shutdown H v))"

inductive_cases run_engineE: "run_engine R K parse_iso cwd env files res out"

definition exit_code :: "string + unit \<Rightarrow> nat" where
  "exit_code res = (case res of Inl e \<Rightarrow> 1 | Inr _ \<Rightarrow> 0)"

subsection \<open>The command line\<close>

text \<open>
  The printed configuration depends on no variable but those it lists, so on no key or secret of the
  environment; and checking pins succeeds exactly for a readable file that validates.
\<close>

lemma print_config_reveals_listed: "\<forall>k\<in>set printed_keys. env k = env' k \<Longrightarrow> print_config env = print_config env'"
  unfolding print_config_def by (intro arg_cong [where f = concat] map_cong) auto

lemma checked_pins_valid:
  "(\<exists>ls. run_check_tcb_pins read_to_string from_str path = Inr ls) \<longleftrightarrow>
     (\<exists>pins. load_tcb_pins read_to_string from_str path = Inr pins \<and> validate_tcb_pins pins = Inr pins)"
  by (auto simp: run_check_tcb_pins_def validate_tcb_pins_def split: sum.split)

subsection \<open>What a prepared run guarantees\<close>

lemma engine_prepareE:
  assumes "engine_prepare R cwd env = Inr pr"
  obtains attestation where "check_pins R cwd = Inr ()" "engine_settings_from_env env = Inr (pr_settings pr)"
    "run_tls R env (pr_settings pr) = Inr (pr_tls pr)" "run_identity R (pr_settings pr) = (pr_signing_key pr, pr_ed25519_public pr)"
    "pr_tls_cert_sha pr = (case pr_tls pr of Some t \<Rightarrow> tm_client_cert_sha256 t | None \<Rightarrow> zero_hash)"
    "build_engine_attestation_bundle (rn_attest R) env cwd (pr_ed25519_public pr) (pr_tls_cert_sha pr) None = Inr attestation"
    "pr_connect pr = engine_connect_request (pr_settings pr) (rn_session_id R) (pr_ed25519_public pr) attestation (pr_challenge pr) [rn_capability R]"
    "pr_provider pr = create_crypto_provider (eg_prefer_mock (pr_settings pr))"
  using assms by (auto simp: engine_prepare_def Let_def split: sum.splits prod.splits intro: that)

lemma settings_alt:
  "\<exists>make. engine_settings_from_env env =
      (case engine_instance_id_from_env env of
         Inl e \<Rightarrow> Inl e
       | Inr i \<Rightarrow> if env_flag_false env ''TEECHAT_ENGINE_TLS_REJECT_UNAUTHORIZED'' \<and> \<not> env_flag_true env ''TEECHAT_ENGINE_STUB''
           then Inl ''TEECHAT_ENGINE_TLS_REJECT_UNAUTHORIZED=0 is forbidden; use TEECHAT_ENGINE_STUB=1 for local stubs''
           else Inr (make i))
    \<and> (\<forall>i. eg_force_stub (make i) = env_flag_true env ''TEECHAT_ENGINE_STUB''
        \<and> eg_prefer_mock (make i) = ((case env ''TEECHAT_CRYPTO'' of None \<Rightarrow> False | Some v \<Rightarrow> eq_ignore_ascii_case v ''mock'')
             \<or> env_flag_true env ''TEECHAT_ENGINE_STUB'') \<and> 1 \<le> eg_pool_target_size (make i))"
  unfolding engine_settings_from_env_def Let_def
  by (rule exI, rule conjI, rule refl, rule allI, simp only: engine_settings.simps max.cobounded1 simp_thms)

lemma settings_flags:
  assumes "engine_settings_from_env env = Inr s"
  shows "eg_force_stub s = env_flag_true env ''TEECHAT_ENGINE_STUB''"
    and "eg_force_stub s \<or> \<not> env_flag_false env ''TEECHAT_ENGINE_TLS_REJECT_UNAUTHORIZED''"
    and "eg_prefer_mock s \<longleftrightarrow> eg_force_stub s \<or> (\<exists>v. env ''TEECHAT_CRYPTO'' = Some v \<and> eq_ignore_ascii_case v ''mock'')"
    and "1 \<le> eg_pool_target_size s"
proof -
  note alt = settings_alt [of env]
  obtain i where i: "engine_instance_id_from_env env = Inr i" using alt assms by (cases "engine_instance_id_from_env env") auto
  have ok: "\<not> (env_flag_false env ''TEECHAT_ENGINE_TLS_REJECT_UNAUTHORIZED'' \<and> \<not> env_flag_true env ''TEECHAT_ENGINE_STUB'')"
    using alt assms i by (auto split: if_splits)
  with alt assms i obtain make where s: "s = make i"
    "eg_force_stub (make i) = env_flag_true env ''TEECHAT_ENGINE_STUB''"
    "eg_prefer_mock (make i) = ((case env ''TEECHAT_CRYPTO'' of None \<Rightarrow> False | Some v \<Rightarrow> eq_ignore_ascii_case v ''mock'')
       \<or> env_flag_true env ''TEECHAT_ENGINE_STUB'')" "1 \<le> eg_pool_target_size (make i)"
    by (auto simp only: sum.case if_False sum.inject)
  show "eg_force_stub s = env_flag_true env ''TEECHAT_ENGINE_STUB''" by (simp add: s)
  show "eg_force_stub s \<or> \<not> env_flag_false env ''TEECHAT_ENGINE_TLS_REJECT_UNAUTHORIZED''" using ok by (auto simp: s)
  show "eg_prefer_mock s \<longleftrightarrow> eg_force_stub s \<or> (\<exists>v. env ''TEECHAT_CRYPTO'' = Some v \<and> eq_ignore_ascii_case v ''mock'')"
    by (auto simp: s split: option.split)
  show "1 \<le> eg_pool_target_size s" by (simp add: s)
qed

text \<open>
  A run that gets past its preparation has valid pins, if there are any; and unless it is a stub, it
  checks the gateway's certificate, has TLS material for it, has an identity key of its own instead of the
  published one, and mocks its cryptography only when told to.
\<close>

theorem prepared_run_is_sound:
  assumes "engine_prepare R cwd env = Inr pr" and "\<not> env_flag_true env ''TEECHAT_ENGINE_STUB''"
  shows "(rn_exists R (path_join cwd ''config/tcb-pins.json'') \<longrightarrow>
        (\<exists>pins. load_tcb_pins (rn_read R) (rn_pins_json R) (path_join cwd ''config/tcb-pins.json'') = Inr pins \<and> validate_tcb_pins pins = Inr pins))
    \<and> \<not> env_flag_false env ''TEECHAT_ENGINE_TLS_REJECT_UNAUTHORIZED''
    \<and> (\<exists>t. engine_plane_client_tls (rn_tls R) env (eg_engine_id (pr_settings pr)) = Inr t \<and> pr_tls pr = Some t)
    \<and> (pr_signing_key pr, pr_ed25519_public pr) = rn_new_key R
    \<and> (pr_provider pr = MockProvider \<longrightarrow> (\<exists>v. env ''TEECHAT_CRYPTO'' = Some v \<and> eq_ignore_ascii_case v ''mock''))"
proof -
  obtain attestation where p: "check_pins R cwd = Inr ()" "engine_settings_from_env env = Inr (pr_settings pr)"
    "run_tls R env (pr_settings pr) = Inr (pr_tls pr)" "run_identity R (pr_settings pr) = (pr_signing_key pr, pr_ed25519_public pr)"
    "pr_provider pr = create_crypto_provider (eg_prefer_mock (pr_settings pr))"
    by (rule engine_prepareE [OF assms(1)])
  note flags = settings_flags [OF p(2)]
  have stub: "\<not> eg_force_stub (pr_settings pr)" using flags(1) assms(2) by blast
  have "validate_tcb_pins pins = Inr q \<Longrightarrow> q = pins" for pins q by (auto simp: validate_tcb_pins_def split: if_splits)
  then have "\<exists>pins. load_tcb_pins (rn_read R) (rn_pins_json R) (path_join cwd ''config/tcb-pins.json'') = Inr pins \<and> validate_tcb_pins pins = Inr pins"
    if "rn_exists R (path_join cwd ''config/tcb-pins.json'')"
    using p(1) that unfolding check_pins_def Let_def
    by (cases "load_tcb_pins (rn_read R) (rn_pins_json R) (path_join cwd ''config/tcb-pins.json'')")
      (auto simp: map_sum_def split: sum.splits)
  moreover have "\<exists>t. engine_plane_client_tls (rn_tls R) env (eg_engine_id (pr_settings pr)) = Inr t \<and> pr_tls pr = Some t"
    using p(3) stub unfolding run_tls_def
    by (cases "engine_plane_client_tls (rn_tls R) env (eg_engine_id (pr_settings pr))") simp_all
  moreover have "(pr_signing_key pr, pr_ed25519_public pr) = rn_new_key R" using p(4) stub by (simp add: run_identity_def)
  moreover have "eg_prefer_mock (pr_settings pr)" if "pr_provider pr = MockProvider"
    using p(5) that by (simp add: create_crypto_provider_def real_crypto_provider_new_def split: if_splits)
  ultimately show ?thesis using flags(2,3) stub by blast
qed


subsection \<open>What a started run guarantees\<close>

lemma start_liveE:
  assumes "start_live R cwd env pr u = (Inr (), v)"
  obtains k admitter p r where
    "epoch_keys_new (rn_crypto R) (rn_mock R) (live_epoch_host R cwd env pr (ru_gpu_cache u) []) env (eg_engine_id (pr_settings pr))
       (pr_ed25519_public pr) (Some (acr_attestation (pr_connect pr))) (pr_provider pr) = Inr k"
    "admitter_from_env (rn_crypto R) (rn_trust_json R) env = Inr admitter" "ru_admitter v = admitter"
    "engine_boot (live_pool_host R cwd env pr (ru_gpu_cache u)) (live_epoch_host R cwd env pr (ru_gpu_cache u)) (pr_connect pr)
       (ru_pool u, ek_rotator k) = (Inr (), p, r)"
    "ru_pool v = p" "ru_keys v = Some (k\<lparr>ek_rotator := r\<rparr>)" "ru_gpu_cache v = ru_gpu_cache u"
    "ru_template v = Some (inference_template env (pr_settings pr) (ek_decryptor k) (pr_signing_key pr))"
  using assms by (auto simp: start_live_def Let_def map_sum_def split: sum.splits prod.splits)

lemma new_running_fields [simp]:
  "ru_keys (new_running R env pr) = None"
  "ru_pool (new_running R env pr) = supervised_pool_new (engine_pool_config env (pr_settings pr)) (eg_gateway (pr_settings pr))"
  by (simp_all add: new_running_def)

lemma new_pool_init: "pool_init (supervised_pool_new config gateway)"
  by (simp add: pool_init_def supervised_pool_new_def)

lemma invariant_steps: "S\<^sup>*\<^sup>* s t \<Longrightarrow> P s \<Longrightarrow> (\<And>s t. P s \<Longrightarrow> S s t \<Longrightarrow> P t) \<Longrightarrow> P t"
  by (induction rule: rtranclp_induct) blast+



subsection \<open>How runs end\<close>

lemma connect_one_quiet:
  assumes "sp_booting p"
  shows "sp_closed (snd (connect_one H req p)) = sp_closed p
    \<and> shutdown_disconnects (sp_history (snd (connect_one H req p))) = shutdown_disconnects (sp_history p)
    \<and> sp_booting (snd (connect_one H req p))"
proof (cases "apply_fresh_attestation H req p")
  case (Pair x q)
  then have "sp_closed q = sp_closed p \<and> shutdown_disconnects (sp_history q) = shutdown_disconnects (sp_history p) \<and> sp_booting q"
    using assms by (auto simp: apply_fresh_attestation_def emit_def split: option.splits sum.splits)
  then show ?thesis using assms Pair
    by (auto simp: connect_one_def Let_def notify_sessions_changed_def record_failure_def push_slot_def emit_def split: sum.split)
qed

lemma connect_many_quiet:
  "sp_booting p \<Longrightarrow> sp_closed (snd (connect_many H n req p)) = sp_closed p
    \<and> shutdown_disconnects (sp_history (snd (connect_many H n req p))) = shutdown_disconnects (sp_history p)"
proof (induction n arbitrary: p)
  case (Suc n)
  obtain r q where q: "connect_one H req p = (r, q)" by fastforce
  with connect_one_quiet [OF Suc.prems, of H req] Suc.IH [of q] show ?case by (simp add: Let_def split_def)
qed simp

lemma boot_quiet:
  "sp_closed (snd (boot H req p)) = sp_closed p
    \<and> shutdown_disconnects (sp_history (snd (boot H req p))) = shutdown_disconnects (sp_history p)"
  using connect_many_quiet [of "p\<lparr>sp_connect_template := Some (req\<lparr>acr_pool_target_size := Some (pool_target_size (sp_config p))\<rparr>),
      sp_booting := True\<rparr>"]
  by (simp add: boot_def Let_def split_def)

lemma engine_boot_failed: "engine_boot H E req (p, r) = (Inl e, q, r') \<Longrightarrow> q = snd (boot H req p)"
  by (auto simp: engine_boot_def split: prod.splits sum.splits if_splits)

lemma failed_start_quiet:
  assumes "engine_start R cwd env pr = (Inl e, u)"
  shows "\<not> sp_closed (ru_pool u) \<and> shutdown_disconnects (sp_history (ru_pool u)) = []"
proof -
  let ?p = "supervised_pool_new (engine_pool_config env (pr_settings pr)) (eg_gateway (pr_settings pr))"
  have "ru_pool u = ?p \<or> (\<exists>H. ru_pool u = snd (boot H (pr_connect pr) ?p))"
    using assms engine_boot_failed
    by (auto simp: engine_start_def start_live_def Let_def map_sum_def split: if_splits sum.splits prod.splits) (metis snd_conv)+
  then show ?thesis using boot_quiet by (auto simp: supervised_pool_new_def)
qed

text \<open>
  (C35) Sessions are closed by runs that end with a signal, and by no other: such a run leaves a closed pool
  with no session and no worker, and a stopped rotator; but when booting the pool or registering the
  epoch fails, the process ends with an error and the sessions it had dialled by then are not told.
\<close>

theorem sessions_are_closed_by_signal_only:
  assumes "run_engine R K parse_iso cwd env files res (Some u)"
  shows "if exit_code res = 0
    then sp_closed (ru_pool u) \<and> sp_slots (ru_pool u) = [] \<and> sp_workers (ru_pool u) = {}
      \<and> (\<forall>k. ru_keys u = Some k \<longrightarrow> er_stopped (ek_rotator k))
    else \<not> sp_closed (ru_pool u) \<and> shutdown_disconnects (sp_history (ru_pool u)) = []"
  using assms
proof (cases rule: run_engine.cases)
  case (run_not_started pr e)
  then show ?thesis using failed_start_quiet by (simp add: exit_code_def)
next
  case (run_stopped pr v H "controls" files' p w q)
  have "sp_closed (close_all H p) \<and> sp_slots (close_all H p) = [] \<and> sp_workers (close_all H p) = {}" for p
    using fold_suppress_stop [of "session_ids p" "p\<lparr>sp_closed := True\<rparr>"]
    by (simp add: close_all_def Let_def fold_emit_shutdown stop_all_def session_ids_def)
  with run_stopped show ?thesis by (auto simp: exit_code_def engine_shutdown_def rotator_stop_def)
qed

subsection \<open>When runs start\<close>

definition accepting :: "pool_host \<Rightarrow> bool" where
  "accepting H \<longleftrightarrow> (\<forall>h req. \<exists>c. h_connect H h req = Inr c)
     \<and> (\<forall>refresh. h_attestation_refresh H = Some refresh \<longrightarrow> (\<forall>h. \<exists>b. refresh h = Inr b))"

definition dialled_with :: "pool_host \<Rightarrow> string \<Rightarrow> connect_result \<Rightarrow> bool" where
  "dialled_with H sid c \<longleftrightarrow> (\<exists>h req. h_connect H h req = Inr c \<and> acr_session_id req = sid)"

lemma accepted_connect_one:
  assumes "accepting H" and "sp_circuit_open_until_ms p = 0" and "sp_booting p"
  shows "\<exists>c q. connect_one H req p = (Inr c, q) \<and> session_ids q = session_ids p @ [cr_session_id c]
    \<and> dialled_with H (acr_session_id req) c \<and> sp_circuit_open_until_ms q = 0 \<and> sp_booting q"
proof -
  obtain req' q where fresh: "apply_fresh_attestation H req p = (Inr req', q)" "acr_session_id req' = acr_session_id req"
      "sp_slots q = sp_slots p" "sp_circuit_open_until_ms q = 0" "sp_booting q"
  proof (cases "h_attestation_refresh H")
    case None
    then show thesis using assms by (intro that [of req p]) (simp_all add: apply_fresh_attestation_def)
  next
    case (Some refresh)
    with assms(1) obtain b where "refresh (sp_history p) = Inr b" unfolding accepting_def by blast
    with Some show thesis using assms
      by (intro that [of "req\<lparr>acr_attestation := b\<rparr>" "emit EvAttestRefresh p"]) (simp_all add: apply_fresh_attestation_def)
  qed
  obtain c where c: "h_connect H (sp_history q) req' = Inr c" using assms(1) unfolding accepting_def by blast
  then have "dialled_with H (acr_session_id req) c" using fresh(2) unfolding dialled_with_def by blast
  with fresh c assms(2) show ?thesis
    by (simp add: connect_one_def is_circuit_open_def Let_def notify_sessions_changed_def push_slot_def new_slot_def emit_def session_ids_def)
qed

lemma accepted_connect_many:
  "accepting H \<Longrightarrow> sp_circuit_open_until_ms p = 0 \<Longrightarrow> sp_booting p \<Longrightarrow>
   \<exists>cs q. connect_many H n req p = (map Inr cs, q) \<and> length cs = n \<and> session_ids q = session_ids p @ map cr_session_id cs
     \<and> (\<forall>c\<in>set cs. dialled_with H (acr_session_id req) c)"
proof (induction n arbitrary: p)
  case (Suc n)
  obtain c q where q: "connect_one H req p = (Inr c, q)" "session_ids q = session_ids p @ [cr_session_id c]"
      "dialled_with H (acr_session_id req) c" "sp_circuit_open_until_ms q = 0" "sp_booting q"
    using accepted_connect_one [OF Suc.prems] by blast
  from Suc.IH [OF Suc.prems(1) q(4,5)] obtain cs q' where "connect_many H n req q = (map Inr cs, q')" "length cs = n"
      "session_ids q' = session_ids q @ map cr_session_id cs" "\<forall>c\<in>set cs. dialled_with H (acr_session_id req) c" by blast
  with q show ?case by (intro exI [of _ "c # cs"] exI [of _ q']) simp
qed simp

lemma collect_all: "collect_results (map Inr cs) = Inr (length cs)"
  by (induction cs) simp_all

lemma accepted_boot:
  assumes "accepting H"
  shows "\<exists>p cs. boot H req (supervised_pool_new config gateway) = (Inr (), p) \<and> session_ids p = map cr_session_id cs
    \<and> length cs = unat (boot_target config) \<and> (\<forall>c\<in>set cs. dialled_with H (acr_session_id req) c)"
proof -
  let ?p = "supervised_pool_new config gateway" let ?r = "req\<lparr>acr_pool_target_size := Some (pool_target_size config)\<rparr>"
  let ?q = "?p\<lparr>sp_connect_template := Some ?r, sp_booting := True\<rparr>"
  have q: "sp_circuit_open_until_ms ?q = 0" "sp_booting ?q" "session_ids ?q = []" "sp_config ?p = config"
    by (simp_all add: supervised_pool_new_def session_ids_def)
  obtain cs p where "connect_many H (unat (boot_target config)) ?r ?q = (map Inr cs, p)" "length cs = unat (boot_target config)"
      "session_ids p = map cr_session_id cs" "\<forall>c\<in>set cs. dialled_with H (acr_session_id ?r) c"
    using accepted_connect_many [OF assms q(1,2), of "unat (boot_target config)" ?r] q(3) by auto
  then show ?thesis by (intro exI [of _ "p\<lparr>sp_booting := False\<rparr>"] exI [of _ cs]) (simp add: boot_def q(4) collect_all session_ids_def)
qed

text \<open>
  A local run always starts, and all its sessions share one identifier: the boot dials every session
  with the same request, and the stub takes the identifier of the request for the session's.
\<close>

theorem stub_sessions_share_one_identifier:
  assumes "eg_force_stub (pr_settings pr)" and "acr_session_id (pr_connect pr) \<noteq> []"
  shows "fst (engine_start R cwd env pr) = Inr ()
    \<and> session_ids (ru_pool (snd (engine_start R cwd env pr)))
      = replicate (unat (boot_target (engine_pool_config env (pr_settings pr)))) (acr_session_id (pr_connect pr))"
proof -
  let ?H = "stub_pool_host (rn_pool R)"
  have "accepting ?H" by (simp add: accepting_def stub_pool_host_def stub_connect_def)
  from accepted_boot [OF this, of "pr_connect pr" "engine_pool_config env (pr_settings pr)" "eg_gateway (pr_settings pr)"]
  obtain p cs where b: "boot ?H (pr_connect pr) (ru_pool (new_running R env pr)) = (Inr (), p)" "session_ids p = map cr_session_id cs"
      "length cs = unat (boot_target (engine_pool_config env (pr_settings pr)))"
      "\<forall>c\<in>set cs. dialled_with ?H (acr_session_id (pr_connect pr)) c" by auto
  have "cr_session_id c = sid" if "dialled_with ?H sid c" "sid \<noteq> []" for sid c
    using that by (auto simp: dialled_with_def stub_pool_host_def stub_connect_def)
  with b(3,4) assms(2) have "map cr_session_id cs = replicate (unat (boot_target (engine_pool_config env (pr_settings pr)))) (acr_session_id (pr_connect pr))"
    by (intro replicate_eqI) auto
  with b assms(1) show ?thesis by (simp add: engine_start_def Let_def)
qed

lemma new_keys_exist:
  "generate_engine_hybrid C M i p pv = (Inr g, pv') \<Longrightarrow> \<exists>k. epoch_keys_new C M E env i p a pv = Inr k"
  by (cases g) (simp add: epoch_keys_new_def epoch_rotator_new_def create_engine_epoch_def keyed_host_def Let_def)

lemma registration_succeeds:
  assumes "\<forall>h sid body. eh_post E h sid body = Inr 201" and "\<forall>h. eh_list_sessions E h \<noteq> []"
  shows "fst (register_initial_epoch E r) = Inr ()"
  using assms post_loop_result [of E "er_current r" "eh_list_sessions E (er_history r)" None "er_history r"]
  by (auto simp: register_initial_epoch_def post_epoch_to_sessions_def Let_def post_accepted_def split: prod.split option.split)

text \<open>
  A live run starts against a gateway that accepts its sessions and its epoch, when the provider
  generates keys, the guest reports evidence and the configuration of admission is valid: then it
  has as many sessions as its configuration boots, which are at least one unless a fraction is set.
\<close>

lemma accepted_run_starts:
  assumes "\<not> eg_force_stub (pr_settings pr)"
    and "generate_engine_hybrid (rn_crypto R) (rn_mock R) (eg_engine_id (pr_settings pr)) (pr_ed25519_public pr) (pr_provider pr) = (Inr g, pv)"
    and "admitter_from_env (rn_crypto R) (rn_trust_json R) env = Inr admitter"
    and "accepting (live_pool_host R cwd env pr (ru_gpu_cache (new_running R env pr)))"
    and "\<forall>h sid body. eh_post (rn_epoch R) h sid body = Inr 201"
  shows "\<exists>u. engine_start R cwd env pr = (Inr (), u)
    \<and> length (session_ids (ru_pool u)) = unat (boot_target (engine_pool_config env (pr_settings pr)))"
proof -
  let ?u = "new_running R env pr" let ?E = "live_epoch_host R cwd env pr (ru_gpu_cache ?u)"
  let ?H = "live_pool_host R cwd env pr (ru_gpu_cache ?u)"
  obtain k where k: "epoch_keys_new (rn_crypto R) (rn_mock R) (?E []) env (eg_engine_id (pr_settings pr))
      (pr_ed25519_public pr) (Some (acr_attestation (pr_connect pr))) (pr_provider pr) = Inr k"
    using new_keys_exist [OF assms(2)] by blast
  obtain p and cs :: "connect_result list"
    where b: "boot ?H (pr_connect pr) (ru_pool ?u) = (Inr (), p)" "session_ids p = map cr_session_id cs"
      "length cs = unat (boot_target (engine_pool_config env (pr_settings pr)))"
    using accepted_boot [OF assms(4), of "pr_connect pr" "engine_pool_config env (pr_settings pr)" "eg_gateway (pr_settings pr)"] by auto
  have "fst (register_initial_epoch (?E (session_ids p)) r) = Inr ()" if "live_session_count p \<noteq> 0" for r
    using that assms(5) by (intro registration_succeeds) (auto simp: live_epoch_host_def live_session_count_def session_ids_def)
  then have reg: "live_session_count p \<noteq> 0 \<Longrightarrow> \<exists>r'. register_initial_epoch (?E (session_ids p)) r = (Inr (), r')" for r
    by (metis prod.collapse)
  have "\<exists>q r. engine_boot ?H ?E (pr_connect pr) (ru_pool ?u, ek_rotator k) = (Inr (), q, r) \<and> session_ids q = session_ids p"
  proof (cases "live_session_count p = 0")
    case True
    with b(1) show ?thesis by (simp add: engine_boot_def)
  next
    case False
    with reg obtain r' where "register_initial_epoch (?E (session_ids p)) (ek_rotator k) = (Inr (), r')" by blast
    with b(1) False show ?thesis using start_workers_fields [of ?H "session_ids p" p]
      by (simp add: engine_boot_def session_ids_def)
  qed
  then show ?thesis using b(2,3) k assms(1,3) by (auto simp: engine_start_def start_live_def Let_def)
qed

lemma boots_a_session:
  assumes "env ''TEECHAT_ENGINE_POOL_INITIAL_FRACTION'' = None" and "1 \<le> eg_pool_target_size s"
  shows "1 \<le> boot_target (engine_pool_config env s)"
proof -
  let ?c = "supervised_pool_config_from_env env"
  have "\<not> pool_initial_fraction_explicit ?c" using assms(1) by (simp add: supervised_pool_config_from_env_def Let_def env_nonempty_def)
  moreover have "1 \<le> pool_baseline ?c" using config_from_env_wf [of env] by (simp add: config_wf_def)
  ultimately show ?thesis using assms(2) by (simp add: boot_target_def engine_pool_config_def initial_session_count_def)
qed

subsection \<open>A concrete run\<close>

text \<open>A guest with a live gateway that accepts everything.\<close>

definition sample_run_env :: env where
  "sample_run_env = sample_attest_env(''TEECHAT_GATEWAY_ENGINE_TLS_CA_PEM'' \<mapsto> ''ca'')"

definition sample_tls :: engine_client_tls_material where
  "sample_tls = \<lparr>tm_ca_cert_pem = ''ca'', tm_client_cert_pem = ''cert'', tm_client_key_pem = ''key'', tm_client_cert_sha256 = ''CC''\<rparr>"

definition sample_run :: run_host where
  "sample_run =
     \<lparr>rn_exists = (\<lambda>_. False), rn_read = Inl, rn_pins_json = Inl, rn_trust_json = Inl, rn_attest = sample_attest,
      rn_tls = \<lparr>th_read_pem = Inr, th_keygen = Inr ''key'', th_self_sign = (\<lambda>_ _. Inr ''cert''), th_cert_digest = (\<lambda>_. Inr ''CC'')\<rparr>,
      rn_crypto = sample_crypto, rn_mock = sample_mock, rn_epoch = sample_epoch_host, rn_pool = sample_host,
      rn_start_worker = (\<lambda>_ _. Inr ()), rn_session_ready = (\<lambda>_ _. Inr ()), rn_dev_key = (''dev'', ''devpub''),
      rn_new_key = (''secret'', sample_public), rn_session_id = ''s0'', rn_capability = ''ops'', rn_random = replicate 16 7,
      rn_instant = 0\<rparr>"

definition sample_prepared :: prepared where
  "sample_prepared = projr (engine_prepare sample_run ''/'' sample_run_env)"

lemma sample_run_flags:
  "\<not> env_flag_true sample_run_env ''TEECHAT_ENGINE_STUB''" "\<not> env_flag_false sample_run_env ''TEECHAT_ENGINE_TLS_REJECT_UNAUTHORIZED''"
  "\<not> env_flag_true sample_run_env ''TEECHAT_ENGINE_ALLOW_MOCK_ATTEST_ON_SNP''"
  "engine_instance_id_from_env sample_run_env = Inr ''default''" "sample_run_env ''TEECHAT_CRYPTO'' = None"
  "sample_run_env ''TEECHAT_ENGINE_POOL_INITIAL_FRACTION'' = None" "sample_run_env CA_PEM_ENV = Some ''ca''"
  "isl (resolve_binary_measurements_from_env sample_attest_core sample_run_env ''/'') = False"
  "should_use_sev_snp_attestation sample_attest_core sample_run_env" "isl (sev_snp_guest_bin_from_env sample_run_env) = False"
  by code_simp+

lemma sample_run_admits: "admitter_from_env sample_crypto Inl sample_run_env = Inr None"
  by (simp add: admitter_from_env_def trust_keys_json_def sample_run_env_def sample_attest_env_def)

lemma sample_bundle_built: "\<exists>b. build_bundle sample_attest sample_run_env ''/'' pub tls None epoch gpu = Inr b"
proof -
  obtain m bin where "resolve_binary_measurements_from_env sample_attest_core sample_run_env ''/'' = Inr m"
    "sev_snp_guest_bin_from_env sample_run_env = Inr bin"
    using sample_run_flags(8,10) by (metis sum.collapse(2))
  moreover have "at_guest_device sample_attest_core" "at_guest_report sample_attest_core bin t d = Inr (7 # d)"
    "at_collect_gpu sample_attest_core e n = Inr ''gpu''" for t d e n
    by (simp_all add: sample_attest_core_def)
  ultimately have "\<exists>b. build_bundle sample_attest_core sample_run_env ''/'' pub tls None epoch gpu = Inr b"
    using sample_run_flags(1,3,9)
    by (simp add: build_bundle_def request_sev_snp_attestation_report_def resolve_gpu_evidence_def Let_def split: gpu_evidence_source.split)
  then show ?thesis by (simp add: sample_attest_def)
qed

lemma sample_run_prepared:
  "engine_prepare sample_run ''/'' sample_run_env = Inr sample_prepared \<and> pr_tls sample_prepared = Some sample_tls
    \<and> \<not> eg_force_stub (pr_settings sample_prepared)"
proof -
  obtain s where s: "engine_settings_from_env sample_run_env = Inr s"
    using settings_alt [of sample_run_env] sample_run_flags(1,2,4) by auto
  have stub: "\<not> eg_force_stub s" using settings_flags(1) [OF s] sample_run_flags(1) by blast
  have "trim ''ca'' = ''ca''" by code_simp
  then have tls: "run_tls sample_run sample_run_env s = Inr (Some sample_tls)"
    using stub sample_run_flags(7)
    by (simp add: run_tls_def engine_plane_client_tls_def generate_ephemeral_client_identity_def sample_run_def sample_tls_def)
  obtain b where "build_engine_attestation_bundle sample_attest sample_run_env ''/'' sample_public ''CC'' None = Inr b"
    using sample_bundle_built unfolding build_engine_attestation_bundle_def by blast
  then have "\<exists>pr. engine_prepare sample_run ''/'' sample_run_env = Inr pr \<and> pr_tls pr = Some sample_tls \<and> pr_settings pr = s"
    using s stub tls by (simp add: engine_prepare_def check_pins_def run_identity_def Let_def)
      (simp add: sample_run_def sample_tls_def Let_def)
  then show ?thesis using stub by (auto simp: sample_prepared_def)
qed

lemma sample_run_started:
  "\<exists>u. engine_start sample_run ''/'' sample_run_env sample_prepared = (Inr (), u) \<and> live_session_count (ru_pool u) \<noteq> 0"
proof -
  let ?pr = sample_prepared
  note prepared = conjunct1 [OF sample_run_prepared] and stub = conjunct2 [OF conjunct2 [OF sample_run_prepared]]
  obtain p: "engine_settings_from_env sample_run_env = Inr (pr_settings ?pr)" "pr_ed25519_public ?pr = sample_public"
      "pr_provider ?pr = create_crypto_provider False"
  proof (rule engine_prepareE [OF prepared])
    assume a: "engine_settings_from_env sample_run_env = Inr (pr_settings ?pr)"
      "run_identity sample_run (pr_settings ?pr) = (pr_signing_key ?pr, pr_ed25519_public ?pr)"
      "pr_provider ?pr = create_crypto_provider (eg_prefer_mock (pr_settings ?pr))"
    have "pr_ed25519_public ?pr = sample_public" using a(2) stub by (simp add: run_identity_def sample_run_def)
    moreover have "\<not> eg_prefer_mock (pr_settings ?pr)" using settings_flags(3) [OF a(1)] stub sample_run_flags(5) by simp
    ultimately show thesis using a by (intro that) simp_all
  qed
  have gen: "\<exists>g pv. generate_engine_hybrid sample_crypto sample_mock i sample_public (create_crypto_provider False) = (Inr g, pv)" for i
    by (simp add: generate_engine_hybrid_def create_crypto_provider_def real_crypto_provider_new_def real_generate_engine_hybrid_def
        sample_crypto_def sample_public_def split: prod.split)
  obtain g pv where g: "generate_engine_hybrid (rn_crypto sample_run) (rn_mock sample_run) (eg_engine_id (pr_settings ?pr))
      (pr_ed25519_public ?pr) (pr_provider ?pr) = (Inr g, pv)"
    using gen [of "eg_engine_id (pr_settings ?pr)"] p(2,3) by (auto simp: sample_run_def)
  have "accepting (live_pool_host sample_run ''/'' sample_run_env ?pr cache)" for cache
  proof -
    obtain b where "build_engine_attestation_bundle_with_gpu sample_attest sample_run_env ''/'' (pr_ed25519_public ?pr) (pr_tls_cert_sha ?pr)
        None (Reuse cache) = Inr b"
      using sample_bundle_built unfolding build_engine_attestation_bundle_with_gpu_def by blast
    then show ?thesis by (simp add: accepting_def live_pool_host_def sample_run_def sample_host_def sample_dial_def)
  qed
  moreover have "admitter_from_env (rn_crypto sample_run) (rn_trust_json sample_run) sample_run_env = Inr None"
    "\<forall>h sid body. eh_post (rn_epoch sample_run) h sid body = Inr 201"
    using sample_run_admits by (simp_all add: sample_run_def sample_epoch_host_def)
  ultimately obtain u where u: "engine_start sample_run ''/'' sample_run_env ?pr = (Inr (), u)"
      "length (session_ids (ru_pool u)) = unat (boot_target (engine_pool_config sample_run_env (pr_settings ?pr)))"
    using accepted_run_starts [OF stub g] by metis
  have "1 \<le> length (session_ids (ru_pool u))"
    using boots_a_session [of sample_run_env "pr_settings ?pr", OF sample_run_flags(6) settings_flags(4) [OF p(1)]] u(2) by (simp add: word_le_nat_alt)
  moreover have "length (session_ids (ru_pool u)) < 2 ^ 32"
    using unat_lt_size [of "boot_target (engine_pool_config sample_run_env (pr_settings ?pr))"] u(2) by (simp add: word_size)
  ultimately show ?thesis using u(1)
    by (auto simp: live_session_count_def session_ids_def unat_eq_0 [symmetric] unat_of_nat)
qed

theorem prepared_run_is_sound_witness:
  "engine_prepare sample_run ''/'' sample_run_env = Inr sample_prepared
    \<and> (pr_signing_key sample_prepared, pr_ed25519_public sample_prepared) = (''secret'', sample_public)"
proof -
  note prepared = conjunct1 [OF sample_run_prepared]
  have "rn_new_key sample_run = (''secret'', sample_public)" by (simp add: sample_run_def)
  then show ?thesis using prepared_run_is_sound [OF prepared sample_run_flags(1)] prepared by auto
qed

lemma sample_run_attest: "rn_attest sample_run = sample_attest" "should_use_sev_snp_attestation sample_attest sample_run_env"
  using sample_run_flags(9) by (simp_all add: sample_run_def sample_attest_def)


definition sample_controls :: control_world where
  "sample_controls = \<lparr>kw_pool = sample_host, kw_clock = length, kw_drain_json = Inl, kw_scale_json = Inl, kw_migrate_json = Inl,
     kw_writer = (\<lambda>_. sample_writer), kw_pid = 1, kw_now = (\<lambda>_. ''t''), kw_status_json = (\<lambda>_. ''s'')\<rparr>"

lemma sample_run_running:
  "\<exists>u p H ic files'. engine_start sample_run ''/'' sample_run_env sample_prepared = (Inr (), u) \<and> live_session_count (ru_pool u) \<noteq> 0
    \<and> H = running_pool_host sample_run ''/'' sample_run_env sample_prepared u
    \<and> install_engine_controls (sample_controls\<lparr>kw_pool := H\<rparr>) (eg_engine_id (pr_settings sample_prepared)) sample_run_env (Map.empty, ru_pool u)
        = (ic, files', p)"
  using sample_run_started by (metis prod_cases3)



theorem sessions_are_closed_by_signal_only_witness:
  "\<exists>u. run_engine sample_run sample_controls time_of_bits ''/'' sample_run_env Map.empty (Inr ()) (Some u)
    \<and> sp_closed (ru_pool u) \<and> sp_slots (ru_pool u) = []"
proof -
  note prepared = sample_run_prepared [THEN conjunct1]
  obtain u p H ic files' where u: "engine_start sample_run ''/'' sample_run_env sample_prepared = (Inr (), u)"
      "H = running_pool_host sample_run ''/'' sample_run_env sample_prepared u"
      "install_engine_controls (sample_controls\<lparr>kw_pool := H\<rparr>) (eg_engine_id (pr_settings sample_prepared)) sample_run_env (Map.empty, ru_pool u)
        = (ic, files', p)"
    using sample_run_running by blast
  have "run_engine sample_run sample_controls time_of_bits ''/'' sample_run_env Map.empty (Inr ()) (Some (engine_shutdown H (u\<lparr>ru_pool := p\<rparr>)))"
    by (rule run_stopped [OF prepared u rtranclp.rtrancl_refl])
  then show ?thesis using sessions_are_closed_by_signal_only by (fastforce simp: exit_code_def)
qed

text \<open>A local run of two sessions.\<close>

definition sample_stub_prepared :: prepared where
  "sample_stub_prepared = sample_prepared\<lparr>pr_settings := (pr_settings sample_prepared)\<lparr>eg_force_stub := True, eg_pool_target_size := 2\<rparr>,
     pr_connect := sample_request\<rparr>"

theorem stub_sessions_share_one_identifier_witness:
  "session_ids (ru_pool (snd (engine_start sample_run ''/'' [''TEECHAT_ENGINE_POOL_BASELINE'' \<mapsto> ''2''] sample_stub_prepared))) = [''x'', ''x'']"
proof -
  let ?env = "[''TEECHAT_ENGINE_POOL_BASELINE'' \<mapsto> ''2'']" and ?s = "pr_settings sample_stub_prepared"
  have "eg_pool_target_size ?s = 2" "eg_force_stub ?s" "acr_session_id (pr_connect sample_stub_prepared) = ''x''"
    by (simp_all add: sample_stub_prepared_def sample_request_def)
  moreover have "pool_baseline (supervised_pool_config_from_env ?env) = 2"
    "\<not> pool_initial_fraction_explicit (supervised_pool_config_from_env ?env)" by code_simp+
  ultimately have "unat (boot_target (engine_pool_config ?env ?s)) = 2" "acr_session_id (pr_connect sample_stub_prepared) \<noteq> []"
    by (simp_all add: boot_target_def engine_pool_config_def initial_session_count_def)
  then show ?thesis
    using stub_sessions_share_one_identifier [of sample_stub_prepared sample_run "''/''" ?env] \<open>eg_force_stub ?s\<close>
      \<open>acr_session_id (pr_connect sample_stub_prepared) = ''x''\<close>
    by (simp add: numeral_2_eq_2)
qed

end
