(* ===== verification/Spec2Isabelle.thy ===== *)
theory Spec2Isabelle
  imports Pool_Machine Ops_Control Controls Inference_Properties Engine_Properties Gateway_Properties
    Gpu_Attestation Transport_Properties Engine_Machine Event_Log Snp_Verification Epoch_Keys
    Usage_Metering Control_Tasks Default_Methods Engine_Run
begin

text \<open>
  \<^bold>\<open>Verification development of the TeeChat inference engine\<close> (\<^verbatim>\<open>src/crates\<close>).

  \<^bold>\<open>The program.\<close> The engine runs inside a trusted execution environment next to a model server. It keeps
  a pool of attested HTTP/2 sessions to a gateway, pulls encrypted requests over them, decrypts a
  request with the keys of an epoch that it rotates, asks the model server and sends the answer back
  encrypted. The process (\<^verbatim>\<open>ie-bin\<close>) builds its evidence (\<^verbatim>\<open>ie-attestation\<close>), dials the gateway and checks
  it (\<^verbatim>\<open>ie-engine/plane\<close>), boots the pool (\<^verbatim>\<open>ie-engine/pool.rs\<close>), registers the epoch on every session
  (\<^verbatim>\<open>ie-engine/epoch\<close>) and starts one pull worker per session; a worker answers challenges, control
  requests, and inferences (\<^verbatim>\<open>ie-engine/infer\<close>, \<^verbatim>\<open>ie-crypto\<close>, \<^verbatim>\<open>ie-upstream\<close>). Control files and gateway
  hints drain, scale and migrate the pool meanwhile.

  \<^bold>\<open>Theories and what they model.\<close>
  \<^item> \<open>Engine_Prelude\<close>, \<open>Float64\<close>, \<open>Json_Text\<close>, \<open>Wire_Types\<close>: Rust's integers as words, strings, the
    floating-point arithmetic of the planners, Unicode text with the lossy UTF-8 decoder, JSON values,
    the wire types; the generic locales \<open>state_machine\<close> (reachability and invariants) and
    \<open>sliding_window\<close>.
  \<^item> \<open>Cutover\<close> (\<^verbatim>\<open>cutover.rs\<close>, \<^verbatim>\<open>gateway_migration.rs\<close>), \<open>Engine_Config\<close> (\<^verbatim>\<open>config.rs\<close>): planned counts,
    the connect throttle, the configuration.
  \<^item> \<open>Pool_Core\<close>, \<open>Pool_Properties\<close>, \<open>Pool_Drain\<close>, \<open>Pool_Migrate\<close>, \<open>Pool_Machine\<close> (\<^verbatim>\<open>pool.rs\<close>,
    \<^verbatim>\<open>pull_workers.rs\<close>, \<^verbatim>\<open>desired_pool.rs\<close>): the supervised pool, its operations one by one, and all of
    them as one step relation.
  \<^item> \<open>Epoch\<close>, \<open>Epoch_Decryptor\<close> (\<^verbatim>\<open>epoch/\<close>, \<^verbatim>\<open>ops/ephemeral.rs\<close>): creation, registration and rotation of
    epochs, and the keys that still decrypt; \<open>Epoch_Keys\<close>: rotator, decryptor and crypto provider
    together, with a rotation in two steps.
  \<^item> \<open>Controls\<close>, \<open>Control_Tasks\<close> (\<^verbatim>\<open>controls/\<close>), \<open>Ops_Control\<close> (\<^verbatim>\<open>plane/ops_control.rs\<close>): control files with
    the tasks that read and write them, and attested control requests.
  \<^item> \<open>Upstream\<close>, \<open>Upstream_Stream\<close> (\<^verbatim>\<open>ie-upstream\<close>), \<open>Crypto_Provider\<close>, \<open>Crypto_Services\<close> (\<^verbatim>\<open>ie-crypto\<close>),
    \<open>Inference\<close>, \<open>Inference_Properties\<close>, \<open>Usage_Metering\<close> (\<^verbatim>\<open>infer/\<close>, \<^verbatim>\<open>ops/prefill.rs\<close>,
    \<^verbatim>\<open>ops/metering.rs\<close>): one inference from its envelope to its encrypted frames and its signed report.
  \<^item> \<open>Attestation\<close>, \<open>Attestation_Properties\<close>, \<open>Timed_Command\<close>, \<open>Gpu_Attestation\<close>,
    \<open>Snp_Verification\<close> (\<^verbatim>\<open>ie-attestation\<close>): measurements, quotes, report bindings, policies, the tools
    that are run, GPU evidence, requesting and verifying a hardware report, the quote backends, pins.
  \<^item> \<open>Engine_Challenge\<close> (\<^verbatim>\<open>engine_challenge/\<close>): challenges of the gateway to the engine.
  \<^item> \<open>Gateway_Connect\<close>, \<open>Gateway_Properties\<close> (\<^verbatim>\<open>plane/{challenge,verify,connect,disconnect,connector,...}.rs\<close>):
    attested connections and the connector's session table.
  \<^item> \<open>Plane_Transport\<close>, \<open>Transport_Properties\<close> (\<^verbatim>\<open>plane/hyper_transport.rs\<close>, \<^verbatim>\<open>plane/session.rs\<close>,
    \<^verbatim>\<open>ie-runtime/tls.rs\<close>): the connection below a session; \<open>Default_Methods\<close>: the default methods of
    its trait, the upstream of the pool and its dials through the throttle.
  \<^item> \<open>Pull_Worker\<close>, \<open>Pull_Properties\<close> (\<^verbatim>\<open>plane/pull.rs\<close>): the worker of one session.
  \<^item> \<open>Engine_Main\<close>, \<open>Engine_Properties\<close> (\<^verbatim>\<open>ie-bin/main.rs\<close>, \<^verbatim>\<open>ie-runtime/env.rs\<close>,
    \<^verbatim>\<open>ops/instance_id.rs\<close>, \<^verbatim>\<open>epoch/gpu_idle_recollect.rs\<close>): settings, handlers, boot, refreshes.
  \<^item> \<open>Engine_Machine\<close>: the tasks of the process as one step relation, which refines the machines of
    the pool and of the rotator.
  \<^item> \<open>Engine_Run\<close> (\<^verbatim>\<open>ie-bin/main.rs\<close>): a run from its command line over preparation, start and running
    state to its end, against a gateway or the stubs of a local run.
  \<^item> \<open>Event_Log\<close> (\<^verbatim>\<open>ops/event_log.rs\<close>): log levels and what is written.

  \<^bold>\<open>How state and effects are modelled.\<close> A struct is a record, an enum a datatype, a fallible function
  returns a sum with the error on the left, a method takes and returns its state. What a component
  asks of the outside (dials, posts, clocks, random bytes, files, processes, other crates) is a
  record of functions, its host; where an answer may change over time it is a function of the history
  of calls that the state records, so that a theorem over all hosts covers every behaviour of the
  environment. Spawned tasks and concurrent callers are steps of a relation
  (\<open>pool_step\<close>, \<open>rotator_step\<close>, \<open>decryptor_step\<close>, \<open>connector_step\<close>, \<open>worker_step\<close>, \<open>sender_step\<close>,
  \<open>engine_step\<close>, \<open>keys_step\<close>, \<open>running_step\<close>), all but the
  last an interpretation of \<open>state_machine\<close> with the component's well-formedness.

  \<^bold>\<open>What is shown.\<close>
  \<^item> Pool: every reachable state is well formed; drains and deferred retirement never cut a busy
    session, migrations are make-before-break, and shutdown is complete and final.
  \<^item> Epochs: a rotation switches only after every live session accepted the new epoch; keys in use are
    never freed; an epoch's signature and hardware evidence bind its own identity, window and keys.
  \<^item> Inference: response sessions are balanced on every path, only gated and admitted requests are
    served, a reply carries exactly the upstream's text; the buffering stream refines a reader of lines.
  \<^item> Gateway: a connection under the platform verifier is authenticated for this dial; the session
    table is sound; a disconnect comes back.
  \<^item> Workers: work is done and answered once while the session is busy; what was processed has been
    delivered; only classified work is run. Workers start after the epoch is registered.
  \<^item> Keys: a request is resolved to a live secret that was generated with the public keys of the epoch
    that serves it, in every state between the steps of rotations and prunings; an epoch that was
    posted but not committed is not served.
  \<^item> Process: all tasks together only take steps of the pool's and the rotator's machines, and a run
    only steps of the pool's and the keys'; its evidence is about its own key and certificate; a
    started run serves an epoch that every session has accepted; sessions are closed by
    runs that end with the signal, and by no others.
  \<^item> Attestation: what accepted claims, bundles and reports guarantee, and what they do not.

  \<^bold>\<open>Bounds.\<close> Loops with a known end are structural or have a measure (\<open>await_exit\<close>: ten looks per second of
  its limit). Loops that wait for others take a number of steps and return \<open>None\<close> when it is used up:
  \<open>disconnect_loop\<close> needs one step more than its timeout has quarters of a second, \<open>wait_for_quiet_idle\<close>
  one more than its quiet time has pauses of five seconds, \<open>migrate_retry\<close> and \<open>retire_source_when_idle\<close>
  as many as their theorems state; the theorems named above show that these are enough.

  \<^bold>\<open>Not modelled.\<close> Sockets, TLS, HTTP/2, signatures, hashes, encryption, base64 and JSON text are libraries and
  appear as hosts. Parsing the
  arguments (\<^verbatim>\<open>clap\<close>), generating keys and certificates, writing log lines and the wait for a signal
  (\<^verbatim>\<open>shutdown.rs\<close>) are left to the host; the signal comes at any moment of a run. The hash chain of
  a response transcript belongs to an external crate. A started run keeps the GPU evidence it has booted
  with; its recollection is modelled on its own. Preemption inside one operation of a component is not
  modelled, except where the source releases its lock between two steps that a theorem is about.
\<close>

end
